(* ===== verification/Py_Value.thy ===== *)
theory Py_Value
  imports Py_String
begin

text \<open>
  Dynamically typed Python values, as \<open>json.loads\<close>, a YAML document or a keyword
  dictionary delivers them, with the operations of the language the program applies to
  them: truth, \<open>str\<close>, \<open>repr\<close>, \<open>int\<close>, \<open>dict.get\<close> and \<open>json.dumps\<close>.
\<close>

section \<open>Values\<close>

text \<open>
  A finite float carries its exact value (mantissa times a power of two) and the text
  that \<open>repr\<close> prints for it; the shortest-text algorithm belongs to the runtime.
\<close>

datatype pyfloat = Finite int int string | Inf_pos | Inf_neg | NaN

text \<open>\<open>VObj t s\<close> is an object of any other type named \<open>t\<close> whose \<open>str\<close> is \<open>s\<close>.\<close>

datatype pyval =
    VNone
  | VBool bool
  | VInt int
  | VFloat pyfloat
  | VStr string
  | VList "pyval list"
  | VTuple "pyval list"
  | VDict "(pyval \<times> pyval) list"
  | VObj string string

type_synonym sdict = "(string \<times> pyval) list"

definition vdict :: "sdict \<Rightarrow> pyval" where
  "vdict d = VDict (map (\<lambda>(k, v). (VStr k, v)) d)"

fun opt_str :: "string option \<Rightarrow> pyval" where
  "opt_str None = VNone"
| "opt_str (Some s) = VStr s"

fun type_name :: "pyval \<Rightarrow> string" where
  "type_name VNone = ''NoneType''"
| "type_name (VBool _) = ''bool''"
| "type_name (VInt _) = ''int''"
| "type_name (VFloat _) = ''float''"
| "type_name (VStr _) = ''str''"
| "type_name (VList _) = ''list''"
| "type_name (VTuple _) = ''tuple''"
| "type_name (VDict _) = ''dict''"
| "type_name (VObj t _) = t"

section \<open>Truth, text and numbers\<close>

fun py_bool :: "pyval \<Rightarrow> bool" where
  "py_bool VNone = False"
| "py_bool (VBool b) = b"
| "py_bool (VInt i) = (i \<noteq> 0)"
| "py_bool (VFloat (Finite m _ _)) = (m \<noteq> 0)"
| "py_bool (VFloat _) = True"
| "py_bool (VStr s) = (s \<noteq> [])"
| "py_bool (VList xs) = (xs \<noteq> [])"
| "py_bool (VTuple xs) = (xs \<noteq> [])"
| "py_bool (VDict d) = (d \<noteq> [])"
| "py_bool (VObj _ _) = True"

fun float_text :: "pyfloat \<Rightarrow> string" where
  "float_text (Finite _ _ t) = t"
| "float_text Inf_pos = ''inf''"
| "float_text Inf_neg = ''-inf''"
| "float_text NaN = ''nan''"

definition hex_escape :: "char \<Rightarrow> string" where
  "hex_escape c = [CHR 0x5C, CHR ''x'', hex_digit (code c div 16), hex_digit (code c mod 16)]"

definition latin1_printable :: "char \<Rightarrow> bool" where
  "latin1_printable c \<longleftrightarrow>
     (let n = code c in (32 \<le> n \<and> n \<le> 126) \<or> (161 \<le> n \<and> n \<noteq> 173))"

definition repr_char :: "char \<Rightarrow> char \<Rightarrow> string" where
  "repr_char q c =
     (if c = q \<or> c = CHR 0x5C then [CHR 0x5C, c]
      else if c = CHR 0x09 then [CHR 0x5C, CHR ''t'']
      else if c = CHR 0x0A then [CHR 0x5C, CHR ''n'']
      else if c = CHR 0x0D then [CHR 0x5C, CHR ''r'']
      else if latin1_printable c then [c] else hex_escape c)"

definition str_repr :: "string \<Rightarrow> string" where
  "str_repr s =
     (let q = (if CHR 0x27 \<in> set s \<and> CHR 0x22 \<notin> set s then CHR 0x22 else CHR 0x27)
      in [q] @ concat (map (repr_char q) s) @ [q])"

fun py_repr :: "pyval \<Rightarrow> string" where
  "py_repr VNone = ''None''"
| "py_repr (VBool b) = (if b then ''True'' else ''False'')"
| "py_repr (VInt i) = show_int i"
| "py_repr (VFloat f) = float_text f"
| "py_repr (VStr s) = str_repr s"
| "py_repr (VList xs) = ''['' @ py_join '', '' (map py_repr xs) @ '']''"
| "py_repr (VTuple [x]) = ''('' @ py_repr x @ '',)''"
| "py_repr (VTuple xs) = ''('' @ py_join '', '' (map py_repr xs) @ '')''"
| "py_repr (VDict d) =
     ''{'' @ py_join '', '' (map (\<lambda>(k, v). py_repr k @ '': '' @ py_repr v) d) @ ''}''"
| "py_repr (VObj _ s) = s"

definition py_str :: "pyval \<Rightarrow> string" where
  "py_str v = (case v of VStr s \<Rightarrow> s | _ \<Rightarrow> py_repr v)"

text \<open>\<open>a or b\<close> on values.\<close>

definition py_or :: "pyval \<Rightarrow> pyval \<Rightarrow> pyval" where
  "py_or a b = (if py_bool a then a else b)"

definition trunc_float :: "int \<Rightarrow> int \<Rightarrow> int" where
  "trunc_float m e =
     (if 0 \<le> e then m * 2 ^ nat e else sgn m * (\<bar>m\<bar> div 2 ^ nat (- e)))"

text \<open>
  \<open>int(text)\<close>: optional white space and sign, then decimal digits in which single
  underscores may separate digits, at most 4300 of them. \<open>None\<close> is \<open>ValueError\<close>.
\<close>

fun digits_value :: "nat \<Rightarrow> bool \<Rightarrow> string \<Rightarrow> nat option" where
  "digits_value acc ok [] = (if ok then Some acc else None)"
| "digits_value acc ok (c # cs) =
     (if ascii_digit c then digits_value (10 * acc + (code c - 48)) True cs
      else if c = CHR ''_'' \<and> ok then digits_value acc False cs
      else None)"

definition parse_int :: "string \<Rightarrow> int option" where
  "parse_int s =
     (let t = py_strip s;
          (sg, ds) = (case t of
              [] \<Rightarrow> (1 :: int, [])
            | c # cs \<Rightarrow> if c = CHR ''-'' then (-1, cs) else if c = CHR ''+'' then (1, cs) else (1, t))
      in if 4300 < length (filter ascii_digit ds) then None
         else map_option (\<lambda>n. sg * int n) (digits_value 0 False ds))"

section \<open>Dictionaries of values\<close>

text \<open>\<open>d.get(k)\<close> with \<open>VNone\<close> for an absent key, and with a default.\<close>

definition vget :: "(pyval \<times> pyval) list \<Rightarrow> string \<Rightarrow> pyval option" where
  "vget d k = map_of d (VStr k)"

definition vget_or :: "(pyval \<times> pyval) list \<Rightarrow> string \<Rightarrow> pyval \<Rightarrow> pyval" where
  "vget_or d k dflt = (case vget d k of Some v \<Rightarrow> v | None \<Rightarrow> dflt)"

definition sget :: "sdict \<Rightarrow> string \<Rightarrow> pyval \<Rightarrow> pyval" where
  "sget d k dflt = (case dict_get d k of Some v \<Rightarrow> v | None \<Rightarrow> dflt)"

fun is_str :: "pyval \<Rightarrow> bool" where
  "is_str (VStr _) = True" | "is_str _ = False"

fun is_dict :: "pyval \<Rightarrow> bool" where
  "is_dict (VDict _) = True" | "is_dict _ = False"

fun is_list :: "pyval \<Rightarrow> bool" where
  "is_list (VList _) = True" | "is_list _ = False"

text \<open>\<open>isinstance(v, (str, int, float, bool)) or v is None\<close>\<close>

fun is_scalar :: "pyval \<Rightarrow> bool" where
  "is_scalar VNone = True"
| "is_scalar (VBool _) = True"
| "is_scalar (VInt _) = True"
| "is_scalar (VFloat _) = True"
| "is_scalar (VStr _) = True"
| "is_scalar _ = False"

section \<open>JSON text\<close>

text \<open>
  \<open>json.dumps\<close>: strings are quoted with control characters, quotes and backslashes
  escaped; with \<open>ensure_ascii\<close> every character from U+007F on is escaped too.
  \<open>None\<close> is the \<open>TypeError\<close> for a value or key that JSON cannot hold.
\<close>

definition json_char :: "bool \<Rightarrow> char \<Rightarrow> string" where
  "json_char ascii c =
     (if c = CHR 0x22 \<or> c = CHR 0x5C then [CHR 0x5C, c]
      else if c = CHR 0x0A then [CHR 0x5C, CHR ''n'']
      else if c = CHR 0x0D then [CHR 0x5C, CHR ''r'']
      else if c = CHR 0x09 then [CHR 0x5C, CHR ''t'']
      else if c = CHR 0x0C then [CHR 0x5C, CHR ''f'']
      else if c = CHR 0x08 then [CHR 0x5C, CHR ''b'']
      else if code c < 32 \<or> (ascii \<and> 126 < code c)
        then [CHR 0x5C, CHR ''u'', CHR ''0'', CHR ''0'', hex_digit (code c div 16), hex_digit (code c mod 16)]
      else [c])"

definition json_string :: "bool \<Rightarrow> string \<Rightarrow> string" where
  "json_string ascii s = [CHR 0x22] @ concat (map (json_char ascii) s) @ [CHR 0x22]"

fun json_float :: "pyfloat \<Rightarrow> string" where
  "json_float (Finite _ _ t) = t"
| "json_float Inf_pos = ''Infinity''"
| "json_float Inf_neg = ''-Infinity''"
| "json_float NaN = ''NaN''"

fun json_key :: "pyval \<Rightarrow> string option" where
  "json_key (VStr s) = Some s"
| "json_key (VInt i) = Some (show_int i)"
| "json_key (VBool b) = Some (if b then ''true'' else ''false'')"
| "json_key VNone = Some ''null''"
| "json_key (VFloat f) = Some (json_float f)"
| "json_key _ = None"

fun opt_all :: "'a option list \<Rightarrow> 'a list option" where
  "opt_all [] = Some []"
| "opt_all (x # xs) =
     (case x of None \<Rightarrow> None
      | Some y \<Rightarrow> (case opt_all xs of None \<Rightarrow> None | Some ys \<Rightarrow> Some (y # ys)))"

fun json_dumps :: "bool \<Rightarrow> string \<Rightarrow> string \<Rightarrow> pyval \<Rightarrow> string option" where
  "json_dumps a isep ksep VNone = Some ''null''"
| "json_dumps a isep ksep (VBool b) = Some (if b then ''true'' else ''false'')"
| "json_dumps a isep ksep (VInt i) = Some (show_int i)"
| "json_dumps a isep ksep (VFloat f) = Some (json_float f)"
| "json_dumps a isep ksep (VStr s) = Some (json_string a s)"
| "json_dumps a isep ksep (VList xs) =
     map_option (\<lambda>ts. ''['' @ py_join isep ts @ '']'') (opt_all (map (json_dumps a isep ksep) xs))"
| "json_dumps a isep ksep (VTuple xs) =
     map_option (\<lambda>ts. ''['' @ py_join isep ts @ '']'') (opt_all (map (json_dumps a isep ksep) xs))"
| "json_dumps a isep ksep (VDict d) =
     map_option (\<lambda>ts. ''{'' @ py_join isep ts @ ''}'')
       (opt_all (map (\<lambda>(k, v).
          case json_key k of None \<Rightarrow> None
          | Some kt \<Rightarrow> map_option (\<lambda>vt. json_string a kt @ ksep @ vt) (json_dumps a isep ksep v)) d))"
| "json_dumps a isep ksep (VObj _ _) = None"

text \<open>\<open>json.dumps(v, default=str)\<close>: an object is written as the string \<open>str\<close> gives.\<close>

fun objects_as_text :: "pyval \<Rightarrow> pyval" where
  "objects_as_text (VObj t s) = VStr s"
| "objects_as_text (VList xs) = VList (map objects_as_text xs)"
| "objects_as_text (VTuple xs) = VTuple (map objects_as_text xs)"
| "objects_as_text (VDict d) = VDict (map (\<lambda>(k, v). (k, objects_as_text v)) d)"
| "objects_as_text v = v"

text \<open>
  \<open>sort_keys=True\<close>, for dictionaries with string keys (the only ones that reach it).
\<close>

fun sort_keys :: "pyval \<Rightarrow> pyval" where
  "sort_keys (VDict d) = VDict (sort_key (py_str \<circ> fst) (map (\<lambda>(k, v). (k, sort_keys v)) d))"
| "sort_keys (VList xs) = VList (map sort_keys xs)"
| "sort_keys (VTuple xs) = VTuple (map sort_keys xs)"
| "sort_keys v = v"

section \<open>Facts\<close>

lemma py_str_VStr [simp]: "py_str (VStr s) = s"
  by (simp add: py_str_def)

lemma opt_all_map_Some [simp]: "opt_all (map Some ys) = Some ys"
  by (induction ys) simp_all

lemma opt_all_eq_Some: "opt_all xs = Some ys \<longleftrightarrow> xs = map Some ys"
proof
  show "opt_all xs = Some ys \<Longrightarrow> xs = map Some ys"
    by (induction xs arbitrary: ys) (auto split: option.splits)
qed simp

lemma opt_all_total: "(\<And>x. x \<in> set xs \<Longrightarrow> x \<noteq> None) \<Longrightarrow> \<exists>ys. opt_all xs = Some ys"
  by (induction xs) (auto split: option.splits)

text \<open>The values \<open>json.dumps\<close> accepts.\<close>

fun jsonable :: "pyval \<Rightarrow> bool" where
  "jsonable (VList xs) = list_all jsonable xs"
| "jsonable (VTuple xs) = list_all jsonable xs"
| "jsonable (VDict d) = list_all (\<lambda>(k, v). json_key k \<noteq> None \<and> jsonable v) d"
| "jsonable (VObj _ _) = False"
| "jsonable _ = True"

lemma json_dumps_total: "jsonable v \<Longrightarrow> \<exists>t. json_dumps a i k v = Some t"
proof (induction v rule: jsonable.induct)
  case (1 xs)
  then have "\<exists>ts. opt_all (map (json_dumps a i k) xs) = Some ts"
    by (intro opt_all_total) (force simp: list_all_iff)
  then show ?case by auto
next
  case (2 xs)
  then have "\<exists>ts. opt_all (map (json_dumps a i k) xs) = Some ts"
    by (intro opt_all_total) (force simp: list_all_iff)
  then show ?case by auto
next
  case (3 d)
  let ?f = "\<lambda>(x, v). case json_key x of None \<Rightarrow> None
     | Some kt \<Rightarrow> map_option (\<lambda>vt. json_string a kt @ k @ vt) (json_dumps a i k v)"
  have "\<exists>ts. opt_all (map ?f d) = Some ts"
    using 3 by (intro opt_all_total) (force simp: list_all_iff split: option.splits)
  then show ?case by auto
qed auto

lemma jsonable_sort_keys: "jsonable (sort_keys v) = jsonable v"
proof (induction v rule: sort_keys.induct)
  case (1 d)
  then show ?case by (force simp: list_all_iff)
qed (auto simp: list_all_iff)

lemma is_scalar_jsonable: "is_scalar v \<Longrightarrow> jsonable v"
  by (cases v) auto

lemma jsonable_vdict: "jsonable (vdict d) \<longleftrightarrow> (\<forall>(k, v) \<in> set d. jsonable v)"
  by (force simp: vdict_def list_all_iff)

lemma vget_vdict [simp]: "map_of (map (\<lambda>(k, v). (VStr k, v)) d) (VStr k) = dict_get d k"
  by (induction d) auto

text \<open>JSON text never holds a line feed, whatever the strings in the value hold.\<close>

fun floats_clean :: "pyval \<Rightarrow> bool" where
  "floats_clean (VFloat f) = (CHR 0x0A \<notin> set (float_text f))"
| "floats_clean (VList xs) = list_all floats_clean xs"
| "floats_clean (VTuple xs) = list_all floats_clean xs"
| "floats_clean (VDict d) = list_all (\<lambda>(k, v). floats_clean k \<and> floats_clean v) d"
| "floats_clean _ = True"

lemma hex_digit_not_lf: "n < 16 \<Longrightarrow> hex_digit n \<noteq> CHR 0x0A"
proof
  assume "n < 16" "hex_digit n = CHR 0x0A"
  then have "code (hex_digit n) = 10" by (simp add: code_def)
  with \<open>n < 16\<close> show False by (auto simp: hex_digit_def split: if_splits)
qed

lemma lf_not_in_json_char: "CHR 0x0A \<notin> set (json_char a c)"
proof -
  have "code c div 16 < 16" using code_less_256 [of c] by (simp only: less_mult_imp_div_less)
  then show ?thesis
    using hex_digit_not_lf [of "code c div 16"] hex_digit_not_lf [of "code c mod 16"]
    by (auto simp: json_char_def)
qed

lemma lf_not_in_json_string: "CHR 0x0A \<notin> set (json_string a s)"
  using lf_not_in_json_char by (auto simp: json_string_def)

lemma lf_not_in_show_int: "CHR 0x0A \<notin> set (show_int i)"
  using show_nat_digits [of "CHR 0x0A"] by (auto simp: show_int_def ascii_digit_def code_def)

lemma set_py_join: "set (py_join sep ws) \<subseteq> set sep \<union> (\<Union>w \<in> set ws. set w)"
  by (induction sep ws rule: py_join.induct) auto

lemma lf_not_in_py_join:
  "CHR 0x0A \<notin> set sep \<Longrightarrow> (\<And>w. w \<in> set ws \<Longrightarrow> CHR 0x0A \<notin> set w) \<Longrightarrow> CHR 0x0A \<notin> set (py_join sep ws)"
  using set_py_join [of sep ws] by blast

lemma lf_not_in_json_float: "CHR 0x0A \<notin> set (float_text f) \<Longrightarrow> CHR 0x0A \<notin> set (json_float f)"
  by (cases f) auto

lemma opt_all_map_join_lf:
  assumes "opt_all (map f xs) = Some ts" and "CHR 0x0A \<notin> set sep"
    and "\<And>x w. x \<in> set xs \<Longrightarrow> f x = Some w \<Longrightarrow> CHR 0x0A \<notin> set w"
  shows "CHR 0x0A \<notin> set (py_join sep ts)"
proof (rule lf_not_in_py_join [OF assms(2)])
  fix w
  assume "w \<in> set ts"
  with assms(1) have "Some w \<in> set (map f xs)" by (simp add: opt_all_eq_Some)
  then obtain x where "x \<in> set xs" and "f x = Some w" by (metis (no_types) image_iff set_map)
  then show "CHR 0x0A \<notin> set w" by (rule assms(3))
qed

lemma lf_not_in_json_dumps:
  assumes seps: "CHR 0x0A \<notin> set i" "CHR 0x0A \<notin> set k"
  shows "floats_clean v \<Longrightarrow> json_dumps a i k v = Some t \<Longrightarrow> CHR 0x0A \<notin> set t"
proof (induction v arbitrary: t rule: jsonable.induct)
  case (1 xs)
  then obtain ts where ts: "opt_all (map (json_dumps a i k) xs) = Some ts" and t: "t = ''['' @ py_join i ts @ '']''"
    by auto
  from ts seps(1) have "CHR 0x0A \<notin> set (py_join i ts)"
    by (rule opt_all_map_join_lf) (use 1 in \<open>auto simp: list_all_iff\<close>)
  then show ?case by (simp add: t)
next
  case (2 xs)
  then obtain ts where ts: "opt_all (map (json_dumps a i k) xs) = Some ts" and t: "t = ''['' @ py_join i ts @ '']''"
    by auto
  from ts seps(1) have "CHR 0x0A \<notin> set (py_join i ts)"
    by (rule opt_all_map_join_lf) (use 2 in \<open>auto simp: list_all_iff\<close>)
  then show ?case by (simp add: t)
next
  case (3 d)
  let ?f = "\<lambda>(x, v). case json_key x of None \<Rightarrow> None
     | Some kt \<Rightarrow> map_option (\<lambda>vt. json_string a kt @ k @ vt) (json_dumps a i k v)"
  from 3 obtain ts where ts: "opt_all (map ?f d) = Some ts" and t: "t = ''{'' @ py_join i ts @ ''}''"
    by auto
  have "CHR 0x0A \<notin> set w" if "p \<in> set d" and "?f p = Some w" for p w
  proof -
    obtain x v where p: "p = (x, v)" by (cases p)
    with that(2) obtain kt vt where "json_dumps a i k v = Some vt" and "w = json_string a kt @ k @ vt"
      by (auto split: option.splits)
    moreover from p that(1) 3(2) have "floats_clean v" by (auto simp: list_all_iff)
    ultimately have "CHR 0x0A \<notin> set vt"
      using 3(1) [OF that(1) p [symmetric]] by blast
    with \<open>w = _\<close> show ?thesis
      by (simp add: seps(2) lf_not_in_json_string)
  qed
  with ts seps(1) have "CHR 0x0A \<notin> set (py_join i ts)" by (rule opt_all_map_join_lf)
  then show ?case by (simp add: t)
qed (auto simp: lf_not_in_show_int lf_not_in_json_string lf_not_in_json_float)

end
