(* ===== verification/Py_Json.thy ===== *)
theory Py_Json
  imports Py_Value
begin

text \<open>
  A reader of JSON text, written from the grammar of RFC 8259 and not from the writer: what a
  peer of the program sees when it parses the text that \<open>json.dumps\<close> produced. It reads the
  part of JSON the program writes into pipes (no floats, characters up to U+00FF) and refuses
  what is ambiguous: raw control characters, leading zeros, repeated member names, text after
  the value. Every step of the reader uses up a character, so the length of the text is fuel
  enough. The round trip \<open>json_read_dumps\<close> then says that no string in a value can change how
  the text is read.
\<close>

section \<open>The reader\<close>

definition json_ws :: "char \<Rightarrow> bool" where
  "json_ws c \<longleftrightarrow> c = CHR 0x20 \<or> c = CHR 0x09 \<or> c = CHR 0x0A \<or> c = CHR 0x0D"

definition skip_ws :: "string \<Rightarrow> string" where
  "skip_ws s = dropWhile json_ws s"

definition json_hex :: "char \<Rightarrow> nat option" where
  "json_hex c =
     (if ascii_digit c then Some (code c - 48)
      else if 97 \<le> code c \<and> code c \<le> 102 then Some (code c - 87)
      else if 65 \<le> code c \<and> code c \<le> 70 then Some (code c - 55) else None)"

fun escape_value :: "string \<Rightarrow> (char \<times> string) option" where
  "escape_value [] = None"
| "escape_value (e # r) =
     (if e = CHR 0x22 \<or> e = CHR 0x5C \<or> e = CHR ''/'' then Some (e, r)
      else if e = CHR ''n'' then Some (CHR 0x0A, r)
      else if e = CHR ''r'' then Some (CHR 0x0D, r)
      else if e = CHR ''t'' then Some (CHR 0x09, r)
      else if e = CHR ''f'' then Some (CHR 0x0C, r)
      else if e = CHR ''b'' then Some (CHR 0x08, r)
      else if e = CHR ''u'' then
        (case r of
           a # b # c # d # r' \<Rightarrow>
             (case (json_hex a, json_hex b, json_hex c, json_hex d) of
                (Some 0, Some 0, Some h, Some l) \<Rightarrow> Some (char_of (16 * h + l), r')
              | _ \<Rightarrow> None)
         | _ \<Rightarrow> None)
      else None)"

text \<open>One character of a string; \<open>None\<close> at the closing quote or on an error.\<close>

fun read_char :: "string \<Rightarrow> (char \<times> string) option" where
  "read_char [] = None"
| "read_char (c # r) =
     (if c = CHR 0x5C then escape_value r
      else if c = CHR 0x22 \<or> code c < 32 then None else Some (c, r))"

lemma escape_value_shorter: "escape_value s = Some (c, r) \<Longrightarrow> length r < length s"
  by (cases s) (auto split: if_splits list.splits option.splits nat.splits)

lemma read_char_shorter: "read_char s = Some (c, r) \<Longrightarrow> length r < length s"
  by (cases s) (auto split: if_splits dest: escape_value_shorter)

text \<open>The rest of a string after its opening quote.\<close>

function read_string :: "string \<Rightarrow> (string \<times> string) option" where
  "read_string s =
     (case read_char s of
        Some (c, r) \<Rightarrow> map_option (\<lambda>(t, r'). (c # t, r')) (read_string r)
      | None \<Rightarrow> (case s of q # r \<Rightarrow> if q = CHR 0x22 then Some ([], r) else None | [] \<Rightarrow> None))"
  by pat_completeness auto
termination
  by (relation "measure length") (auto dest: read_char_shorter)

declare read_string.simps [simp del]

fun digits_nat :: "nat \<Rightarrow> string \<Rightarrow> nat" where
  "digits_nat acc [] = acc"
| "digits_nat acc (c # cs) = digits_nat (10 * acc + (code c - 48)) cs"

text \<open>A number without a fraction or an exponent.\<close>

definition read_nat :: "string \<Rightarrow> (nat \<times> string) option" where
  "read_nat s =
     (let ds = takeWhile ascii_digit s; r = dropWhile ascii_digit s in
      if ds = [] \<or> (hd ds = CHR ''0'' \<and> tl ds \<noteq> []) \<or> (r \<noteq> [] \<and> hd r \<in> {CHR ''.'', CHR ''e'', CHR ''E''})
      then None else Some (digits_nat 0 ds, r))"

definition read_word :: "string \<Rightarrow> pyval \<Rightarrow> string \<Rightarrow> (pyval \<times> string) option" where
  "read_word w v s = (if prefix w s then Some (v, drop (length w) s) else None)"

fun read_value :: "nat \<Rightarrow> string \<Rightarrow> (pyval \<times> string) option"
  and read_items :: "nat \<Rightarrow> string \<Rightarrow> (pyval list \<times> string) option"
  and read_members :: "nat \<Rightarrow> string \<Rightarrow> ((pyval \<times> pyval) list \<times> string) option"
where
  "read_value 0 s = None"
| "read_value (Suc n) s =
     (case skip_ws s of
        [] \<Rightarrow> None
      | c # r \<Rightarrow>
          if c = CHR 0x22 then map_option (\<lambda>(t, r'). (VStr t, r')) (read_string r)
          else if c = CHR ''['' then
            (case skip_ws r of
               d # r' \<Rightarrow> if d = CHR '']'' then Some (VList [], r')
                          else map_option (\<lambda>(xs, r''). (VList xs, r'')) (read_items n r)
             | [] \<Rightarrow> None)
          else if c = CHR ''{'' then
            (case skip_ws r of
               d # r' \<Rightarrow> if d = CHR ''}'' then Some (VDict [], r')
                          else (case read_members n r of
                                  Some (ps, r'') \<Rightarrow> if distinct (map fst ps) then Some (VDict ps, r'') else None
                                | None \<Rightarrow> None)
             | [] \<Rightarrow> None)
          else if c = CHR ''n'' then read_word ''null'' VNone (c # r)
          else if c = CHR ''t'' then read_word ''true'' (VBool True) (c # r)
          else if c = CHR ''f'' then read_word ''false'' (VBool False) (c # r)
          else if c = CHR ''-'' then map_option (\<lambda>(k, r'). (VInt (- int k), r')) (read_nat r)
          else map_option (\<lambda>(k, r'). (VInt (int k), r')) (read_nat (c # r)))"
| "read_items 0 s = None"
| "read_items (Suc n) s =
     (case read_value n s of
        None \<Rightarrow> None
      | Some (v, r) \<Rightarrow>
          (case skip_ws r of
             c # r' \<Rightarrow>
               if c = CHR '']'' then Some ([v], r')
               else if c = CHR '','' then map_option (\<lambda>(vs, r''). (v # vs, r'')) (read_items n r')
               else None
           | [] \<Rightarrow> None))"
| "read_members 0 s = None"
| "read_members (Suc n) s =
     (case skip_ws s of
        q # r \<Rightarrow>
          if q \<noteq> CHR 0x22 then None
          else (case read_string r of
            None \<Rightarrow> None
          | Some (k, r1) \<Rightarrow>
              (case skip_ws r1 of
                 c # r2 \<Rightarrow>
                   if c \<noteq> CHR '':'' then None
                   else (case read_value n r2 of
                     None \<Rightarrow> None
                   | Some (v, r3) \<Rightarrow>
                       (case skip_ws r3 of
                          d # r4 \<Rightarrow>
                            if d = CHR ''}'' then Some ([(VStr k, v)], r4)
                            else if d = CHR '','' then
                              map_option (\<lambda>(ps, r5). ((VStr k, v) # ps, r5)) (read_members n r4)
                            else None
                        | [] \<Rightarrow> None))
               | [] \<Rightarrow> None))
      | [] \<Rightarrow> None)"

definition json_read :: "string \<Rightarrow> pyval option" where
  "json_read s =
     (case read_value (length s) s of
        Some (v, r) \<Rightarrow> if skip_ws r = [] then Some v else None
      | None \<Rightarrow> None)"

section \<open>Characters, strings and numbers read back\<close>

lemma json_hex_digit: "n < 16 \<Longrightarrow> json_hex (hex_digit n) = Some n"
  by (auto simp: json_hex_def hex_digit_def ascii_digit_def)

lemma char_of_code [simp]: "char_of (code c) = c"
  by (simp add: code_def)

lemma read_char_json_char: "read_char (json_char a c @ r) = Some (c, r)"
proof -
  have "code c div 16 < 16" using code_less_256 [of c] by (simp only: less_mult_imp_div_less)
  then have "json_hex (hex_digit (code c div 16)) = Some (code c div 16)"
    and "json_hex (hex_digit (code c mod 16)) = Some (code c mod 16)"
    by (simp_all add: json_hex_digit)
  moreover have "json_hex (CHR ''0'') = Some 0"
    by (simp add: json_hex_def ascii_digit_def code_def)
  moreover have "char_of (16 * (code c div 16) + code c mod 16) = c" by simp
  ultimately show ?thesis
    by (auto simp: json_char_def simp del: mult_div_mod_eq)
qed

lemma read_string_json_chars:
  "read_string (concat (map (json_char a) s) @ CHR 0x22 # r) = Some (s, r)"
proof (induction s)
  case Nil
  show ?case by (simp add: read_string.simps [of "CHR 0x22 # r"])
next
  case (Cons c s)
  show ?case
    by (simp add: read_string.simps [of "json_char a c @ _"] read_char_json_char Cons)
qed

lemma digits_nat_append: "digits_nat acc (xs @ ys) = digits_nat (digits_nat acc xs) ys"
  by (induction xs arbitrary: acc) simp_all

lemma digits_nat_show: "digits_nat 0 (show_nat n) = n"
proof (induction n rule: show_nat.induct)
  case (1 n)
  show ?case
  proof (cases "n < 10")
    case True
    then show ?thesis by (simp add: show_nat.simps [of n])
  next
    case False
    moreover have "(48 + n mod 10) mod 256 = 48 + n mod 10"
      by (rule mod_less) (use mod_less_divisor [of 10 n] in linarith)
    ultimately show ?thesis
      using 1 by (subst show_nat.simps) (simp add: digits_nat_append)
  qed
qed

lemma hd_show_nat: "0 < n \<Longrightarrow> hd (show_nat n) \<noteq> CHR ''0''"
proof (induction n rule: show_nat.induct)
  case (1 n)
  show ?case
  proof (cases "n < 10")
    case True
    have "code (hd (show_nat n)) = 48 + n"
      using True by (simp add: show_nat.simps [of n])
    with 1(2) show ?thesis by (auto simp: code_def)
  next
    case False
    then have "hd (show_nat n) = hd (show_nat (n div 10))"
      by (simp add: show_nat.simps [of n])
    with 1(1) False show ?thesis by simp
  qed
qed

lemma show_nat_no_leading_zero: "\<not> (hd (show_nat n) = CHR ''0'' \<and> tl (show_nat n) \<noteq> [])"
proof (cases "n = 0")
  case True
  then show ?thesis by (simp add: show_nat.simps [of 0])
qed (simp add: hd_show_nat)

text \<open>What may follow a number: anything that cannot be read as more of it.\<close>

definition ends_number :: "string \<Rightarrow> bool" where
  "ends_number r \<longleftrightarrow> r = [] \<or> \<not> ascii_digit (hd r) \<and> hd r \<notin> {CHR ''.'', CHR ''e'', CHR ''E''}"

lemma read_nat_show:
  assumes "ends_number r"
  shows "read_nat (show_nat n @ r) = Some (n, r)"
proof -
  have all: "\<forall>c \<in> set (show_nat n). ascii_digit c" by (simp add: show_nat_digits)
  have "takeWhile ascii_digit (show_nat n @ r) = show_nat n @ takeWhile ascii_digit r"
    using all by (intro takeWhile_append2) simp
  moreover have "dropWhile ascii_digit (show_nat n @ r) = dropWhile ascii_digit r"
    using all by (intro dropWhile_append2) simp
  moreover have "takeWhile ascii_digit r = []" "dropWhile ascii_digit r = r"
    using assms by (cases r; simp add: ends_number_def)+
  ultimately show ?thesis
    using assms show_nat_no_leading_zero [of n]
    by (auto simp: read_nat_def digits_nat_show ends_number_def)
qed

section \<open>Values read back\<close>

text \<open>The values JSON can tell apart: tuples read as lists, and only text is a member name.\<close>

fun reads_back :: "pyval \<Rightarrow> bool" where
  "reads_back (VList xs) = list_all reads_back xs"
| "reads_back (VDict d) =
     (distinct (map fst d) \<and> list_all (\<lambda>(k, v). is_str k \<and> reads_back v) d)"
| "reads_back (VTuple _) = False"
| "reads_back (VObj _ _) = False"
| "reads_back (VFloat _) = False"
| "reads_back _ = True"

definition separators :: "string \<Rightarrow> string \<Rightarrow> bool" where
  "separators i k \<longleftrightarrow> i \<noteq> [] \<and> hd i = CHR '','' \<and> list_all json_ws (tl i) \<and>
                      k \<noteq> [] \<and> hd k = CHR '':'' \<and> list_all json_ws (tl k)"

lemma skip_ws_append [simp]: "list_all json_ws w \<Longrightarrow> skip_ws (w @ s) = skip_ws s"
  by (simp add: skip_ws_def list_all_iff)

lemma skip_ws_Cons [simp]: "\<not> json_ws c \<Longrightarrow> skip_ws (c # s) = c # s"
  by (simp add: skip_ws_def)

lemma json_ws_char [simp]:
  "\<not> json_ws (CHR 0x22)" "\<not> json_ws (CHR ''['')" "\<not> json_ws (CHR '']'')" "\<not> json_ws (CHR ''{'')"
  "\<not> json_ws (CHR ''}'')" "\<not> json_ws (CHR '','')" "\<not> json_ws (CHR '':'')" "\<not> json_ws (CHR ''-'')"
  "\<not> json_ws (CHR ''n'')" "\<not> json_ws (CHR ''t'')" "\<not> json_ws (CHR ''f'')"
  by (simp_all add: json_ws_def)

lemma read_value_ws: "list_all json_ws w \<Longrightarrow> read_value n (w @ s) = read_value n s"
  by (cases n) simp_all

lemma read_items_ws: "list_all json_ws w \<Longrightarrow> read_items n (w @ s) = read_items n s"
  by (cases n) (simp_all add: read_value_ws)

lemma read_members_ws: "list_all json_ws w \<Longrightarrow> read_members n (w @ s) = read_members n s"
  by (cases n) simp_all

text \<open>How the text of a value begins.\<close>

definition opens_value :: "char \<Rightarrow> bool" where
  "opens_value c \<longleftrightarrow> ascii_digit c \<or> c \<in> set ''-ntf[{'' \<or> c = CHR 0x22"

lemma opens_value_no_ws: "opens_value c \<Longrightarrow> \<not> json_ws c \<and> c \<noteq> CHR '']'' \<and> c \<noteq> CHR ''}''"
  by (auto simp: opens_value_def json_ws_def ascii_digit_def code_def)

lemma opens_value_char [simp]:
  "opens_value (CHR 0x22)" "opens_value (CHR ''['')" "opens_value (CHR ''{'')" "opens_value (CHR ''-'')"
  "opens_value (CHR ''n'')" "opens_value (CHR ''t'')" "opens_value (CHR ''f'')"
  by (simp_all add: opens_value_def)

lemma show_nat_opens: "\<exists>c cs. show_nat n = c # cs \<and> ascii_digit c"
  by (metis list.exhaust list.set_intros(1) show_nat_digits show_nat_ne)

lemma show_nat_opens_value: "\<exists>c. (\<exists>cs. show_nat n = c # cs) \<and> opens_value c"
  using show_nat_opens [of n] unfolding opens_value_def by blast

lemma dumps_opens:
  assumes "reads_back v" and "json_dumps a i k v = Some t"
  shows "\<exists>c. (\<exists>cs. t = c # cs) \<and> opens_value c"
proof (cases v)
  case (VInt j)
  show ?thesis
  proof (cases "j < 0")
    case True
    with VInt assms(2) have "t = CHR ''-'' # show_nat (nat (- j))" by (simp add: show_int_def)
    then show ?thesis by simp
  next
    case False
    with VInt assms(2) have "t = show_nat (nat j)" by (simp add: show_int_def)
    then show ?thesis using show_nat_opens_value by blast
  qed
next
  case (VBool b)
  with assms(2) have "t = (if b then ''true'' else ''false'')" by simp
  then show ?thesis by simp
next
  case (VDict d)
  with assms(2) show ?thesis by (clarsimp simp del: opt_all.simps)
next
  case (VList xs)
  with assms(2) show ?thesis by (clarsimp simp del: opt_all.simps)
next
  case (VStr s)
  with assms(2) have "t = CHR 0x22 # concat (map (json_char a) s) @ [CHR 0x22]" by (simp add: json_string_def)
  then show ?thesis by simp
next
  case VNone
  with assms(2) have "t = ''null''" by simp
  then show ?thesis by simp
qed (use assms in simp_all)

text \<open>A value whose text is read back whatever follows it.\<close>

definition read_after :: "bool \<Rightarrow> string \<Rightarrow> string \<Rightarrow> pyval \<Rightarrow> bool" where
  "read_after a i k v \<longleftrightarrow>
     (\<forall>t n r. json_dumps a i k v = Some t \<longrightarrow> length t \<le> n \<longrightarrow> ends_number r \<longrightarrow>
        read_value n (t @ r) = Some (v, r))"

lemma read_afterD:
  "read_after a i k v \<Longrightarrow> json_dumps a i k v = Some t \<Longrightarrow> length t \<le> n \<Longrightarrow> ends_number r \<Longrightarrow>
   read_value n (t @ r) = Some (v, r)"
  by (simp add: read_after_def)

lemma ends_number_char [simp]:
  "ends_number []" "ends_number (CHR '']'' # r)" "ends_number (CHR ''}'' # r)" "ends_number (CHR '','' # r)"
  by (simp_all add: ends_number_def ascii_digit_def code_def)

lemma read_afterI:
  assumes "json_dumps a i k v \<noteq> Some []"
    and "\<And>t m r. json_dumps a i k v = Some t \<Longrightarrow> length t \<le> Suc m \<Longrightarrow> ends_number r \<Longrightarrow>
      read_value (Suc m) (t @ r) = Some (v, r)"
  shows "read_after a i k v"
  unfolding read_after_def
proof (intro allI impI)
  fix t n r
  assume t: "json_dumps a i k v = Some t" "length t \<le> n" "ends_number r"
  with assms(1) obtain m where "n = Suc m" by (cases n) auto
  with t show "read_value n (t @ r) = Some (v, r)" by (simp only:) (rule assms(2))
qed

lemma read_after_int: "read_after a i k (VInt j)"
proof (rule read_afterI)
  fix t m r
  assume t: "json_dumps a i k (VInt j) = Some t" and r: "ends_number r"
  show "read_value (Suc m) (t @ r) = Some (VInt j, r)"
  proof (cases "j < 0")
    case True
    with t r show ?thesis by (auto simp: show_int_def read_nat_show)
  next
    case False
    obtain c cs where c: "show_nat (nat j) = c # cs" "ascii_digit c" using show_nat_opens by blast
    then have "\<not> json_ws c" "c \<notin> set ''-ntf[{''" "c \<noteq> CHR 0x22"
      by (auto simp: json_ws_def ascii_digit_def code_def)
    with False t c(1) read_nat_show [OF r, of "nat j"] show ?thesis
      by (auto simp: show_int_def)
  qed
qed (simp add: show_int_def)

lemma read_after_atom:
  "read_after a i k VNone" "read_after a i k (VBool b)" "read_after a i k (VStr s)"
  by (rule read_afterI; auto simp: read_word_def json_string_def read_string_json_chars)+

lemma read_items_dumps:
  assumes "separators i k"
  shows "xs \<noteq> [] \<Longrightarrow> map (json_dumps a i k) xs = map Some ts \<Longrightarrow> list_all (read_after a i k) xs \<Longrightarrow>
    Suc (length (py_join i ts)) \<le> n \<Longrightarrow> read_items n (py_join i ts @ CHR '']'' # r) = Some (xs, r)"
proof (induction xs arbitrary: ts n)
  case (Cons x xs)
  from Cons.prems obtain t ts' m where ts: "ts = t # ts'" "json_dumps a i k x = Some t"
      "map (json_dumps a i k) xs = map Some ts'" and n: "n = Suc m"
    by (cases ts; cases n) auto
  show ?case
  proof (cases xs)
    case Nil
    with Cons.prems ts have "read_value m (t @ CHR '']'' # r) = Some (x, CHR '']'' # r)"
      by (intro read_afterD) (auto simp: n)
    with Nil ts n show ?thesis by simp
  next
    case (Cons y ys)
    with ts obtain t' ts'' where ts': "ts' = t' # ts''" by (cases ts') auto
    obtain w where w: "i = CHR '','' # w" "list_all json_ws w"
      using assms by (cases i) (auto simp: separators_def)
    let ?tail = "py_join i ts' @ CHR '']'' # r"
    have join: "py_join i ts = t @ CHR '','' # w @ py_join i ts'"
      using ts(1) ts' w(1) by simp
    have "read_value m (t @ CHR '','' # w @ ?tail) = Some (x, CHR '','' # w @ ?tail)"
      by (rule read_afterD [where a = a and i = i and k = k])
        (use Cons.prems(3,4) ts(2) n join in simp_all)
    moreover have "read_items m ?tail = Some (xs, r)"
      by (rule Cons.IH) (use Cons.prems(3,4) ts(3) n join Cons in simp_all)
    ultimately show ?thesis
      using join w(2) n by (simp add: read_items_ws)
  qed
qed simp

definition member_text :: "bool \<Rightarrow> string \<Rightarrow> string \<Rightarrow> pyval \<times> pyval \<Rightarrow> string option" where
  "member_text a i k = (\<lambda>(x, v). case json_key x of None \<Rightarrow> None
     | Some kt \<Rightarrow> map_option (\<lambda>vt. json_string a kt @ k @ vt) (json_dumps a i k v))"

lemma read_member_dumps:
  assumes "separators i k" and "member_text a i k (x, v) = Some t" and "is_str x" and "read_after a i k v"
    and "length t \<le> m" and "c = CHR '','' \<or> c = CHR ''}''"
  shows "read_members (Suc m) (t @ c # r) =
    (if c = CHR ''}'' then Some ([(x, v)], r)
     else map_option (\<lambda>(ps, r'). ((x, v) # ps, r')) (read_members m r))"
proof -
  obtain kt where x: "x = VStr kt" using assms(3) by (cases x) auto
  with assms(2) obtain vt where vt: "json_dumps a i k v = Some vt" and t: "t = json_string a kt @ k @ vt"
    by (auto simp: member_text_def)
  obtain w where w: "k = CHR '':'' # w" "list_all json_ws w"
    using assms(1) by (cases k) (auto simp: separators_def)
  have "ends_number (c # r)" using assms(6) by auto
  with assms(4) vt have "read_value m (vt @ c # r) = Some (v, c # r)"
    using assms(5) t by (intro read_afterD) simp_all
  moreover have "t @ c # r =
      CHR 0x22 # concat (map (json_char a) kt) @ CHR 0x22 # CHR '':'' # w @ vt @ c # r"
    by (simp add: t w(1) json_string_def)
  ultimately show ?thesis
    using assms(6) w(2) x by (auto simp: read_string_json_chars read_value_ws)
qed

lemma read_members_dumps:
  assumes "separators i k"
  shows "d \<noteq> [] \<Longrightarrow> map (member_text a i k) d = map Some ts \<Longrightarrow>
    list_all (\<lambda>(x, v). is_str x \<and> read_after a i k v) d \<Longrightarrow>
    Suc (length (py_join i ts)) \<le> n \<Longrightarrow> read_members n (py_join i ts @ CHR ''}'' # r) = Some (d, r)"
proof (induction d arbitrary: ts n)
  case (Cons p d)
  obtain x v where p: "p = (x, v)" by (cases p)
  from Cons.prems obtain t ts' m where ts: "ts = t # ts'" "member_text a i k (x, v) = Some t"
      "map (member_text a i k) d = map Some ts'" and n: "n = Suc m"
    by (cases ts; cases n) (auto simp: p)
  from Cons.prems(3) have xv: "is_str x" "read_after a i k v" by (simp_all add: p)
  show ?case
  proof (cases d)
    case Nil
    with ts have join: "py_join i ts = t" by simp
    have "read_members (Suc m) (t @ CHR ''}'' # r) = Some ([(x, v)], r)"
      by (subst read_member_dumps [OF assms ts(2) xv]) (use Cons.prems(4) n join in simp_all)
    with Nil join n p show ?thesis by simp
  next
    case (Cons q qs)
    with ts obtain t' ts'' where ts': "ts' = t' # ts''" by (cases ts') auto
    obtain w where w: "i = CHR '','' # w" "list_all json_ws w"
      using assms by (cases i) (auto simp: separators_def)
    let ?tail = "py_join i ts' @ CHR ''}'' # r"
    have join: "py_join i ts = t @ CHR '','' # w @ py_join i ts'"
      using ts(1) ts' w(1) by simp
    have "read_members m ?tail = Some (d, r)"
      by (rule Cons.IH) (use Cons.prems(3,4) ts(3) n join Cons in simp_all)
    moreover have "read_members (Suc m) (t @ CHR '','' # w @ ?tail) =
        map_option (\<lambda>(ps, r'). ((x, v) # ps, r')) (read_members m (w @ ?tail))"
      by (subst read_member_dumps [OF assms ts(2) xv]) (use Cons.prems(4) n join in simp_all)
    ultimately show ?thesis
      using join w(2) n p by (simp add: read_members_ws)
  qed
qed simp

lemma json_dumps_dict:
  "json_dumps a i k (VDict d) = map_option (\<lambda>ts. ''{'' @ py_join i ts @ ''}'') (opt_all (map (member_text a i k) d))"
  by (simp add: member_text_def)

lemma py_join_ne: "ws \<noteq> [] \<Longrightarrow> \<exists>s. py_join i ws = hd ws @ s"
  by (cases "(i, ws)" rule: py_join.cases) auto

theorem read_after_dumps:
  assumes "separators i k"
  shows "reads_back v \<Longrightarrow> read_after a i k v"
proof (induction v rule: reads_back.induct)
  case (1 xs)
  show ?case
  proof (rule read_afterI)
    fix t m r
    assume "json_dumps a i k (VList xs) = Some t" and len: "length t \<le> Suc m"
    then obtain ts where ts: "map (json_dumps a i k) xs = map Some ts" and t: "t = ''['' @ py_join i ts @ '']''"
      by (auto simp: opt_all_eq_Some)
    show "read_value (Suc m) (t @ r) = Some (VList xs, r)"
    proof (cases "xs = []")
      case True
      with ts t show ?thesis by simp
    next
      case False
      then obtain x xs' where xs: "xs = x # xs'" by (cases xs) auto
      with ts obtain t1 ts' where ts1: "ts = t1 # ts'" "json_dumps a i k x = Some t1" by (cases ts) auto
      from 1(2) xs have "reads_back x" by simp
      with ts1(2) obtain c cs where c: "t1 = c # cs" "opens_value c" using dumps_opens by blast
      obtain s where s: "py_join i ts = t1 @ s" using py_join_ne [of ts i] ts1 by auto
      have "list_all (read_after a i k) xs" using 1 by (simp add: list_all_iff)
      with False ts have "read_items m (py_join i ts @ CHR '']'' # r) = Some (xs, r)"
        by (rule read_items_dumps [OF assms]) (use len t in simp)
      then show ?thesis using c opens_value_no_ws [OF c(2)] by (simp add: t s)
    qed
  qed auto
next
  case (2 d)
  show ?case
  proof (rule read_afterI)
    fix t m r
    assume "json_dumps a i k (VDict d) = Some t" and len: "length t \<le> Suc m"
    then obtain ts where ts: "map (member_text a i k) d = map Some ts" and t: "t = ''{'' @ py_join i ts @ ''}''"
      unfolding json_dumps_dict by (auto simp: opt_all_eq_Some)
    show "read_value (Suc m) (t @ r) = Some (VDict d, r)"
    proof (cases "d = []")
      case True
      with ts t show ?thesis by simp
    next
      case False
      then obtain x v d' where d: "d = (x, v) # d'" by (cases d) auto
      with ts obtain t1 ts' where ts1: "ts = t1 # ts'" "member_text a i k (x, v) = Some t1" by (cases ts) auto
      then obtain cs where c: "t1 = CHR 0x22 # cs"
        by (auto simp: member_text_def json_string_def split: option.splits)
      obtain s where s: "py_join i ts = t1 @ s" using py_join_ne [of ts i] ts1 by auto
      have "list_all (\<lambda>(x, v). is_str x \<and> read_after a i k v) d"
        using 2 by (auto simp: list_all_iff)
      with False ts have "read_members m (py_join i ts @ CHR ''}'' # r) = Some (d, r)"
        by (rule read_members_dumps [OF assms]) (use len t in simp)
      then show ?thesis using c 2(2) by (simp add: t s)
    qed
  qed auto
qed (simp_all add: read_after_int read_after_atom)

text \<open>What \<open>json.dumps\<close> writes is read back as the value, for any pair of separators it is used with.\<close>

theorem json_read_dumps:
  assumes "separators i k" and "reads_back v" and "json_dumps a i k v = Some t" and "list_all json_ws w"
  shows "json_read (t @ w) = Some v"
proof -
  have "ends_number w"
    using assms(4) by (cases w) (auto simp: ends_number_def json_ws_def ascii_digit_def code_def)
  with read_after_dumps [OF assms(1,2), of a] assms(3)
  have "read_value (length (t @ w)) (t @ w) = Some (v, w)" by (intro read_afterD) auto
  moreover have "skip_ws w = []" using skip_ws_append [OF assms(4), of "[]"] by (simp add: skip_ws_def)
  ultimately show ?thesis by (simp add: json_read_def)
qed

text \<open>The values the program writes: dictionaries with string keys, sorted or not.\<close>

lemma reads_back_vdict: "reads_back (vdict d) \<longleftrightarrow> wf_dict d \<and> (\<forall>(k, v) \<in> set d. reads_back v)"
proof -
  have "map fst (map (\<lambda>(k, v). (VStr k, v)) d) = map VStr (dict_keys d)" by (induction d) auto
  then have "distinct (map fst (map (\<lambda>(k, v). (VStr k, v)) d)) = wf_dict d"
    by (simp add: wf_dict_def distinct_map inj_on_def)
  then show ?thesis by (auto simp: vdict_def list_all_iff)
qed

lemma distinct_fst_sort_key: "distinct (map fst (sort_key f d)) = distinct (map fst d)"
  by (simp add: distinct_map)

lemma reads_back_sort_keys: "reads_back v \<Longrightarrow> reads_back (sort_keys v)"
proof (induction v rule: sort_keys.induct)
  case (1 d)
  have "map fst (map (\<lambda>(k, v). (k, sort_keys v)) d) = map fst d" by (induction d) auto
  with 1 show ?case
    by (force simp: distinct_fst_sort_key list_all_iff simp del: map_map)
qed (simp_all add: list_all_iff)

lemma floats_clean_reads_back: "reads_back v \<Longrightarrow> floats_clean v"
proof (induction v rule: reads_back.induct)
  case (2 d)
  have "floats_clean k" if "is_str k" for k using that by (cases k) auto
  with 2 show ?case by (auto simp: list_all_iff)
qed (simp_all add: list_all_iff)

lemma jsonable_reads_back: "reads_back v \<Longrightarrow> jsonable v"
proof (induction v rule: reads_back.induct)
  case (2 d)
  have "json_key k \<noteq> None" if "is_str k" for k using that by (cases k) auto
  with 2 show ?case by (force simp: list_all_iff)
qed (simp_all add: list_all_iff)

end
