(* ===== verification/Mcp_Errors.thy ===== *)
theory Mcp_Errors
  imports Py_Json
begin

text \<open>
  The structured error model (\<open>errors/errors.py\<close>), the client error contract
  (\<open>errors/client_contract.py\<close>), the protocol error payload (\<open>protocol/errors.py\<close>) and
  the adapter timeout bound (\<open>policies/timeouts.py\<close>). A raised exception is a value of
  \<open>pyexn\<close>; an operation that may raise returns \<open>pyexn + 'a\<close>.
\<close>

section \<open>Structured errors\<close>

datatype error_category =
    VALIDATION_ERROR | NOT_FOUND | UNAUTHENTICATED | UNAUTHORIZED | RATE_LIMITED | TIMEOUT
  | UNAVAILABLE_DEPENDENCY | UPSTREAM_ERROR | POLICY_DENIED | INTERNAL_ERROR

fun category_value :: "error_category \<Rightarrow> string" where
  "category_value VALIDATION_ERROR = ''validation_error''"
| "category_value NOT_FOUND = ''not_found''"
| "category_value UNAUTHENTICATED = ''unauthenticated''"
| "category_value UNAUTHORIZED = ''unauthorized''"
| "category_value RATE_LIMITED = ''rate_limited''"
| "category_value TIMEOUT = ''timeout''"
| "category_value UNAVAILABLE_DEPENDENCY = ''unavailable_dependency''"
| "category_value UPSTREAM_ERROR = ''upstream_error''"
| "category_value POLICY_DENIED = ''policy_denied''"
| "category_value INTERNAL_ERROR = ''internal_error''"

text \<open>The Python class of an error: what \<open>isinstance\<close> and \<open>type(exc).__name__\<close> see.\<close>

datatype error_class =
    McpErrorC | ValidationErrorC | NotFoundErrorC | UnauthenticatedErrorC | UnauthorizedErrorC
  | RateLimitedErrorC | TimeoutMcpErrorC | UnavailableDependencyErrorC | UpstreamErrorC
  | PolicyDeniedErrorC | InternalErrorC

fun class_name :: "error_class \<Rightarrow> string" where
  "class_name McpErrorC = ''McpError''"
| "class_name ValidationErrorC = ''ValidationError''"
| "class_name NotFoundErrorC = ''NotFoundError''"
| "class_name UnauthenticatedErrorC = ''UnauthenticatedError''"
| "class_name UnauthorizedErrorC = ''UnauthorizedError''"
| "class_name RateLimitedErrorC = ''RateLimitedError''"
| "class_name TimeoutMcpErrorC = ''TimeoutMcpError''"
| "class_name UnavailableDependencyErrorC = ''UnavailableDependencyError''"
| "class_name UpstreamErrorC = ''UpstreamError''"
| "class_name PolicyDeniedErrorC = ''PolicyDeniedError''"
| "class_name InternalErrorC = ''InternalError''"

record mcp_error =
  err_class :: error_class
  err_category :: error_category
  err_message :: string
  err_details :: sdict

text \<open>
  Exceptions: a structured error, any other Python exception (class name and text), or the
  SDK's \<open>ToolError\<close> with its message.
\<close>

datatype pyexn = Mcp mcp_error | PyError string string | ToolError string

fun exn_class_name :: "pyexn \<Rightarrow> string" where
  "exn_class_name (Mcp e) = class_name (err_class e)"
| "exn_class_name (PyError c _) = c"
| "exn_class_name (ToolError _) = ''ToolError''"

type_synonym 'a result = "pyexn + 'a"

text \<open>\<open>McpError.__post_init__\<close> refuses an empty message.\<close>

definition make_mcp_error ::
  "error_class \<Rightarrow> error_category \<Rightarrow> string \<Rightarrow> sdict \<Rightarrow> mcp_error result" where
  "make_mcp_error cls cat msg ds =
     (if msg = [] \<or> blank msg then Inl (PyError ''ValueError'' ''McpError.message must not be empty'')
      else Inr \<lparr>err_class = cls, err_category = cat, err_message = msg, err_details = ds\<rparr>)"

definition validation_error :: "string \<Rightarrow> sdict \<Rightarrow> mcp_error" where
  "validation_error msg ds = \<lparr>err_class = ValidationErrorC, err_category = VALIDATION_ERROR, err_message = msg, err_details = ds\<rparr>"

definition not_found_error :: "string \<Rightarrow> sdict \<Rightarrow> mcp_error" where
  "not_found_error msg ds = \<lparr>err_class = NotFoundErrorC, err_category = NOT_FOUND, err_message = msg, err_details = ds\<rparr>"

definition unauthenticated_error :: "string \<Rightarrow> sdict \<Rightarrow> mcp_error" where
  "unauthenticated_error msg ds = \<lparr>err_class = UnauthenticatedErrorC, err_category = UNAUTHENTICATED, err_message = msg, err_details = ds\<rparr>"

definition unauthorized_error :: "string \<Rightarrow> sdict \<Rightarrow> mcp_error" where
  "unauthorized_error msg ds = \<lparr>err_class = UnauthorizedErrorC, err_category = UNAUTHORIZED, err_message = msg, err_details = ds\<rparr>"

definition rate_limited_error :: "string \<Rightarrow> sdict \<Rightarrow> mcp_error" where
  "rate_limited_error msg ds = \<lparr>err_class = RateLimitedErrorC, err_category = RATE_LIMITED, err_message = msg, err_details = ds\<rparr>"

definition timeout_mcp_error :: "string \<Rightarrow> sdict \<Rightarrow> mcp_error" where
  "timeout_mcp_error msg ds = \<lparr>err_class = TimeoutMcpErrorC, err_category = TIMEOUT, err_message = msg, err_details = ds\<rparr>"

definition unavailable_dependency_error :: "string \<Rightarrow> sdict \<Rightarrow> mcp_error" where
  "unavailable_dependency_error msg ds = \<lparr>err_class = UnavailableDependencyErrorC, err_category = UNAVAILABLE_DEPENDENCY, err_message = msg, err_details = ds\<rparr>"

definition upstream_error :: "string \<Rightarrow> sdict \<Rightarrow> mcp_error" where
  "upstream_error msg ds = \<lparr>err_class = UpstreamErrorC, err_category = UPSTREAM_ERROR, err_message = msg, err_details = ds\<rparr>"

definition policy_denied_error :: "string \<Rightarrow> sdict \<Rightarrow> mcp_error" where
  "policy_denied_error msg ds = \<lparr>err_class = PolicyDeniedErrorC, err_category = POLICY_DENIED, err_message = msg, err_details = ds\<rparr>"

definition internal_error :: "string \<Rightarrow> sdict \<Rightarrow> mcp_error" where
  "internal_error msg ds = \<lparr>err_class = InternalErrorC, err_category = INTERNAL_ERROR, err_message = msg, err_details = ds\<rparr>"

lemmas error_constructors =
  validation_error_def not_found_error_def unauthenticated_error_def unauthorized_error_def
  rate_limited_error_def timeout_mcp_error_def unavailable_dependency_error_def
  upstream_error_def policy_denied_error_def internal_error_def

text \<open>\<open>McpError.__str__\<close>\<close>

definition mcp_error_str :: "mcp_error \<Rightarrow> string" where
  "mcp_error_str e = category_value (err_category e) @ '': '' @ err_message e"

section \<open>Client error contract\<close>

definition CLIENT_ERROR_CONTRACT_VERSION :: string where
  "CLIENT_ERROR_CONTRACT_VERSION = ''1.0.0''"

datatype client_error_code =
    AUTHENTICATION_REQUIRED | AUTHENTICATION_FAILED | AUTHORIZATION_DENIED | APPROVAL_REQUIRED_CODE
  | UNKNOWN_TOOL | INVALID_CONTEXT | INVALID_POLICY | EXECUTION_FAILURE_CODE | UPSTREAM_FAILURE
  | VALIDATION_ERROR_CODE | INTERNAL_ERROR_CODE | CONCURRENCY_LIMIT

fun client_code_value :: "client_error_code \<Rightarrow> string" where
  "client_code_value AUTHENTICATION_REQUIRED = ''AUTHENTICATION_REQUIRED''"
| "client_code_value AUTHENTICATION_FAILED = ''AUTHENTICATION_FAILED''"
| "client_code_value AUTHORIZATION_DENIED = ''AUTHORIZATION_DENIED''"
| "client_code_value APPROVAL_REQUIRED_CODE = ''APPROVAL_REQUIRED''"
| "client_code_value UNKNOWN_TOOL = ''UNKNOWN_TOOL''"
| "client_code_value INVALID_CONTEXT = ''INVALID_CONTEXT''"
| "client_code_value INVALID_POLICY = ''INVALID_POLICY''"
| "client_code_value EXECUTION_FAILURE_CODE = ''EXECUTION_FAILURE''"
| "client_code_value UPSTREAM_FAILURE = ''UPSTREAM_FAILURE''"
| "client_code_value VALIDATION_ERROR_CODE = ''VALIDATION_ERROR''"
| "client_code_value INTERNAL_ERROR_CODE = ''INTERNAL_ERROR''"
| "client_code_value CONCURRENCY_LIMIT = ''CONCURRENCY_LIMIT''"

fun category_code :: "error_category \<Rightarrow> client_error_code" where
  "category_code UNAUTHENTICATED = AUTHENTICATION_REQUIRED"
| "category_code UNAUTHORIZED = AUTHORIZATION_DENIED"
| "category_code POLICY_DENIED = AUTHORIZATION_DENIED"
| "category_code VALIDATION_ERROR = VALIDATION_ERROR_CODE"
| "category_code UPSTREAM_ERROR = UPSTREAM_FAILURE"
| "category_code UNAVAILABLE_DEPENDENCY = UPSTREAM_FAILURE"
| "category_code TIMEOUT = UPSTREAM_FAILURE"
| "category_code INTERNAL_ERROR = INTERNAL_ERROR_CODE"
| "category_code NOT_FOUND = VALIDATION_ERROR_CODE"
| "category_code RATE_LIMITED = CONCURRENCY_LIMIT"

definition code_for :: "mcp_error \<Rightarrow> client_error_code" where
  "code_for e =
     (let ds = err_details e in
      if err_class e = PolicyDeniedErrorC then
        (let decision = py_str (sget ds ''decision'' (VStr [])) in
         if decision = ''approval_required'' then APPROVAL_REQUIRED_CODE
         else if decision = ''deny'' \<and> dict_get ds ''known'' = Some (VBool False) then UNKNOWN_TOOL
         else AUTHORIZATION_DENIED)
      else if err_class e = UnauthenticatedErrorC then
        (if py_str (sget ds ''status'' (VStr [])) \<in> {''invalid_credential'', ''malformed''}
         then AUTHENTICATION_FAILED else AUTHENTICATION_REQUIRED)
      else if err_class e = ValidationErrorC then
        (if py_str (sget ds ''reason_code'' (VStr [])) = ''context_mismatch'' \<or> py_in ''conflicts'' (err_message e)
         then INVALID_CONTEXT else VALIDATION_ERROR_CODE)
      else if err_category e = RATE_LIMITED then CONCURRENCY_LIMIT
      else category_code (err_category e))"

definition BLOCKED_DETAIL_KEYS :: "string list" where
  "BLOCKED_DETAIL_KEYS = [''token'', ''secret'', ''password'', ''credential'', ''authorization'',
     ''api_key'', ''apikey'', ''presented_secret'', ''auth_token'']"

text \<open>\<open>str(key).lower().replace("-", "_")\<close>\<close>

definition normal_key :: "string \<Rightarrow> string" where
  "normal_key k = py_replace_char CHR ''-'' CHR ''_'' (py_lower k)"

definition blocked_key :: "string \<Rightarrow> bool" where
  "blocked_key k \<longleftrightarrow> list_ex (\<lambda>b. py_in b (normal_key k)) BLOCKED_DETAIL_KEYS"

definition safe_value :: "pyval \<Rightarrow> pyval" where
  "safe_value v = (if is_scalar v then v else VStr (type_name v))"

fun safe_details_loop :: "sdict \<Rightarrow> sdict \<Rightarrow> sdict" where
  "safe_details_loop out [] = out"
| "safe_details_loop out ((k, v) # items) =
     (if blocked_key k then safe_details_loop out items
      else safe_details_loop (dict_set k (safe_value v) out) items)"

definition safe_details :: "mcp_error \<Rightarrow> sdict" where
  "safe_details e = safe_details_loop [] (err_details e)"

definition map_mcp_error :: "mcp_error \<Rightarrow> sdict" where
  "map_mcp_error e =
     [(''error_contract_version'', VStr CLIENT_ERROR_CONTRACT_VERSION),
      (''code'', VStr (client_code_value (code_for e))),
      (''category'', VStr (category_value (err_category e))),
      (''message'', VStr (err_message e)),
      (''details'', vdict (safe_details e))]"

definition format_tool_error_message :: "sdict \<Rightarrow> string option" where
  "format_tool_error_message payload = json_dumps True '','' '':'' (sort_keys (vdict payload))"

text \<open>The exception that reaches the MCP client in place of a structured error.\<close>

definition raise_as_mcp_tool_error :: "mcp_error \<Rightarrow> pyexn" where
  "raise_as_mcp_tool_error e =
     (case format_tool_error_message (map_mcp_error e) of
        Some t \<Rightarrow> ToolError t
      | None \<Rightarrow> PyError ''TypeError'' ''not JSON serializable'')"

section \<open>Protocol error payload and adapter timeouts\<close>

record error_response =
  er_code :: string
  er_message :: string
  er_details :: sdict

definition error_response_from :: "mcp_error \<Rightarrow> error_response" where
  "error_response_from e =
     \<lparr>er_code = category_value (err_category e), er_message = err_message e, er_details = err_details e\<rparr>"

definition error_response_as_dict :: "error_response \<Rightarrow> sdict" where
  "error_response_as_dict r =
     [(''error'', vdict [(''code'', VStr (er_code r)), (''message'', VStr (er_message r)),
        (''details'', vdict (er_details r))])]"

definition MIN_ADAPTER_TIMEOUT_SECONDS :: int where
  "MIN_ADAPTER_TIMEOUT_SECONDS = 1"

definition MAX_ADAPTER_TIMEOUT_SECONDS :: int where
  "MAX_ADAPTER_TIMEOUT_SECONDS = 120"

definition validate_adapter_timeout :: "int \<Rightarrow> int result" where
  "validate_adapter_timeout seconds =
     (if \<not> (MIN_ADAPTER_TIMEOUT_SECONDS \<le> seconds \<and> seconds \<le> MAX_ADAPTER_TIMEOUT_SECONDS)
      then Inl (Mcp (validation_error ''adapter timeout is outside the allowed safety bounds''
             [(''minimum'', VInt MIN_ADAPTER_TIMEOUT_SECONDS), (''maximum'', VInt MAX_ADAPTER_TIMEOUT_SECONDS)]))
      else Inr seconds)"

section \<open>Facts\<close>

lemma dict_get_filter_keys: "dict_get (filter (\<lambda>(k, v). P k) d) k = (if P k then dict_get d k else None)"
  by (induction d) auto

lemma constructor_is_checked:
  "\<not> blank msg \<Longrightarrow> make_mcp_error ValidationErrorC VALIDATION_ERROR msg ds = Inr (validation_error msg ds)"
  by (auto simp: make_mcp_error_def validation_error_def)

lemma deciding_keys_unblocked [simp]:
  "\<not> blocked_key ''decision''" "\<not> blocked_key ''known''" "\<not> blocked_key ''status''"
  "\<not> blocked_key ''reason_code''"
  by code_simp+

lemma safe_value_scalar [simp]: "is_scalar (safe_value v)"
  by (simp add: safe_value_def)

lemma safe_details_loop_items:
  assumes "\<forall>(k, v) \<in> set out. \<not> blocked_key k \<and> is_scalar v"
  shows "\<forall>(k, v) \<in> set (safe_details_loop out ds). \<not> blocked_key k \<and> is_scalar v"
  using assms
proof (induction out ds rule: safe_details_loop.induct)
  case (2 out k v items)
  then show ?case
    using dict_set_items [of _ k "safe_value v" out] by (fastforce split: if_splits)
qed simp

lemma safe_details_items: "(k, v) \<in> set (safe_details e) \<Longrightarrow> \<not> blocked_key k \<and> is_scalar v"
  using safe_details_loop_items [of "[]" "err_details e"] by (auto simp: safe_details_def)

lemma safe_details_loop_get:
  "distinct (dict_keys ds) \<Longrightarrow>
   dict_get (safe_details_loop out ds) k =
     (if \<not> blocked_key k \<and> k \<in> set (dict_keys ds) then map_option safe_value (dict_get ds k)
      else dict_get out k)"
  by (induction out ds rule: safe_details_loop.induct) (auto simp: map_of_eq_None_iff)

lemma safe_details_loop_filter:
  "safe_details_loop out (filter (\<lambda>(k, v). \<not> blocked_key k) ds) = safe_details_loop out ds"
  by (induction out ds rule: safe_details_loop.induct) auto

lemma code_for_cong:
  assumes "err_class e' = err_class e" "err_category e' = err_category e" "err_message e' = err_message e"
    and "\<And>k. \<not> blocked_key k \<Longrightarrow> dict_get (err_details e') k = dict_get (err_details e) k"
  shows "code_for e' = code_for e"
  by (simp add: code_for_def Let_def sget_def assms)

text \<open>The client payload for a given key is exactly the error's detail, reduced to a
  scalar; a key with a credential-like name never reaches the client.\<close>

theorem safe_details_lookup:
  assumes "wf_dict (err_details e)"
  shows "dict_get (safe_details e) k =
    (if blocked_key k then None else map_option safe_value (dict_get (err_details e) k))"
  using assms
  by (auto simp: safe_details_def wf_dict_def safe_details_loop_get map_of_eq_None_iff)

theorem safe_details_lookup_witness:
  "dict_get (safe_details (validation_error ''m'' [(''X-Auth-Token'', VStr ''t''), (''tool'', VList [])])) ''tool''
     = Some (VStr ''list'')
   \<and> dict_get (safe_details (validation_error ''m'' [(''X-Auth-Token'', VStr ''t''), (''tool'', VList [])])) ''X-Auth-Token''
     = None"
proof -
  let ?e = "validation_error ''m'' [(''X-Auth-Token'', VStr ''t''), (''tool'', VList [])]"
  have wf: "wf_dict (err_details ?e)"
    by (simp add: wf_dict_def validation_error_def)
  have b: "\<not> blocked_key ''tool''" "blocked_key ''X-Auth-Token''"
    by code_simp+
  show ?thesis
    unfolding safe_details_lookup [OF wf]
    using b by (simp add: validation_error_def safe_value_def)
qed

text \<open>Details under a credential-like key have no influence on what the client sees:
  code, message and details of the payload are those of the error without them.\<close>

theorem map_mcp_error_ignores_blocked:
  "map_mcp_error (e\<lparr>err_details := filter (\<lambda>(k, v). \<not> blocked_key k) (err_details e)\<rparr>) = map_mcp_error e"
proof -
  have "code_for (e\<lparr>err_details := filter (\<lambda>(k, v). \<not> blocked_key k) (err_details e)\<rparr>) = code_for e"
    by (rule code_for_cong) (simp_all add: dict_get_filter_keys)
  then show ?thesis
    by (simp add: map_mcp_error_def safe_details_def safe_details_loop_filter)
qed

lemma jsonable_safe_details: "jsonable (vdict (safe_details e))"
  using safe_details_items [of _ _ e] by (auto simp: jsonable_vdict is_scalar_jsonable)

lemma jsonable_map_mcp_error: "jsonable (vdict (map_mcp_error e))"
  using jsonable_safe_details [of e] by (auto simp: jsonable_vdict map_mcp_error_def)

text \<open>Every structured error reaches the client as a tool error with JSON text; the
  conversion itself cannot fail, whatever objects the details hold.\<close>

lemma tool_error_total: "\<exists>t. raise_as_mcp_tool_error e = ToolError t"
proof -
  have "jsonable (sort_keys (vdict (map_mcp_error e)))"
    by (simp add: jsonable_sort_keys jsonable_map_mcp_error)
  then obtain t where "json_dumps True '','' '':'' (sort_keys (vdict (map_mcp_error e))) = Some t"
    using json_dumps_total by blast
  then show ?thesis
    by (simp add: raise_as_mcp_tool_error_def format_tool_error_message_def)
qed

text \<open>Which details a JSON reader can give back: every float has a text of its own, read elsewhere.\<close>

fun is_float :: "pyval \<Rightarrow> bool" where
  "is_float (VFloat _) = True" | "is_float _ = False"

definition float_details :: "mcp_error \<Rightarrow> bool" where
  "float_details e \<longleftrightarrow> list_ex (\<lambda>(k, v). is_float v) (err_details e)"

lemma safe_details_loop_reads_back:
  "wf_dict out \<Longrightarrow> \<not> list_ex (\<lambda>(k, v). is_float v) (out @ ds) \<Longrightarrow> list_all (\<lambda>(k, v). is_scalar v) out \<Longrightarrow>
   reads_back (vdict (safe_details_loop out ds))"
proof (induction out ds rule: safe_details_loop.induct)
  case (1 out)
  have "reads_back v" if "is_scalar v" "\<not> is_float v" for v using that by (cases v) auto
  with 1 show ?case by (force simp: reads_back_vdict list_all_iff list_ex_iff)
next
  case (2 out k v items)
  have "\<not> is_float (safe_value v)" if "\<not> is_float v" using that by (simp add: safe_value_def)
  with 2 show ?case
    using dict_set_items [of _ k "safe_value v" out]
    by (fastforce simp: list_ex_iff list_all_iff)
qed

lemma payload_reads_back: "\<not> float_details e \<Longrightarrow> reads_back (sort_keys (vdict (map_mcp_error e)))"
  using safe_details_loop_reads_back [of "[]" "err_details e"]
  by (intro reads_back_sort_keys)
    (auto simp: reads_back_vdict map_mcp_error_def safe_details_def float_details_def wf_dict_def)

text \<open>
  What a client makes of a structured error: a tool error with the JSON text of the payload (the
  error's code, category, message and safe details). Unless one of the details is a float, whose
  text is a parameter here, it is one line, and a JSON reader gets exactly the payload from it.
\<close>

definition client_reads :: "mcp_error \<Rightarrow> 'b result \<Rightarrow> bool" where
  "client_reads e r \<longleftrightarrow>
     (case r of
        Inl (ToolError t) \<Rightarrow>
          json_dumps True '','' '':'' (sort_keys (vdict (map_mcp_error e))) = Some t \<and>
          (float_details e \<or>
           CHR 0x0A \<notin> set t \<and> json_read t = Some (sort_keys (vdict (map_mcp_error e))))
      | _ \<Rightarrow> False)"

lemma tool_error_reads_back: "client_reads e (Inl (raise_as_mcp_tool_error e))"
proof -
  obtain t where t: "json_dumps True '','' '':'' (sort_keys (vdict (map_mcp_error e))) = Some t"
    using json_dumps_total jsonable_sort_keys jsonable_map_mcp_error by blast
  have "CHR 0x0A \<notin> set t \<and> json_read t = Some (sort_keys (vdict (map_mcp_error e)))" if "\<not> float_details e"
    using lf_not_in_json_dumps [OF _ _ floats_clean_reads_back [OF payload_reads_back [OF that]] t]
      json_read_dumps [OF _ payload_reads_back [OF that] t, of "[]"]
    by (simp add: separators_def)
  with t show ?thesis
    by (auto simp: client_reads_def raise_as_mcp_tool_error_def format_tool_error_message_def)
qed

lemma validate_adapter_timeout_iff:
  "validate_adapter_timeout s = Inr t \<longleftrightarrow> t = s \<and> 1 \<le> s \<and> s \<le> 120"
  by (auto simp: validate_adapter_timeout_def MIN_ADAPTER_TIMEOUT_SECONDS_def MAX_ADAPTER_TIMEOUT_SECONDS_def)

end
