(* ===== verification/Redaction.thy ===== *)
theory Redaction
  imports Mcp_Errors
begin

text \<open>
  Defensive redaction of structured log fields, the configuration of the logger and the records
  it is given (\<open>audit/logging_setup.py\<close>), and the request correlation fields
  (\<open>audit/context.py\<close>). The log is the list of the records made.
\<close>

section \<open>redact\<close>

definition REDACTED :: string where
  "REDACTED = ''***''"

definition SENSITIVE_KEY_PARTS :: "string list" where
  "SENSITIVE_KEY_PARTS = [''token'', ''secret'', ''password'', ''passwd'', ''authorization'',
     ''api_key'', ''apikey'', ''credential'']"

definition is_sensitive_key :: "pyval \<Rightarrow> bool" where
  "is_sensitive_key key \<longleftrightarrow>
     (let normalized = py_replace_char CHR ''-'' CHR ''_'' (py_lower (py_str key))
      in list_ex (\<lambda>part. py_in part normalized) SENSITIVE_KEY_PARTS)"

fun redact :: "pyval \<Rightarrow> pyval" where
  "redact (VDict d) =
     VDict (map (\<lambda>(key, item). (key, if is_sensitive_key key then VStr REDACTED else redact item)) d)"
| "redact (VList xs) = VList (map redact xs)"
| "redact (VTuple xs) = VList (map redact xs)"
| "redact v = v"

text \<open>
  What redaction is for: below no sensitive key, at any depth, is there anything but the
  placeholder.
\<close>

fun secret_free :: "pyval \<Rightarrow> bool" where
  "secret_free (VDict d) =
     list_all (\<lambda>(key, item). (is_sensitive_key key \<longrightarrow> item = VStr REDACTED) \<and> secret_free item) d"
| "secret_free (VList xs) = list_all secret_free xs"
| "secret_free (VTuple xs) = list_all secret_free xs"
| "secret_free v = True"

lemma redact_secret_free [simp]: "secret_free (redact v)"
proof (induction v rule: redact.induct)
  case (1 d)
  then show ?case by (auto simp: list_all_iff)
qed (auto simp: list_all_iff)

text \<open>Values that hold no tuple are what \<open>redact\<close> returns; there it changes nothing twice.\<close>

fun tuple_free :: "pyval \<Rightarrow> bool" where
  "tuple_free (VDict d) = list_all (\<lambda>(_, item). tuple_free item) d"
| "tuple_free (VList xs) = list_all tuple_free xs"
| "tuple_free (VTuple _) = False"
| "tuple_free _ = True"

lemma redact_tuple_free [simp]: "tuple_free (redact v)"
proof (induction v rule: redact.induct)
  case (1 d)
  then show ?case by (auto simp: list_all_iff)
qed (auto simp: list_all_iff)

lemma redact_id: "secret_free v \<Longrightarrow> tuple_free v \<Longrightarrow> redact v = v"
proof (induction v rule: redact.induct)
  case (1 d)
  then show ?case by (fastforce simp: list_all_iff intro!: map_idI)
next
  case (2 xs)
  then show ?case by (auto simp: list_all_iff intro!: map_idI)
qed auto

text \<open>Redaction leaves no secret behind: under a sensitive key, at any depth, only the
  placeholder remains; redacting again changes nothing.\<close>

theorem redact_complete: "secret_free (redact v) \<and> redact (redact v) = redact v"
  by (simp add: redact_id)

text \<open>Redaction of a keyword-style dictionary stays one.\<close>

definition redact_dict :: "sdict \<Rightarrow> sdict" where
  "redact_dict d =
     map (\<lambda>(k, v). (k, if is_sensitive_key (VStr k) then VStr REDACTED else redact v)) d"

lemma redact_vdict: "redact (vdict d) = vdict (redact_dict d)"
  by (induction d) (auto simp: vdict_def redact_dict_def)

lemma redact_dict_keys [simp]: "dict_keys (redact_dict d) = dict_keys d"
  by (induction d) (auto simp: redact_dict_def)

section \<open>Correlation and logging\<close>

text \<open>\<open>correlated_fields\<close>: explicit fields win over the ambient request id.\<close>

definition correlated_fields :: "string option \<Rightarrow> sdict \<Rightarrow> sdict" where
  "correlated_fields rid flds =
     (case rid of None \<Rightarrow> flds
      | Some r \<Rightarrow> if dict_get flds ''request_id'' = None
                  then dict_set ''request_id'' (VStr r) flds else flds)"

record log_record =
  lr_level :: int
  lr_message :: string
  lr_request_id :: "string option"
  lr_fields :: pyval

definition log_with_context ::
  "int \<Rightarrow> string \<Rightarrow> string option \<Rightarrow> pyval \<Rightarrow> log_record list \<Rightarrow> log_record list" where
  "log_with_context level message rid flds log =
     log @ [\<lparr>lr_level = level, lr_message = message, lr_request_id = rid,
             lr_fields = redact (if py_bool flds then flds else VDict [])\<rparr>]"

record logger =
  lg_level :: string
  lg_stream_handlers :: nat

fun level_number :: "string \<Rightarrow> int option" where
  "level_number l = map_of
     [(''CRITICAL'', 50), (''FATAL'', 50), (''ERROR'', 40), (''WARN'', 30), (''WARNING'', 30), (''INFO'', 20),
      (''DEBUG'', 10), (''NOTSET'', 0)] l"

definition configure_logging :: "string \<Rightarrow> logger \<Rightarrow> logger result" where
  "configure_logging level lg =
     (if level_number level = None then Inl (PyError ''ValueError'' (''Unknown level: '' @ str_repr level))
      else Inr \<lparr>lg_level = level, lg_stream_handlers = (if lg_stream_handlers lg = 0 then 1 else lg_stream_handlers lg)\<rparr>)"

lemma configure_info: "\<exists>lg'. configure_logging ''INFO'' lg = Inr lg' \<and> lg_level lg' = ''INFO''"
  by (simp add: configure_logging_def)

text \<open>\<open>JsonFormatter.format\<close>: the dictionary that is dumped, for a logger called \<open>name\<close>.\<close>

definition format_record :: "string \<Rightarrow> string \<Rightarrow> log_record \<Rightarrow> pyval" where
  "format_record levelname name r =
     redact (vdict (
       [(''level'', VStr levelname), (''logger'', VStr name), (''message'', VStr (lr_message r))]
       @ (case lr_request_id r of None \<Rightarrow> [] | Some i \<Rightarrow> [(''request_id'', VStr i)])
       @ (if py_bool (lr_fields r) then [(''fields'', redact (lr_fields r))] else [])))"

text \<open>\<open>d.update(e)\<close>\<close>

definition dict_update :: "('k \<times> 'v) list \<Rightarrow> ('k \<times> 'v) list \<Rightarrow> ('k \<times> 'v) list" where
  "dict_update d e = fold (\<lambda>(k, v). dict_set k v) e d"

lemma log_with_context_secret_free:
  "\<forall>r \<in> set log. secret_free (lr_fields r) \<Longrightarrow>
   \<forall>r \<in> set (log_with_context lvl m rid f log). secret_free (lr_fields r)"
  by (auto simp: log_with_context_def)

end
