(* ===== verification/Governance.thy ===== *)
theory Governance
  imports Redaction
begin

text \<open>
  The governance domain model: decisions, risk levels, tool identities and request contexts
  (\<open>governance/types.py\<close>), the risk catalog (\<open>governance/catalog.py\<close>), the policies
  (\<open>governance/policy.py\<close>), and the interfaces the enforcement gate relies on: a keyed
  registry, a policy, and a policy that is conservative.
\<close>

section \<open>Domain types\<close>

datatype decision = ALLOW | DENY | APPROVAL_REQUIRED

fun decision_value :: "decision \<Rightarrow> string" where
  "decision_value ALLOW = ''allow''"
| "decision_value DENY = ''deny''"
| "decision_value APPROVAL_REQUIRED = ''approval_required''"

datatype risk_level = READ_ONLY | LOW_RISK | MUTATION | HIGH_RISK

fun risk_value :: "risk_level \<Rightarrow> string" where
  "risk_value READ_ONLY = ''read_only''"
| "risk_value LOW_RISK = ''low_risk''"
| "risk_value MUTATION = ''mutation''"
| "risk_value HIGH_RISK = ''high_risk''"

text \<open>Risk levels and decisions are ordered by severity, as their documentation lists them.\<close>

fun risk_rank :: "risk_level \<Rightarrow> nat" where
  "risk_rank READ_ONLY = 0" | "risk_rank LOW_RISK = 1" | "risk_rank MUTATION = 2" | "risk_rank HIGH_RISK = 3"

fun decision_rank :: "decision \<Rightarrow> nat" where
  "decision_rank ALLOW = 0" | "decision_rank APPROVAL_REQUIRED = 1" | "decision_rank DENY = 2"

lemma risk_rank_inj: "risk_rank a = risk_rank b \<Longrightarrow> a = b"
  by (cases a; cases b) simp_all

lemma decision_rank_inj: "decision_rank a = decision_rank b \<Longrightarrow> a = b"
  by (cases a; cases b) simp_all

instantiation risk_level :: linorder
begin

definition less_eq_risk_level :: "risk_level \<Rightarrow> risk_level \<Rightarrow> bool" where
  "less_eq_risk_level a b \<longleftrightarrow> risk_rank a \<le> risk_rank b"

definition less_risk_level :: "risk_level \<Rightarrow> risk_level \<Rightarrow> bool" where
  "less_risk_level a b \<longleftrightarrow> risk_rank a < risk_rank b"

instance
  by standard (auto simp: less_eq_risk_level_def less_risk_level_def intro: risk_rank_inj)

end

instantiation decision :: linorder
begin

definition less_eq_decision :: "decision \<Rightarrow> decision \<Rightarrow> bool" where
  "less_eq_decision a b \<longleftrightarrow> decision_rank a \<le> decision_rank b"

definition less_decision :: "decision \<Rightarrow> decision \<Rightarrow> bool" where
  "less_decision a b \<longleftrightarrow> decision_rank a < decision_rank b"

instance
  by standard (auto simp: less_eq_decision_def less_decision_def intro: decision_rank_inj)

end

record tool_identity =
  ti_name :: string
  ti_risk :: risk_level
  ti_description :: string
  ti_known :: bool
  ti_metadata :: sdict

text \<open>\<open>ToolIdentity.__post_init__\<close>\<close>

definition make_tool_identity :: "string \<Rightarrow> risk_level \<Rightarrow> string \<Rightarrow> bool \<Rightarrow> tool_identity result" where
  "make_tool_identity name risk description known =
     (if name = [] \<or> blank name then Inl (PyError ''ValueError'' ''ToolIdentity.name must not be empty'')
      else Inr \<lparr>ti_name = name, ti_risk = risk, ti_description = description, ti_known = known, ti_metadata = []\<rparr>)"

record governance_context =
  gc_client_id :: "string option"
  gc_agent_id :: "string option"
  gc_project_id :: "string option"
  gc_workspace_id :: "string option"
  gc_task_id :: "string option"
  gc_session_id :: "string option"
  gc_request_id :: "string option"
  gc_correlation_id :: "string option"
  gc_extra :: sdict

definition empty_context :: governance_context where
  "empty_context = \<lparr>gc_client_id = None, gc_agent_id = None, gc_project_id = None, gc_workspace_id = None,
     gc_task_id = None, gc_session_id = None, gc_request_id = None, gc_correlation_id = None, gc_extra = []\<rparr>"

definition opt_entry :: "string \<Rightarrow> string option \<Rightarrow> sdict" where
  "opt_entry k v = (case v of None \<Rightarrow> [] | Some s \<Rightarrow> [(k, VStr s)])"

definition context_as_dict :: "governance_context \<Rightarrow> sdict" where
  "context_as_dict c =
     opt_entry ''client_id'' (gc_client_id c) @ opt_entry ''agent_id'' (gc_agent_id c)
     @ opt_entry ''project_id'' (gc_project_id c) @ opt_entry ''workspace_id'' (gc_workspace_id c)
     @ opt_entry ''task_id'' (gc_task_id c) @ opt_entry ''session_id'' (gc_session_id c)
     @ opt_entry ''request_id'' (gc_request_id c) @ opt_entry ''correlation_id'' (gc_correlation_id c)
     @ (if gc_extra c \<noteq> [] then [(''extra'', vdict (gc_extra c))] else [])"

section \<open>Risk catalog\<close>

type_synonym catalog = "(string \<times> risk_level) list"

definition catalog_register :: "string \<Rightarrow> risk_level \<Rightarrow> catalog \<Rightarrow> catalog result" where
  "catalog_register name risk c =
     (if name = [] \<or> blank name then Inl (PyError ''ValueError'' ''tool name must not be empty'')
      else Inr (dict_set name risk c))"

fun catalog_register_many :: "(string \<times> risk_level) list \<Rightarrow> catalog \<Rightarrow> catalog result" where
  "catalog_register_many [] c = Inr c"
| "catalog_register_many ((name, risk) # entries) c =
     res_bind (catalog_register name risk c) (catalog_register_many entries)"

definition catalog_resolve :: "catalog \<Rightarrow> string \<Rightarrow> tool_identity result" where
  "catalog_resolve c name =
     (case dict_get c name of
        None \<Rightarrow> make_tool_identity name HIGH_RISK [] False
      | Some risk \<Rightarrow> make_tool_identity name risk [] True)"

definition catalog_known_names :: "catalog \<Rightarrow> string set" where
  "catalog_known_names c = set (dict_keys c)"

definition catalog_contains :: "catalog \<Rightarrow> string \<Rightarrow> bool" where
  "catalog_contains c name \<longleftrightarrow> name \<in> set (dict_keys c)"

definition catalog_len :: "catalog \<Rightarrow> nat" where
  "catalog_len c = length c"

section \<open>Policies\<close>

text \<open>
  What a policy object returns: a decision, or something that is not one (the gate checks).
  A policy may also raise.
\<close>

datatype policy_answer = Decided decision | NotADecision pyval

type_synonym policy = "tool_identity \<Rightarrow> governance_context option \<Rightarrow> policy_answer result"

definition default_conservative_evaluate :: policy where
  "default_conservative_evaluate tool context =
     (if \<not> ti_known tool then Inr (Decided DENY)
      else if ti_risk tool \<in> {READ_ONLY, LOW_RISK} then Inr (Decided ALLOW)
      else if ti_risk tool = MUTATION then
        (case context of
           Some c \<Rightarrow> if dict_get (gc_extra c) ''approval_status'' = Some (VStr ''granted'')
                     then Inr (Decided ALLOW) else Inr (Decided APPROVAL_REQUIRED)
         | None \<Rightarrow> Inr (Decided APPROVAL_REQUIRED))
      else Inr (Decided DENY))"

text \<open>\<open>StaticDecisionPolicy\<close>: names are checked and stripped at construction.\<close>

fun static_policy_normalize :: "(string \<times> decision) list \<Rightarrow> (string \<times> decision) list \<Rightarrow> (string \<times> decision) list result" where
  "static_policy_normalize out [] = Inr out"
| "static_policy_normalize out ((name, d) # rest) =
     (if blank name then Inl (Mcp (validation_error ''Policy tool name must be a non-empty string'' [(''name'', VStr name)]))
      else static_policy_normalize (dict_set (py_strip name) d out) rest)"

definition static_policy_evaluate :: "(string \<times> decision) list \<Rightarrow> decision \<Rightarrow> policy" where
  "static_policy_evaluate decisions fallback tool context =
     Inr (Decided (case dict_get decisions (ti_name tool) of Some d \<Rightarrow> d | None \<Rightarrow> fallback))"

section \<open>Interfaces\<close>

text \<open>A registry of named entries: what a lookup sees after a registration.\<close>

fun put_all :: "('k \<Rightarrow> 'v \<Rightarrow> 'm \<Rightarrow> 'm result) \<Rightarrow> ('k \<times> 'v) list \<Rightarrow> 'm \<Rightarrow> 'm result" where
  "put_all put [] m = Inr m"
| "put_all put ((k, v) # kvs) m = res_bind (put k v m) (put_all put kvs)"

locale keyed_registry =
  fixes put :: "'k \<Rightarrow> 'v \<Rightarrow> 'm \<Rightarrow> 'm result"
    and look :: "'m \<Rightarrow> 'k \<Rightarrow> 'v option"
    and ok_key :: "'k \<Rightarrow> bool"
  assumes put_look: "put k v m = Inr m' \<Longrightarrow> look m' = (look m)(k := Some v)"
    and put_ok_key: "put k v m = Inr m' \<Longrightarrow> ok_key k"
begin

lemma put_all_look:
  "put_all put kvs m = Inr m' \<Longrightarrow> look m' = look m ++ map_of (rev kvs)"
proof (induction kvs arbitrary: m)
  case Nil
  then show ?case by simp
next
  case (Cons p kvs)
  obtain k v where p: "p = (k, v)" by (cases p)
  with Cons.prems obtain m1 where m1: "put k v m = Inr m1" and rest: "put_all put kvs m1 = Inr m'"
    by (auto simp: res_bind_eq_Inr)
  from Cons.IH [OF rest] put_look [OF m1] show ?case
    by (auto simp: p map_add_def fun_eq_iff split: option.splits)
qed

lemma put_all_ok_keys: "put_all put kvs m = Inr m' \<Longrightarrow> \<forall>k \<in> fst ` set kvs. ok_key k"
  by (induction kvs arbitrary: m) (fastforce simp: res_bind_eq_Inr dest: put_ok_key)+

end

text \<open>
  A policy that is conservative: it allows nothing unknown, nothing of high risk, and a
  mutation only in a context that carries a granted approval.
\<close>

definition approval_granted :: "governance_context option \<Rightarrow> bool" where
  "approval_granted context \<longleftrightarrow>
     (case context of None \<Rightarrow> False
      | Some c \<Rightarrow> dict_get (gc_extra c) ''approval_status'' = Some (VStr ''granted''))"

locale conservative_policy =
  fixes evaluate :: policy
  assumes unknown_not_allowed: "\<not> ti_known tool \<Longrightarrow> evaluate tool context \<noteq> Inr (Decided ALLOW)"
    and high_risk_not_allowed: "ti_risk tool = HIGH_RISK \<Longrightarrow> evaluate tool context \<noteq> Inr (Decided ALLOW)"
    and mutation_needs_approval:
      "ti_risk tool = MUTATION \<Longrightarrow> \<not> approval_granted context \<Longrightarrow> evaluate tool context \<noteq> Inr (Decided ALLOW)"
begin

lemma allow_cases:
  assumes "evaluate tool context = Inr (Decided ALLOW)"
  shows "ti_known tool \<and> (ti_risk tool \<le> LOW_RISK \<or> ti_risk tool = MUTATION \<and> approval_granted context)"
proof -
  from assms have "ti_known tool" and "ti_risk tool \<noteq> HIGH_RISK"
    and "ti_risk tool = MUTATION \<Longrightarrow> approval_granted context"
    using unknown_not_allowed high_risk_not_allowed mutation_needs_approval by blast+
  then show ?thesis
    by (cases "ti_risk tool") (auto simp: less_eq_risk_level_def)
qed

end

section \<open>The catalog is a keyed registry\<close>

lemma catalog_register_eq: "catalog_register k v c = Inr c' \<longleftrightarrow> \<not> blank k \<and> c' = dict_set k v c"
  by (auto simp: catalog_register_def)

interpretation cat: keyed_registry catalog_register dict_get "\<lambda>k. \<not> blank k"
  by unfold_locales (auto simp: catalog_register_eq fun_eq_iff)

lemma catalog_register_many_put_all: "catalog_register_many es c = put_all catalog_register es c"
  by (induction es c rule: catalog_register_many.induct) (simp_all add: res_bind_def split: sum.split)

lemma make_tool_identity_eq:
  "make_tool_identity n r d k = Inr t \<longleftrightarrow>
     \<not> blank n \<and> t = \<lparr>ti_name = n, ti_risk = r, ti_description = d, ti_known = k, ti_metadata = []\<rparr>"
  by (auto simp: make_tool_identity_def)

lemma catalog_resolve_eq:
  "catalog_resolve c n = Inr t \<longleftrightarrow> \<not> blank n \<and>
     t = \<lparr>ti_name = n, ti_risk = (case dict_get c n of None \<Rightarrow> HIGH_RISK | Some r \<Rightarrow> r),
          ti_description = [], ti_known = (dict_get c n \<noteq> None), ti_metadata = []\<rparr>"
  by (auto simp: catalog_resolve_def make_tool_identity_eq split: option.splits)

lemma catalog_resolve_facts:
  assumes "catalog_resolve c n = Inr t"
  shows "ti_name t = n" and "ti_known t \<longleftrightarrow> dict_get c n \<noteq> None"
    and "ti_known t \<Longrightarrow> dict_get c n = Some (ti_risk t)" and "\<not> ti_known t \<Longrightarrow> ti_risk t = HIGH_RISK"
  using assms by (auto simp: catalog_resolve_eq)

section \<open>The default policy is conservative\<close>

interpretation dcp: conservative_policy default_conservative_evaluate
  by unfold_locales
    (auto simp: default_conservative_evaluate_def approval_granted_def split: option.splits)

text \<open>After any sequence of registrations the catalog resolves a name to the risk of its
  last registration, as known, and every other name to an unknown tool of high risk.\<close>

theorem catalog_resolves_last_registration:
  assumes "catalog_register_many entries [] = Inr c" and "\<not> blank name"
  shows "\<exists>t. catalog_resolve c name = Inr t \<and>
    (case map_of (rev entries) name of
       Some r \<Rightarrow> ti_known t \<and> ti_risk t = r
     | None \<Rightarrow> \<not> ti_known t \<and> ti_risk t = HIGH_RISK)"
proof -
  have "dict_get c = map_of (rev entries)"
    using cat.put_all_look [of entries "[]" c] assms(1) by (simp add: catalog_register_many_put_all)
  with assms(2) show ?thesis
    by (auto simp: catalog_resolve_eq split: option.splits)
qed

theorem catalog_resolves_last_registration_witness:
  "\<exists>t. catalog_resolve [(''a'', MUTATION)] ''a'' = Inr t \<and> ti_known t \<and> ti_risk t = MUTATION"
proof -
  have r: "catalog_register_many [(''a'', READ_ONLY), (''a'', MUTATION)] [] = Inr [(''a'', MUTATION)]"
    and nb: "\<not> blank ''a''"
    by code_simp+
  show ?thesis
    using catalog_resolves_last_registration [OF r nb] by simp
qed

text \<open>The default policy always returns a decision, and a riskier tool in the same context
  never gets a more permissive one.\<close>

lemma default_policy_monotone:
  "\<exists>d1 d2. default_conservative_evaluate tool context = Inr (Decided d1) \<and>
     default_conservative_evaluate (tool\<lparr>ti_risk := r\<rparr>) context = Inr (Decided d2) \<and>
     (ti_risk tool \<le> r \<longrightarrow> d1 \<le> d2)"
  by (cases "ti_risk tool"; cases r)
    (auto simp: default_conservative_evaluate_def less_eq_risk_level_def less_eq_decision_def
       split: option.splits)

lemma default_policy_decides: "\<exists>d. default_conservative_evaluate tool context = Inr (Decided d)"
  by (auto simp: default_conservative_evaluate_def split: option.splits)

end
