(* ===== verification/Approval.thy ===== *)
theory Approval
  imports Governance
begin

text \<open>
  The single-use approval store (\<open>approval/store.py\<close>, \<open>approval/types.py\<close>). Every method
  body runs under the store's lock, so a call is one atomic step and the threads of the
  server interleave whole calls. Instants are microseconds of UTC; the token and the
  approval id that \<open>secrets\<close> generates are inputs.
\<close>

section \<open>Types\<close>

definition APPROVAL_TOKEN_KWARG :: string where
  "APPROVAL_TOKEN_KWARG = ''_yasin_approval_token''"

datatype approval_status = GRANTED | MISSING | INVALID | EXPIRED | REPLAYED | MISMATCH

fun approval_status_value :: "approval_status \<Rightarrow> string" where
  "approval_status_value GRANTED = ''granted''"
| "approval_status_value MISSING = ''missing''"
| "approval_status_value INVALID = ''invalid''"
| "approval_status_value EXPIRED = ''expired''"
| "approval_status_value REPLAYED = ''replayed''"
| "approval_status_value MISMATCH = ''mismatch''"

record approval_grant =
  ag_approval_id :: string
  ag_tool_name :: string
  ag_subject_id :: "string option"
  ag_request_id :: "string option"
  ag_project_id :: "string option"
  ag_expires_at :: int
  ag_single_use :: bool

definition is_expired :: "approval_grant \<Rightarrow> int \<Rightarrow> bool" where
  "is_expired g now \<longleftrightarrow> ag_expires_at g \<le> now"

text \<open>\<open>isofmt\<close> prints an instant as \<open>datetime.isoformat\<close> does.\<close>

definition grant_as_audit_dict :: "(int \<Rightarrow> string) \<Rightarrow> approval_grant \<Rightarrow> sdict" where
  "grant_as_audit_dict isofmt g =
     [(''approval_id'', VStr (ag_approval_id g)), (''tool_name'', VStr (ag_tool_name g)),
      (''subject_id'', opt_str (ag_subject_id g)), (''request_id'', opt_str (ag_request_id g)),
      (''project_id'', opt_str (ag_project_id g)), (''expires_at'', VStr (isofmt (ag_expires_at g))),
      (''single_use'', VBool (ag_single_use g))]"

record approval_result =
  ar_status :: approval_status
  ar_grant :: "approval_grant option"
  ar_reason :: string

section \<open>The store\<close>

type_synonym approval_store = "(string \<times> approval_grant \<times> bool) list"

text \<open>The last microsecond of year 9999: adding beyond it raises \<open>OverflowError\<close>.\<close>

definition DATETIME_MAX :: int where
  "DATETIME_MAX = 253402300799999999"

definition issue ::
  "string \<Rightarrow> string option \<Rightarrow> string option \<Rightarrow> string option \<Rightarrow> int \<Rightarrow> bool \<Rightarrow>
   string \<Rightarrow> string \<Rightarrow> int \<Rightarrow> approval_store \<Rightarrow> approval_store \<times> string result" where
  "issue tool_name subject_id request_id project_id ttl_seconds single_use token approval_id now st =
     (if tool_name = [] \<or> blank tool_name then
        (st, Inl (Mcp (validation_error ''approval tool_name must be non-empty''
                         [(''reason_code'', VStr ''approval_tool_required'')])))
      else if ttl_seconds \<le> 0 then
        (st, Inl (Mcp (validation_error ''approval ttl_seconds must be positive''
                         [(''reason_code'', VStr ''approval_ttl_invalid'')])))
      else if DATETIME_MAX < now + 1000000 * ttl_seconds then
        (st, Inl (PyError ''OverflowError'' ''date value out of range''))
      else
        (dict_set token
           (\<lparr>ag_approval_id = approval_id, ag_tool_name = py_strip tool_name, ag_subject_id = subject_id,
             ag_request_id = request_id, ag_project_id = project_id,
             ag_expires_at = now + 1000000 * ttl_seconds, ag_single_use = single_use\<rparr>, False) st,
         Inr token))"

definition refuse :: "approval_status \<Rightarrow> approval_grant \<Rightarrow> string \<Rightarrow> approval_result" where
  "refuse status g reason = \<lparr>ar_status = status, ar_grant = Some g, ar_reason = reason\<rparr>"

definition validate_and_consume ::
  "string option \<Rightarrow> string \<Rightarrow> governance_context option \<Rightarrow> string option \<Rightarrow> int \<Rightarrow>
   approval_store \<Rightarrow> approval_store \<times> approval_result" where
  "validate_and_consume token tool_name context subject_id now st =
     (if token = None \<or> blank (the token) then
        (st, \<lparr>ar_status = MISSING, ar_grant = None, ar_reason = ''approval_missing''\<rparr>)
      else
        let presented = py_strip (the token) in
        case dict_get st presented of
          None \<Rightarrow> (st, \<lparr>ar_status = INVALID, ar_grant = None, ar_reason = ''approval_unknown''\<rparr>)
        | Some (g, consumed) \<Rightarrow>
            let expected_subject = (case subject_id of Some s \<Rightarrow> Some s
                  | None \<Rightarrow> (case context of None \<Rightarrow> None | Some c \<Rightarrow> gc_agent_id c));
                got_request = (case context of None \<Rightarrow> None | Some c \<Rightarrow> gc_request_id c);
                got_project = (case context of None \<Rightarrow> None | Some c \<Rightarrow> gc_project_id c) in
            if consumed \<and> ag_single_use g then (st, refuse REPLAYED g ''approval_replayed'')
            else if is_expired g now then (st, refuse EXPIRED g ''approval_expired'')
            else if ag_tool_name g \<noteq> tool_name then (st, refuse MISMATCH g ''approval_tool_mismatch'')
            else if ag_subject_id g \<noteq> None \<and> expected_subject \<noteq> None \<and> ag_subject_id g \<noteq> expected_subject
              then (st, refuse MISMATCH g ''approval_subject_mismatch'')
            else if ag_request_id g \<noteq> None \<and> got_request \<noteq> ag_request_id g
              then (st, refuse MISMATCH g ''approval_request_mismatch'')
            else if ag_project_id g \<noteq> None \<and> got_project \<noteq> ag_project_id g
              then (st, refuse MISMATCH g ''approval_project_mismatch'')
            else (if ag_single_use g then dict_set presented (g, True) st else st,
                  \<lparr>ar_status = GRANTED, ar_grant = Some g, ar_reason = ''approval_granted''\<rparr>))"

section \<open>The contract of an approval authority\<close>

text \<open>
  What the gate relies on: a check that is not granted changes nothing, a granted check
  presents a live (issued, unspent) grant for this tool that has not expired, and spends
  it when it is for a single use.
\<close>

locale approval_authority =
  fixes check :: "string option \<Rightarrow> string \<Rightarrow> governance_context option \<Rightarrow> string option \<Rightarrow> int \<Rightarrow>
      'm \<Rightarrow> 'm \<times> approval_result"
    and live :: "'m \<Rightarrow> string \<Rightarrow> approval_grant option"
  assumes refused_unchanged:
      "ar_status (snd (check tok tool ctx subj now m)) \<noteq> GRANTED \<Longrightarrow> fst (check tok tool ctx subj now m) = m"
    and granted_live:
      "ar_status (snd (check tok tool ctx subj now m)) = GRANTED \<Longrightarrow>
        \<exists>t g. tok = Some t \<and> live m (py_strip t) = Some g \<and> ag_tool_name g = tool \<and>
          now < ag_expires_at g \<and> ar_grant (snd (check tok tool ctx subj now m)) = Some g"
    and granted_spends:
      "ar_status (snd (check (Some t) tool ctx subj now m)) = GRANTED \<Longrightarrow> live m (py_strip t) = Some g \<Longrightarrow>
        live (fst (check (Some t) tool ctx subj now m)) =
          (if ag_single_use g then (live m)(py_strip t := None) else live m)"
begin

text \<open>Checking never makes a grant live: the live grants only shrink.\<close>

lemma check_live_le: "live (fst (check tok tool ctx subj now m)) \<subseteq>\<^sub>m live m"
proof (cases "ar_status (snd (check tok tool ctx subj now m)) = GRANTED")
  case True
  then obtain t g where tok: "tok = Some t" and l: "live m (py_strip t) = Some g"
    using granted_live by blast
  from granted_spends [OF True [unfolded tok] l] show ?thesis
    by (auto simp: tok map_le_def)
next
  case False
  then show ?thesis by (simp add: refused_unchanged)
qed

lemma dead_not_granted:
  "live m (py_strip t) = None \<Longrightarrow> ar_status (snd (check (Some t) tool ctx subj now m)) \<noteq> GRANTED"
  using granted_live [of "Some t" tool ctx subj now m] by auto

lemma spent_after_grant:
  assumes "ar_status (snd (check (Some t) tool ctx subj now m)) = GRANTED"
    and "\<And>g. live m (py_strip t) = Some g \<Longrightarrow> ag_single_use g"
  shows "live (fst (check (Some t) tool ctx subj now m)) (py_strip t) = None"
  using granted_live [OF assms(1)] granted_spends [OF assms(1)] assms(2) by auto

end

text \<open>
  When a check is granted, exactly: the token names a live grant for this tool, the grant
  has not expired, and each binding it carries agrees with the request. A subject binding
  is compared only when the request names a subject.
\<close>

definition bindings_agree :: "approval_grant \<Rightarrow> governance_context option \<Rightarrow> string option \<Rightarrow> bool" where
  "bindings_agree g context subject_id \<longleftrightarrow>
     (let subj = (case subject_id of Some s \<Rightarrow> Some s | None \<Rightarrow> Option.bind context gc_agent_id) in
      (ag_subject_id g = None \<or> subj = None \<or> subj = ag_subject_id g)
      \<and> (ag_request_id g = None \<or> Option.bind context gc_request_id = ag_request_id g)
      \<and> (ag_project_id g = None \<or> Option.bind context gc_project_id = ag_project_id g))"

definition live_grant :: "approval_store \<Rightarrow> string \<Rightarrow> approval_grant option" where
  "live_grant st t =
     (case dict_get st t of None \<Rightarrow> None
      | Some (g, consumed) \<Rightarrow> if consumed \<and> ag_single_use g then None else Some g)"

lemma validate_missing:
  "tok = None \<or> blank (the tok) \<Longrightarrow>
   validate_and_consume tok tool ctx subj now st =
     (st, \<lparr>ar_status = MISSING, ar_grant = None, ar_reason = ''approval_missing''\<rparr>)"
  by (simp add: validate_and_consume_def)

lemma validate_unknown:
  "\<not> blank t \<Longrightarrow> dict_get st (py_strip t) = None \<Longrightarrow>
   validate_and_consume (Some t) tool ctx subj now st =
     (st, \<lparr>ar_status = INVALID, ar_grant = None, ar_reason = ''approval_unknown''\<rparr>)"
  by (simp add: validate_and_consume_def)

lemma option_case_bind: "(case x of None \<Rightarrow> None | Some c \<Rightarrow> f c) = Option.bind x f"
  by (cases x) simp_all

lemma validate_entry:
  assumes "\<not> blank t" and "dict_get st (py_strip t) = Some (g, c)"
  shows "\<not> (c \<and> ag_single_use g) \<Longrightarrow> \<not> is_expired g now \<Longrightarrow> ag_tool_name g = tool \<Longrightarrow> bindings_agree g ctx subj \<Longrightarrow>
      validate_and_consume (Some t) tool ctx subj now st =
        (if ag_single_use g then dict_set (py_strip t) (g, True) st else st,
         \<lparr>ar_status = GRANTED, ar_grant = Some g, ar_reason = ''approval_granted''\<rparr>)"
    and "c \<and> ag_single_use g \<or> is_expired g now \<or> ag_tool_name g \<noteq> tool \<or> \<not> bindings_agree g ctx subj \<Longrightarrow>
      fst (validate_and_consume (Some t) tool ctx subj now st) = st \<and>
      ar_status (snd (validate_and_consume (Some t) tool ctx subj now st)) \<noteq> GRANTED"
proof -
  let ?subj = "case subj of Some s \<Rightarrow> Some s | None \<Rightarrow> Option.bind ctx gc_agent_id"
  have agree: "bindings_agree g ctx subj \<longleftrightarrow>
      \<not> (ag_subject_id g \<noteq> None \<and> ?subj \<noteq> None \<and> ag_subject_id g \<noteq> ?subj)
      \<and> \<not> (ag_request_id g \<noteq> None \<and> Option.bind ctx gc_request_id \<noteq> ag_request_id g)
      \<and> \<not> (ag_project_id g \<noteq> None \<and> Option.bind ctx gc_project_id \<noteq> ag_project_id g)"
    by (simp add: bindings_agree_def Let_def) metis
  note eq = validate_and_consume_def [of "Some t", simplified option_case_bind Let_def option.sel option.distinct simp_thms]
  show "validate_and_consume (Some t) tool ctx subj now st =
        (if ag_single_use g then dict_set (py_strip t) (g, True) st else st,
         \<lparr>ar_status = GRANTED, ar_grant = Some g, ar_reason = ''approval_granted''\<rparr>)"
    if "\<not> (c \<and> ag_single_use g)" "\<not> is_expired g now" "ag_tool_name g = tool" "bindings_agree g ctx subj"
    using that [unfolded agree] assms by (simp only: eq option.case prod.case simp_thms if_True if_False)
  show "fst (validate_and_consume (Some t) tool ctx subj now st) = st \<and>
      ar_status (snd (validate_and_consume (Some t) tool ctx subj now st)) \<noteq> GRANTED"
    if "c \<and> ag_single_use g \<or> is_expired g now \<or> ag_tool_name g \<noteq> tool \<or> \<not> bindings_agree g ctx subj"
    using that [unfolded agree] assms
    by (simp only: eq option.case prod.case simp_thms if_True if_False) (auto simp: refuse_def)
qed

text \<open>The two outcomes of a check: granted with its consumption, or refused without effect.\<close>

lemma validate_cases:
  obtains (granted) t g c where "tok = Some t" "\<not> blank t" "dict_get st (py_strip t) = Some (g, c)"
      "\<not> (c \<and> ag_single_use g)" "\<not> is_expired g now" "ag_tool_name g = tool" "bindings_agree g ctx subj"
      "validate_and_consume tok tool ctx subj now st =
        (if ag_single_use g then dict_set (py_strip t) (g, True) st else st,
         \<lparr>ar_status = GRANTED, ar_grant = Some g, ar_reason = ''approval_granted''\<rparr>)"
  | (refused) r where "validate_and_consume tok tool ctx subj now st = (st, r)" "ar_status r \<noteq> GRANTED"
      "\<And>t g c. tok = Some t \<Longrightarrow> \<not> blank t \<Longrightarrow> dict_get st (py_strip t) = Some (g, c) \<Longrightarrow>
         c \<and> ag_single_use g \<or> is_expired g now \<or> ag_tool_name g \<noteq> tool \<or> \<not> bindings_agree g ctx subj"
proof (cases "tok = None \<or> blank (the tok)")
  case True
  then show ?thesis by (intro refused) (auto simp: validate_missing)
next
  case False
  then obtain t where t: "tok = Some t" "\<not> blank t" by auto
  show ?thesis
  proof (cases "dict_get st (py_strip t)")
    case None
    with t show ?thesis by (intro refused) (auto simp: validate_unknown)
  next
    case (Some e)
    obtain g c where e: "e = (g, c)" by (cases e)
    with Some have entry: "dict_get st (py_strip t) = Some (g, c)" by simp
    show ?thesis
    proof (cases "c \<and> ag_single_use g \<or> is_expired g now \<or> ag_tool_name g \<noteq> tool \<or> \<not> bindings_agree g ctx subj")
      case True
      have "fst (validate_and_consume tok tool ctx subj now st) = st"
        and "ar_status (snd (validate_and_consume tok tool ctx subj now st)) \<noteq> GRANTED"
        using validate_entry(2) [OF t(2) entry True] t(1) by simp_all
      with True t(1) entry show ?thesis
        by (intro refused [of "snd (validate_and_consume tok tool ctx subj now st)"]) (auto simp: prod_eq_iff)
    next
      case False
      with validate_entry(1) [OF t(2) entry] t entry show ?thesis
        by (intro granted) auto
    qed
  qed
qed

lemma validate_refused_unchanged:
  "ar_status (snd (validate_and_consume tok tool ctx subj now st)) \<noteq> GRANTED \<Longrightarrow>
   fst (validate_and_consume tok tool ctx subj now st) = st"
  by (cases rule: validate_cases [of tok st now tool ctx subj]) simp_all

lemma validate_granted_entry:
  assumes "ar_status (snd (validate_and_consume tok tool ctx subj now st)) = GRANTED"
  obtains t g c where "tok = Some t" "\<not> blank t" "dict_get st (py_strip t) = Some (g, c)"
    "\<not> (c \<and> ag_single_use g)" "\<not> is_expired g now" "ag_tool_name g = tool"
    "ar_grant (snd (validate_and_consume tok tool ctx subj now st)) = Some g"
    "fst (validate_and_consume tok tool ctx subj now st) =
       (if ag_single_use g then dict_set (py_strip t) (g, True) st else st)"
proof (cases rule: validate_cases [of tok st now tool ctx subj])
  case (granted t g c)
  then show ?thesis by (intro that) simp_all
next
  case refused
  with assms show ?thesis by simp
qed

interpretation ims: approval_authority validate_and_consume live_grant
proof unfold_locales
  fix tok :: "string option" and tool ctx subj now and m :: approval_store
  show "ar_status (snd (validate_and_consume tok tool ctx subj now m)) \<noteq> GRANTED \<Longrightarrow>
      fst (validate_and_consume tok tool ctx subj now m) = m"
    by (rule validate_refused_unchanged)
  show "\<exists>t g. tok = Some t \<and> live_grant m (py_strip t) = Some g \<and> ag_tool_name g = tool \<and>
      now < ag_expires_at g \<and> ar_grant (snd (validate_and_consume tok tool ctx subj now m)) = Some g"
    if "ar_status (snd (validate_and_consume tok tool ctx subj now m)) = GRANTED"
    using that by (rule validate_granted_entry) (auto simp: live_grant_def is_expired_def)
next
  fix t tool ctx subj now g and m :: approval_store
  assume granted: "ar_status (snd (validate_and_consume (Some t) tool ctx subj now m)) = GRANTED"
    and live: "live_grant m (py_strip t) = Some g"
  from granted show "live_grant (fst (validate_and_consume (Some t) tool ctx subj now m)) =
      (if ag_single_use g then (live_grant m)(py_strip t := None) else live_grant m)"
    by (rule validate_granted_entry)
      (use live in \<open>auto simp: live_grant_def fun_eq_iff split: if_splits\<close>)
qed


section \<open>Runs of the store\<close>

text \<open>
  Any use of the store is a sequence of calls: issues and checks by any number of threads,
  in the order in which they take the lock.
\<close>

datatype store_op =
    Issue string "string option" "string option" "string option" int bool string string int
  | Check "string option" string "governance_context option" "string option" int

datatype store_outcome = Issued "string result" | Checked "string option" approval_result

fun store_step :: "approval_store \<Rightarrow> store_op \<Rightarrow> approval_store \<times> store_outcome" where
  "store_step st (Issue tool subj req proj ttl su tok aid now) =
     (let (st', r) = issue tool subj req proj ttl su tok aid now st in (st', Issued r))"
| "store_step st (Check tok tool ctx subj now) =
     (let (st', r) = validate_and_consume tok tool ctx subj now st in (st', Checked tok r))"

fun store_run :: "approval_store \<Rightarrow> store_op list \<Rightarrow> approval_store \<times> store_outcome list" where
  "store_run st [] = (st, [])"
| "store_run st (x # xs) =
     (let (st1, out) = store_step st x; (st2, outs) = store_run st1 xs in (st2, out # outs))"

definition grants_token :: "string \<Rightarrow> store_outcome \<Rightarrow> bool" where
  "grants_token t out \<longleftrightarrow>
     (case out of Checked (Some p) r \<Rightarrow> py_strip p = t \<and> ar_status r = GRANTED | _ \<Rightarrow> False)"

fun issues_token :: "string \<Rightarrow> store_op \<Rightarrow> bool" where
  "issues_token t (Issue _ _ _ _ _ _ tok _ _) = (tok = t)"
| "issues_token t (Check _ _ _ _ _) = False"

fun single_use_op :: "store_op \<Rightarrow> bool" where
  "single_use_op (Issue _ _ _ _ _ su _ _ _) = su"
| "single_use_op (Check _ _ _ _ _) = True"

definition grant_count :: "string \<Rightarrow> store_outcome list \<Rightarrow> nat" where
  "grant_count t outs = length (filter (grants_token t) outs)"

lemma grant_count_Nil [simp]: "grant_count t [] = 0"
  by (simp add: grant_count_def)

lemma grant_count_Cons: "grant_count t (x # xs) = (if grants_token t x then 1 else 0) + grant_count t xs"
  by (simp add: grant_count_def)

definition at_most_single_use :: "string \<Rightarrow> approval_store \<Rightarrow> bool" where
  "at_most_single_use t st \<longleftrightarrow> (\<forall>g. live_grant st t = Some g \<longrightarrow> ag_single_use g)"

lemma issue_live_other:
  "tok \<noteq> t \<Longrightarrow> live_grant (fst (issue tool subj req proj ttl su tok aid now st)) t = live_grant st t"
  by (simp add: issue_def live_grant_def)

lemma issue_live_token:
  assumes "live_grant st t = None" and "su"
  shows "at_most_single_use t (fst (issue tool subj req proj ttl su tok aid now st))"
  using assms by (auto simp: issue_def live_grant_def at_most_single_use_def split: option.splits if_splits)

lemma check_keeps_single_use:
  "at_most_single_use t st \<Longrightarrow> at_most_single_use t (fst (validate_and_consume tok tool ctx subj now st))"
  using ims.check_live_le [of tok tool ctx subj now st]
  by (auto simp: at_most_single_use_def map_le_def dom_def)

lemma check_keeps_dead:
  "live_grant st t = None \<Longrightarrow> live_grant (fst (validate_and_consume tok tool ctx subj now st)) t = None"
  using ims.check_live_le [of tok tool ctx subj now st] by (auto simp: map_le_def dom_def)

text \<open>A dead token that is not issued again is never granted.\<close>

lemma dead_never_granted:
  assumes "live_grant st t = None" and "\<forall>x \<in> set xs. \<not> issues_token t x"
  shows "grant_count t (snd (store_run st xs)) = 0"
  using assms
proof (induction xs arbitrary: st)
  case Nil
  then show ?case by simp
next
  case (Cons x xs)
  have dead: "live_grant (fst (store_step st x)) t = None"
    using Cons.prems by (cases x) (auto simp: check_keeps_dead issue_live_other split_beta)
  have "\<not> grants_token t (snd (store_step st x))"
    using Cons.prems(1) ims.dead_not_granted
    by (cases x) (auto simp: grants_token_def split_beta split: option.splits)
  with Cons.IH [OF dead] Cons.prems(2) show ?case
    by (simp add: split_beta grant_count_Cons)
qed

text \<open>A live single-use token that is not issued again is granted at most once.\<close>

lemma live_granted_once:
  assumes "at_most_single_use t st" and "\<forall>x \<in> set xs. \<not> issues_token t x"
  shows "grant_count t (snd (store_run st xs)) \<le> 1"
  using assms
proof (induction xs arbitrary: st)
  case Nil
  then show ?case by simp
next
  case (Cons x xs)
  show ?case
  proof (cases "grants_token t (snd (store_step st x))")
    case True
    then obtain p tool ctx subj now where x: "x = Check (Some p) tool ctx subj now" and p: "py_strip p = t"
      and g: "ar_status (snd (validate_and_consume (Some p) tool ctx subj now st)) = GRANTED"
      by (cases x) (auto simp: grants_token_def split_beta split: option.splits)
    have "live_grant (fst (store_step st x)) t = None"
      using ims.spent_after_grant [OF g] Cons.prems(1) by (simp add: x p split_beta at_most_single_use_def)
    then have "grant_count t (snd (store_run (fst (store_step st x)) xs)) = 0"
      using Cons.prems(2) by (intro dead_never_granted) simp_all
    with True show ?thesis by (simp add: split_beta grant_count_Cons)
  next
    case False
    have "at_most_single_use t (fst (store_step st x))"
    proof (cases x)
      case (Issue tool subj req proj ttl su tok aid now)
      with Cons.prems show ?thesis
        by (simp add: at_most_single_use_def issue_live_other split_beta)
    next
      case (Check tok tool ctx subj now)
      with Cons.prems(1) show ?thesis
        by (simp add: check_keeps_single_use split_beta)
    qed
    from Cons.IH [OF this] Cons.prems(2) False show ?thesis
      by (simp add: split_beta grant_count_Cons)
  qed
qed

text \<open>However the calls of concurrent requests interleave, a single-use approval token that
  is issued once is granted at most once.\<close>

theorem single_use_granted_at_most_once:
  assumes "length (filter (issues_token t) ops) \<le> 1"
    and "\<forall>x \<in> set ops. issues_token t x \<longrightarrow> single_use_op x"
  shows "grant_count t (snd (store_run [] ops)) \<le> 1"
proof -
  have "live_grant st t = None \<Longrightarrow> grant_count t (snd (store_run st ops)) \<le> 1" for st
    using assms
  proof (induction ops arbitrary: st)
    case Nil
    then show ?case by simp
  next
    case (Cons x xs)
    show ?case
    proof (cases "issues_token t x")
      case True
      then have "at_most_single_use t (fst (store_step st x))" and "\<not> grants_token t (snd (store_step st x))"
        and "\<forall>y \<in> set xs. \<not> issues_token t y"
        using Cons.prems issue_live_token
        by (cases x; auto simp: split_beta grants_token_def filter_empty_conv)+
      then show ?thesis
        using live_granted_once [of t "fst (store_step st x)" xs] by (simp add: split_beta grant_count_Cons)
    next
      case False
      have dead: "live_grant (fst (store_step st x)) t = None"
        using Cons.prems False by (cases x) (auto simp: check_keeps_dead issue_live_other split_beta)
      have "\<not> grants_token t (snd (store_step st x))"
        using Cons.prems(1) ims.dead_not_granted
        by (cases x) (auto simp: grants_token_def split_beta split: option.splits)
      with Cons.IH [OF dead] Cons.prems(2,3) False show ?thesis
        by (simp add: split_beta grant_count_Cons)
    qed
  qed
  then show ?thesis by (simp add: live_grant_def)
qed


definition demo_ops :: "store_op list" where
  "demo_ops = [Issue ''deploy'' None None None 60 True ''tk'' ''id'' 0,
     Check (Some '' tk'') ''deploy'' None None 5, Check (Some ''tk'') ''deploy'' None None 6]"

theorem single_use_granted_at_most_once_witness:
  "grant_count ''tk'' (snd (store_run [] demo_ops)) \<le> 1 \<and> demo_ops \<noteq> []"
proof -
  have once: "length (filter (issues_token ''tk'') demo_ops) \<le> 1"
    and su: "\<forall>x \<in> set demo_ops. issues_token ''tk'' x \<longrightarrow> single_use_op x"
    by (simp_all add: demo_ops_def)
  show ?thesis
    using single_use_granted_at_most_once [OF once su] by (simp add: demo_ops_def)
qed

lemma granted_char:
  "ar_status (snd (validate_and_consume (Some tok) tool ctx subj now st)) = GRANTED \<longleftrightarrow>
     \<not> blank tok \<and> (\<exists>g. live_grant st (py_strip tok) = Some g \<and> \<not> is_expired g now \<and>
        ag_tool_name g = tool \<and> bindings_agree g ctx subj)"
proof (cases rule: validate_cases [of "Some tok" st now tool ctx subj])
  case (granted t g c)
  then show ?thesis by (auto simp: live_grant_def)
next
  case (refused r)
  then show ?thesis by (auto simp: live_grant_def split: option.splits if_splits)
qed

text \<open>A check of a token is granted exactly when the token names a live grant for this very
  tool that has not expired and whose bindings agree with the request; otherwise the
  store is unchanged.\<close>

theorem granted_iff:
  "if \<not> blank tok \<and> (\<exists>g. live_grant st (py_strip tok) = Some g \<and> \<not> is_expired g now \<and>
        ag_tool_name g = tool \<and> bindings_agree g ctx subj)
   then ar_status (snd (validate_and_consume (Some tok) tool ctx subj now st)) = GRANTED
   else ar_status (snd (validate_and_consume (Some tok) tool ctx subj now st)) \<noteq> GRANTED \<and>
        fst (validate_and_consume (Some tok) tool ctx subj now st) = st"
  using granted_char [of tok tool ctx subj now st] ims.refused_unchanged [of "Some tok" tool ctx subj now st]
  by presburger

lemma issued_entry:
  assumes "\<not> blank tool" and "0 < ttl" and "now + 1000000 * ttl \<le> DATETIME_MAX"
  shows "issue tool subj req proj ttl su tok aid now st =
    (dict_set tok (\<lparr>ag_approval_id = aid, ag_tool_name = py_strip tool, ag_subject_id = subj,
       ag_request_id = req, ag_project_id = proj, ag_expires_at = now + 1000000 * ttl, ag_single_use = su\<rparr>, False) st,
     Inr tok)"
  using assms by (auto simp: issue_def)

text \<open>A token issued for a tool is granted for that tool at any instant before its
  deadline, to a request whose subject, request and project are the ones it was bound to.\<close>

theorem issue_then_check_granted:
  assumes "\<not> blank tool" and "0 < ttl" and "now + 1000000 * ttl \<le> DATETIME_MAX"
    and "\<not> blank tok" and "py_strip tok = tok" and "t < now + 1000000 * ttl"
    and "gc_agent_id c = subj" and "gc_request_id c = req" and "gc_project_id c = proj"
  shows "ar_status (snd (validate_and_consume (Some tok) (py_strip tool) (Some c) (gc_agent_id c) t
     (fst (issue tool subj req proj ttl su tok aid now st)))) = GRANTED"
proof -
  let ?g = "\<lparr>ag_approval_id = aid, ag_tool_name = py_strip tool, ag_subject_id = subj,
       ag_request_id = req, ag_project_id = proj, ag_expires_at = now + 1000000 * ttl, ag_single_use = su\<rparr>"
  have "live_grant (fst (issue tool subj req proj ttl su tok aid now st)) tok = Some ?g"
    using assms(1,2,3) by (simp add: issued_entry live_grant_def)
  moreover have "bindings_agree ?g (Some c) (gc_agent_id c)"
    using assms(7-9) by (auto simp: bindings_agree_def split: option.split)
  ultimately show ?thesis
    using assms(4-6) by (simp add: granted_char is_expired_def)
qed

definition demo_context :: governance_context where
  "demo_context = empty_context\<lparr>gc_agent_id := Some ''bob'', gc_project_id := Some ''p''\<rparr>"

theorem issue_then_check_granted_witness:
  "ar_status (snd (validate_and_consume (Some ''tk'') (py_strip '' deploy'') (Some demo_context)
     (gc_agent_id demo_context) 59000000
     (fst (issue '' deploy'' (Some ''bob'') None (Some ''p'') 60 True ''tk'' ''id'' 0 [])))) = GRANTED"
proof -
  have b: "\<not> blank '' deploy''" "\<not> blank ''tk''" "py_strip ''tk'' = ''tk''"
    by code_simp+
  show ?thesis
    by (rule issue_then_check_granted [OF b(1) _ _ b(2,3)])
      (simp_all add: DATETIME_MAX_def demo_context_def empty_context_def)
qed

end
