(* ===== verification/Approval_Ledger.thy ===== *)
theory Approval_Ledger
  imports Approval
begin

text \<open>
  What the approval store of \<open>approval/store.py\<close> promises, without the way it keeps its entries: a
  ledger of the grants that can still be used. Every use of the store, a sequence of issues and
  checks in the order in which they take the lock, gives exactly the verdicts of the ledger.
\<close>

section \<open>The ledger\<close>

type_synonym ledger = "string \<rightharpoonup> approval_grant"

datatype verdict = Not_issued | New_token string | Not_admitted | Admitted approval_grant

definition admitted_by :: "ledger \<Rightarrow> string option \<Rightarrow> string \<Rightarrow> governance_context option \<Rightarrow> string option \<Rightarrow> int \<Rightarrow> approval_grant option" where
  "admitted_by L tok tool ctx subj now =
     Option.bind tok (\<lambda>t. if blank t then None else
     Option.bind (L (py_strip t)) (\<lambda>g.
       if now < ag_expires_at g \<and> ag_tool_name g = tool \<and> bindings_agree g ctx subj then Some g else None))"

text \<open>An issue adds a grant; a check that admits takes away the grant it used if it was for a single use.\<close>

fun ledger_step :: "ledger \<Rightarrow> store_op \<Rightarrow> ledger \<times> verdict" where
  "ledger_step L (Issue tool subj req proj ttl su tok aid now) =
     (if blank tool \<or> ttl \<le> 0 \<or> DATETIME_MAX < now + 1000000 * ttl then (L, Not_issued)
      else (L(tok \<mapsto> \<lparr>ag_approval_id = aid, ag_tool_name = py_strip tool, ag_subject_id = subj, ag_request_id = req,
                       ag_project_id = proj, ag_expires_at = now + 1000000 * ttl, ag_single_use = su\<rparr>),
            New_token tok))"
| "ledger_step L (Check tok tool ctx subj now) =
     (case admitted_by L tok tool ctx subj now of
        None \<Rightarrow> (L, Not_admitted)
      | Some g \<Rightarrow> (if ag_single_use g then L(py_strip (the tok) := None) else L, Admitted g))"

fun ledger_run :: "ledger \<Rightarrow> store_op list \<Rightarrow> ledger \<times> verdict list" where
  "ledger_run L [] = (L, [])"
| "ledger_run L (x # xs) =
     (let (L1, v) = ledger_step L x; (L2, vs) = ledger_run L1 xs in (L2, v # vs))"

text \<open>The verdict in what an operation of the store returns.\<close>

fun verdict_of :: "store_outcome \<Rightarrow> verdict" where
  "verdict_of (Issued (Inl e)) = Not_issued"
| "verdict_of (Issued (Inr t)) = New_token t"
| "verdict_of (Checked tok r) =
     (case ar_grant r of Some g \<Rightarrow> if ar_status r = GRANTED then Admitted g else Not_admitted | None \<Rightarrow> Not_admitted)"

section \<open>The store refines the ledger\<close>

lemma live_after_issue: "live_grant (dict_set t (g, False) st) = (live_grant st)(t \<mapsto> g)"
  by (auto simp: live_grant_def fun_eq_iff)

lemma issue_refines:
  "ledger_step (live_grant st) (Issue tool subj req proj ttl su tok aid now) =
     (case store_step st (Issue tool subj req proj ttl su tok aid now) of (st', out) \<Rightarrow> (live_grant st', verdict_of out))"
  by (simp add: issue_def live_after_issue)

lemma check_refines:
  "ledger_step (live_grant st) (Check tok tool ctx subj now) =
     (case store_step st (Check tok tool ctx subj now) of (st', out) \<Rightarrow> (live_grant st', verdict_of out))"
proof (cases rule: validate_cases [of tok st now tool ctx subj])
  case (granted t g c)
  then have "admitted_by (live_grant st) tok tool ctx subj now = Some g"
    by (auto simp: admitted_by_def live_grant_def is_expired_def)
  moreover have "live_grant (dict_set (py_strip t) (g, True) st) = (live_grant st)(py_strip t := None)" if "ag_single_use g"
    using that by (auto simp: live_grant_def fun_eq_iff)
  ultimately show ?thesis using granted by simp
next
  case (refused r)
  have "admitted_by (live_grant st) (Some t) tool ctx subj now = None" if "tok = Some t" for t
    using granted_char [of t tool ctx subj now st] refused(1,2) that
    by (cases "live_grant st (py_strip t)") (auto simp: admitted_by_def is_expired_def)
  then have "admitted_by (live_grant st) tok tool ctx subj now = None"
    by (cases tok) (simp_all add: admitted_by_def)
  with refused show ?thesis by (simp split: option.split)
qed

lemma step_refines:
  "ledger_step (live_grant st) x = (case store_step st x of (st', out) \<Rightarrow> (live_grant st', verdict_of out))"
  by (cases x) (simp_all only: issue_refines check_refines)

text \<open>C27: The store is exactly a ledger of usable grants: for every sequence of issues and checks, from
  every content of the store, each operation returns the ledger's verdict (with the grant on
  which it admits), and afterwards the grants that can still be used are the ledger's.\<close>

theorem store_refines_ledger:
  "ledger_run (live_grant st) ops =
     (case store_run st ops of (st', outs) \<Rightarrow> (live_grant st', map verdict_of outs))"
proof (induction ops arbitrary: st)
  case (Cons x xs)
  obtain st1 out where step: "store_step st x = (st1, out)" by fastforce
  with Cons [of st1] step_refines [of st x] show ?case
    by (simp add: split_beta)
qed simp

end
