(* ===== verification/Py_Regex.thy ===== *)
theory Py_Regex
  imports Py_String
begin

text \<open>
  The fragment of Python's \<open>re\<close> in which the program's patterns are written, as a
  backtracking matcher: \<open>re_ends\<close> lists the states after a match in the order in which
  the engine tries them, so the first one is the match that Python reports. Repetition is
  greedy and over a character class, which is all the patterns need.
\<close>

datatype re =
    Eps
  | Class "char \<Rightarrow> bool"
  | Rep "char \<Rightarrow> bool" nat "nat option"
  | Seq re re
  | Alt re re
  | Bos
  | Eos
  | WordB

text \<open>A state is the character before the position, if any, and the text after it.\<close>

type_synonym rst = "char option \<times> string"

definition skip_chars :: "rst \<Rightarrow> nat \<Rightarrow> rst" where
  "skip_chars st i = ((if i = 0 then fst st else Some (snd st ! (i - 1))), drop i (snd st))"

definition run_length :: "(char \<Rightarrow> bool) \<Rightarrow> nat option \<Rightarrow> string \<Rightarrow> nat" where
  "run_length p hi s =
     (let k = length (takeWhile p s) in case hi of None \<Rightarrow> k | Some h \<Rightarrow> min k h)"

text \<open>\<open>\\w\<close> on the modelled characters: letters, digits and numerals of Latin-1, underscore.\<close>

definition word_char :: "char \<Rightarrow> bool" where
  "word_char c \<longleftrightarrow> ascii_alnum c \<or> c = CHR ''_'' \<or>
     (let n = code c in n = 170 \<or> n = 178 \<or> n = 179 \<or> n = 181 \<or> n = 185 \<or> n = 186 \<or>
        (188 \<le> n \<and> n \<le> 190) \<or> (192 \<le> n \<and> n \<noteq> 215 \<and> n \<noteq> 247))"

definition at_word_boundary :: "rst \<Rightarrow> bool" where
  "at_word_boundary st \<longleftrightarrow>
     (case fst st of None \<Rightarrow> False | Some c \<Rightarrow> word_char c) \<noteq>
     (case snd st of [] \<Rightarrow> False | c # _ \<Rightarrow> word_char c)"

fun re_ends :: "re \<Rightarrow> rst \<Rightarrow> rst list" where
  "re_ends Eps st = [st]"
| "re_ends (Class p) st =
     (case snd st of [] \<Rightarrow> [] | c # cs \<Rightarrow> if p c then [(Some c, cs)] else [])"
| "re_ends (Rep p lo hi) st =
     map (skip_chars st) (rev [lo..<Suc (run_length p hi (snd st))])"
| "re_ends (Seq a b) st = concat (map (re_ends b) (re_ends a st))"
| "re_ends (Alt a b) st = re_ends a st @ re_ends b st"
| "re_ends Bos st = (if fst st = None then [st] else [])"
| "re_ends Eos st = (if snd st = [] \<or> snd st = [CHR 0x0A] then [st] else [])"
| "re_ends WordB st = (if at_word_boundary st then [st] else [])"

text \<open>\<open>pattern.match(s)\<close> anchors at the start; \<open>pattern.search(s)\<close> tries each position.\<close>

definition re_match :: "re \<Rightarrow> string \<Rightarrow> bool" where
  "re_match r s \<longleftrightarrow> re_ends r (None, s) \<noteq> []"

fun re_search_from :: "re \<Rightarrow> char option \<Rightarrow> string \<Rightarrow> bool" where
  "re_search_from r pv [] = (re_ends r (pv, []) \<noteq> [])"
| "re_search_from r pv (c # cs) =
     (re_ends r (pv, c # cs) \<noteq> [] \<or> re_search_from r (Some c) cs)"

definition re_search :: "re \<Rightarrow> string \<Rightarrow> bool" where
  "re_search r s = re_search_from r None s"

text \<open>
  \<open>pattern.sub\<close> for a pattern made of a part whose text is kept (the groups named in the
  replacement) followed by a part that is replaced by a literal.
\<close>

definition re_first :: "re \<Rightarrow> re \<Rightarrow> rst \<Rightarrow> (rst \<times> rst) option" where
  "re_first keep gone st =
     (case concat (map (\<lambda>k. map (Pair k) (re_ends gone k)) (re_ends keep st)) of
        [] \<Rightarrow> None | m # _ \<Rightarrow> Some m)"

function re_sub_from :: "re \<Rightarrow> re \<Rightarrow> string \<Rightarrow> char option \<Rightarrow> string \<Rightarrow> string" where
  "re_sub_from keep gone repl pv s =
     (case s of
        [] \<Rightarrow> []
      | c # cs \<Rightarrow>
         (case re_first keep gone (pv, s) of
            Some (k, d) \<Rightarrow>
              if length (snd d) < length s
              then take (length s - length (snd k)) s @ repl @ re_sub_from keep gone repl (fst d) (snd d)
              else c # re_sub_from keep gone repl (Some c) cs
          | None \<Rightarrow> c # re_sub_from keep gone repl (Some c) cs))"
  by pat_completeness auto
termination
  by (relation "measure (\<lambda>(keep, gone, repl, pv, s). length s)") auto

declare re_sub_from.simps [simp del]

definition re_sub :: "re \<Rightarrow> re \<Rightarrow> string \<Rightarrow> string \<Rightarrow> string" where
  "re_sub keep gone repl s = re_sub_from keep gone repl None s"

section \<open>Building patterns\<close>

definition chars :: "string \<Rightarrow> char \<Rightarrow> bool" where
  "chars cs c \<longleftrightarrow> c \<in> set cs"

text \<open>A literal under \<open>re.IGNORECASE\<close>.\<close>

fun lit_ci :: "string \<Rightarrow> re" where
  "lit_ci [] = Eps"
| "lit_ci [c] = Class (\<lambda>x. lower_char x = lower_char c)"
| "lit_ci (c # cs) = Seq (Class (\<lambda>x. lower_char x = lower_char c)) (lit_ci cs)"

fun alts :: "re list \<Rightarrow> re" where
  "alts [] = Class (\<lambda>_. False)"
| "alts [r] = r"
| "alts (r # rs) = Alt r (alts rs)"

fun seqs :: "re list \<Rightarrow> re" where
  "seqs [] = Eps"
| "seqs [r] = r"
| "seqs (r # rs) = Seq r (seqs rs)"

definition star :: "(char \<Rightarrow> bool) \<Rightarrow> re" where
  "star p = Rep p 0 None"

definition plus :: "(char \<Rightarrow> bool) \<Rightarrow> re" where
  "plus p = Rep p 1 None"

definition opt :: "(char \<Rightarrow> bool) \<Rightarrow> re" where
  "opt p = Rep p 0 (Some 1)"

section \<open>Facts\<close>

lemma run_length_le: "run_length p hi s \<le> length s"
  using length_takeWhile_le [of p s]
  by (cases hi) (auto simp: run_length_def intro: min.coboundedI1)

lemma skip_chars_snd [simp]: "snd (skip_chars st i) = drop i (snd st)"
  by (simp add: skip_chars_def)

text \<open>A match ends at a suffix of the text it starts from: matching never invents text.\<close>

lemma re_ends_suffix: "st' \<in> set (re_ends r st) \<Longrightarrow> suffix (snd st') (snd st)"
proof (induction r arbitrary: st st')
  case (Class p)
  then show ?case by (cases "snd st") (auto split: if_splits intro: suffix_ConsI)
next
  case (Rep p lo hi)
  then show ?case by (auto simp: suffix_drop)
next
  case (Seq a b)
  from Seq.prems obtain mid where "mid \<in> set (re_ends a st)" and "st' \<in> set (re_ends b mid)"
    by auto
  then have "suffix (snd st') (snd mid)" and "suffix (snd mid) (snd st)"
    using Seq.IH by blast+
  then show ?case by (rule suffix_order.trans)
qed (auto split: if_splits)

lemma re_search_from_iff:
  "re_search_from r pv s \<longleftrightarrow>
     re_ends r (pv, s) \<noteq> [] \<or>
     (\<exists>u c v. s = u @ c # v \<and> re_ends r (Some c, v) \<noteq> [])"
proof (induction s arbitrary: pv)
  case Nil
  then show ?case by simp
next
  case (Cons a s)
  show ?case
    by (auto simp: Cons.IH Cons_eq_append_conv)
qed

lemma re_ends_Seq_ne: "re_ends (Seq a b) st \<noteq> [] \<longleftrightarrow> (\<exists>m \<in> set (re_ends a st). re_ends b m \<noteq> [])"
  by simp

lemma set_re_ends_Rep: "set (re_ends (Rep p lo hi) st) = skip_chars st ` {lo..run_length p hi (snd st)}"
  by (auto simp: less_Suc_eq_le)

lemma re_ends_seqs_Cons: "rs \<noteq> [] \<Longrightarrow> re_ends (seqs (r # rs)) st = concat (map (re_ends (seqs rs)) (re_ends r st))"
  by (cases rs) simp_all

lemma re_ends_lit_ci:
  "re_ends (lit_ci w) st \<noteq> [] \<longleftrightarrow> py_startswith (py_lower (snd st)) (py_lower w)"
proof (induction w arbitrary: st rule: lit_ci.induct)
  case 1
  then show ?case by (simp add: py_lower_def)
next
  case (2 c)
  then show ?case by (cases "snd st") (auto simp: py_lower_def)
next
  case (3 c d ds)
  show ?case
  proof (cases "snd st")
    case Nil
    then show ?thesis by (simp add: py_lower_def)
  next
    case (Cons x xs)
    then show ?thesis
      using "3.IH" [of "(Some x, xs)"] by (auto simp: py_lower_def)
  qed
qed

text \<open>Searching a case-insensitive literal is a substring test on lower-cased text.\<close>

lemma re_search_lit_ci: "w \<noteq> [] \<Longrightarrow> re_search (lit_ci w) s \<longleftrightarrow> py_in (py_lower w) (py_lower s)"
proof -
  assume w: "w \<noteq> []"
  have "re_search_from (lit_ci w) pv s \<longleftrightarrow> py_in (py_lower w) (py_lower s)" for pv
  proof (induction s arbitrary: pv)
    case Nil
    with w show ?case by (simp add: re_ends_lit_ci) (simp add: py_lower_def)
  next
    case (Cons c cs)
    then show ?case by (simp add: re_ends_lit_ci) (simp add: py_lower_def)
  qed
  then show ?thesis by (simp add: re_search_def)
qed

end
