(* ===== verification/Integration.thy ===== *)
theory Integration
  imports Governance Py_Regex
begin

text \<open>
  The typed integration context (\<open>contracts/integration_context.py\<close>): what a client may
  assert about itself, how it is validated, and how it becomes a governance context; the
  evidence bundle (\<open>contracts/evidence_context.py\<close>) and the agent contract
  (\<open>contracts/agent_client.py\<close>).
\<close>

section \<open>Identifiers\<close>

definition INTEGRATION_CONTRACT_VERSION :: string where
  "INTEGRATION_CONTRACT_VERSION = ''1.0.0''"

definition MAX_ID_LENGTH :: nat where
  "MAX_ID_LENGTH = 128"

definition MAX_EXTRA_KEYS :: nat where
  "MAX_EXTRA_KEYS = 16"

definition MAX_EXTRA_VALUE_LENGTH :: nat where
  "MAX_EXTRA_VALUE_LENGTH = 256"

definition id_char :: "char \<Rightarrow> bool" where
  "id_char c \<longleftrightarrow> ascii_alnum c \<or> chars ''._:@+/-'' c"

definition ID_RE :: re where
  "ID_RE = seqs [Bos, Class ascii_alnum, Rep id_char 0 (Some 127), Eos]"

datatype trust_classification = ASSERTED | TRUSTED | UNRESOLVED

fun trust_value :: "trust_classification \<Rightarrow> string" where
  "trust_value ASSERTED = ''asserted''"
| "trust_value TRUSTED = ''trusted''"
| "trust_value UNRESOLVED = ''unresolved''"

definition trust_of :: "string \<Rightarrow> trust_classification option" where
  "trust_of s =
     (if s = ''asserted'' then Some ASSERTED else if s = ''trusted'' then Some TRUSTED
      else if s = ''unresolved'' then Some UNRESOLVED else None)"

definition validate_optional_id :: "string \<Rightarrow> pyval \<Rightarrow> string option result" where
  "validate_optional_id name v =
     (case v of
        VNone \<Rightarrow> Inr None
      | VStr s \<Rightarrow>
          (let stripped = py_strip s in
           if stripped = [] then
             Inl (Mcp (validation_error (name @ '' must not be empty or whitespace'') [(''field'', VStr name)]))
           else if MAX_ID_LENGTH < length stripped then
             Inl (Mcp (validation_error (name @ '' exceeds maximum length 128'')
                         [(''field'', VStr name), (''length'', VInt (int (length stripped)))]))
           else if \<not> re_match ID_RE stripped then
             Inl (Mcp (validation_error (name @ '' contains invalid characters'') [(''field'', VStr name)]))
           else Inr (Some stripped))
      | _ \<Rightarrow> Inl (Mcp (validation_error (name @ '' must be a string or null'')
                        [(''field'', VStr name), (''type'', VStr (type_name v))])))"

section \<open>Extra metadata\<close>

definition SENSITIVE_EXTRA_PARTS :: "string list" where
  "SENSITIVE_EXTRA_PARTS = [''token'', ''secret'', ''password'', ''passwd'', ''authorization'',
     ''api_key'', ''apikey'', ''credential'']"

definition sensitive_extra_key :: "string \<Rightarrow> bool" where
  "sensitive_extra_key key \<longleftrightarrow> list_ex (\<lambda>part. py_in part (normal_key key)) SENSITIVE_EXTRA_PARTS"

definition extra_entry :: "pyval \<Rightarrow> pyval \<Rightarrow> (string \<times> pyval) result" where
  "extra_entry key v =
     (case key of
        VStr k \<Rightarrow>
          (if blank k then
             Inl (Mcp (validation_error ''extra keys must be non-empty strings'' [(''key'', VStr (take 64 k))]))
           else if sensitive_extra_key k then
             Inl (Mcp (validation_error ''extra must not contain sensitive key names'' [(''key'', VStr k)]))
           else if is_str v \<and> MAX_EXTRA_VALUE_LENGTH < length (py_str v) then
             Inl (Mcp (validation_error (''extra['' @ str_repr k @ ''] value exceeds maximum length'')
                         [(''key'', VStr k), (''length'', VInt (int (length (py_str v))))]))
           else if is_dict v \<or> is_list v then
             Inl (Mcp (validation_error (''extra['' @ str_repr k @ ''] must be a scalar'') [(''key'', VStr k)]))
           else Inr (k, v))
      | _ \<Rightarrow> Inl (Mcp (validation_error ''extra keys must be non-empty strings''
                        [(''key'', VStr (take 64 (py_str key)))])))"

fun validate_extra_loop :: "sdict \<Rightarrow> (pyval \<times> pyval) list \<Rightarrow> sdict result" where
  "validate_extra_loop out [] = Inr out"
| "validate_extra_loop out ((key, v) # items) =
     res_bind (extra_entry key v) (\<lambda>(k, w). validate_extra_loop (dict_set k w out) items)"

definition validate_extra :: "pyval \<Rightarrow> sdict result" where
  "validate_extra extra =
     (case extra of
        VNone \<Rightarrow> Inr []
      | VDict d \<Rightarrow>
          (if MAX_EXTRA_KEYS < length d then
             Inl (Mcp (validation_error ''extra may contain at most 16 keys'' [(''count'', VInt (int (length d)))]))
           else validate_extra_loop [] d)
      | _ \<Rightarrow> Inl (Mcp (validation_error ''extra must be a mapping'' [(''type'', VStr (type_name extra))])))"

section \<open>The context\<close>

record integration_context =
  ic_client_id :: "string option"
  ic_agent_id :: "string option"
  ic_project_id :: "string option"
  ic_workspace_id :: "string option"
  ic_task_id :: "string option"
  ic_session_id :: "string option"
  ic_request_id :: "string option"
  ic_correlation_id :: "string option"
  ic_extra :: sdict
  ic_trust :: trust_classification

text \<open>The constructor with its \<open>__post_init__\<close>, fields in their order.\<close>

definition make_integration_context ::
  "pyval \<Rightarrow> pyval \<Rightarrow> pyval \<Rightarrow> pyval \<Rightarrow> pyval \<Rightarrow> pyval \<Rightarrow> pyval \<Rightarrow> pyval \<Rightarrow> pyval \<Rightarrow>
   trust_classification \<Rightarrow> integration_context result" where
  "make_integration_context client agent project workspace task session request correlation extra trust =
     res_bind (validate_optional_id ''client_id'' client) (\<lambda>c.
     res_bind (validate_optional_id ''agent_id'' agent) (\<lambda>a.
     res_bind (validate_optional_id ''project_id'' project) (\<lambda>p.
     res_bind (validate_optional_id ''workspace_id'' workspace) (\<lambda>w.
     res_bind (validate_optional_id ''task_id'' task) (\<lambda>t.
     res_bind (validate_optional_id ''session_id'' session) (\<lambda>s.
     res_bind (validate_optional_id ''request_id'' request) (\<lambda>r.
     res_bind (validate_optional_id ''correlation_id'' correlation) (\<lambda>co.
     res_bind (validate_extra extra) (\<lambda>e.
       if trust = TRUSTED then
         Inl (Mcp (validation_error ''caller cannot assert TRUSTED identity; authentication is UNRESOLVED on stdio''
                     [(''trust'', VStr (trust_value trust))]))
       else Inr \<lparr>ic_client_id = c, ic_agent_id = a, ic_project_id = p, ic_workspace_id = w, ic_task_id = t,
                 ic_session_id = s, ic_request_id = r, ic_correlation_id = co, ic_extra = e, ic_trust = trust\<rparr>)))))))))"

definition default_integration_context :: integration_context where
  "default_integration_context =
     \<lparr>ic_client_id = None, ic_agent_id = None, ic_project_id = None, ic_workspace_id = None, ic_task_id = None,
      ic_session_id = None, ic_request_id = None, ic_correlation_id = None, ic_extra = [], ic_trust = ASSERTED\<rparr>"

definition context_fields :: "string list" where
  "context_fields = [''client_id'', ''agent_id'', ''project_id'', ''workspace_id'', ''task_id'', ''session_id'',
     ''request_id'', ''correlation_id'', ''extra'', ''trust'']"

text \<open>
  \<open>from_mapping\<close>: \<open>Inr\<close> is a mapping with string keys (what a decoded JSON object is),
  \<open>Inl\<close> any other value; a \<open>TrustClassification\<close> object is not among the modelled values.
\<close>

definition from_mapping :: "pyval + sdict \<Rightarrow> integration_context result" where
  "from_mapping source =
     (case source of
        Inl v \<Rightarrow>
          (if v = VNone then make_integration_context VNone VNone VNone VNone VNone VNone VNone VNone VNone ASSERTED
           else Inl (Mcp (validation_error ''integration context must be a mapping'' [(''type'', VStr (type_name v))])))
      | Inr d \<Rightarrow>
          (let unknown = filter (\<lambda>k. k \<notin> set context_fields) (dict_keys d) in
           if unknown \<noteq> [] then
             Inl (Mcp (validation_error ''integration context contains unknown fields''
                         [(''unknown'', VList (map VStr (take 10 (sort unknown))))]))
           else
             res_bind (case sget d ''trust'' (VStr (trust_value ASSERTED)) of
                 VStr raw \<Rightarrow>
                   (case trust_of (py_lower raw) of
                      Some t \<Rightarrow> Inr t
                    | None \<Rightarrow> Inl (Mcp (validation_error ''invalid trust classification'' [(''trust'', VStr raw)])))
               | v \<Rightarrow> Inl (Mcp (validation_error ''trust must be a string'' [(''type'', VStr (type_name v))])))
             (\<lambda>trust.
               make_integration_context (sget d ''client_id'' VNone) (sget d ''agent_id'' VNone)
                 (sget d ''project_id'' VNone) (sget d ''workspace_id'' VNone) (sget d ''task_id'' VNone)
                 (sget d ''session_id'' VNone) (sget d ''request_id'' VNone) (sget d ''correlation_id'' VNone)
                 (sget d ''extra'' VNone) trust)))"

definition to_governance_context :: "integration_context \<Rightarrow> governance_context" where
  "to_governance_context c =
     \<lparr>gc_client_id = ic_client_id c, gc_agent_id = ic_agent_id c, gc_project_id = ic_project_id c,
      gc_workspace_id = ic_workspace_id c, gc_task_id = ic_task_id c, gc_session_id = ic_session_id c,
      gc_request_id = ic_request_id c, gc_correlation_id = ic_correlation_id c, gc_extra = ic_extra c\<rparr>"

definition integration_as_dict :: "integration_context \<Rightarrow> sdict" where
  "integration_as_dict c =
     dict_set ''integration_contract_version'' (VStr INTEGRATION_CONTRACT_VERSION)
       (dict_set ''trust'' (VStr (trust_value (ic_trust c))) (context_as_dict (to_governance_context c)))"

definition integration_contract_summary :: sdict where
  "integration_contract_summary =
     [(''integration_contract_version'', VStr INTEGRATION_CONTRACT_VERSION),
      (''transport'', VStr ''stdio''),
      (''identity_trust_default'', VStr (trust_value ASSERTED)),
      (''stdio_authentication'', VStr (trust_value UNRESOLVED)),
      (''fields'', VList (map VStr [''client_id'', ''agent_id'', ''project_id'', ''workspace_id'', ''task_id'',
         ''session_id'', ''request_id'', ''correlation_id'', ''extra''])),
      (''governance'', VStr ''centralized''),
      (''privilege_escalation_via_metadata'', VBool False),
      (''evidence_status'', VStr ''confirmed'')]"

section \<open>Evidence and the agent contract\<close>

datatype evidence_status = CONFIRMED | TARGET | PROPOSED | EV_UNRESOLVED

fun evidence_value :: "evidence_status \<Rightarrow> string" where
  "evidence_value CONFIRMED = ''confirmed''"
| "evidence_value TARGET = ''target''"
| "evidence_value PROPOSED = ''proposed''"
| "evidence_value EV_UNRESOLVED = ''unresolved''"

record context_source =
  cs_kind :: string
  cs_identifier :: string
  cs_content :: string
  cs_evidence :: evidence_status
  cs_provenance :: sdict

definition context_source_as_dict :: "context_source \<Rightarrow> sdict" where
  "context_source_as_dict s =
     [(''kind'', VStr (cs_kind s)), (''identifier'', VStr (cs_identifier s)), (''content'', VStr (cs_content s)),
      (''evidence_status'', VStr (evidence_value (cs_evidence s))), (''provenance'', vdict (cs_provenance s))]"

record agent_context_bundle =
  ab_query :: string
  ab_sources :: "context_source list"
  ab_inferences :: "string list"
  ab_unresolved :: "string list"

definition agent_context_bundle_as_dict :: "agent_context_bundle \<Rightarrow> sdict" where
  "agent_context_bundle_as_dict b =
     [(''query'', VStr (ab_query b)),
      (''sources'', VList (map (\<lambda>s. vdict (context_source_as_dict s)) (ab_sources b))),
      (''inferences'', VList (map VStr (ab_inferences b))),
      (''unresolved'', VList (map VStr (ab_unresolved b))),
      (''evidence_note'', VStr ''sources carry evidence_status; inferences are not CONFIRMED facts'')]"

text \<open>\<open>classify_tool_payload\<close>: only an exact, known label confirms anything.\<close>

definition classify_tool_payload :: "sdict \<Rightarrow> evidence_status" where
  "classify_tool_payload payload =
     (case sget payload ''evidence_status'' VNone of
        VStr raw \<Rightarrow>
          (if raw = ''confirmed'' then CONFIRMED else if raw = ''target'' then TARGET
           else if raw = ''proposed'' then PROPOSED else EV_UNRESOLVED)
      | _ \<Rightarrow> EV_UNRESOLVED)"

record capability_expectation =
  ce_tool_name_prefixes :: "string list"
  ce_read_only :: bool
  ce_mutating_tools :: bool
  ce_optional_operations_gateway :: bool

definition DEFAULT_EXPECTATIONS :: capability_expectation where
  "DEFAULT_EXPECTATIONS =
     \<lparr>ce_tool_name_prefixes = [''yasin_docs_'', ''yasin_github_'', ''yasin_registry_'', ''yasin_operations_''],
      ce_read_only = True, ce_mutating_tools = False, ce_optional_operations_gateway = True\<rparr>"

record fallback_behavior =
  fb_mandatory :: bool
  fb_on_unavailable :: string
  fb_on_timeout :: string
  fb_on_tool_error :: string

definition DEFAULT_FALLBACK :: fallback_behavior where
  "DEFAULT_FALLBACK =
     \<lparr>fb_mandatory = False, fb_on_unavailable = ''continue without MCP tools; do not crash'',
      fb_on_timeout = ''surface timeout to user; do not retry unboundedly'',
      fb_on_tool_error = ''preserve error envelope; do not invent data''\<rparr>"

definition contract_summary :: sdict where
  "contract_summary =
     [(''contract_version'', VStr ''1.0.0''), (''transport'', VStr ''stdio''),
      (''protocol'', VStr ''MCP initialize + tools/list + tools/call''),
      (''expectations'', vdict
         [(''tool_name_prefixes'', VList (map VStr (ce_tool_name_prefixes DEFAULT_EXPECTATIONS))),
          (''read_only'', VBool (ce_read_only DEFAULT_EXPECTATIONS)),
          (''mutating_tools'', VBool (ce_mutating_tools DEFAULT_EXPECTATIONS)),
          (''optional_operations_gateway'', VBool (ce_optional_operations_gateway DEFAULT_EXPECTATIONS))]),
      (''fallback'', vdict
         [(''mandatory'', VBool (fb_mandatory DEFAULT_FALLBACK)),
          (''on_unavailable'', VStr (fb_on_unavailable DEFAULT_FALLBACK)),
          (''on_timeout'', VStr (fb_on_timeout DEFAULT_FALLBACK)),
          (''on_tool_error'', VStr (fb_on_tool_error DEFAULT_FALLBACK))]),
      (''evidence_status'', VStr ''confirmed'')]"

section \<open>Well-formed contexts\<close>

text \<open>An identifier in characters: what the pattern and the length bound amount to.\<close>

definition valid_id :: "string \<Rightarrow> bool" where
  "valid_id s \<longleftrightarrow> s \<noteq> [] \<and> length s \<le> 128 \<and> ascii_alnum (hd s) \<and> list_all id_char (tl s)"

definition valid_opt_id :: "string option \<Rightarrow> bool" where
  "valid_opt_id v \<longleftrightarrow> (case v of None \<Rightarrow> True | Some s \<Rightarrow> valid_id s)"

definition valid_extra :: "sdict \<Rightarrow> bool" where
  "valid_extra e \<longleftrightarrow> wf_dict e \<and> length e \<le> MAX_EXTRA_KEYS \<and>
     list_all (\<lambda>(k, v). extra_entry (VStr k) v = Inr (k, v)) e"

definition wf_integration_context :: "integration_context \<Rightarrow> bool" where
  "wf_integration_context c \<longleftrightarrow>
     valid_opt_id (ic_client_id c) \<and> valid_opt_id (ic_agent_id c) \<and> valid_opt_id (ic_project_id c) \<and>
     valid_opt_id (ic_workspace_id c) \<and> valid_opt_id (ic_task_id c) \<and> valid_opt_id (ic_session_id c) \<and>
     valid_opt_id (ic_request_id c) \<and> valid_opt_id (ic_correlation_id c) \<and>
     valid_extra (ic_extra c) \<and> ic_trust c \<noteq> TRUSTED"

lemma id_char_code:
  "ascii_alnum c \<Longrightarrow> id_char c" "id_char c \<Longrightarrow> \<not> py_isspace c"
  by (auto simp: id_char_def chars_def ascii_alnum_def ascii_alpha_def ascii_digit_def py_isspace_def
      Let_def code_def)

lemma valid_id_chars: "valid_id s \<Longrightarrow> c \<in> set s \<Longrightarrow> id_char c"
  by (cases s) (auto simp: valid_id_def list_all_iff id_char_code)

lemma py_strip_no_space: "(\<And>c. c \<in> set s \<Longrightarrow> \<not> py_isspace c) \<Longrightarrow> py_strip s = s"
proof -
  assume ns: "\<And>c. c \<in> set s \<Longrightarrow> \<not> py_isspace c"
  have "dropWhile py_isspace t = t" if "set t = set s" for t
    using ns that by (cases t) auto
  from this [of s] this [of "rev s"] show ?thesis
    by (simp add: py_strip_def py_lstrip_def py_rstrip_def)
qed

lemma valid_id_strip [simp]: "valid_id s \<Longrightarrow> py_strip s = s"
  using valid_id_chars id_char_code(2) by (blast intro: py_strip_no_space)

lemma re_ends_rep_eos:
  "re_ends (Seq (Rep p 0 (Some h)) Eos) (pv, s) \<noteq> [] \<longleftrightarrow>
     (\<exists>i \<le> run_length p (Some h) s. drop i s = [] \<or> drop i s = [CHR 0x0A])"
  unfolding re_ends_Seq_ne set_re_ends_Rep by auto

lemma run_covers:
  assumes "i \<le> run_length p hi s" and "drop i s = []"
  shows "list_all p s"
proof -
  have "length s \<le> length (takeWhile p s)"
    using assms by (cases hi) (auto simp: run_length_def)
  then have "takeWhile p s = s"
    using length_takeWhile_le [of p s] by (metis eq_iff takeWhile_eq_take take_all)
  then show ?thesis
    by (metis list_all_iff set_takeWhileD)
qed

lemma run_full: "list_all p s \<Longrightarrow> length s \<le> h \<Longrightarrow> length s \<le> run_length p (Some h) s"
  by (simp add: run_length_def list_all_iff takeWhile_eq_all_conv [THEN iffD2])

text \<open>On stripped text the pattern's \<open>$\<close> cannot stop before a final line feed.\<close>

lemma id_re_iff:
  assumes "\<not> py_isspace (last s)" and "s \<noteq> []" and "length s \<le> 128"
  shows "re_match ID_RE s \<longleftrightarrow> valid_id s"
proof -
  obtain c cs where s: "s = c # cs"
    using assms(2) by (cases s) auto
  have no_lf: "drop i cs \<noteq> [CHR 0x0A]" for i
  proof
    assume "drop i cs = [CHR 0x0A]"
    then have "last cs = CHR 0x0A" and "cs \<noteq> []"
      by (metis last_drop last_ConsL drop_eq_Nil2 list.distinct(1) not_le_imp_less, auto)
    with assms(1) show False by (simp add: s py_isspace_def code_def)
  qed
  have "re_match ID_RE s \<longleftrightarrow> ascii_alnum c \<and>
      (\<exists>i \<le> run_length id_char (Some 127) cs. drop i cs = [])"
    using re_ends_rep_eos [of id_char 127 "Some c" cs] no_lf
    by (simp add: re_match_def ID_RE_def s del: re_ends.simps(3,7))
  also have "\<dots> \<longleftrightarrow> ascii_alnum c \<and> list_all id_char cs"
    using run_covers [of _ id_char "Some 127" cs] run_full [of id_char cs 127] assms(3)
    by (auto simp: s)
  finally show ?thesis
    using assms(3) by (auto simp: valid_id_def s)
qed

lemma valid_id_iff:
  "valid_id (py_strip s) \<longleftrightarrow>
     py_strip s \<noteq> [] \<and> length (py_strip s) \<le> 128 \<and> re_match ID_RE (py_strip s)"
  using id_re_iff [of "py_strip s"] py_strip_last [of s] by (auto simp: valid_id_def)


section \<open>Validators\<close>

text \<open>
  The contract of a field validator: what it returns is valid, and a valid value passes it
  unchanged, so that validating twice is validating once.
\<close>

locale field_validator =
  fixes check :: "pyval \<Rightarrow> 'a result"
    and valid :: "'a \<Rightarrow> bool"
    and embed :: "'a \<Rightarrow> pyval"
  assumes check_valid: "check v = Inr r \<Longrightarrow> valid r"
    and check_embed: "valid r \<Longrightarrow> check (embed r) = Inr r"
begin

lemma recheck: "check v = Inr r \<Longrightarrow> check (embed r) = Inr r"
  by (rule check_embed, rule check_valid)

lemma accepts_exactly: "(\<exists>v. check v = Inr r) \<longleftrightarrow> valid r"
  using check_valid check_embed by blast

end

interpretation ids: field_validator "validate_optional_id name" valid_opt_id opt_str
proof
  fix v r
  assume "validate_optional_id name v = Inr r"
  then show "valid_opt_id r"
    by (auto simp: validate_optional_id_def valid_opt_id_def Let_def MAX_ID_LENGTH_def valid_id_iff
        split: pyval.splits if_splits)
next
  fix r
  assume "valid_opt_id r"
  then show "validate_optional_id name (opt_str r) = Inr r"
    using valid_id_iff [of "the r"]
    by (auto simp: validate_optional_id_def valid_opt_id_def Let_def MAX_ID_LENGTH_def split: option.splits)
qed

lemma extra_entry_same: "extra_entry key v = Inr (k, w) \<Longrightarrow> key = VStr k \<and> w = v"
  by (auto simp: extra_entry_def if_raise_Inr split: pyval.splits)

lemma length_dict_set: "length (dict_set k v d) \<le> Suc (length d)"
  by (induction d) auto

lemma validate_extra_loop_ok:
  assumes "validate_extra_loop out items = Inr e" and "wf_dict out"
    and "\<forall>(k, v) \<in> set out. extra_entry (VStr k) v = Inr (k, v)"
  shows "wf_dict e \<and> length e \<le> length out + length items \<and>
    (\<forall>(k, v) \<in> set e. extra_entry (VStr k) v = Inr (k, v))"
  using assms
proof (induction out items arbitrary: e rule: validate_extra_loop.induct)
  case (1 out)
  then show ?case by simp
next
  case (2 out key v items)
  from "2.prems"(1) obtain k w where kw: "extra_entry key v = Inr (k, w)"
    and rest: "validate_extra_loop (dict_set k w out) items = Inr e"
    by (auto simp: res_bind_eq_Inr)
  have same: "extra_entry (VStr k) w = Inr (k, w)"
    using kw extra_entry_same [OF kw] by simp
  have "\<forall>(k', v') \<in> set (dict_set k w out). extra_entry (VStr k') v' = Inr (k', v')"
    using "2.prems"(3) same dict_set_items [of _ k w out] by fastforce
  from "2.IH" [OF rest _ this] "2.prems"(2) length_dict_set [of k w out]
  show ?case by auto
qed

lemma validate_extra_loop_id:
  "distinct (dict_keys (out @ d)) \<Longrightarrow> list_all (\<lambda>(k, v). extra_entry (VStr k) v = Inr (k, v)) d \<Longrightarrow>
   validate_extra_loop out (map (\<lambda>(k, v). (VStr k, v)) d) = Inr (out @ d)"
  by (induction d arbitrary: out) (auto simp: dict_set_new)

interpretation extras: field_validator validate_extra valid_extra vdict
proof
  fix v r
  assume "validate_extra v = Inr r"
  then show "valid_extra r"
    using validate_extra_loop_ok [of "[]" _ r]
    by (fastforce simp: validate_extra_def valid_extra_def list_all_iff split: pyval.splits if_splits)
next
  fix r
  assume "valid_extra r"
  then show "validate_extra (vdict r) = Inr r"
    using validate_extra_loop_id [of "[]" r]
    by (simp add: validate_extra_def valid_extra_def vdict_def wf_dict_def)
qed

section \<open>Properties\<close>

lemma make_integration_context_wf:
  "make_integration_context c a p w t s r co e trust = Inr ctx \<Longrightarrow> wf_integration_context ctx \<and> ic_trust ctx = trust"
  by (auto simp: make_integration_context_def res_bind_eq_Inr if_raise_Inr wf_integration_context_def
      dest: ids.check_valid extras.check_valid)

lemma make_integration_context_again:
  assumes "wf_integration_context c"
  shows "make_integration_context (opt_str (ic_client_id c)) (opt_str (ic_agent_id c)) (opt_str (ic_project_id c))
     (opt_str (ic_workspace_id c)) (opt_str (ic_task_id c)) (opt_str (ic_session_id c)) (opt_str (ic_request_id c))
     (opt_str (ic_correlation_id c)) (vdict (ic_extra c)) (ic_trust c) = Inr c"
  using assms
  by (simp add: make_integration_context_def wf_integration_context_def ids.check_embed extras.check_embed)

lemma validate_extra_VNone [simp]: "validate_extra VNone = Inr []" and valid_extra_Nil [simp]: "valid_extra []"
  by (simp_all add: validate_extra_def valid_extra_def)

lemma default_context_made:
  "make_integration_context VNone VNone VNone VNone VNone VNone VNone VNone VNone ASSERTED = Inr default_integration_context"
  by (simp add: make_integration_context_def validate_optional_id_def default_integration_context_def)

lemma from_mapping_wf: "from_mapping source = Inr c \<Longrightarrow> wf_integration_context c"
  by (auto simp: from_mapping_def Let_def res_bind_eq_Inr dest: make_integration_context_wf
      split: sum.splits if_splits)

text \<open>C28: Whatever a client sends as its context, a context that is accepted has identifiers of
  at most 128 characters from a small alphabet, at most 16 scalar extras under no
  credential-like key, and never claims to be trusted.\<close>

theorem accepted_context_well_formed:
  assumes "from_mapping source = Inr c"
  shows "wf_integration_context c \<and> ic_trust c \<noteq> TRUSTED \<and>
    (\<forall>(k, v) \<in> set (ic_extra c). \<not> sensitive_extra_key k \<and> \<not> is_dict v \<and> \<not> is_list v)"
proof -
  have wf: "wf_integration_context c"
    using assms by (rule from_mapping_wf)
  then have "\<forall>(k, v) \<in> set (ic_extra c). extra_entry (VStr k) v = Inr (k, v)"
    by (auto simp: wf_integration_context_def valid_extra_def list_all_iff)
  then have "\<forall>(k, v) \<in> set (ic_extra c). \<not> sensitive_extra_key k \<and> \<not> is_dict v \<and> \<not> is_list v"
    by (auto simp: extra_entry_def if_raise_Inr)
  with wf show ?thesis by (simp add: wf_integration_context_def)
qed

lemma dict_get_opt_entry:
  "dict_get (opt_entry k v @ rest) k' = (if k' = k \<and> v \<noteq> None then Some (VStr (the v)) else dict_get rest k')"
  by (cases v) (auto simp: opt_entry_def)

lemma dict_get_if_entry:
  "dict_get ((if b then [(k, v)] else []) @ rest) k' = (if k' = k \<and> b then Some v else dict_get rest k')"
  by simp

lemma dict_keys_opt_entry: "set (dict_keys (opt_entry k v)) \<subseteq> {k}"
  by (cases v) (auto simp: opt_entry_def)

lemma context_keys: "set (dict_keys (context_as_dict g)) \<subseteq> set (butlast context_fields)"
  unfolding context_as_dict_def context_fields_def map_append set_append
  using dict_keys_opt_entry by fastforce

text \<open>The dictionary of a context, less the version that \<open>from_mapping\<close> does not know.\<close>

abbreviation public_fields :: "integration_context \<Rightarrow> sdict" where
  "public_fields c \<equiv> dict_pop ''integration_contract_version'' (integration_as_dict c)"

lemma public_fields_eq:
  "public_fields c = context_as_dict (to_governance_context c) @ [(''trust'', VStr (trust_value (ic_trust c)))]"
proof -
  have "k \<notin> set (dict_keys (context_as_dict g))" if "k \<notin> set (butlast context_fields)" for k g
    using that context_keys by blast
  from this [of "''trust''"] this [of "''integration_contract_version''"] show ?thesis
    by (simp add: integration_as_dict_def dict_set_new context_fields_def dict_pop_append dict_pop_absent)
qed

lemma trust_of_value [simp]: "trust_of (py_lower (trust_value t)) = Some t"
proof -
  have "trust_of (py_lower (trust_value ASSERTED)) = Some ASSERTED"
    and "trust_of (py_lower (trust_value TRUSTED)) = Some TRUSTED"
    and "trust_of (py_lower (trust_value UNRESOLVED)) = Some UNRESOLVED"
    by code_simp+
  then show ?thesis by (cases t) simp_all
qed

lemma unknown_version:
  "filter (\<lambda>k. k \<notin> set context_fields) (dict_keys (integration_as_dict c)) = [''integration_contract_version'']"
proof -
  have known: "k \<in> set (butlast context_fields)" if "k \<in> set (dict_keys (context_as_dict g))" for k g
    using that context_keys by blast
  then have "filter (\<lambda>k. k \<notin> set context_fields) (dict_keys (context_as_dict g)) = []" for g
    by (auto simp: filter_empty_conv dest!: known in_set_butlastD)
  moreover have "''trust'' \<notin> set (dict_keys (context_as_dict g))" "''integration_contract_version'' \<notin> set (dict_keys (context_as_dict g))" for g
    using known [of "''trust''" g] known [of "''integration_contract_version''" g] by (auto simp: context_fields_def)
  ultimately show ?thesis
    by (simp add: integration_as_dict_def dict_set_new context_fields_def)
qed

lemma published_fields_read_back:
  assumes "wf_integration_context c"
  shows "from_mapping (Inr (public_fields c)) = Inr c"
proof -
  let ?d = "public_fields c"
  have no_unknown: "filter (\<lambda>k. k \<notin> set context_fields) (dict_keys ?d) = []"
    using context_keys [of "to_governance_context c"]
    by (auto simp: public_fields_eq filter_empty_conv context_fields_def)
  have get: "sget ?d ''client_id'' VNone = opt_str (ic_client_id c)" "sget ?d ''agent_id'' VNone = opt_str (ic_agent_id c)"
    "sget ?d ''project_id'' VNone = opt_str (ic_project_id c)" "sget ?d ''workspace_id'' VNone = opt_str (ic_workspace_id c)"
    "sget ?d ''task_id'' VNone = opt_str (ic_task_id c)" "sget ?d ''session_id'' VNone = opt_str (ic_session_id c)"
    "sget ?d ''request_id'' VNone = opt_str (ic_request_id c)"
    "sget ?d ''correlation_id'' VNone = opt_str (ic_correlation_id c)"
    "sget ?d ''trust'' dflt = VStr (trust_value (ic_trust c))"
    "sget ?d ''extra'' VNone = (if ic_extra c = [] then VNone else vdict (ic_extra c))" for dflt
    by (simp_all add: sget_def public_fields_eq context_as_dict_def dict_get_opt_entry dict_get_if_entry
        to_governance_context_def del: map_of_append) auto
  have extra: "validate_extra (if ic_extra c = [] then VNone else vdict (ic_extra c)) = Inr (ic_extra c)"
    using assms by (simp add: wf_integration_context_def extras.check_embed)
  show ?thesis
    using assms
    by (simp add: from_mapping_def Let_def no_unknown get make_integration_context_def extra
        wf_integration_context_def ids.check_embed)
qed

text \<open>C29: The dictionary of a well-formed context does not survive the way back, for one reason only:
  \<open>from_mapping\<close> refuses it for the key \<open>integration_contract_version\<close>, which \<open>as_dict\<close> adds and it does
  not know. Less this key, the same dictionary is read back as exactly the context.\<close>

theorem context_round_trip:
  assumes "wf_integration_context c"
  shows "from_mapping (Inr (integration_as_dict c)) =
      Inl (Mcp (validation_error ''integration context contains unknown fields''
        [(''unknown'', VList [VStr ''integration_contract_version''])])) \<and>
    from_mapping (Inr (dict_pop ''integration_contract_version'' (integration_as_dict c))) = Inr c"
  using published_fields_read_back [OF assms]
  by (simp add: from_mapping_def Let_def unknown_version)

definition demo_asserted :: integration_context where
  "demo_asserted = default_integration_context\<lparr>ic_agent_id := Some ''bob-1'', ic_extra := [(''lang'', VStr ''en'')]\<rparr>"

lemma demo_asserted_wf: "wf_integration_context demo_asserted"
proof -
  have "valid_opt_id (Some ''bob-1'')" and "valid_extra [(''lang'', VStr ''en'')]" and "valid_opt_id None"
    by code_simp+
  then show ?thesis
    by (simp add: demo_asserted_def default_integration_context_def wf_integration_context_def)
qed

theorem context_round_trip_witness:
  "isl (from_mapping (Inr (integration_as_dict demo_asserted))) \<and>
   from_mapping (Inr (dict_pop ''integration_contract_version'' (integration_as_dict demo_asserted))) = Inr demo_asserted"
  using context_round_trip [OF demo_asserted_wf] by simp

theorem accepted_context_well_formed_witness:
  "wf_integration_context demo_asserted"
proof -
  have "from_mapping (Inr [(''agent_id'', VStr '' bob-1''), (''extra'', vdict [(''lang'', VStr ''en'')])]) = Inr demo_asserted"
    by code_simp
  from accepted_context_well_formed [OF this] show ?thesis by blast
qed

text \<open>No request can claim trust: a context that asserts \<open>trusted\<close>, in any letter case, is
  refused whatever its other fields hold.\<close>

theorem trusted_claim_refused:
  assumes "py_lower raw = ''trusted''"
  shows "isl (from_mapping (Inr (dict_set ''trust'' (VStr raw) d)))"
proof -
  have "isl (make_integration_context c a p w t s r co e TRUSTED)" for c a p w t s r co e
    by (simp add: make_integration_context_def res_bind_def split: sum.splits)
  moreover have "trust_of ''trusted'' = Some TRUSTED"
    by code_simp
  ultimately show ?thesis
    by (simp add: from_mapping_def Let_def sget_def assms)
qed

theorem trusted_claim_refused_witness:
  "isl (from_mapping (Inr [(''agent_id'', VStr ''a''), (''trust'', VStr ''Trusted'')]))"
proof -
  have "py_lower ''Trusted'' = ''trusted''"
    by code_simp
  from trusted_claim_refused [OF this, of "[(''agent_id'', VStr ''a'')]"] show ?thesis by simp
qed

end
