(* ===== verification/Config.thy ===== *)
theory Config
  imports Mcp_Errors
begin

text \<open>
  Server configuration (\<open>config/config.py\<close>): the validation done at construction and the
  loader that reads the environment. \<open>env\<close> is \<open>os.environ.get\<close>.
\<close>

section \<open>Configuration values\<close>

text \<open>A secret that prints as a placeholder.\<close>

datatype secret_str = SecretStr (get_secret_value: string)

definition secret_repr :: "secret_str \<Rightarrow> string" where
  "secret_repr s = ''SecretStr('' @ [CHR 0x27] @ ''***'' @ [CHR 0x27] @ '')''"

definition secret_text :: "secret_str \<Rightarrow> string" where
  "secret_text s = ''***''"

definition secret_bool :: "secret_str \<Rightarrow> bool" where
  "secret_bool s \<longleftrightarrow> get_secret_value s \<noteq> []"

definition VALID_LOG_LEVELS :: "string list" where
  "VALID_LOG_LEVELS = [''DEBUG'', ''INFO'', ''WARNING'', ''ERROR'', ''CRITICAL'']"

definition DEFAULT_TIMEOUT :: int where "DEFAULT_TIMEOUT = 30"
definition MAX_TIMEOUT :: int where "MAX_TIMEOUT = 120"
definition DEFAULT_MAX_CONCURRENCY :: int where "DEFAULT_MAX_CONCURRENCY = 32"
definition MAX_CONCURRENCY :: int where "MAX_CONCURRENCY = 256"
definition MAX_AUTH_SUBJECT_LEN :: nat where "MAX_AUTH_SUBJECT_LEN = 128"

lemmas config_consts = DEFAULT_TIMEOUT_def MAX_TIMEOUT_def DEFAULT_MAX_CONCURRENCY_def
  MAX_CONCURRENCY_def MAX_AUTH_SUBJECT_LEN_def

record server_config =
  log_level :: string
  request_timeout_seconds :: int
  max_concurrent_requests :: int
  github_token :: "secret_str option"
  auth_token :: "secret_str option"
  auth_subject_id :: string
  require_authentication :: bool
  remote_enabled :: bool
  remote_host :: string
  remote_port :: int
  remote_tls_certfile :: "string option"
  remote_tls_keyfile :: "string option"
  remote_allow_insecure_http :: bool

definition default_config :: server_config where
  "default_config = \<lparr>log_level = ''INFO'', request_timeout_seconds = DEFAULT_TIMEOUT,
     max_concurrent_requests = DEFAULT_MAX_CONCURRENCY, github_token = None, auth_token = None,
     auth_subject_id = ''local-operator'', require_authentication = False, remote_enabled = False,
     remote_host = ''127.0.0.1'', remote_port = 8443, remote_tls_certfile = None,
     remote_tls_keyfile = None, remote_allow_insecure_http = False\<rparr>"

definition invalid_configuration :: "string \<Rightarrow> pyexn" where
  "invalid_configuration msg = PyError ''InvalidConfigurationError'' msg"

definition no_secret :: "secret_str option \<Rightarrow> bool" where
  "no_secret t \<longleftrightarrow> (case t of None \<Rightarrow> True | Some s \<Rightarrow> get_secret_value s = [])"

text \<open>\<open>ServerConfig.__post_init__\<close>: the checks in order, with the subject id stripped.\<close>

definition make_server_config :: "server_config \<Rightarrow> server_config result" where
  "make_server_config c =
     (if log_level c \<notin> set VALID_LOG_LEVELS then
        Inl (invalid_configuration (''log_level must be one of '' @
          py_repr (VList (map VStr (sort VALID_LOG_LEVELS))) @ '', got '' @ str_repr (log_level c)))
      else if \<not> (1 \<le> request_timeout_seconds c \<and> request_timeout_seconds c \<le> MAX_TIMEOUT) then
        Inl (invalid_configuration (''request_timeout_seconds must be between 1 and '' @ show_int MAX_TIMEOUT))
      else if \<not> (1 \<le> max_concurrent_requests c \<and> max_concurrent_requests c \<le> MAX_CONCURRENCY) then
        Inl (invalid_configuration (''max_concurrent_requests must be between 1 and '' @ show_int MAX_CONCURRENCY))
      else
        let subject = py_strip (auth_subject_id c);
            c' = c\<lparr>auth_subject_id := subject\<rparr> in
        if subject = [] \<or> MAX_AUTH_SUBJECT_LEN < length subject then
          Inl (invalid_configuration (''auth_subject_id must be a non-empty string up to '' @
            show_nat MAX_AUTH_SUBJECT_LEN @ '' characters''))
        else if require_authentication c \<and> no_secret (auth_token c) then
          Inl (invalid_configuration ''require_authentication=true requires YASIN_MCP_AUTH_TOKEN to be set'')
        else if \<not> (1 \<le> remote_port c \<and> remote_port c \<le> 65535) then
          Inl (invalid_configuration ''remote_port must be between 1 and 65535'')
        else if remote_enabled c \<and> require_authentication c \<and> no_secret (auth_token c) then
          Inl (invalid_configuration ''remote_enabled with authentication requires YASIN_MCP_AUTH_TOKEN'')
        else if remote_enabled c \<and> \<not> remote_allow_insecure_http c \<and>
                (falsy (remote_tls_certfile c) \<or> falsy (remote_tls_keyfile c)) then
          Inl (invalid_configuration (''remote TLS requires certfile and keyfile unless '' @
            ''remote_allow_insecure_http is enabled for local testing''))
        else Inr c')"

section \<open>Reading the environment\<close>

type_synonym environ = "string \<Rightarrow> string option"

definition env_str :: "environ \<Rightarrow> string \<Rightarrow> string \<Rightarrow> string" where
  "env_str env name dflt = (case env name of None \<Rightarrow> dflt | Some v \<Rightarrow> v)"

definition env_int :: "environ \<Rightarrow> string \<Rightarrow> int \<Rightarrow> int result" where
  "env_int env name dflt =
     (if falsy (env name) then Inr dflt
      else case parse_int (the (env name)) of
             Some i \<Rightarrow> Inr i
           | None \<Rightarrow> Inl (invalid_configuration (''Environment variable '' @ name @ '' must be an integer'')))"

definition env_secret :: "environ \<Rightarrow> string \<Rightarrow> secret_str option" where
  "env_secret env name = (if falsy (env name) then None else Some (SecretStr (the (env name))))"

definition env_bool :: "environ \<Rightarrow> string \<Rightarrow> bool \<Rightarrow> bool result" where
  "env_bool env name dflt =
     (if falsy (env name) then Inr dflt
      else let normalized = py_lower (py_strip (the (env name))) in
           if normalized \<in> {''1'', ''true'', ''yes'', ''on''} then Inr True
           else if normalized \<in> {''0'', ''false'', ''no'', ''off''} then Inr False
           else Inl (invalid_configuration (''Environment variable '' @ name @ '' must be a boolean (true/false)'')))"

definition env_opt :: "environ \<Rightarrow> string \<Rightarrow> string option" where
  "env_opt env name = (if falsy (env name) then None else env name)"

definition load_config :: "environ \<Rightarrow> server_config result" where
  "load_config env =
     res_bind (env_int env ''YASIN_MCP_REQUEST_TIMEOUT_SECONDS'' DEFAULT_TIMEOUT) (\<lambda>timeout.
     res_bind (env_int env ''YASIN_MCP_MAX_CONCURRENT_REQUESTS'' DEFAULT_MAX_CONCURRENCY) (\<lambda>conc.
     res_bind (env_bool env ''YASIN_MCP_REQUIRE_AUTH'' False) (\<lambda>req.
     res_bind (env_bool env ''YASIN_MCP_REMOTE_ENABLED'' False) (\<lambda>rem.
     res_bind (env_int env ''YASIN_MCP_REMOTE_PORT'' 8443) (\<lambda>port.
     res_bind (env_bool env ''YASIN_MCP_REMOTE_ALLOW_INSECURE_HTTP'' False) (\<lambda>insecure.
     make_server_config
       \<lparr>log_level = py_upper (env_str env ''YASIN_MCP_LOG_LEVEL'' ''INFO''),
        request_timeout_seconds = timeout, max_concurrent_requests = conc,
        github_token = env_secret env ''YASIN_MCP_GITHUB_TOKEN'',
        auth_token = env_secret env ''YASIN_MCP_AUTH_TOKEN'',
        auth_subject_id = env_str env ''YASIN_MCP_AUTH_SUBJECT'' ''local-operator'',
        require_authentication = req, remote_enabled = rem,
        remote_host = env_str env ''YASIN_MCP_REMOTE_HOST'' ''127.0.0.1'', remote_port = port,
        remote_tls_certfile = env_opt env ''YASIN_MCP_REMOTE_TLS_CERTFILE'',
        remote_tls_keyfile = env_opt env ''YASIN_MCP_REMOTE_TLS_KEYFILE'',
        remote_allow_insecure_http = insecure\<rparr>))))))"

section \<open>What a constructed configuration guarantees\<close>

definition wf_config :: "server_config \<Rightarrow> bool" where
  "wf_config c \<longleftrightarrow>
     log_level c \<in> set VALID_LOG_LEVELS
     \<and> 1 \<le> request_timeout_seconds c \<and> request_timeout_seconds c \<le> 120
     \<and> 1 \<le> max_concurrent_requests c \<and> max_concurrent_requests c \<le> 256
     \<and> auth_subject_id c \<noteq> [] \<and> py_strip (auth_subject_id c) = auth_subject_id c
     \<and> length (auth_subject_id c) \<le> 128
     \<and> (require_authentication c \<longrightarrow> \<not> no_secret (auth_token c))
     \<and> 1 \<le> remote_port c \<and> remote_port c \<le> 65535
     \<and> (remote_enabled c \<and> \<not> remote_allow_insecure_http c \<longrightarrow>
          \<not> falsy (remote_tls_certfile c) \<and> \<not> falsy (remote_tls_keyfile c))"

lemma make_server_config_Inr:
  "make_server_config c = Inr c' \<longleftrightarrow>
     c' = c\<lparr>auth_subject_id := py_strip (auth_subject_id c)\<rparr> \<and> wf_config c'"
  unfolding make_server_config_def Let_def if_raise_Inr wf_config_def config_consts
  by auto

lemma make_server_config_wf_id: "wf_config c \<Longrightarrow> make_server_config c = Inr c"
  by (simp add: make_server_config_Inr wf_config_def)

lemma load_config_constructed: "load_config env = Inr c \<Longrightarrow> \<exists>raw. make_server_config raw = Inr c"
  by (auto simp: load_config_def res_bind_eq_Inr)

text \<open>Construction accepts exactly the configurations whose stripped form satisfies every
  documented bound, and returns that form; the checks are stable under reconstruction.\<close>

lemma server_config_validation:
  "(\<exists>c'. make_server_config c = Inr c') = wf_config (c\<lparr>auth_subject_id := py_strip (auth_subject_id c)\<rparr>)
   \<and> (make_server_config c = Inr c2 \<longrightarrow> wf_config c2 \<and> make_server_config c2 = Inr c2)"
proof (intro conjI impI)
  show "(\<exists>c'. make_server_config c = Inr c') = wf_config (c\<lparr>auth_subject_id := py_strip (auth_subject_id c)\<rparr>)"
    by (simp add: make_server_config_Inr)
next
  assume "make_server_config c = Inr c2"
  then show "wf_config c2" unfolding make_server_config_Inr by (rule conjunct2)
  then show "make_server_config c2 = Inr c2" by (rule make_server_config_wf_id)
qed

text \<open>C30: Whatever the environment holds, a configuration that loads demands a secret where it
  demands authentication, and TLS material where it enables the remote transport.\<close>

theorem loaded_config_safe:
  assumes "load_config env = Inr c"
  shows "wf_config c"
  using load_config_constructed [OF assms] by (auto simp: make_server_config_Inr)

definition demo_env :: environ where
  "demo_env = map_of [(''YASIN_MCP_AUTH_TOKEN'', ''s3cret''), (''YASIN_MCP_REQUIRE_AUTH'', '' Yes ''),
     (''YASIN_MCP_LOG_LEVEL'', ''debug''), (''YASIN_MCP_REMOTE_PORT'', ''9_000'')]"

definition demo_config :: server_config where
  "demo_config = default_config\<lparr>log_level := ''DEBUG'', auth_token := Some (SecretStr ''s3cret''),
     require_authentication := True, remote_port := 9000\<rparr>"

lemma demo_env_loads: "load_config demo_env = Inr demo_config"
  by code_simp

theorem loaded_config_safe_witness: "wf_config demo_config \<and> require_authentication demo_config"
  using loaded_config_safe [OF demo_env_loads] by (simp add: demo_config_def)

lemma empty_environment_loads: "load_config (\<lambda>_. None) = Inr default_config"
  by code_simp

end
