(* ===== verification/Auth.thy ===== *)
theory Auth
  imports Integration Config
begin

text \<open>
  Authentication of a request (\<open>auth/\<close>): identities and outcomes, the credential a
  request presents, the shared-secret authenticator, the binding of the asserted context
  to the verified identity, and the resolution the gate calls. A request reads two
  context variables (the record \<open>auth_vars\<close>) and the process environment.
\<close>

section \<open>Types\<close>

definition AUTH_CONTRACT_VERSION :: string where
  "AUTH_CONTRACT_VERSION = ''1.0.0''"

datatype auth_status =
    AUTHENTICATED | UNAUTHENTICATED_REQUEST | INVALID_CREDENTIAL | MISSING_CREDENTIAL
  | CONTEXT_MISMATCH | UNKNOWN_SCHEME | MALFORMED | TRANSPORT_UNAVAILABLE

fun auth_status_value :: "auth_status \<Rightarrow> string" where
  "auth_status_value AUTHENTICATED = ''authenticated''"
| "auth_status_value UNAUTHENTICATED_REQUEST = ''unauthenticated''"
| "auth_status_value INVALID_CREDENTIAL = ''invalid_credential''"
| "auth_status_value MISSING_CREDENTIAL = ''missing_credential''"
| "auth_status_value CONTEXT_MISMATCH = ''context_mismatch''"
| "auth_status_value UNKNOWN_SCHEME = ''unknown_scheme''"
| "auth_status_value MALFORMED = ''malformed''"
| "auth_status_value TRANSPORT_UNAVAILABLE = ''transport_unavailable''"

record authenticated_identity =
  ai_subject_id :: string
  ai_scheme :: string
  ai_trust :: trust_classification
  ai_scopes :: "string list"

definition make_authenticated_identity ::
  "string \<Rightarrow> string \<Rightarrow> trust_classification \<Rightarrow> string list \<Rightarrow> authenticated_identity result" where
  "make_authenticated_identity subject scheme trust scopes =
     (if subject = [] \<or> blank subject then
        Inl (Mcp (validation_error ''AuthenticatedIdentity.subject_id must not be empty'' []))
      else if trust \<noteq> TRUSTED then
        Inl (Mcp (validation_error ''AuthenticatedIdentity.trust must be TRUSTED'' [(''trust'', VStr (trust_value trust))]))
      else if scheme = [] \<or> blank scheme then
        Inl (Mcp (validation_error ''AuthenticatedIdentity.scheme must not be empty'' []))
      else Inr \<lparr>ai_subject_id = subject, ai_scheme = scheme, ai_trust = trust, ai_scopes = scopes\<rparr>)"

definition identity_as_dict :: "authenticated_identity \<Rightarrow> sdict" where
  "identity_as_dict i =
     [(''subject_id'', VStr (ai_subject_id i)), (''scheme'', VStr (ai_scheme i)),
      (''trust'', VStr (trust_value (ai_trust i))), (''scopes'', VList (map VStr (ai_scopes i)))]"

record auth_outcome =
  ao_status :: auth_status
  ao_identity :: "authenticated_identity option"
  ao_transport :: string
  ao_reason :: "string option"

definition make_auth_outcome ::
  "auth_status \<Rightarrow> authenticated_identity option \<Rightarrow> string \<Rightarrow> string option \<Rightarrow> auth_outcome result" where
  "make_auth_outcome status identity transport reason =
     (if status = AUTHENTICATED \<and> identity = None then
        Inl (Mcp (validation_error ''AUTHENTICATED outcome requires identity'' []))
      else if status \<noteq> AUTHENTICATED \<and> identity \<noteq> None then
        Inl (Mcp (validation_error ''non-AUTHENTICATED outcome must not carry identity''
                    [(''status'', VStr (auth_status_value status))]))
      else Inr \<lparr>ao_status = status, ao_identity = identity, ao_transport = transport, ao_reason = reason\<rparr>)"

definition is_authenticated :: "auth_outcome \<Rightarrow> bool" where
  "is_authenticated a \<longleftrightarrow> ao_status a = AUTHENTICATED \<and> ao_identity a \<noteq> None"

definition outcome_as_dict :: "auth_outcome \<Rightarrow> sdict" where
  "outcome_as_dict a =
     [(''status'', VStr (auth_status_value (ao_status a))), (''transport'', VStr (ao_transport a)),
      (''auth_contract_version'', VStr AUTH_CONTRACT_VERSION)]
     @ (if falsy (ao_reason a) then [] else [(''reason_code'', opt_str (ao_reason a))])
     @ (case ao_identity a of None \<Rightarrow> [] | Some i \<Rightarrow> [(''identity'', vdict (identity_as_dict i))])"

section \<open>Request state and credentials\<close>

definition AUTH_TOKEN_KWARG :: string where
  "AUTH_TOKEN_KWARG = ''_yasin_auth_token''"

record auth_vars =
  av_secret :: "string option"
  av_asserted :: "integration_context option"

definition get_presented_secret :: "environ \<Rightarrow> auth_vars \<Rightarrow> string option" where
  "get_presented_secret env av =
     (case av_secret av of
        Some v \<Rightarrow> Some v
      | None \<Rightarrow> (if falsy (env ''YASIN_MCP_PRESENT_AUTH_TOKEN'') then None
                 else env ''YASIN_MCP_PRESENT_AUTH_TOKEN''))"

text \<open>The body runs with both variables set; afterwards both are reset, also when it raises.\<close>

definition auth_request_scope ::
  "string option \<Rightarrow> integration_context option \<Rightarrow> (auth_vars \<Rightarrow> auth_vars \<times> 'a result) \<Rightarrow>
   auth_vars \<Rightarrow> auth_vars \<times> 'a result" where
  "auth_request_scope presented asserted body av =
     (let (av1, r) = body (av\<lparr>av_secret := presented, av_asserted := asserted\<rparr>)
      in (av1\<lparr>av_secret := av_secret av, av_asserted := av_asserted av\<rparr>, r))"

record presented_credential =
  pc_value :: "string option"
  pc_source :: string

definition credential_repr :: "presented_credential \<Rightarrow> string" where
  "credential_repr c =
     ''PresentedCredential(source='' @ str_repr (pc_source c) @ '', value='' @
     (if falsy (pc_value c) then ''None'' else ''***'') @ '')''"

definition extract_credential :: "environ \<Rightarrow> auth_vars \<Rightarrow> sdict \<Rightarrow> sdict \<times> presented_credential" where
  "extract_credential env av kwargs =
     (dict_pop AUTH_TOKEN_KWARG kwargs,
      (let raw = sget kwargs AUTH_TOKEN_KWARG VNone in
       if raw \<noteq> VNone then \<lparr>pc_value = Some (py_str raw), pc_source = ''kwarg''\<rparr>
       else case get_presented_secret env av of
              Some v \<Rightarrow> \<lparr>pc_value = Some v, pc_source = ''contextvar''\<rparr>
            | None \<Rightarrow> \<lparr>pc_value = None, pc_source = ''none''\<rparr>))"

definition extract_presented_secret :: "environ \<Rightarrow> auth_vars \<Rightarrow> sdict \<Rightarrow> sdict \<times> string option" where
  "extract_presented_secret env av kwargs =
     (let (cleaned, presented) = extract_credential env av kwargs in (cleaned, pc_value presented))"

definition credential_transport_summary :: sdict where
  "credential_transport_summary =
     [(''transport'', VStr ''stdio_request_kwarg''), (''stdio_kwarg'', VStr AUTH_TOKEN_KWARG),
      (''remote_peer_authenticated'', VBool False), (''credential_reaches_tool_body'', VBool False),
      (''evidence_status'', VStr ''confirmed'')]"

section \<open>Authenticators\<close>

definition authenticate_stdio_peer :: "auth_outcome result" where
  "authenticate_stdio_peer =
     make_auth_outcome TRANSPORT_UNAVAILABLE None ''stdio'' (Some ''stdio_peer_identity_unavailable'')"

definition SHARED_SECRET_SCHEME :: string where
  "SHARED_SECRET_SCHEME = ''shared_secret''"

definition is_ascii :: "string \<Rightarrow> bool" where
  "is_ascii s \<longleftrightarrow> list_all (\<lambda>c. code c < 128) s"

text \<open>
  \<open>hmac.compare_digest\<close> on two strings: equality, \<open>TypeError\<close> (\<open>None\<close>) unless both are
  ASCII. The presented secret is a string or absent, so the type check of the code never
  fails.
\<close>

definition compare_digest :: "string \<Rightarrow> string \<Rightarrow> bool option" where
  "compare_digest a b = (if is_ascii a \<and> is_ascii b then Some (a = b) else None)"

definition authenticate_shared_secret ::
  "secret_str option \<Rightarrow> string option \<Rightarrow> string \<Rightarrow> auth_outcome result" where
  "authenticate_shared_secret configured presented subject_id =
     (if no_secret configured then
        make_auth_outcome TRANSPORT_UNAVAILABLE None ''stdio'' (Some ''shared_secret_not_configured'')
      else if falsy presented then
        make_auth_outcome MISSING_CREDENTIAL None ''stdio'' (Some ''credential_missing'')
      else case compare_digest (the presented) (get_secret_value (the configured)) of
          None \<Rightarrow> make_auth_outcome MALFORMED None ''stdio'' (Some ''credential_malformed'')
        | Some ok \<Rightarrow>
            if \<not> ok then make_auth_outcome INVALID_CREDENTIAL None ''stdio'' (Some ''credential_invalid'')
            else if subject_id = [] \<or> blank subject_id then
              Inl (Mcp (validation_error ''auth subject_id must be non-empty when secret is configured'' []))
            else res_bind (make_authenticated_identity (py_strip subject_id) SHARED_SECRET_SCHEME TRUSTED [''mcp:invoke''])
              (\<lambda>i. make_auth_outcome AUTHENTICATED (Some i) ''stdio'' (Some ''shared_secret_ok'')))"

section \<open>Binding\<close>

record bound_context =
  bc_asserted :: integration_context
  bc_auth :: auth_outcome
  bc_governance :: governance_context

definition bound_trust :: "bound_context \<Rightarrow> trust_classification" where
  "bound_trust b = (if is_authenticated (bc_auth b) then TRUSTED else ASSERTED)"

fun no_impersonation_loop :: "(string \<times> string option) list \<Rightarrow> authenticated_identity \<Rightarrow> unit result" where
  "no_impersonation_loop [] i = Inr ()"
| "no_impersonation_loop ((field, v) # rest) i =
     (if v \<noteq> None \<and> v \<noteq> Some (ai_subject_id i) then
        Inl (Mcp (validation_error (''asserted '' @ field @ '' conflicts with authenticated subject'')
               [(''field'', VStr field), (''reason_code'', VStr (auth_status_value CONTEXT_MISMATCH)),
                (''asserted'', opt_str v), (''subject_id'', VStr (ai_subject_id i))]))
      else no_impersonation_loop rest i)"

definition enforce_no_impersonation :: "integration_context \<Rightarrow> authenticated_identity \<Rightarrow> unit result" where
  "enforce_no_impersonation asserted i =
     no_impersonation_loop [(''agent_id'', ic_agent_id asserted), (''client_id'', ic_client_id asserted)] i"

definition auth_extra :: "auth_outcome \<Rightarrow> sdict \<Rightarrow> sdict" where
  "auth_extra auth extra =
     (let extra1 = dict_set ''auth_status'' (VStr (auth_status_value (ao_status auth))) extra in
      case ao_identity auth of
        Some i \<Rightarrow> dict_set ''auth_trust'' (VStr (trust_value (ai_trust i)))
                    (dict_set ''auth_scheme'' (VStr (ai_scheme i))
                       (dict_set ''auth_subject_id'' (VStr (ai_subject_id i)) extra1))
      | None \<Rightarrow> dict_set ''auth_trust'' (VStr (trust_value ASSERTED)) extra1)"

definition bind_context :: "integration_context \<Rightarrow> auth_outcome \<Rightarrow> bool \<Rightarrow> bound_context result" where
  "bind_context asserted auth require =
     (if require \<and> \<not> is_authenticated auth then
        Inl (Mcp (unauthenticated_error ''authentication required but not established''
               [(''status'', VStr (auth_status_value (ao_status auth))), (''reason_code'', opt_str (ao_reason auth)),
                (''transport'', VStr (ao_transport auth))]))
      else if ao_status auth = CONTEXT_MISMATCH then
        Inl (Mcp (validation_error ''authentication context mismatch'' [(''reason_code'', opt_str (ao_reason auth))]))
      else
        res_bind (case ao_identity auth of None \<Rightarrow> Inr () | Some i \<Rightarrow> enforce_no_impersonation asserted i) (\<lambda>_.
          let gov = to_governance_context asserted in
          Inr \<lparr>bc_asserted = asserted, bc_auth = auth,
               bc_governance = gov\<lparr>gc_extra := auth_extra auth (gc_extra gov)\<rparr>\<rparr>))"

section \<open>Resolution\<close>

definition resolve_authentication ::
  "server_config \<Rightarrow> integration_context option \<Rightarrow> string option \<Rightarrow> bound_context result" where
  "resolve_authentication config asserted presented =
     (let asserted = (case asserted of Some c \<Rightarrow> c | None \<Rightarrow> default_integration_context) in
      res_bind authenticate_stdio_peer (\<lambda>_.
      res_bind (authenticate_shared_secret (auth_token config) presented (auth_subject_id config)) (\<lambda>secret_outcome.
      res_bind
        (if ao_status secret_outcome = AUTHENTICATED then Inr secret_outcome
         else if \<not> falsy presented then Inr secret_outcome
         else if require_authentication config then
           (if ao_status secret_outcome = TRANSPORT_UNAVAILABLE
            then make_auth_outcome MISSING_CREDENTIAL None ''stdio'' (Some ''auth_required_no_credential'')
            else Inr secret_outcome)
         else make_auth_outcome UNAUTHENTICATED_REQUEST None ''stdio'' (Some ''stdio_unauthenticated_asserted_context''))
        (\<lambda>auth. bind_context asserted auth (require_authentication config)))))"

definition asserted_from_governance :: "governance_context \<Rightarrow> integration_context result" where
  "asserted_from_governance c =
     make_integration_context (opt_str (gc_client_id c)) (opt_str (gc_agent_id c)) (opt_str (gc_project_id c))
       (opt_str (gc_workspace_id c)) (opt_str (gc_task_id c)) (opt_str (gc_session_id c)) (opt_str (gc_request_id c))
       (opt_str (gc_correlation_id c)) (if gc_extra c = [] then VNone else vdict (gc_extra c)) ASSERTED"

definition resolve_execution_auth ::
  "environ \<Rightarrow> auth_vars \<Rightarrow> server_config option \<Rightarrow> governance_context option \<Rightarrow> string option \<Rightarrow>
   integration_context option \<Rightarrow> bound_context option result" where
  "resolve_execution_auth env av config context presented asserted =
     (case config of
        None \<Rightarrow> Inr None
      | Some cfg \<Rightarrow>
          let asserted1 = (if asserted = None then av_asserted av else asserted) in
          res_bind (if asserted1 = None \<and> context \<noteq> None
                    then map_sum id Some (asserted_from_governance (the context)) else Inr asserted1) (\<lambda>asserted2.
          let presented1 = (if presented = None then get_presented_secret env av else presented) in
          map_sum id Some (resolve_authentication cfg asserted2 presented1)))"

section \<open>Facts\<close>

text \<open>What it takes to be authenticated: present exactly the configured, non-empty secret.\<close>

definition knows_secret :: "secret_str option \<Rightarrow> string option \<Rightarrow> bool" where
  "knows_secret configured presented \<longleftrightarrow>
     (case configured of None \<Rightarrow> False
      | Some c \<Rightarrow> get_secret_value c \<noteq> [] \<and> presented = Some (get_secret_value c) \<and> is_ascii (get_secret_value c))"

definition trusted_identity :: "string \<Rightarrow> authenticated_identity" where
  "trusted_identity subject =
     \<lparr>ai_subject_id = subject, ai_scheme = SHARED_SECRET_SCHEME, ai_trust = TRUSTED, ai_scopes = [''mcp:invoke'']\<rparr>"

definition trusted_outcome :: "string \<Rightarrow> auth_outcome" where
  "trusted_outcome subject =
     \<lparr>ao_status = AUTHENTICATED, ao_identity = Some (trusted_identity subject), ao_transport = ''stdio'',
      ao_reason = Some ''shared_secret_ok''\<rparr>"

lemma make_auth_outcome_eq:
  "make_auth_outcome st i tr r = Inr out \<longleftrightarrow>
     (st = AUTHENTICATED \<longleftrightarrow> i \<noteq> None) \<and> out = \<lparr>ao_status = st, ao_identity = i, ao_transport = tr, ao_reason = r\<rparr>"
  by (auto simp: make_auth_outcome_def)

lemma make_auth_outcome_anonymous [simp]:
  "st \<noteq> AUTHENTICATED \<Longrightarrow> make_auth_outcome st None tr r = Inr \<lparr>ao_status = st, ao_identity = None, ao_transport = tr, ao_reason = r\<rparr>"
  by (simp add: make_auth_outcome_eq)

lemma blank_strip [simp]: "blank (py_strip s) = blank s"
  by (simp add: blank_def)

lemma strip_Nil_iff: "py_strip s = [] \<longleftrightarrow> blank s"
  by (simp add: blank_def)

lemma shared_secret_known:
  assumes "knows_secret configured presented" and "\<not> blank subject"
  shows "authenticate_shared_secret configured presented subject = Inr (trusted_outcome (py_strip subject))"
proof -
  have "subject \<noteq> []" and "\<not> blank SHARED_SECRET_SCHEME"
    using assms(2) by (auto, code_simp)
  with assms show ?thesis
    by (auto simp: authenticate_shared_secret_def knows_secret_def no_secret_def falsy_def compare_digest_def
        make_authenticated_identity_def strip_Nil_iff make_auth_outcome_def trusted_outcome_def trusted_identity_def
        split: option.splits)
qed

lemma shared_secret_unknown:
  assumes "\<not> knows_secret configured presented"
  shows "\<exists>st r. st \<in> {TRANSPORT_UNAVAILABLE, MISSING_CREDENTIAL, MALFORMED, INVALID_CREDENTIAL} \<and>
    authenticate_shared_secret configured presented subject =
      Inr \<lparr>ao_status = st, ao_identity = None, ao_transport = ''stdio'', ao_reason = r\<rparr>"
  using assms
  by (cases "no_secret configured"; cases "falsy presented")
    (auto simp: authenticate_shared_secret_def knows_secret_def no_secret_def falsy_def compare_digest_def
       split: option.splits if_splits)

definition no_conflict :: "integration_context \<Rightarrow> string \<Rightarrow> bool" where
  "no_conflict c subject \<longleftrightarrow> ic_agent_id c \<in> {None, Some subject} \<and> ic_client_id c \<in> {None, Some subject}"

lemma enforce_no_impersonation_eq:
  "enforce_no_impersonation c i = Inr u \<longleftrightarrow> no_conflict c (ai_subject_id i)"
  by (auto simp: enforce_no_impersonation_def no_conflict_def)

definition asserted_or_default :: "integration_context option \<Rightarrow> integration_context" where
  "asserted_or_default a = (case a of Some c \<Rightarrow> c | None \<Rightarrow> default_integration_context)"

definition bound_governance :: "integration_context \<Rightarrow> auth_outcome \<Rightarrow> governance_context" where
  "bound_governance c auth =
     (to_governance_context c)\<lparr>gc_extra := auth_extra auth (ic_extra c)\<rparr>"

lemma bind_context_eq:
  "bind_context c auth req = Inr b \<longleftrightarrow>
     (req \<longrightarrow> is_authenticated auth) \<and> ao_status auth \<noteq> CONTEXT_MISMATCH \<and>
     (case ao_identity auth of None \<Rightarrow> True | Some i \<Rightarrow> no_conflict c (ai_subject_id i)) \<and>
     b = \<lparr>bc_asserted = c, bc_auth = auth, bc_governance = bound_governance c auth\<rparr>"
  unfolding bind_context_def if_raise_Inr
  by (cases "ao_identity auth")
    (auto simp: res_bind_eq_Inr enforce_no_impersonation_eq Let_def bound_governance_def to_governance_context_def)

text \<open>Resolution, for a request that proves knowledge of the secret and for one that does not.\<close>

lemma resolve_known:
  assumes "knows_secret (auth_token cfg) presented" and "\<not> blank (auth_subject_id cfg)"
  shows "resolve_authentication cfg asserted presented =
     bind_context (asserted_or_default asserted) (trusted_outcome (py_strip (auth_subject_id cfg)))
       (require_authentication cfg)"
  using shared_secret_known [OF assms]
  by (simp add: authenticate_stdio_peer_def resolve_authentication_def asserted_or_default_def trusted_outcome_def)

lemma resolve_unknown:
  assumes "\<not> knows_secret (auth_token cfg) presented"
  obtains st r where "st \<notin> {AUTHENTICATED, CONTEXT_MISMATCH}" and
    "resolve_authentication cfg asserted presented =
       bind_context (asserted_or_default asserted)
         \<lparr>ao_status = st, ao_identity = None, ao_transport = ''stdio'', ao_reason = r\<rparr> (require_authentication cfg)"
proof -
  obtain st r where a: "authenticate_shared_secret (auth_token cfg) presented (auth_subject_id cfg) =
      Inr \<lparr>ao_status = st, ao_identity = None, ao_transport = ''stdio'', ao_reason = r\<rparr>"
    and st: "st \<in> {TRANSPORT_UNAVAILABLE, MISSING_CREDENTIAL, MALFORMED, INVALID_CREDENTIAL}"
    using shared_secret_unknown [OF assms] by blast
  have na: "st \<notin> {AUTHENTICATED, CONTEXT_MISMATCH}" using st by auto
  show ?thesis
  proof (cases "falsy presented")
    case False
    with na a show ?thesis
      by (intro that [of st r]) (simp_all add: authenticate_stdio_peer_def resolve_authentication_def asserted_or_default_def)
  next
    case True
    show ?thesis
    proof (cases "require_authentication cfg")
      case req: True
      with True na a show ?thesis
        by (intro that [of "if st = TRANSPORT_UNAVAILABLE then MISSING_CREDENTIAL else st"
              "if st = TRANSPORT_UNAVAILABLE then Some ''auth_required_no_credential'' else r"])
          (auto simp: authenticate_stdio_peer_def resolve_authentication_def asserted_or_default_def)
    next
      case False
      with True na a show ?thesis
        by (intro that [of UNAUTHENTICATED_REQUEST "Some ''stdio_unauthenticated_asserted_context''"])
          (auto simp: authenticate_stdio_peer_def resolve_authentication_def asserted_or_default_def)
    qed
  qed
qed

lemma wf_config_subject:
  "wf_config cfg \<Longrightarrow> \<not> blank (auth_subject_id cfg)" "wf_config cfg \<Longrightarrow> py_strip (auth_subject_id cfg) = auth_subject_id cfg"
  by (auto simp: wf_config_def strip_Nil_iff [symmetric])

lemma trusted_outcome_facts [simp]:
  "ao_status (trusted_outcome s) = AUTHENTICATED" "ao_identity (trusted_outcome s) = Some (trusted_identity s)"
  "is_authenticated (trusted_outcome s)" "ai_subject_id (trusted_identity s) = s" "ai_trust (trusted_identity s) = TRUSTED"
  by (simp_all add: trusted_outcome_def trusted_identity_def is_authenticated_def)

lemma is_authenticated_anonymous [simp]:
  "\<not> is_authenticated \<lparr>ao_status = st, ao_identity = None, ao_transport = tr, ao_reason = r\<rparr>"
  by (simp add: is_authenticated_def)

lemma auth_extra_trust:
  "dict_get (auth_extra auth e) ''auth_trust'' =
     Some (VStr (trust_value (case ao_identity auth of Some i \<Rightarrow> ai_trust i | None \<Rightarrow> ASSERTED)))"
  "dict_get (auth_extra auth e) ''auth_status'' = Some (VStr (auth_status_value (ao_status auth)))"
  by (auto simp: auth_extra_def Let_def split: option.split)

lemma auth_extra_subject:
  "ao_identity auth = Some i \<Longrightarrow> dict_get (auth_extra auth e) ''auth_subject_id'' = Some (VStr (ai_subject_id i))"
  by (simp add: auth_extra_def Let_def)

lemma auth_extra_other:
  "k \<notin> {''auth_status'', ''auth_subject_id'', ''auth_scheme'', ''auth_trust''} \<Longrightarrow>
   dict_get (auth_extra auth e) k = dict_get e k"
  by (auto simp: auth_extra_def Let_def split: option.split)

lemma wf_auth_extra: "wf_dict e \<Longrightarrow> wf_dict (auth_extra auth e)"
  by (auto simp: auth_extra_def Let_def split: option.split)

lemma resolve_required_knows:
  assumes "resolve_authentication cfg asserted presented = Inr b" and "require_authentication cfg"
  shows "knows_secret (auth_token cfg) presented"
proof (rule ccontr)
  assume "\<not> knows_secret (auth_token cfg) presented"
  then obtain st r where "resolve_authentication cfg asserted presented =
       bind_context (asserted_or_default asserted)
         \<lparr>ao_status = st, ao_identity = None, ao_transport = ''stdio'', ao_reason = r\<rparr> (require_authentication cfg)"
    by (rule resolve_unknown)
  with assms show False
    by (simp add: bind_context_eq)
qed

lemma resolve_governance:
  "resolve_authentication cfg asserted presented = Inr b \<Longrightarrow>
     bc_governance b = bound_governance (asserted_or_default asserted) (bc_auth b)"
proof (cases "knows_secret (auth_token cfg) presented")
  case True
  assume r: "resolve_authentication cfg asserted presented = Inr b"
  show ?thesis
  proof (cases "blank (auth_subject_id cfg)")
    case False
    with resolve_known [OF True False] r show ?thesis by (auto simp: bind_context_eq)
  next
    case blank: True
    from True have "isl (authenticate_shared_secret (auth_token cfg) presented (auth_subject_id cfg))"
      using blank
      by (auto simp: authenticate_shared_secret_def knows_secret_def no_secret_def falsy_def compare_digest_def
          split: option.splits)
    then have False
      using r by (auto simp: resolve_authentication_def res_bind_eq_Inr Let_def)
    then show ?thesis ..
  qed
next
  case False
  assume "resolve_authentication cfg asserted presented = Inr b"
  moreover obtain st r where "resolve_authentication cfg asserted presented =
       bind_context (asserted_or_default asserted)
         \<lparr>ao_status = st, ao_identity = None, ao_transport = ''stdio'', ao_reason = r\<rparr> (require_authentication cfg)"
    using False by (rule resolve_unknown)
  ultimately show ?thesis
    by (auto simp: bind_context_eq)
qed

section \<open>Properties\<close>

text \<open>C21: Under a configuration that requires authentication a request passes exactly when it
  presents the configured secret and claims no other agent or client identity; it fails
  closed in every other case.\<close>

theorem required_authentication_iff:
  assumes "wf_config cfg" and "require_authentication cfg"
  shows "(\<exists>b. resolve_authentication cfg asserted presented = Inr b) =
    (knows_secret (auth_token cfg) presented \<and> no_conflict (asserted_or_default asserted) (auth_subject_id cfg))"
proof (cases "knows_secret (auth_token cfg) presented")
  case True
  with assms show ?thesis
    by (simp add: resolve_known wf_config_subject bind_context_eq)
next
  case False
  then show ?thesis
    using resolve_required_knows assms(2) by blast
qed

theorem required_authentication_iff_witness:
  "(\<exists>b. resolve_authentication demo_config None (Some ''s3cret'') = Inr b) \<and>
   \<not> (\<exists>b. resolve_authentication demo_config None (Some ''guess'') = Inr b)"
proof -
  have wf: "wf_config demo_config" and req: "require_authentication demo_config"
    by code_simp+
  have "knows_secret (auth_token demo_config) (Some ''s3cret'')"
    and "\<not> knows_secret (auth_token demo_config) (Some ''guess'')"
    by code_simp+
  moreover have "no_conflict (asserted_or_default None) subject" for subject
    by (simp add: asserted_or_default_def no_conflict_def default_integration_context_def)
  ultimately show ?thesis
    using required_authentication_iff [OF wf req] by simp
qed

lemma bound_trusted_iff:
  assumes "wf_config cfg" and "resolve_authentication cfg asserted presented = Inr b"
  shows "(bound_trust b = TRUSTED) = knows_secret (auth_token cfg) presented"
proof (cases "knows_secret (auth_token cfg) presented")
  case True
  with assms show ?thesis
    by (auto simp: resolve_known wf_config_subject bind_context_eq bound_trust_def)
next
  case False
  obtain st r where "resolve_authentication cfg asserted presented =
       bind_context (asserted_or_default asserted)
         \<lparr>ao_status = st, ao_identity = None, ao_transport = ''stdio'', ao_reason = r\<rparr> (require_authentication cfg)"
    using False by (rule resolve_unknown)
  with assms(2) False show ?thesis by (auto simp: bind_context_eq bound_trust_def)
qed

text \<open>C22: The bound context is marked trusted exactly for a request that proved knowledge of the
  secret; a trusted request acts under the configured subject only, and no metadata that
  a client asserts can change the recorded trust.\<close>

theorem bound_trust_sound:
  assumes "wf_config cfg" and "resolve_authentication cfg asserted presented = Inr b"
  shows "(bound_trust b = TRUSTED) = knows_secret (auth_token cfg) presented \<and>
    dict_get (gc_extra (bc_governance b)) ''auth_trust'' = Some (VStr (trust_value (bound_trust b))) \<and>
    (if bound_trust b = TRUSTED
     then gc_agent_id (bc_governance b) \<in> {None, Some (auth_subject_id cfg)} \<and>
          gc_client_id (bc_governance b) \<in> {None, Some (auth_subject_id cfg)} \<and>
          dict_get (gc_extra (bc_governance b)) ''auth_subject_id'' = Some (VStr (auth_subject_id cfg))
     else ao_identity (bc_auth b) = None)"
proof (cases "knows_secret (auth_token cfg) presented")
  case True
  with assms show ?thesis
    by (auto simp: resolve_known wf_config_subject bind_context_eq bound_trust_def bound_governance_def
        auth_extra_trust auth_extra_subject no_conflict_def to_governance_context_def)
next
  case False
  obtain st r where "resolve_authentication cfg asserted presented =
       bind_context (asserted_or_default asserted)
         \<lparr>ao_status = st, ao_identity = None, ao_transport = ''stdio'', ao_reason = r\<rparr> (require_authentication cfg)"
    using False by (rule resolve_unknown)
  with assms(2) False show ?thesis
    by (auto simp: bind_context_eq bound_trust_def bound_governance_def auth_extra_trust)
qed

theorem bound_trust_sound_witness:
  "bound_trust (projr (resolve_authentication demo_config None (Some ''s3cret''))) = TRUSTED"
proof -
  have wf: "wf_config demo_config" and k: "knows_secret (auth_token demo_config) (Some ''s3cret'')"
    by code_simp+
  have "\<exists>b. resolve_authentication demo_config None (Some ''s3cret'') = Inr b"
    using wf_config_subject [OF wf]
    by (simp add: resolve_known [OF k] bind_context_eq asserted_or_default_def no_conflict_def
        default_integration_context_def)
  then obtain b where b: "resolve_authentication demo_config None (Some ''s3cret'') = Inr b"
    by blast
  from bound_trust_sound [OF wf b] k show ?thesis by (simp add: b)
qed

text \<open>Reading the presented credential removes it: the arguments that remain for the tool
  have no reserved entry, keep every other entry, and do not depend on its value.\<close>

theorem credential_never_in_arguments:
  "dict_get (fst (extract_presented_secret env av kwargs)) AUTH_TOKEN_KWARG = None \<and>
   (k = AUTH_TOKEN_KWARG \<or> dict_get (fst (extract_presented_secret env av kwargs)) k = dict_get kwargs k) \<and>
   fst (extract_presented_secret env av (dict_set AUTH_TOKEN_KWARG v kwargs)) =
     fst (extract_presented_secret env av kwargs)"
  by (auto simp: extract_presented_secret_def extract_credential_def dict_get_pop dict_pop_set)

end
