(* ===== verification/Audit_Trail.thy ===== *)
theory Audit_Trail
  imports Governance
begin

text \<open>
  Governance audit events and their recorders (\<open>governance/audit.py\<close>). A recorder is a
  state with a \<open>record\<close> operation; the interface says what every recorder keeps of an
  event, and both recorders of the program provide it.
\<close>

section \<open>Events\<close>

datatype audit_event_type = REQUEST | DECISION | EXECUTION_RESULT | EXECUTION_FAILURE

fun event_type_value :: "audit_event_type \<Rightarrow> string" where
  "event_type_value REQUEST = ''request''"
| "event_type_value DECISION = ''decision''"
| "event_type_value EXECUTION_RESULT = ''execution_result''"
| "event_type_value EXECUTION_FAILURE = ''execution_failure''"

record audit_event =
  ae_type :: audit_event_type
  ae_tool :: string
  ae_risk :: "risk_level option"
  ae_decision :: "decision option"
  ae_success :: "bool option"
  ae_message :: "string option"
  ae_context :: sdict
  ae_timestamp :: string
  ae_extra :: sdict

definition event_as_dict :: "audit_event \<Rightarrow> sdict" where
  "event_as_dict e =
     [(''event_type'', VStr (event_type_value (ae_type e))), (''tool_name'', VStr (ae_tool e)),
      (''timestamp'', VStr (ae_timestamp e))]
     @ (case ae_risk e of None \<Rightarrow> [] | Some r \<Rightarrow> [(''risk'', VStr (risk_value r))])
     @ (case ae_decision e of None \<Rightarrow> [] | Some d \<Rightarrow> [(''decision'', VStr (decision_value d))])
     @ (case ae_success e of None \<Rightarrow> [] | Some b \<Rightarrow> [(''success'', VBool b)])
     @ (case ae_message e of None \<Rightarrow> [] | Some m \<Rightarrow> [(''message'', VStr m)])
     @ (if ae_context e \<noteq> [] then [(''context'', vdict (ae_context e))] else [])
     @ (if ae_extra e \<noteq> [] then [(''extra'', vdict (ae_extra e))] else [])"

definition sanitize_audit_payload :: "pyval \<Rightarrow> pyval" where
  "sanitize_audit_payload v = redact v"

section \<open>Recorders\<close>

text \<open>\<open>LoggingAuditRecorder.record\<close>: one \<open>INFO\<close> record whose fields are the sanitized event.\<close>

definition logging_record :: "audit_event \<Rightarrow> log_record list \<Rightarrow> log_record list" where
  "logging_record e log =
     (let safe = sanitize_audit_payload (vdict (event_as_dict e)) in
      log @ [\<lparr>lr_level = 20, lr_message = ''governance_audit'', lr_request_id = None,
              lr_fields = (if is_dict safe then safe else vdict [(''payload'', safe)])\<rparr>])"

text \<open>\<open>InMemoryAuditRecorder\<close>: the list of events with context and extra sanitized.\<close>

definition memory_record :: "audit_event \<Rightarrow> audit_event list \<Rightarrow> audit_event list" where
  "memory_record e events =
     events @ [\<lparr>ae_type = ae_type e, ae_tool = ae_tool e, ae_risk = ae_risk e, ae_decision = ae_decision e,
                ae_success = ae_success e, ae_message = ae_message e, ae_context = redact_dict (ae_context e),
                ae_timestamp = ae_timestamp e, ae_extra = redact_dict (ae_extra e)\<rparr>]"

definition memory_clear :: "audit_event list \<Rightarrow> audit_event list" where
  "memory_clear events = []"

definition memory_of_type :: "audit_event_type \<Rightarrow> audit_event list \<Rightarrow> audit_event list" where
  "memory_of_type t events = filter (\<lambda>e. ae_type e = t) events"

section \<open>The recorder interface\<close>

text \<open>
  What is kept of an event. \<open>trail\<close> reads a recorder's state as the list of dictionaries it
  would show.
\<close>

definition audited :: "audit_event \<Rightarrow> pyval" where
  "audited e = redact (vdict (event_as_dict e))"

locale audit_recorder =
  fixes rec :: "audit_event \<Rightarrow> 's \<Rightarrow> 's"
    and trail :: "'s \<Rightarrow> pyval list"
  assumes trail_rec: "trail (rec e s) = trail s @ [audited e]"
begin

lemma trail_fold: "trail (fold rec es s) = trail s @ map audited es"
  by (induction es arbitrary: s) (simp_all add: trail_rec)

lemma trail_secret_free:
  "list_all secret_free (trail s) \<Longrightarrow> list_all secret_free (trail (fold rec es s))"
  by (auto simp: trail_fold audited_def list_all_iff)

end

lemma audited_keys [simp]:
  "\<not> is_sensitive_key (VStr ''event_type'')" "\<not> is_sensitive_key (VStr ''tool_name'')"
  "\<not> is_sensitive_key (VStr ''timestamp'')" "\<not> is_sensitive_key (VStr ''risk'')"
  "\<not> is_sensitive_key (VStr ''decision'')" "\<not> is_sensitive_key (VStr ''success'')"
  "\<not> is_sensitive_key (VStr ''message'')" "\<not> is_sensitive_key (VStr ''context'')"
  "\<not> is_sensitive_key (VStr ''extra'')"
  by code_simp+

lemma redact_dict_append: "redact_dict (a @ b) = redact_dict a @ redact_dict b"
  by (simp add: redact_dict_def)

lemma redact_dict_simps [simp]:
  "redact_dict [] = []"
  "redact_dict ((k, v) # d) = (k, if is_sensitive_key (VStr k) then VStr REDACTED else redact v) # redact_dict d"
  by (simp_all add: redact_dict_def)

lemma redact_dict_eq_Nil [simp]: "redact_dict d = [] \<longleftrightarrow> d = []"
  by (simp add: redact_dict_def)

text \<open>Redacting the whole event is redacting its two free-form fields.\<close>

lemma audited_eq:
  "audited e = vdict (event_as_dict (e\<lparr>ae_context := redact_dict (ae_context e), ae_extra := redact_dict (ae_extra e)\<rparr>))"
  unfolding audited_def redact_vdict event_as_dict_def redact_dict_append
  by (simp add: redact_vdict split: option.split)

interpretation memory: audit_recorder memory_record "map (\<lambda>e. vdict (event_as_dict e))"
proof
  fix e s
  have "memory_record e s = s @ [e\<lparr>ae_context := redact_dict (ae_context e), ae_extra := redact_dict (ae_extra e)\<rparr>]"
    by (cases e) (simp add: memory_record_def)
  then show "map (\<lambda>e. vdict (event_as_dict e)) (memory_record e s) = map (\<lambda>e. vdict (event_as_dict e)) s @ [audited e]"
    by (simp add: audited_eq)
qed

interpretation logging: audit_recorder logging_record "map lr_fields"
  by unfold_locales (simp add: logging_record_def sanitize_audit_payload_def audited_def vdict_def)

text \<open>C32: The two recorders are interchangeable: for any sequence of events they show the same
  trail, one entry per event in order, with no secret field in any entry.\<close>

theorem recorders_agree:
  "map lr_fields (fold logging_record es []) = map (\<lambda>e. vdict (event_as_dict e)) (fold memory_record es []) \<and>
   length (fold memory_record es []) = length es \<and>
   list_all secret_free (map lr_fields (fold logging_record es []))"
proof -
  have "map (\<lambda>e. vdict (event_as_dict e)) (fold memory_record es []) = map audited es"
    using memory.trail_fold [of es "[]"] by simp
  moreover from this have "length (fold memory_record es []) = length es"
    by (metis length_map)
  ultimately show ?thesis
    using logging.trail_fold [of es "[]"] logging.trail_secret_free [of "[]" es] by simp
qed

end
