(* ===== verification/Gate.thy ===== *)
theory Gate
  imports Auth Approval Audit_Trail
begin

text \<open>
  The enforcement gate (\<open>governance/gate.py\<close>): one call authenticates, checks an approval,
  asks the policy, records audit events and only then runs the tool. The gate's state is
  its approval store (if one is attached), the recorder's state, the world the tools act
  on and the free concurrency slots. What a call reads from outside (environment, context
  variables, clock) is the record \<open>call_env\<close>.
\<close>

section \<open>The gate and its calls\<close>

record 'a gate =
  g_catalog :: catalog
  g_policy :: policy
  g_record :: "audit_event \<Rightarrow> 'a \<Rightarrow> 'a"
  g_config :: "server_config option"

record ('a, 'w) gate_state =
  gs_store :: "approval_store option"
  gs_audit :: 'a
  gs_world :: 'w
  gs_slots :: nat

record call_env =
  ce_env :: environ
  ce_vars :: auth_vars
  ce_now :: int
  ce_stamp :: "nat \<Rightarrow> string"

text \<open>A tool body: positional and keyword arguments, and the world it reads and changes.\<close>

type_synonym 'w tool_fn = "pyval list \<Rightarrow> sdict \<Rightarrow> 'w \<Rightarrow> 'w \<times> pyval result"

definition APPROVAL_PRESENT_ENV :: string where
  "APPROVAL_PRESENT_ENV = ''YASIN_MCP_PRESENT_APPROVAL_TOKEN''"

definition concurrency_limit :: "'a gate \<Rightarrow> nat" where
  "concurrency_limit g = (case g_config g of None \<Rightarrow> 32 | Some c \<Rightarrow> nat (max_concurrent_requests c))"

definition decision_message :: "decision \<Rightarrow> string \<Rightarrow> string" where
  "decision_message d tool_name =
     (case d of
        DENY \<Rightarrow> ''Governance denied execution of tool '' @ str_repr tool_name
      | APPROVAL_REQUIRED \<Rightarrow> ''Governance requires approval before executing tool '' @ str_repr tool_name @
          ''; execution was not performed''
      | ALLOW \<Rightarrow> ''Governance decision '' @ decision_value d @ '' for tool '' @ str_repr tool_name)"

section \<open>What a call presents\<close>

definition extract_approval_token :: "environ \<Rightarrow> bool \<Rightarrow> sdict \<Rightarrow> sdict \<times> string option" where
  "extract_approval_token env allow_environment_fallback kwargs =
     (dict_pop APPROVAL_TOKEN_KWARG kwargs,
      (let raw = sget kwargs APPROVAL_TOKEN_KWARG VNone in
       if raw \<noteq> VNone then Some (py_str raw)
       else if \<not> allow_environment_fallback then None
       else if falsy (env APPROVAL_PRESENT_ENV) then None else env APPROVAL_PRESENT_ENV))"

record call_inputs =
  ci_kwargs :: sdict
  ci_secret :: "string option"
  ci_approval :: "string option"

text \<open>Both reserved arguments are removed; an explicit parameter of the call wins.\<close>

definition extract_inputs ::
  "'a gate \<Rightarrow> call_env \<Rightarrow> sdict \<Rightarrow> string option \<Rightarrow> string option \<Rightarrow> call_inputs" where
  "extract_inputs g ce kwargs presented approval =
     (let (kwargs1, extracted_secret) = extract_presented_secret (ce_env ce) (ce_vars ce) kwargs;
          allow = (case g_config g of None \<Rightarrow> True | Some c \<Rightarrow> \<not> remote_enabled c);
          (kwargs2, extracted_approval) = extract_approval_token (ce_env ce) allow kwargs1
      in \<lparr>ci_kwargs = kwargs2,
          ci_secret = (if presented = None then extracted_secret else presented),
          ci_approval = (if approval = None then extracted_approval else approval)\<rparr>)"

section \<open>Deciding\<close>

definition resolve_tool :: "'a gate \<Rightarrow> string \<Rightarrow> tool_identity result" where
  "resolve_tool g name = catalog_resolve (g_catalog g) name"

definition evaluate :: "'a gate \<Rightarrow> string \<Rightarrow> governance_context option \<Rightarrow> (tool_identity \<times> decision) result" where
  "evaluate g tool_name context =
     res_bind (resolve_tool g tool_name) (\<lambda>tool.
     res_bind (g_policy g tool context) (\<lambda>answer.
       case answer of
         Decided d \<Rightarrow> Inr (tool, d)
       | NotADecision v \<Rightarrow>
           Inl (Mcp (validation_error (''Policy returned invalid decision '' @ py_repr v)
                  [(''tool'', VStr tool_name), (''decision'', VStr (py_str v))]))))"

definition approval_extra :: "approval_result \<Rightarrow> sdict \<Rightarrow> sdict" where
  "approval_extra r extra =
     (let extra2 = dict_set ''approval_reason'' (VStr (ar_reason r))
                     (dict_set ''approval_status'' (VStr (approval_status_value (ar_status r))) extra)
      in case ar_grant r of None \<Rightarrow> extra2
         | Some g \<Rightarrow> dict_set ''approval_id'' (VStr (ag_approval_id g)) extra2)"

definition apply_approval ::
  "int \<Rightarrow> string \<Rightarrow> tool_identity \<Rightarrow> governance_context option \<Rightarrow> string option \<Rightarrow>
   approval_store option \<Rightarrow> approval_store option \<times> governance_context option result" where
  "apply_approval now tool_name tool context approval_token store =
     (if \<not> (ti_risk tool = MUTATION \<or> approval_token \<noteq> None) then (store, Inr context)
      else case store of
        None \<Rightarrow>
          (if ti_risk tool = MUTATION \<and> \<not> falsy approval_token then
             (store, Inl (Mcp (validation_error ''approval store not configured''
                        [(''reason_code'', VStr ''approval_unknown''), (''tool'', VStr tool_name)])))
           else (store, Inr context))
      | Some st \<Rightarrow>
          (let subject = (case context of None \<Rightarrow> None | Some c \<Rightarrow> gc_agent_id c);
               (st', r) = validate_and_consume approval_token tool_name context subject now st;
               extra = approval_extra r (case context of None \<Rightarrow> [] | Some c \<Rightarrow> gc_extra c)
           in if ar_status r = GRANTED \<or> ar_status r = MISSING then
                (Some st', Inr (Some ((case context of None \<Rightarrow> empty_context | Some c \<Rightarrow> c)\<lparr>gc_extra := extra\<rparr>)))
              else
                (Some st', Inl (Mcp (validation_error (''approval rejected: '' @ ar_reason r)
                   [(''reason_code'', VStr (ar_reason r)), (''tool'', VStr tool_name),
                    (''approval_status'', VStr (approval_status_value (ar_status r)))])))))"

text \<open>Authentication, approval and policy, up to the decision.\<close>

definition authenticate_call ::
  "'a gate \<Rightarrow> call_env \<Rightarrow> governance_context option \<Rightarrow> string option \<Rightarrow> governance_context option result" where
  "authenticate_call g ce context presented =
     res_bind (resolve_execution_auth (ce_env ce) (ce_vars ce) (g_config g) context presented None) (\<lambda>bound.
       Inr (case bound of None \<Rightarrow> context | Some b \<Rightarrow> Some (bc_governance b)))"

definition decide ::
  "'a gate \<Rightarrow> call_env \<Rightarrow> string \<Rightarrow> governance_context option \<Rightarrow> call_inputs \<Rightarrow> approval_store option \<Rightarrow>
   approval_store option \<times> (tool_identity \<times> decision \<times> governance_context option) result" where
  "decide g ce tool_name context inp store =
     (case res_bind (authenticate_call g ce context (ci_secret inp)) (\<lambda>ctx1.
             res_bind (resolve_tool g tool_name) (\<lambda>tool. Inr (ctx1, tool))) of
        Inl e \<Rightarrow> (store, Inl e)
      | Inr (ctx1, tool) \<Rightarrow>
          (let (store1, approved) = apply_approval (ce_now ce) tool_name tool ctx1 (ci_approval inp) store in
           (store1, res_bind approved (\<lambda>ctx2.
              res_bind (evaluate g tool_name ctx2) (\<lambda>(tool2, d). Inr (tool2, d, ctx2))))))"

section \<open>Executing\<close>

definition safe_audit_context :: "governance_context option \<Rightarrow> sdict" where
  "safe_audit_context context = redact_dict (case context of None \<Rightarrow> [] | Some c \<Rightarrow> context_as_dict c)"

definition request_event :: "string \<Rightarrow> tool_identity \<Rightarrow> sdict \<Rightarrow> string \<Rightarrow> audit_event" where
  "request_event tool_name tool safe stamp =
     \<lparr>ae_type = REQUEST, ae_tool = tool_name, ae_risk = Some (ti_risk tool), ae_decision = None, ae_success = None,
      ae_message = None, ae_context = safe, ae_timestamp = stamp, ae_extra = [(''known'', VBool (ti_known tool))]\<rparr>"

definition decision_event :: "string \<Rightarrow> tool_identity \<Rightarrow> decision \<Rightarrow> sdict \<Rightarrow> string \<Rightarrow> audit_event" where
  "decision_event tool_name tool d safe stamp =
     \<lparr>ae_type = DECISION, ae_tool = tool_name, ae_risk = Some (ti_risk tool), ae_decision = Some d, ae_success = None,
      ae_message = Some (decision_message d tool_name), ae_context = safe, ae_timestamp = stamp, ae_extra = []\<rparr>"

definition outcome_event :: "string \<Rightarrow> tool_identity \<Rightarrow> sdict \<Rightarrow> string \<Rightarrow> pyval result \<Rightarrow> audit_event" where
  "outcome_event tool_name tool safe stamp r =
     (case r of
        Inl exc \<Rightarrow>
          \<lparr>ae_type = EXECUTION_FAILURE, ae_tool = tool_name, ae_risk = Some (ti_risk tool), ae_decision = Some ALLOW,
           ae_success = Some False, ae_message = Some (exn_class_name exc), ae_context = safe, ae_timestamp = stamp,
           ae_extra = []\<rparr>
      | Inr _ \<Rightarrow>
          \<lparr>ae_type = EXECUTION_RESULT, ae_tool = tool_name, ae_risk = Some (ti_risk tool), ae_decision = Some ALLOW,
           ae_success = Some True, ae_message = None, ae_context = safe, ae_timestamp = stamp, ae_extra = []\<rparr>)"

record admission =
  ad_kwargs :: sdict
  ad_tool :: tool_identity
  ad_context :: sdict

text \<open>Everything before the tool body: a decision is recorded, and only \<open>ALLOW\<close> admits.\<close>

definition admit ::
  "'a gate \<Rightarrow> call_env \<Rightarrow> string \<Rightarrow> sdict \<Rightarrow> governance_context option \<Rightarrow> string option \<Rightarrow> string option \<Rightarrow>
   ('a, 'w) gate_state \<Rightarrow> ('a, 'w) gate_state \<times> admission result" where
  "admit g ce tool_name kwargs context presented approval st =
     (let inp = extract_inputs g ce kwargs presented approval;
          (store1, r) = decide g ce tool_name context inp (gs_store st);
          st1 = st\<lparr>gs_store := store1\<rparr>
      in case r of
           Inl e \<Rightarrow> (st1, Inl e)
         | Inr (tool, d, ctx) \<Rightarrow>
             (let safe = safe_audit_context ctx;
                  st2 = st1\<lparr>gs_audit := g_record g (decision_event tool_name tool d safe (ce_stamp ce 1))
                              (g_record g (request_event tool_name tool safe (ce_stamp ce 0)) (gs_audit st1))\<rparr>
              in if d \<noteq> ALLOW then
                   (st2, Inl (Mcp (policy_denied_error (decision_message d tool_name)
                      [(''tool'', VStr tool_name), (''decision'', VStr (decision_value d)),
                       (''risk'', VStr (risk_value (ti_risk tool))), (''known'', VBool (ti_known tool))])))
                 else (st2, Inr \<lparr>ad_kwargs = ci_kwargs inp, ad_tool = tool, ad_context = safe\<rparr>)))"

definition run_tool ::
  "'a gate \<Rightarrow> call_env \<Rightarrow> string \<Rightarrow> 'w tool_fn \<Rightarrow> pyval list \<Rightarrow> admission \<Rightarrow> ('a, 'w) gate_state \<Rightarrow>
   ('a, 'w) gate_state \<times> pyval result" where
  "run_tool g ce tool_name fn args adm st =
     (let (w', r) = fn args (ad_kwargs adm) (gs_world st)
      in (st\<lparr>gs_world := w',
             gs_audit := g_record g (outcome_event tool_name (ad_tool adm) (ad_context adm) (ce_stamp ce 2) r) (gs_audit st)\<rparr>, r))"

definition execute ::
  "'a gate \<Rightarrow> call_env \<Rightarrow> string \<Rightarrow> 'w tool_fn \<Rightarrow> pyval list \<Rightarrow> sdict \<Rightarrow> governance_context option \<Rightarrow>
   string option \<Rightarrow> string option \<Rightarrow> ('a, 'w) gate_state \<Rightarrow> ('a, 'w) gate_state \<times> pyval result" where
  "execute g ce tool_name fn args kwargs context presented approval st =
     (let (st1, r) = admit g ce tool_name kwargs context presented approval st in
      case r of Inl e \<Rightarrow> (st1, Inl e) | Inr adm \<Rightarrow> run_tool g ce tool_name fn args adm st1)"

definition concurrency_error :: "'a gate \<Rightarrow> mcp_error" where
  "concurrency_error g = rate_limited_error ''MCP concurrency limit reached; retry later''
     [(''limit'', VInt (int (concurrency_limit g))), (''reason_code'', VStr ''concurrency_limit'')]"

definition to_client :: "'b result \<Rightarrow> 'b result" where
  "to_client r = (case r of Inl (Mcp e) \<Rightarrow> Inl (raise_as_mcp_tool_error e) | _ \<Rightarrow> r)"

text \<open>The wrapper that \<open>wrap_tool\<close> installs: a free slot or a refusal, and the slot is given back.\<close>

definition sync_wrapper ::
  "'a gate \<Rightarrow> call_env \<Rightarrow> string \<Rightarrow> 'w tool_fn \<Rightarrow> pyval list \<Rightarrow> sdict \<Rightarrow> ('a, 'w) gate_state \<Rightarrow>
   ('a, 'w) gate_state \<times> pyval result" where
  "sync_wrapper g ce tool_name fn args kwargs st =
     (if gs_slots st = 0 then (st, Inl (raise_as_mcp_tool_error (concurrency_error g)))
      else (let (st1, r) = execute g ce tool_name fn args kwargs None None None (st\<lparr>gs_slots := gs_slots st - 1\<rparr>)
            in (st1\<lparr>gs_slots := gs_slots st1 + 1\<rparr>, to_client r)))"

text \<open>The gate as constructed: a default policy, and one slot per allowed concurrent request.\<close>

definition make_gate ::
  "catalog \<Rightarrow> policy option \<Rightarrow> (audit_event \<Rightarrow> 'a \<Rightarrow> 'a) \<Rightarrow> server_config option \<Rightarrow> 'a gate" where
  "make_gate cat pol rec config =
     \<lparr>g_catalog = cat, g_policy = (case pol of Some p \<Rightarrow> p | None \<Rightarrow> default_conservative_evaluate),
      g_record = rec, g_config = config\<rparr>"

definition initial_state :: "'a gate \<Rightarrow> approval_store option \<Rightarrow> 'a \<Rightarrow> 'w \<Rightarrow> ('a, 'w) gate_state" where
  "initial_state g store audit world =
     \<lparr>gs_store = store, gs_audit = audit, gs_world = world, gs_slots = concurrency_limit g\<rparr>"

section \<open>The steps of a call\<close>

lemma ci_kwargs_eq [simp]:
  "ci_kwargs (extract_inputs g ce kwargs p t) = dict_pop APPROVAL_TOKEN_KWARG (dict_pop AUTH_TOKEN_KWARG kwargs)"
  by (simp add: extract_inputs_def extract_presented_secret_def extract_credential_def extract_approval_token_def
      split_beta Let_def)

lemma evaluate_eq:
  "evaluate g n ctx = Inr (tool, d) \<longleftrightarrow> resolve_tool g n = Inr tool \<and> g_policy g tool ctx = Inr (Decided d)"
proof -
  have answer: "(case a of Decided d' \<Rightarrow> Inr (t, d') | NotADecision v \<Rightarrow> Inl (f v)) = Inr (tool, d) \<longleftrightarrow> a = Decided d \<and> t = tool"
    for a t and f :: "pyval \<Rightarrow> pyexn"
    by (cases a) auto
  show ?thesis
    by (auto simp: evaluate_def res_bind_eq_Inr answer)
qed

lemma decide_Inr:
  assumes "decide g ce n ctx inp store = (store1, Inr (tool, d, ctx2))"
  obtains ctx1 where "authenticate_call g ce ctx (ci_secret inp) = Inr ctx1" and "resolve_tool g n = Inr tool"
    and "apply_approval (ce_now ce) n tool ctx1 (ci_approval inp) store = (store1, Inr ctx2)"
    and "g_policy g tool ctx2 = Inr (Decided d)"
proof -
  from assms obtain ctx1 tool1 where auth: "authenticate_call g ce ctx (ci_secret inp) = Inr ctx1"
    and tool1: "resolve_tool g n = Inr tool1"
    by (auto simp: decide_def res_bind_def split: sum.splits)
  obtain store2 r where r: "apply_approval (ce_now ce) n tool1 ctx1 (ci_approval inp) store = (store2, r)"
    by (cases "apply_approval (ce_now ce) n tool1 ctx1 (ci_approval inp) store")
  have "store2 = store1" and "r = Inr ctx2" and "evaluate g n ctx2 = Inr (tool, d)"
    using assms by (auto simp: decide_def auth tool1 r res_bind_eq_Inr)
  with auth tool1 r show ?thesis
    by (intro that) (auto simp: evaluate_eq)
qed

text \<open>The three ways a call can go: rejected before a decision, denied, or run.\<close>

lemma execute_cases:
  fixes st :: "('a, 'w) gate_state"
  obtains
    (rejected) store1 e where
      "decide g ce n ctx (extract_inputs g ce kwargs p t) (gs_store st) = (store1, Inl e)"
      "admit g ce n kwargs ctx p t st = (st\<lparr>gs_store := store1\<rparr>, Inl e)"
      "execute g ce n fn args kwargs ctx p t st = (st\<lparr>gs_store := store1\<rparr>, Inl e)"
  | (denied) store1 tool d ctx2 e where
      "decide g ce n ctx (extract_inputs g ce kwargs p t) (gs_store st) = (store1, Inr (tool, d, ctx2))"
      "d \<noteq> ALLOW"
      "admit g ce n kwargs ctx p t st = (st\<lparr>gs_store := store1,
          gs_audit := fold (g_record g)
            [request_event n tool (safe_audit_context ctx2) (ce_stamp ce 0),
             decision_event n tool d (safe_audit_context ctx2) (ce_stamp ce 1)] (gs_audit st)\<rparr>, Inl e)"
      "execute g ce n fn args kwargs ctx p t st = (st\<lparr>gs_store := store1,
          gs_audit := fold (g_record g)
            [request_event n tool (safe_audit_context ctx2) (ce_stamp ce 0),
             decision_event n tool d (safe_audit_context ctx2) (ce_stamp ce 1)] (gs_audit st)\<rparr>, Inl e)"
      "\<exists>m ds. e = Mcp (policy_denied_error m ds)"
  | (ran) store1 tool ctx2 w r where
      "decide g ce n ctx (extract_inputs g ce kwargs p t) (gs_store st) = (store1, Inr (tool, ALLOW, ctx2))"
      "fn args (dict_pop APPROVAL_TOKEN_KWARG (dict_pop AUTH_TOKEN_KWARG kwargs)) (gs_world st) = (w, r)"
      "admit g ce n kwargs ctx p t st = (st\<lparr>gs_store := store1,
          gs_audit := fold (g_record g)
            [request_event n tool (safe_audit_context ctx2) (ce_stamp ce 0),
             decision_event n tool ALLOW (safe_audit_context ctx2) (ce_stamp ce 1)] (gs_audit st)\<rparr>,
         Inr \<lparr>ad_kwargs = dict_pop APPROVAL_TOKEN_KWARG (dict_pop AUTH_TOKEN_KWARG kwargs), ad_tool = tool,
              ad_context = safe_audit_context ctx2\<rparr>)"
      "execute g ce n fn args kwargs ctx p t st = (st\<lparr>gs_store := store1, gs_world := w,
          gs_audit := fold (g_record g)
            [request_event n tool (safe_audit_context ctx2) (ce_stamp ce 0),
             decision_event n tool ALLOW (safe_audit_context ctx2) (ce_stamp ce 1),
             outcome_event n tool (safe_audit_context ctx2) (ce_stamp ce 2) r] (gs_audit st)\<rparr>, r)"
proof -
  obtain store1 r where d: "decide g ce n ctx (extract_inputs g ce kwargs p t) (gs_store st) = (store1, r)"
    by (cases "decide g ce n ctx (extract_inputs g ce kwargs p t) (gs_store st)")
  show ?thesis
  proof (cases r)
    case (Inl e)
    with d show ?thesis
      by (intro rejected [of store1 e]) (simp_all add: execute_def admit_def Let_def)
  next
    case (Inr x)
    obtain tool dec ctx2 where x: "x = (tool, dec, ctx2)" by (cases x)
    show ?thesis
    proof (cases "dec = ALLOW")
      case True
      obtain w r' where "fn args (dict_pop APPROVAL_TOKEN_KWARG (dict_pop AUTH_TOKEN_KWARG kwargs)) (gs_world st) = (w, r')"
        by (cases "fn args (dict_pop APPROVAL_TOKEN_KWARG (dict_pop AUTH_TOKEN_KWARG kwargs)) (gs_world st)")
      with d True Inr x show ?thesis
        by (intro ran [of store1 tool ctx2 w r']) (simp_all add: execute_def admit_def run_tool_def Let_def)
    next
      case False
      with d Inr x show ?thesis
        by (intro denied [of store1 tool dec ctx2]) (auto simp: execute_def admit_def Let_def)
    qed
  qed
qed

text \<open>A call runs its tool body exactly when it reaches the decision \<open>ALLOW\<close>.\<close>

definition runs_body ::
  "'a gate \<Rightarrow> call_env \<Rightarrow> string \<Rightarrow> sdict \<Rightarrow> governance_context option \<Rightarrow> string option \<Rightarrow> string option \<Rightarrow>
   ('a, 'w) gate_state \<Rightarrow> bool" where
  "runs_body g ce n kwargs ctx p t st \<longleftrightarrow>
     (case snd (decide g ce n ctx (extract_inputs g ce kwargs p t) (gs_store st)) of
        Inl _ \<Rightarrow> False | Inr (tool, d, ctx2) \<Rightarrow> d = ALLOW)"

lemma runs_body_decide:
  "runs_body g ce n kwargs ctx p t st \<longleftrightarrow>
     (\<exists>store1 tool ctx2. decide g ce n ctx (extract_inputs g ce kwargs p t) (gs_store st) = (store1, Inr (tool, ALLOW, ctx2)))"
  by (cases "decide g ce n ctx (extract_inputs g ce kwargs p t) (gs_store st)")
    (auto simp: runs_body_def split: sum.splits)

lemma store_after:
  "gs_store (fst (execute g ce n fn args kwargs ctx p t st)) =
     fst (decide g ce n ctx (extract_inputs g ce kwargs p t) (gs_store st))"
  by (rule execute_cases [of g ce n ctx kwargs p t st fn args]) simp_all

section \<open>Approvals at the gate\<close>

lemma approval_extra_status [simp]:
  "dict_get (approval_extra r e) ''approval_status'' = Some (VStr (approval_status_value (ar_status r)))"
  by (simp add: approval_extra_def Let_def split: option.split)

lemma approval_value_granted [simp]: "approval_status_value s = ''granted'' \<longleftrightarrow> s = GRANTED"
  by (cases s) simp_all

lemma apply_approval_no_store: "fst (apply_approval now n tool ctx tok None) = None"
  by (simp add: apply_approval_def)

lemma apply_approval_store:
  "ti_risk tool = MUTATION \<or> tok \<noteq> None \<Longrightarrow> apply_approval now n tool ctx tok (Some s) = (store1, r) \<Longrightarrow>
   store1 = Some (fst (validate_and_consume tok n ctx (Option.bind ctx gc_agent_id) now s)) \<and>
   (\<forall>ctx2. r = Inr ctx2 \<longrightarrow>
      ar_status (snd (validate_and_consume tok n ctx (Option.bind ctx gc_agent_id) now s)) \<in> {GRANTED, MISSING} \<and>
      (approval_granted ctx2 \<longleftrightarrow>
         ar_status (snd (validate_and_consume tok n ctx (Option.bind ctx gc_agent_id) now s)) = GRANTED))"
  by (auto simp: apply_approval_def option_case_bind approval_granted_def split_beta Let_def split: if_splits)

lemma apply_approval_unneeded:
  "ti_risk tool \<noteq> MUTATION \<Longrightarrow> apply_approval now n tool ctx None store = (store, Inr ctx)"
  by (simp add: apply_approval_def)

text \<open>
  A mutating tool admitted by a conservative policy at a gate with a store: the call
  presented a live grant for this tool, and the grant is spent if it is for a single use.
\<close>

context conservative_policy
begin

lemma admitted_known_low:
  assumes "g_policy g = evaluate" and "decide g ce n ctx inp store = (store1, Inr (tool, ALLOW, ctx2))"
  shows "ti_known tool \<and> (ti_risk tool \<le> LOW_RISK \<or> ti_risk tool = MUTATION \<and> approval_granted ctx2)"
proof (rule allow_cases)
  from assms(2) show "evaluate tool ctx2 = Inr (Decided ALLOW)"
    by (rule decide_Inr) (simp add: assms(1) [symmetric])
qed

lemma admitted_mutation_grant:
  assumes pol: "g_policy g = evaluate"
    and dec: "decide g ce n ctx inp (Some s) = (store1, Inr (tool, ALLOW, ctx2))"
    and mut: "ti_risk tool = MUTATION"
  shows "\<exists>t gr s1. ci_approval inp = Some t \<and> live_grant s (py_strip t) = Some gr \<and> ag_tool_name gr = n \<and>
     ce_now ce < ag_expires_at gr \<and> store1 = Some s1 \<and>
     live_grant s1 = (if ag_single_use gr then (live_grant s)(py_strip t := None) else live_grant s)"
proof -
  from dec obtain ctx1 where
    app: "apply_approval (ce_now ce) n tool ctx1 (ci_approval inp) (Some s) = (store1, Inr ctx2)"
    by (rule decide_Inr)
  have "approval_granted ctx2"
    using admitted_known_low [OF pol dec] mut by (auto simp: less_eq_risk_level_def)
  with apply_approval_store [OF disjI1 [OF mut] app]
  have store1: "store1 = Some (fst (validate_and_consume (ci_approval inp) n ctx1 (Option.bind ctx1 gc_agent_id) (ce_now ce) s))"
    and granted: "ar_status (snd (validate_and_consume (ci_approval inp) n ctx1 (Option.bind ctx1 gc_agent_id) (ce_now ce) s)) = GRANTED"
    by simp_all
  from ims.granted_live [OF granted] obtain t gr where
    t: "ci_approval inp = Some t" and live: "live_grant s (py_strip t) = Some gr"
    and facts: "ag_tool_name gr = n" "ce_now ce < ag_expires_at gr"
    by blast
  from ims.granted_spends [OF granted [unfolded t] live] store1 t live facts
  show ?thesis by (intro exI conjI) (assumption | simp)+
qed

end

text \<open>A presented token, for any tool: the call runs only if the token was granted.\<close>

lemma presented_token_granted:
  assumes "decide g ce n ctx inp (Some s) = (store1, Inr (tool, d, ctx2))"
    and "ci_approval inp = Some t" and "\<not> blank t"
  shows "\<exists>gr s1. live_grant s (py_strip t) = Some gr \<and> ag_tool_name gr = n \<and> store1 = Some s1 \<and>
     live_grant s1 = (if ag_single_use gr then (live_grant s)(py_strip t := None) else live_grant s)"
proof -
  from assms(1) obtain ctx1 where
    "apply_approval (ce_now ce) n tool ctx1 (Some t) (Some s) = (store1, Inr ctx2)"
    by (rule decide_Inr) (simp add: assms(2))
  from apply_approval_store [OF disjI2 this]
  have store1: "store1 = Some (fst (validate_and_consume (Some t) n ctx1 (Option.bind ctx1 gc_agent_id) (ce_now ce) s))"
    and st: "ar_status (snd (validate_and_consume (Some t) n ctx1 (Option.bind ctx1 gc_agent_id) (ce_now ce) s)) \<in> {GRANTED, MISSING}"
    by simp_all
  have granted: "ar_status (snd (validate_and_consume (Some t) n ctx1 (Option.bind ctx1 gc_agent_id) (ce_now ce) s)) = GRANTED"
  proof (cases rule: validate_cases [of "Some t" s "ce_now ce" n ctx1 "Option.bind ctx1 gc_agent_id"])
    case (refused r)
    have "ar_status r \<noteq> MISSING"
      using refused(1) assms(3)
      by (auto simp: validate_and_consume_def Let_def refuse_def split: option.splits if_splits)
    with st refused show ?thesis by simp
  qed simp
  from ims.granted_live [OF granted] obtain gr where
    live: "live_grant s (py_strip t) = Some gr" and "ag_tool_name gr = n"
    by auto
  with ims.granted_spends [OF granted live] store1 show ?thesis
    by (intro exI conjI) (assumption | simp)+
qed

section \<open>A concrete gate\<close>

text \<open>A gate that requires authentication, with a mutating and a reading tool and one issued token.\<close>

definition demo_gate :: "audit_event list gate" where
  "demo_gate = make_gate [(''deploy'', MUTATION), (''read'', READ_ONLY)] None memory_record (Some demo_config)"

definition demo_call_env :: call_env where
  "demo_call_env = \<lparr>ce_env = (\<lambda>_. None), ce_vars = \<lparr>av_secret = None, av_asserted = None\<rparr>, ce_now = 5,
     ce_stamp = (\<lambda>_. ''now'')\<rparr>"

definition demo_store :: approval_store where
  "demo_store = fst (issue ''deploy'' None None None 60 True ''tk'' ''id'' 0 [])"

definition demo_state :: "(audit_event list, nat) gate_state" where
  "demo_state = initial_state demo_gate (Some demo_store) [] 0"

definition demo_kwargs :: sdict where
  "demo_kwargs = [(''_yasin_auth_token'', VStr ''s3cret''), (''x'', VInt 1), (''_yasin_approval_token'', VStr ''tk'')]"

definition demo_fn :: "nat tool_fn" where
  "demo_fn args kwargs w = (Suc w, Inr VNone)"

lemma demo_runs: "runs_body demo_gate demo_call_env ''deploy'' demo_kwargs None None None demo_state"
  by code_simp

lemma demo_anonymous_stopped: "\<not> runs_body demo_gate demo_call_env ''read'' [] None None None demo_state"
  by code_simp

end
