(* ===== verification/Gate_Safety.thy ===== *)
theory Gate_Safety
  imports Gate
begin

text \<open>
  What the gate guarantees for a single call: which calls run their tool, what a mutating
  tool needs, what a required authentication means, what is audited, and what the tool
  body gets to see.
\<close>

section \<open>Which calls run\<close>

text \<open>C10: A call touches the world exactly when the policy's decision for it is \<open>ALLOW\<close>: then the
  outcome is that of the tool body on the cleaned arguments, otherwise the world is
  unchanged and the call raises. In either case the approval store is the one the decision left
  (a refused call, too, may have spent the approval it presented), no slot is taken, and
  what was recorded is only added to.\<close>

theorem only_allowed_calls_run:
  "gs_store (fst (execute g ce n fn args kwargs ctx p t st)) =
     fst (decide g ce n ctx (extract_inputs g ce kwargs p t) (gs_store st)) \<and>
   gs_slots (fst (execute g ce n fn args kwargs ctx p t st)) = gs_slots st \<and>
   (\<exists>events. gs_audit (fst (execute g ce n fn args kwargs ctx p t st)) = fold (g_record g) events (gs_audit st)) \<and>
   (if runs_body g ce n kwargs ctx p t st
    then gs_world (fst (execute g ce n fn args kwargs ctx p t st)) =
           fst (fn args (dict_pop APPROVAL_TOKEN_KWARG (dict_pop AUTH_TOKEN_KWARG kwargs)) (gs_world st)) \<and>
         snd (execute g ce n fn args kwargs ctx p t st) =
           snd (fn args (dict_pop APPROVAL_TOKEN_KWARG (dict_pop AUTH_TOKEN_KWARG kwargs)) (gs_world st))
    else gs_world (fst (execute g ce n fn args kwargs ctx p t st)) = gs_world st \<and>
         isl (snd (execute g ce n fn args kwargs ctx p t st)))"
proof (cases rule: execute_cases [of g ce n ctx kwargs p t st fn args])
  case (rejected store1 e)
  then show ?thesis by (auto simp: runs_body_decide intro: exI [of _ "[]"])
next
  case (denied store1 tool d ctx2 e)
  then show ?thesis
    by (auto simp: runs_body_decide
        intro: exI [of _ "[request_event n tool (safe_audit_context ctx2) (ce_stamp ce 0),
          decision_event n tool d (safe_audit_context ctx2) (ce_stamp ce 1)]"])
next
  case (ran store1 tool ctx2 w r)
  then show ?thesis
    by (auto simp: runs_body_decide
        intro: exI [of _ "[request_event n tool (safe_audit_context ctx2) (ce_stamp ce 0),
          decision_event n tool ALLOW (safe_audit_context ctx2) (ce_stamp ce 1),
          outcome_event n tool (safe_audit_context ctx2) (ce_stamp ce 2) r]"])
qed

lemma runs_body_catalog:
  assumes "runs_body g ce n kwargs ctx p t st"
  obtains store1 tool ctx2 where
    "decide g ce n ctx (extract_inputs g ce kwargs p t) (gs_store st) = (store1, Inr (tool, ALLOW, ctx2))"
    and "catalog_resolve (g_catalog g) n = Inr tool"
proof -
  from assms obtain store1 tool ctx2 where
    dec: "decide g ce n ctx (extract_inputs g ce kwargs p t) (gs_store st) = (store1, Inr (tool, ALLOW, ctx2))"
    unfolding runs_body_decide by blast
  then have "catalog_resolve (g_catalog g) n = Inr tool"
    by (rule decide_Inr) (simp add: resolve_tool_def)
  with dec show ?thesis by (rule that)
qed

text \<open>C15: Under the default policy a tool that is not in the catalog, or is there as high risk,
  never runs, whatever the request presents.\<close>

theorem unknown_or_high_risk_never_runs:
  assumes "g_policy g = default_conservative_evaluate"
    and "dict_get (g_catalog g) n \<in> {None, Some HIGH_RISK}"
  shows "gs_world (fst (execute g ce n fn args kwargs ctx p t st)) = gs_world st \<and>
    isl (snd (execute g ce n fn args kwargs ctx p t st))"
proof -
  have "\<not> runs_body g ce n kwargs ctx p t st"
  proof
    assume "runs_body g ce n kwargs ctx p t st"
    then obtain store1 tool ctx2 where
      dec: "decide g ce n ctx (extract_inputs g ce kwargs p t) (gs_store st) = (store1, Inr (tool, ALLOW, ctx2))"
      and tool: "catalog_resolve (g_catalog g) n = Inr tool"
      by (rule runs_body_catalog)
    from dcp.admitted_known_low [OF assms(1) dec] have "ti_known tool" and "ti_risk tool \<noteq> HIGH_RISK"
      by (auto simp: less_eq_risk_level_def)
    with catalog_resolve_facts [OF tool] assms(2) show False by auto
  qed
  then show ?thesis
    by (cases rule: execute_cases [of g ce n ctx kwargs p t st fn args]) (auto simp: runs_body_decide)
qed

theorem unknown_or_high_risk_never_runs_witness:
  "gs_world (fst (execute demo_gate demo_call_env ''drop'' demo_fn [] demo_kwargs None None None demo_state)) = 0"
proof -
  have "g_policy demo_gate = default_conservative_evaluate" and "dict_get (g_catalog demo_gate) ''drop'' \<in> {None, Some HIGH_RISK}"
    and "gs_world demo_state = 0"
    by (simp_all add: demo_gate_def make_gate_def demo_state_def initial_state_def)
  with unknown_or_high_risk_never_runs [of demo_gate "''drop''" demo_call_env demo_fn "[]" demo_kwargs None None None demo_state]
  show ?thesis by simp
qed

text \<open>C5: At a gate with the default policy and an approval store, a mutating tool runs only if
  the call presents a token that is live for this tool and has not expired, and a
  single-use token is spent by the call.\<close>

theorem mutation_needs_live_grant:
  assumes "g_policy g = default_conservative_evaluate" and "gs_store st = Some s"
    and "dict_get (g_catalog g) n = Some MUTATION"
    and "runs_body g ce n kwargs ctx p t st"
  shows "\<exists>tok gr s1. ci_approval (extract_inputs g ce kwargs p t) = Some tok \<and>
     live_grant s (py_strip tok) = Some gr \<and> ag_tool_name gr = n \<and> ce_now ce < ag_expires_at gr \<and>
     gs_store (fst (execute g ce n fn args kwargs ctx p t st)) = Some s1 \<and>
     live_grant s1 = (if ag_single_use gr then (live_grant s)(py_strip tok := None) else live_grant s)"
proof -
  from assms(4) obtain store1 tool ctx2 where
    dec: "decide g ce n ctx (extract_inputs g ce kwargs p t) (Some s) = (store1, Inr (tool, ALLOW, ctx2))"
    and tool: "catalog_resolve (g_catalog g) n = Inr tool"
    by (rule runs_body_catalog) (simp add: assms(2))
  have "ti_risk tool = MUTATION"
    using tool assms(3) by (auto simp: catalog_resolve_eq)
  from dcp.admitted_mutation_grant [OF assms(1) dec this] show ?thesis
    by (auto simp: store_after assms(2) dec)
qed

theorem mutation_needs_live_grant_witness:
  "\<exists>tok gr. live_grant demo_store (py_strip tok) = Some gr \<and> ag_tool_name gr = ''deploy''"
proof -
  have "g_policy demo_gate = default_conservative_evaluate" and "gs_store demo_state = Some demo_store"
    and "dict_get (g_catalog demo_gate) ''deploy'' = Some MUTATION"
    by (simp_all add: demo_gate_def make_gate_def demo_state_def initial_state_def)
  from mutation_needs_live_grant [OF this demo_runs] show ?thesis by blast
qed

text \<open>A presented token gates every tool under any policy: at a gate with a store, a call
  whose token is not live for this very tool never runs, not even for a reading tool.\<close>

theorem invalid_token_never_runs:
  assumes "gs_store st = Some s" and "ci_approval (extract_inputs g ce kwargs p t) = Some tok" and "\<not> blank tok"
    and "\<not> (\<exists>gr. live_grant s (py_strip tok) = Some gr \<and> ag_tool_name gr = n)"
  shows "\<not> runs_body g ce n kwargs ctx p t st"
proof
  assume "runs_body g ce n kwargs ctx p t st"
  then obtain store1 tool ctx2 where
    dec: "decide g ce n ctx (extract_inputs g ce kwargs p t) (Some s) = (store1, Inr (tool, ALLOW, ctx2))"
    by (auto simp: runs_body_decide assms(1))
  from presented_token_granted [OF dec assms(2,3)] assms(4) show False by blast
qed

theorem invalid_token_never_runs_witness:
  "\<not> runs_body demo_gate demo_call_env ''read'' demo_kwargs None None None demo_state"
proof (rule invalid_token_never_runs)
  show "gs_store demo_state = Some demo_store"
    by (simp add: demo_state_def initial_state_def)
  show "ci_approval (extract_inputs demo_gate demo_call_env demo_kwargs None None) = Some ''tk''" and "\<not> blank ''tk''"
    by code_simp+
  have "py_strip ''tk'' = ''tk''" and "map_option ag_tool_name (live_grant demo_store ''tk'') = Some ''deploy''"
    by code_simp+
  then show "\<not> (\<exists>gr. live_grant demo_store (py_strip ''tk'') = Some gr \<and> ag_tool_name gr = ''read'')"
    by auto
qed

text \<open>Without a store there is no approval to check: a mutating tool then runs exactly when no
  token is presented and the caller's own context says \<open>approval_status = granted\<close>.\<close>

theorem without_store_context_decides:
  assumes "g_policy g = default_conservative_evaluate" and "gs_store st = None" and "g_config g = None"
    and "dict_get (g_catalog g) n = Some MUTATION" and "\<not> blank n"
  shows "runs_body g ce n kwargs ctx p t st \<longleftrightarrow>
    falsy (ci_approval (extract_inputs g ce kwargs p t)) \<and> approval_granted ctx"
proof -
  let ?inp = "extract_inputs g ce kwargs p t"
  obtain tool where tool: "catalog_resolve (g_catalog g) n = Inr tool" "ti_risk tool = MUTATION" "ti_known tool"
    using assms(4,5) by (simp add: catalog_resolve_eq)
  have auth: "authenticate_call g ce ctx (ci_secret ?inp) = Inr ctx"
    by (simp add: authenticate_call_def resolve_execution_auth_def assms(3))
  have pol: "default_conservative_evaluate tool ctx = Inr (Decided (if approval_granted ctx then ALLOW else APPROVAL_REQUIRED))"
    using tool(2,3) by (auto simp: default_conservative_evaluate_def approval_granted_def split: option.split)
  show ?thesis
    by (auto simp: runs_body_def decide_def auth resolve_tool_def tool apply_approval_def assms(1,2) evaluate_def pol)
qed

theorem without_store_context_decides_witness:
  "runs_body (make_gate [(''deploy'', MUTATION)] None memory_record None) demo_call_env ''deploy'' []
     (Some (empty_context\<lparr>gc_extra := [(''approval_status'', VStr ''granted'')]\<rparr>)) None None
     (initial_state (make_gate [(''deploy'', MUTATION)] None memory_record None) None [] 0)"
    (is "runs_body ?g ?ce ?n ?kw ?ctx None None ?st")
proof -
  have "g_policy ?g = default_conservative_evaluate" and "gs_store ?st = None" and "g_config ?g = None"
    and "dict_get (g_catalog ?g) ?n = Some MUTATION"
    by (simp_all add: make_gate_def initial_state_def)
  moreover have "\<not> blank ?n" and "falsy (ci_approval (extract_inputs ?g ?ce ?kw None None))" and "approval_granted ?ctx"
    by code_simp+
  ultimately show ?thesis
    by (simp add: without_store_context_decides)
qed

section \<open>Authentication before execution\<close>

lemma ci_secret_ambient:
  "ci_secret (extract_inputs g ce kwargs p t) = None \<Longrightarrow> get_presented_secret (ce_env ce) (ce_vars ce) = None"
  by (auto simp: extract_inputs_def extract_presented_secret_def extract_credential_def Let_def split_beta
      split: if_splits option.splits)

lemma authenticate_call_bound:
  assumes "authenticate_call g ce ctx secret = Inr ctx1" and "g_config g = Some cfg"
    and "secret = None \<Longrightarrow> get_presented_secret (ce_env ce) (ce_vars ce) = None"
  obtains asserted b where "resolve_authentication cfg asserted secret = Inr b" and "ctx1 = Some (bc_governance b)"
proof -
  from assms(1,2) obtain bound where
    "resolve_execution_auth (ce_env ce) (ce_vars ce) (Some cfg) ctx secret None = Inr bound"
    and ctx1: "ctx1 = (case bound of None \<Rightarrow> ctx | Some b \<Rightarrow> Some (bc_governance b))"
    by (auto simp: authenticate_call_def res_bind_eq_Inr)
  moreover have "(if secret = None then get_presented_secret (ce_env ce) (ce_vars ce) else secret) = secret"
    using assms(3) by simp
  ultimately obtain asserted where "map_sum id Some (resolve_authentication cfg asserted secret) = Inr bound"
    by (auto simp: resolve_execution_auth_def res_bind_eq_Inr Let_def)
  then show ?thesis
    using that ctx1 by (cases "resolve_authentication cfg asserted secret") auto
qed

lemma runs_body_authenticated:
  assumes "runs_body g ce n kwargs ctx p t st" and "g_config g = Some cfg"
  obtains asserted b where
    "resolve_authentication cfg asserted (ci_secret (extract_inputs g ce kwargs p t)) = Inr b"
proof -
  from assms(1) obtain ctx1 where
    "authenticate_call g ce ctx (ci_secret (extract_inputs g ce kwargs p t)) = Inr ctx1"
    by (auto simp: runs_body_decide elim: decide_Inr)
  then show ?thesis
    using assms(2) by (rule authenticate_call_bound) (rule ci_secret_ambient, assumption, rule that)
qed

text \<open>C6: Under a configuration that requires authentication no tool body runs for a request
  that does not present the configured secret.\<close>

theorem no_execution_without_secret:
  assumes "g_config g = Some cfg" and "require_authentication cfg" and "runs_body g ce n kwargs ctx p t st"
  shows "knows_secret (auth_token cfg) (ci_secret (extract_inputs g ce kwargs p t))"
  using assms(3,1) by (rule runs_body_authenticated) (rule resolve_required_knows [OF _ assms(2)])

theorem no_execution_without_secret_witness:
  "knows_secret (auth_token demo_config) (ci_secret (extract_inputs demo_gate demo_call_env demo_kwargs None None))"
proof (rule no_execution_without_secret [OF _ _ demo_runs])
  show "g_config demo_gate = Some demo_config" and "require_authentication demo_config"
    by (simp_all add: demo_gate_def make_gate_def demo_config_def)
qed

text \<open>C16: The tool body cannot observe a credential: a call behaves as if its body had been given
  the arguments with both reserved entries removed.\<close>

theorem body_sees_cleaned_arguments:
  "execute g ce n fn args kwargs ctx p t st =
   execute g ce n (\<lambda>_ _ w. fn args (dict_pop APPROVAL_TOKEN_KWARG (dict_pop AUTH_TOKEN_KWARG kwargs)) w)
     args kwargs ctx p t st \<and>
   dict_get (dict_pop APPROVAL_TOKEN_KWARG (dict_pop AUTH_TOKEN_KWARG kwargs)) AUTH_TOKEN_KWARG = None \<and>
   dict_get (dict_pop APPROVAL_TOKEN_KWARG (dict_pop AUTH_TOKEN_KWARG kwargs)) APPROVAL_TOKEN_KWARG = None"
proof -
  have "APPROVAL_TOKEN_KWARG \<noteq> AUTH_TOKEN_KWARG"
    by (simp add: APPROVAL_TOKEN_KWARG_def AUTH_TOKEN_KWARG_def)
  moreover have "execute g ce n fn args kwargs ctx p t st =
      execute g ce n (\<lambda>_ _ w. fn args (dict_pop APPROVAL_TOKEN_KWARG (dict_pop AUTH_TOKEN_KWARG kwargs)) w)
        args kwargs ctx p t st"
    by (cases rule: execute_cases [of g ce n ctx kwargs p t st fn args]) (simp_all add: execute_def run_tool_def)
  ultimately show ?thesis
    by (simp add: dict_get_pop)
qed

section \<open>The audit trail\<close>

text \<open>
  The events a call must leave, by how far it got, written out: who asked for what at which risk, what
  was decided and why, and how the tool body ended.
\<close>

definition expected_trail ::
  "call_env \<Rightarrow> string \<Rightarrow> (tool_identity \<times> decision \<times> governance_context option) result \<Rightarrow> pyval result \<Rightarrow> audit_event list" where
  "expected_trail ce n decided r =
     (case decided of
        Inl _ \<Rightarrow> []
      | Inr (tool, d, ctx2) \<Rightarrow>
          [\<lparr>ae_type = REQUEST, ae_tool = n, ae_risk = Some (ti_risk tool), ae_decision = None, ae_success = None,
            ae_message = None, ae_context = safe_audit_context ctx2, ae_timestamp = ce_stamp ce 0,
            ae_extra = [(''known'', VBool (ti_known tool))]\<rparr>,
           \<lparr>ae_type = DECISION, ae_tool = n, ae_risk = Some (ti_risk tool), ae_decision = Some d, ae_success = None,
            ae_message = Some (decision_message d n), ae_context = safe_audit_context ctx2, ae_timestamp = ce_stamp ce 1,
            ae_extra = []\<rparr>] @
          (if d \<noteq> ALLOW then []
           else [\<lparr>ae_type = (if isl r then EXECUTION_FAILURE else EXECUTION_RESULT), ae_tool = n,
                  ae_risk = Some (ti_risk tool), ae_decision = Some ALLOW, ae_success = Some (\<not> isl r),
                  ae_message = (case r of Inl exc \<Rightarrow> Some (exn_class_name exc) | Inr _ \<Rightarrow> None),
                  ae_context = safe_audit_context ctx2, ae_timestamp = ce_stamp ce 2, ae_extra = []\<rparr>]))"

text \<open>C17: Every call leaves exactly the audit events its course demands, whichever recorder the gate
  has: none if it was rejected before a decision; else a request and the decision, with the
  tool, its risk, the message and the redacted context; and, if it ran, a third that says whether
  the tool body returned (success) or raised (failure, with the class of the exception). No
  event shows a secret, as it is kept and as it is shown.\<close>

theorem execute_audit_trail:
  "case expected_trail ce n (snd (decide g ce n ctx (extract_inputs g ce kwargs p t) (gs_store st)))
          (snd (execute g ce n fn args kwargs ctx p t st)) of
     events \<Rightarrow>
       gs_audit (fst (execute g ce n fn args kwargs ctx p t st)) = fold (g_record g) events (gs_audit st) \<and>
       list_all (\<lambda>e. secret_free (vdict (ae_context e)) \<and> secret_free (audited e)) events"
proof -
  have safe: "secret_free (vdict (safe_audit_context c))" for c
    by (simp add: safe_audit_context_def flip: redact_vdict)
  show ?thesis
  proof (cases rule: execute_cases [of g ce n ctx kwargs p t st fn args])
    case (ran store1 tool ctx2 w r)
    then show ?thesis
      by (cases r) (simp_all add: expected_trail_def request_event_def decision_event_def outcome_event_def safe audited_def)
  qed (simp_all add: expected_trail_def request_event_def decision_event_def safe audited_def)
qed

section \<open>The wrapper\<close>

lemma execute_slots: "gs_slots (fst (execute g ce n fn args kwargs ctx p t st)) = gs_slots st"
  by (cases rule: execute_cases [of g ce n ctx kwargs p t st fn args]) simp_all

text \<open>C18: The wrapped tool gives back the slot it took on every path and changes nothing when no
  slot is free. The caller gets the outcome of the gated call as it is, but for a structured error,
  a refusal included: that reaches the client as the JSON text of the payload with the error's
  code, category, message and safe details; unless a detail is a float, it is one line, which a
  JSON reader reads as exactly this payload.\<close>

theorem wrapper_slots_and_errors:
  "gs_slots (fst (sync_wrapper g ce n fn args kwargs st)) = gs_slots st \<and>
   (if gs_slots st = 0
    then fst (sync_wrapper g ce n fn args kwargs st) = st \<and>
      client_reads (concurrency_error g) (snd (sync_wrapper g ce n fn args kwargs st))
    else case execute g ce n fn args kwargs None None None (st\<lparr>gs_slots := gs_slots st - 1\<rparr>) of
        (st', r) \<Rightarrow>
          gs_world (fst (sync_wrapper g ce n fn args kwargs st)) = gs_world st' \<and>
          (case r of
             Inl (Mcp e) \<Rightarrow> client_reads e (snd (sync_wrapper g ce n fn args kwargs st))
           | _ \<Rightarrow> snd (sync_wrapper g ce n fn args kwargs st) = r))"
proof (cases "gs_slots st = 0")
  case True
  then show ?thesis by (simp add: sync_wrapper_def tool_error_reads_back)
next
  case False
  then show ?thesis
    using execute_slots [of g ce n fn args kwargs None None None "st\<lparr>gs_slots := gs_slots st - 1\<rparr>"]
    by (simp add: sync_wrapper_def split_beta Let_def to_client_def tool_error_reads_back split: sum.split pyexn.split)
qed

end
