(* ===== verification/Gate_Concurrency.thy ===== *)
theory Gate_Concurrency
  imports Gate
begin

text \<open>
  Concurrent calls through wrapped tools (\<open>GovernanceGate.wrap_tool\<close>, with the lock of
  \<open>approval/store.py\<close> and the bounded semaphore). Each call passes through phases; a step
  moves one call by one phase and the calls interleave freely. Admission is one step: the
  only shared state it changes besides the audit trail is the store, in one locked method.
  Tokens may be issued at any moment.
\<close>

section \<open>The step relation\<close>

record 'w tool_call =
  tc_env :: call_env
  tc_tool :: string
  tc_fn :: "'w tool_fn"
  tc_args :: "pyval list"
  tc_kwargs :: sdict

datatype phase = Waiting | Holding | Admitted admission | Finishing "pyval result" | Done "pyval result"

text \<open>\<open>cf_log\<close> is a ghost: the calls that were admitted, in order.\<close>

record ('a, 'w) config =
  cf_phase :: "nat \<Rightarrow> phase"
  cf_log :: "nat list"
  cf_state :: "('a, 'w) gate_state"

definition call_admit :: "'a gate \<Rightarrow> 'w tool_call \<Rightarrow> ('a, 'w) gate_state \<Rightarrow> ('a, 'w) gate_state \<times> admission result" where
  "call_admit g c st = admit g (tc_env c) (tc_tool c) (tc_kwargs c) None None None st"

definition call_run :: "'a gate \<Rightarrow> 'w tool_call \<Rightarrow> admission \<Rightarrow> ('a, 'w) gate_state \<Rightarrow> ('a, 'w) gate_state \<times> pyval result" where
  "call_run g c adm st = run_tool g (tc_env c) (tc_tool c) (tc_fn c) (tc_args c) adm st"

inductive gate_step ::
  "'a gate \<Rightarrow> (nat \<Rightarrow> 'w tool_call) \<Rightarrow> ('a, 'w) config \<Rightarrow> ('a, 'w) config \<Rightarrow> bool"
  for g calls
where
  refuse: "cf_phase s i = Waiting \<Longrightarrow> gs_slots (cf_state s) = 0 \<Longrightarrow>
     gate_step g calls s
       (s\<lparr>cf_phase := (cf_phase s)(i := Done (Inl (raise_as_mcp_tool_error (concurrency_error g))))\<rparr>)"
| acquire: "cf_phase s i = Waiting \<Longrightarrow> gs_slots (cf_state s) = Suc k \<Longrightarrow>
     gate_step g calls s
       (s\<lparr>cf_phase := (cf_phase s)(i := Holding), cf_state := (cf_state s)\<lparr>gs_slots := k\<rparr>\<rparr>)"
| admit_fails: "cf_phase s i = Holding \<Longrightarrow> call_admit g (calls i) (cf_state s) = (st', Inl e) \<Longrightarrow>
     gate_step g calls s (s\<lparr>cf_phase := (cf_phase s)(i := Finishing (Inl e)), cf_state := st'\<rparr>)"
| admitted: "cf_phase s i = Holding \<Longrightarrow> call_admit g (calls i) (cf_state s) = (st', Inr adm) \<Longrightarrow>
     gate_step g calls s
       (s\<lparr>cf_phase := (cf_phase s)(i := Admitted adm), cf_log := cf_log s @ [i], cf_state := st'\<rparr>)"
| run: "cf_phase s i = Admitted adm \<Longrightarrow> call_run g (calls i) adm (cf_state s) = (st', r) \<Longrightarrow>
     gate_step g calls s (s\<lparr>cf_phase := (cf_phase s)(i := Finishing r), cf_state := st'\<rparr>)"
| finish: "cf_phase s i = Finishing r \<Longrightarrow>
     gate_step g calls s
       (s\<lparr>cf_phase := (cf_phase s)(i := Done (to_client r)),
          cf_state := (cf_state s)\<lparr>gs_slots := gs_slots (cf_state s) + 1\<rparr>\<rparr>)"
| token_issued: "gs_store (cf_state s) = Some m \<Longrightarrow> dict_get m tok = None \<Longrightarrow>
     gate_step g calls s
       (s\<lparr>cf_state := (cf_state s)\<lparr>gs_store := Some (fst (issue tool subj req proj ttl su tok aid now m))\<rparr>\<rparr>)"

inductive_cases gate_stepE: "gate_step g calls s s'"

definition initial_config :: "'a gate \<Rightarrow> approval_store option \<Rightarrow> 'a \<Rightarrow> 'w \<Rightarrow> ('a, 'w) config" where
  "initial_config g store audit world =
     \<lparr>cf_phase = (\<lambda>_. Waiting), cf_log = [], cf_state = initial_state g store audit world\<rparr>"

definition reachable_config :: "'a gate \<Rightarrow> (nat \<Rightarrow> 'w tool_call) \<Rightarrow> ('a, 'w) config \<Rightarrow> ('a, 'w) config \<Rightarrow> bool" where
  "reachable_config g calls s0 s \<longleftrightarrow> (gate_step g calls)\<^sup>*\<^sup>* s0 s"

section \<open>Slots\<close>

fun holds_slot :: "phase \<Rightarrow> bool" where
  "holds_slot Waiting = False"
| "holds_slot (Done _) = False"
| "holds_slot _ = True"

definition holders :: "('a, 'w) config \<Rightarrow> nat set" where
  "holders s = {i. holds_slot (cf_phase s i)}"

definition slots_ok :: "'a gate \<Rightarrow> ('a, 'w) config \<Rightarrow> bool" where
  "slots_ok g s \<longleftrightarrow> finite (holders s) \<and> card (holders s) + gs_slots (cf_state s) = concurrency_limit g"

lemma holders_update:
  "cf_phase s' = (cf_phase s)(j := p) \<Longrightarrow>
   holders s' = (if holds_slot p then insert j (holders s) else holders s - {j})"
  by (auto simp: holders_def)

lemma in_holders: "i \<in> holders s \<longleftrightarrow> holds_slot (cf_phase s i)"
  by (simp add: holders_def)

lemma admit_slots: "gs_slots (fst (admit g ce n kwargs ctx p t st)) = gs_slots st"
  by (rule execute_cases [of g ce n ctx kwargs p t st "\<lambda>_ _ w. (w, Inr VNone)" "[]"]) simp_all

lemma run_tool_slots: "gs_slots (fst (run_tool g ce n fn args adm st)) = gs_slots st"
  by (simp add: run_tool_def split_beta)

lemma slots_ok_step:
  assumes "gate_step g calls s s'" and "slots_ok g s"
  shows "slots_ok g s'"
  using assms(1)
proof cases
  case (refuse i)
  then have "holders s' = holders s"
    using holders_update [of s' s i] by (auto simp: in_holders)
  with assms(2) refuse show ?thesis by (simp add: slots_ok_def)
next
  case (acquire i k)
  then have "holders s' = insert i (holders s)" and "i \<notin> holders s"
    using holders_update [of s' s i] by (auto simp: in_holders)
  with assms(2) acquire show ?thesis by (simp add: slots_ok_def)
next
  case (admit_fails i st' e)
  then have "gs_slots st' = gs_slots (cf_state s)"
    using admit_slots [of g "tc_env (calls i)" "tc_tool (calls i)" "tc_kwargs (calls i)" None None None "cf_state s"]
    by (simp add: call_admit_def)
  moreover have "holders s' = holders s"
    using admit_fails holders_update [of s' s i] by (auto simp: in_holders)
  ultimately show ?thesis using assms(2) admit_fails by (simp add: slots_ok_def)
next
  case (admitted i st' adm)
  then have "gs_slots st' = gs_slots (cf_state s)"
    using admit_slots [of g "tc_env (calls i)" "tc_tool (calls i)" "tc_kwargs (calls i)" None None None "cf_state s"]
    by (simp add: call_admit_def)
  moreover have "holders s' = holders s"
    using admitted holders_update [of s' s i] by (auto simp: in_holders)
  ultimately show ?thesis using assms(2) admitted by (simp add: slots_ok_def)
next
  case (run i adm st' r)
  then have "gs_slots st' = gs_slots (cf_state s)"
    using run_tool_slots [of g "tc_env (calls i)" "tc_tool (calls i)" "tc_fn (calls i)" "tc_args (calls i)" adm "cf_state s"]
    by (simp add: call_run_def)
  moreover have "holders s' = holders s"
    using run holders_update [of s' s i] by (auto simp: in_holders)
  ultimately show ?thesis using assms(2) run by (simp add: slots_ok_def)
next
  case (finish i r)
  then have "holders s' = holders s - {i}" and i: "i \<in> holders s"
    using holders_update [of s' s i] by (auto simp: in_holders)
  moreover have "Suc (card (holders s - {i})) = card (holders s)"
    using i assms(2) by (intro card_Suc_Diff1) (simp_all add: slots_ok_def)
  ultimately show ?thesis
    using assms(2) finish by (simp add: slots_ok_def)
next
  case token_issued
  then have "holders s' = holders s" by (simp add: holders_def)
  with assms(2) token_issued show ?thesis by (simp add: slots_ok_def)
qed

lemma slots_ok_reachable:
  assumes "reachable_config g calls (initial_config g store audit world) s"
  shows "slots_ok g s"
proof -
  have "(gate_step g calls)\<^sup>*\<^sup>* (initial_config g store audit world) s"
    using assms by (simp add: reachable_config_def)
  then show ?thesis
  proof (induction rule: rtranclp_induct)
    case base
    then show ?case by (simp add: slots_ok_def holders_def initial_config_def initial_state_def)
  next
    case (step y z)
    then show ?case by (blast intro: slots_ok_step)
  qed
qed

definition executing :: "('a, 'w) config \<Rightarrow> nat set" where
  "executing s = {i. \<exists>adm. cf_phase s i = Admitted adm}"

text \<open>C7: However calls interleave, the free slots and the calls in flight always add up to the
  configured limit, so no more tool bodies than that are ever in execution.\<close>

theorem concurrency_bounded:
  assumes "reachable_config g calls (initial_config g store audit world) s"
  shows "finite (executing s) \<and> card (executing s) \<le> concurrency_limit g \<and>
    card (holders s) + gs_slots (cf_state s) = concurrency_limit g"
proof -
  have ok: "slots_ok g s" using assms by (rule slots_ok_reachable)
  have "executing s \<subseteq> holders s"
    by (auto simp: executing_def holders_def)
  with ok show ?thesis
    using card_mono [of "holders s" "executing s"] finite_subset by (fastforce simp: slots_ok_def)
qed

definition demo_calls :: "nat \<Rightarrow> nat tool_call" where
  "demo_calls _ = \<lparr>tc_env = demo_call_env, tc_tool = ''deploy'', tc_fn = demo_fn, tc_args = [], tc_kwargs = demo_kwargs\<rparr>"

theorem concurrency_bounded_witness:
  "\<exists>s. reachable_config demo_gate demo_calls (initial_config demo_gate (Some []) [] (0::nat)) s \<and>
     {0, 1} \<subseteq> holders s \<and> card (holders s) + gs_slots (cf_state s) = 32"
proof -
  let ?s0 = "initial_config demo_gate (Some []) [] (0::nat)"
  let ?s1 = "?s0\<lparr>cf_phase := (cf_phase ?s0)(0 := Holding), cf_state := (cf_state ?s0)\<lparr>gs_slots := 31\<rparr>\<rparr>"
  let ?s2 = "?s1\<lparr>cf_phase := (cf_phase ?s1)(1 := Holding), cf_state := (cf_state ?s1)\<lparr>gs_slots := 30\<rparr>\<rparr>"
  have limit: "concurrency_limit demo_gate = 32"
    by (simp add: concurrency_limit_def demo_gate_def make_gate_def demo_config_def default_config_def
        DEFAULT_MAX_CONCURRENCY_def)
  have "gate_step demo_gate demo_calls ?s0 ?s1" and "gate_step demo_gate demo_calls ?s1 ?s2"
    by (rule gate_step.acquire; simp add: initial_config_def initial_state_def limit)+
  then have reach: "reachable_config demo_gate demo_calls ?s0 ?s2"
    unfolding reachable_config_def by (meson converse_rtranclp_into_rtranclp r_into_rtranclp)
  have "{0, 1} \<subseteq> holders ?s2"
    by (simp add: holders_def)
  with reach concurrency_bounded [OF reach] show ?thesis
    unfolding limit by blast
qed

section \<open>Tokens under concurrency\<close>

definition presents :: "'a gate \<Rightarrow> 'w tool_call \<Rightarrow> string \<Rightarrow> bool" where
  "presents g c t \<longleftrightarrow>
     (case ci_approval (extract_inputs g (tc_env c) (tc_kwargs c) None None) of
        None \<Rightarrow> False | Some tok \<Rightarrow> \<not> blank tok \<and> py_strip tok = t)"

definition admissions :: "'a gate \<Rightarrow> (nat \<Rightarrow> 'w tool_call) \<Rightarrow> string \<Rightarrow> nat list \<Rightarrow> nat" where
  "admissions g calls t log = length (filter (\<lambda>i. presents g (calls i) t) log)"

text \<open>What one admission does to the entry of a token.\<close>

definition spends :: "approval_store \<Rightarrow> string \<Rightarrow> approval_store \<Rightarrow> bool" where
  "spends m t m1 \<longleftrightarrow>
     (\<exists>gr c. dict_get m t = Some (gr, c) \<and> \<not> (c \<and> ag_single_use gr) \<and>
        m1 = (if ag_single_use gr then dict_set t (gr, True) m else m))"

lemma validate_spends:
  "fst (validate_and_consume tok n ctx subj now m) = m \<or>
   (\<exists>x. tok = Some x \<and> \<not> blank x \<and> spends m (py_strip x) (fst (validate_and_consume tok n ctx subj now m)))"
  by (cases rule: validate_cases [of tok m now n ctx subj]) (auto simp: spends_def)

lemma apply_approval_spends:
  assumes "apply_approval now n tool ctx tok (Some m) = (store1, r)"
  shows "\<exists>m1. store1 = Some m1 \<and> (m1 = m \<or> (\<exists>x. tok = Some x \<and> \<not> blank x \<and> spends m (py_strip x) m1))"
proof (cases "ti_risk tool = MUTATION \<or> tok \<noteq> None")
  case True
  from apply_approval_store [OF this assms] validate_spends [of tok n ctx "Option.bind ctx gc_agent_id" now m]
  show ?thesis by blast
next
  case False
  with assms show ?thesis by (auto simp: apply_approval_unneeded)
qed

lemma decide_spends:
  assumes "decide g ce n ctx inp (Some m) = (store1, r)"
  shows "\<exists>m1. store1 = Some m1 \<and> (m1 = m \<or> (\<exists>x. ci_approval inp = Some x \<and> \<not> blank x \<and> spends m (py_strip x) m1))"
  using assms apply_approval_spends
  by (fastforce simp: decide_def split: sum.splits prod.splits)

lemma admitted_spends:
  assumes "decide g ce n ctx inp (Some m) = (store1, Inr x)"
    and "ci_approval inp = Some tok" and "\<not> blank tok"
  shows "\<exists>m1. store1 = Some m1 \<and> spends m (py_strip tok) m1"
proof -
  obtain tool d ctx2 where x: "x = (tool, d, ctx2)" by (cases x)
  obtain gr s1 where live: "live_grant m (py_strip tok) = Some gr" and s1: "store1 = Some s1"
    and after: "live_grant s1 = (if ag_single_use gr then (live_grant m)(py_strip tok := None) else live_grant m)"
    using presented_token_granted [OF assms(1) [unfolded x] assms(2,3)] by blast
  obtain c where entry: "dict_get m (py_strip tok) = Some (gr, c)" and unspent: "\<not> (c \<and> ag_single_use gr)"
    using live by (auto simp: live_grant_def split: option.splits if_splits)
  from decide_spends [OF assms(1)] s1 assms(2) have "s1 = m \<or> spends m (py_strip tok) s1"
    by auto
  moreover have "spends m (py_strip tok) s1" if "s1 = m"
  proof -
    have "\<not> ag_single_use gr" using after live that by (auto dest: fun_cong [of _ _ "py_strip tok"])
    with entry that show ?thesis by (simp add: spends_def)
  qed
  ultimately show ?thesis using s1 by blast
qed

text \<open>How often a token may have admitted a call, by its entry in the store.\<close>

fun within_entry :: "(approval_grant \<times> bool) option \<Rightarrow> nat \<Rightarrow> bool" where
  "within_entry None k = (k = 0)"
| "within_entry (Some (gr, c)) k = (ag_single_use gr \<longrightarrow> k \<le> (if c then 1 else 0))"

definition token_ok :: "'a gate \<Rightarrow> (nat \<Rightarrow> 'w tool_call) \<Rightarrow> string \<Rightarrow> ('a, 'w) config \<Rightarrow> bool" where
  "token_ok g calls t s \<longleftrightarrow>
     (\<exists>m. gs_store (cf_state s) = Some m \<and> within_entry (dict_get m t) (admissions g calls t (cf_log s)))"

lemma spends_other: "spends m x m1 \<Longrightarrow> x \<noteq> t \<Longrightarrow> dict_get m1 t = dict_get m t"
  by (auto simp: spends_def)

lemma spends_same:
  assumes "spends m t m1"
  obtains gr c where "dict_get m t = Some (gr, c)" and "ag_single_use gr \<Longrightarrow> \<not> c"
    and "dict_get m1 t = Some (gr, c \<or> ag_single_use gr)"
  using assms by (auto simp: spends_def)

lemma admissions_snoc: "admissions g calls t (log @ [i]) = admissions g calls t log + (if presents g (calls i) t then 1 else 0)"
  by (simp add: admissions_def)

lemma call_admit_store:
  assumes "call_admit g c st = (st', r)" and "gs_store st = Some m"
  obtains m1 where "gs_store st' = Some m1"
    and "m1 = m \<or> (\<exists>t. presents g c t \<and> spends m t m1)"
    and "\<And>adm t. r = Inr adm \<Longrightarrow> presents g c t \<Longrightarrow> spends m t m1"
proof -
  let ?inp = "extract_inputs g (tc_env c) (tc_kwargs c) None None"
  obtain store1 r1 where dec: "decide g (tc_env c) (tc_tool c) None ?inp (Some m) = (store1, r1)"
    by (cases "decide g (tc_env c) (tc_tool c) None ?inp (Some m)")
  obtain m1 where m1: "store1 = Some m1"
    and sp: "m1 = m \<or> (\<exists>x. ci_approval ?inp = Some x \<and> \<not> blank x \<and> spends m (py_strip x) m1)"
    using decide_spends [OF dec] by blast
  have st': "gs_store st' = Some m1" and inr: "r = Inr adm \<Longrightarrow> \<exists>y. r1 = Inr y" for adm
    using assms dec m1
    by (cases r1; auto simp: call_admit_def admit_def Let_def split: if_splits prod.splits)+
  show ?thesis
  proof (rule that [OF st'])
    show "m1 = m \<or> (\<exists>t. presents g c t \<and> spends m t m1)"
      using sp by (auto simp: presents_def)
    show "spends m t m1" if res: "r = Inr adm" and pr: "presents g c t" for adm t
    proof -
      obtain y where "r1 = Inr y" using inr [OF res] by blast
      moreover obtain tok where "ci_approval ?inp = Some tok" "\<not> blank tok" "py_strip tok = t"
        using pr by (auto simp: presents_def split: option.splits)
      ultimately show ?thesis
        using admitted_spends [of g "tc_env c" "tc_tool c" None ?inp m store1 y tok] dec m1 by simp
    qed
  qed
qed

lemma token_ok_spent:
  assumes "token_ok g calls t s" and "gs_store (cf_state s) = Some m"
    and "gs_store (cf_state s') = Some m1" and "m1 = m \<or> (\<exists>x. presents g (calls i) x \<and> spends m x m1)"
    and "cf_log s' = cf_log s \<or> cf_log s' = cf_log s @ [i] \<and> (presents g (calls i) t \<longrightarrow> spends m t m1)"
  shows "token_ok g calls t s'"
proof (cases "presents g (calls i) t \<and> spends m t m1")
  case True
  then obtain gr c where e: "dict_get m t = Some (gr, c)" "ag_single_use gr \<Longrightarrow> \<not> c"
    "dict_get m1 t = Some (gr, c \<or> ag_single_use gr)"
    by (blast elim: spends_same)
  with assms(1,2,3,5) show ?thesis
    by (auto simp: token_ok_def admissions_snoc split: if_splits)
next
  case False
  have "dict_get m1 t = dict_get m t"
  proof (cases "m1 = m")
    case False
    with assms(4) obtain x where x: "presents g (calls i) x" "spends m x m1" by blast
    with \<open>\<not> (presents g (calls i) t \<and> spends m t m1)\<close> have "x \<noteq> t" by blast
    with x(2) show ?thesis by (rule spends_other)
  qed simp
  moreover have "admissions g calls t (cf_log s') = admissions g calls t (cf_log s)"
    using assms(5) False by (auto simp: admissions_snoc)
  ultimately show ?thesis
    using assms(1,2,3) by (simp add: token_ok_def)
qed

lemma run_tool_store: "gs_store (fst (run_tool g ce n fn args adm st)) = gs_store st"
  by (simp add: run_tool_def split_beta)

lemma issue_other: "t \<noteq> tok \<Longrightarrow> dict_get (fst (issue tool subj req proj ttl su tok aid now m)) t = dict_get m t"
  by (simp add: issue_def)

lemma issue_entry:
  "dict_get m tok = None \<Longrightarrow>
   dict_get (fst (issue tool subj req proj ttl su tok aid now m)) tok = None \<or>
   (\<exists>gr. dict_get (fst (issue tool subj req proj ttl su tok aid now m)) tok = Some (gr, False))"
  by (auto simp: issue_def)

lemma token_ok_step:
  assumes "gate_step g calls s s'" and ok: "token_ok g calls t s"
  shows "token_ok g calls t s'"
proof -
  from ok obtain m where m: "gs_store (cf_state s) = Some m"
    by (auto simp: token_ok_def)
  have same: "token_ok g calls t s'" if "cf_log s' = cf_log s" "gs_store (cf_state s') = gs_store (cf_state s)"
    using ok that by (simp add: token_ok_def)
  from assms(1) show ?thesis
  proof cases
    case (admit_fails i st' e)
    obtain m1 where "gs_store st' = Some m1" and "m1 = m \<or> (\<exists>x. presents g (calls i) x \<and> spends m x m1)"
      using admit_fails(3) m by (rule call_admit_store)
    with admit_fails show ?thesis
      by (intro token_ok_spent [OF ok m]) simp_all
  next
    case (admitted i st' adm)
    obtain m1 where "gs_store st' = Some m1" and "m1 = m \<or> (\<exists>x. presents g (calls i) x \<and> spends m x m1)"
      and "presents g (calls i) t \<longrightarrow> spends m t m1"
      using admitted(3) m by (rule call_admit_store) blast
    with admitted show ?thesis
      by (intro token_ok_spent [OF ok m]) simp_all
  next
    case (run i adm st' r)
    then have "gs_store st' = gs_store (cf_state s)"
      using run_tool_store [of g "tc_env (calls i)" "tc_tool (calls i)" "tc_fn (calls i)" "tc_args (calls i)" adm "cf_state s"]
      by (simp add: call_run_def)
    with run show ?thesis by (intro same) simp_all
  next
    case (token_issued m' tok tool subj req proj ttl su aid now)
    show ?thesis
    proof (cases "t = tok")
      case True
      with ok token_issued have "admissions g calls t (cf_log s) = 0"
        by (simp add: token_ok_def)
      with token_issued True issue_entry [OF token_issued(3), of tool subj req proj ttl su aid now] show ?thesis
        by (auto simp: token_ok_def)
    next
      case False
      with ok token_issued show ?thesis
        by (simp add: token_ok_def issue_other)
    qed
  qed (rule same; simp)+
qed

text \<open>C4: From an empty store, however calls interleave and whenever tokens are issued, at most
  one call that presents a given single-use token is ever admitted to its tool body.\<close>

theorem single_use_token_admits_once:
  assumes "reachable_config g calls (initial_config g (Some []) audit world) s"
    and "gs_store (cf_state s) = Some m" and "dict_get m t = Some (gr, c)" and "ag_single_use gr"
  shows "admissions g calls t (cf_log s) \<le> 1"
proof -
  have "(gate_step g calls)\<^sup>*\<^sup>* (initial_config g (Some []) audit world) s"
    using assms(1) by (simp add: reachable_config_def)
  then have "token_ok g calls t s"
  proof (induction rule: rtranclp_induct)
    case base
    then show ?case
      by (simp add: token_ok_def initial_config_def initial_state_def admissions_def)
  next
    case (step y z)
    from step.hyps(2) step.IH show ?case by (rule token_ok_step)
  qed
  with assms(2-4) show ?thesis
    by (auto simp: token_ok_def split: if_splits)
qed

theorem single_use_token_admits_once_witness:
  "\<exists>s :: (audit_event list, nat) config. \<exists>m. gs_store (cf_state s) = Some m \<and> dict_get m ''tk'' \<noteq> None \<and>
     admissions demo_gate demo_calls ''tk'' (cf_log s) \<le> 1"
proof -
  let ?ini = "initial_config demo_gate (Some []) [] (0 :: nat)"
  let ?m = "fst (issue ''deploy'' None None None 60 True ''tk'' ''id'' 0 [])"
  let ?post = "?ini\<lparr>cf_state := (cf_state ?ini)\<lparr>gs_store := Some ?m\<rparr>\<rparr>"
  have "gate_step demo_gate demo_calls ?ini ?post"
    by (rule gate_step.token_issued) (simp_all add: initial_config_def initial_state_def)
  then have r: "reachable_config demo_gate demo_calls ?ini ?post"
    by (simp add: reachable_config_def)
  have m: "gs_store (cf_state ?post) = Some ?m"
    by simp
  have "\<not> blank ''deploy''" by code_simp
  then have e: "dict_get ?m ''tk'' = Some (\<lparr>ag_approval_id = ''id'', ag_tool_name = py_strip ''deploy'', ag_subject_id = None,
      ag_request_id = None, ag_project_id = None, ag_expires_at = 60000000, ag_single_use = True\<rparr>, False)"
    by (simp add: issued_entry DATETIME_MAX_def)
  from single_use_token_admits_once [OF r m e] m e show ?thesis
    by (intro exI [of _ ?post] exI [of _ ?m]) simp
qed

section \<open>A wrapped tool is a run of the relation\<close>

lemma reach_step: "gate_step g calls s s' \<Longrightarrow> reachable_config g calls s' s2 \<Longrightarrow> reachable_config g calls s s2"
  by (simp add: reachable_config_def converse_rtranclp_into_rtranclp)

lemma reach_refl: "s = s' \<Longrightarrow> reachable_config g calls s s'"
  by (simp add: reachable_config_def)

lemma wrapper_steps:
  assumes "cf_phase s i = Waiting"
  shows "\<exists>s'. reachable_config g calls s s' \<and>
    cf_state s' = fst (sync_wrapper g (tc_env (calls i)) (tc_tool (calls i)) (tc_fn (calls i)) (tc_args (calls i))
                         (tc_kwargs (calls i)) (cf_state s)) \<and>
    cf_phase s' = (cf_phase s)(i := Done (snd (sync_wrapper g (tc_env (calls i)) (tc_tool (calls i)) (tc_fn (calls i))
                         (tc_args (calls i)) (tc_kwargs (calls i)) (cf_state s))))"
proof (cases "gs_slots (cf_state s)")
  case 0
  let ?s1 = "s\<lparr>cf_phase := (cf_phase s)(i := Done (Inl (raise_as_mcp_tool_error (concurrency_error g))))\<rparr>"
  have "reachable_config g calls s ?s1"
    using gate_step.refuse [OF assms 0] by (meson reach_step reach_refl)
  then show ?thesis
    by (intro exI [of _ ?s1]) (simp add: sync_wrapper_def 0)
next
  case (Suc k)
  let ?c = "calls i" and ?st = "(cf_state s)\<lparr>gs_slots := k\<rparr>"
  let ?s1 = "s\<lparr>cf_phase := (cf_phase s)(i := Holding), cf_state := ?st\<rparr>"
  obtain st1 r where adm: "call_admit g ?c ?st = (st1, r)"
    by (cases "call_admit g ?c ?st")
  have first: "gate_step g calls s ?s1"
    using assms Suc by (rule gate_step.acquire)
  show ?thesis
  proof (cases r)
    case (Inl e)
    let ?s2 = "?s1\<lparr>cf_phase := (cf_phase ?s1)(i := Finishing (Inl e)), cf_state := st1\<rparr>"
    let ?s3 = "?s2\<lparr>cf_phase := (cf_phase ?s2)(i := Done (to_client (Inl e))),
        cf_state := (cf_state ?s2)\<lparr>gs_slots := gs_slots (cf_state ?s2) + 1\<rparr>\<rparr>"
    have "gate_step g calls ?s1 ?s2"
      by (rule gate_step.admit_fails) (simp_all add: adm Inl)
    moreover have "gate_step g calls ?s2 ?s3"
      by (rule gate_step.finish) simp
    ultimately have "reachable_config g calls s ?s3"
      using first by (meson reach_step reach_refl)
    then show ?thesis
      using adm
      by (intro exI [of _ ?s3]) (simp add: sync_wrapper_def Suc execute_def call_admit_def Inl)
  next
    case (Inr ad)
    obtain st2 r2 where rn: "call_run g ?c ad st1 = (st2, r2)"
      by (cases "call_run g ?c ad st1")
    let ?s2 = "?s1\<lparr>cf_phase := (cf_phase ?s1)(i := Admitted ad), cf_log := cf_log ?s1 @ [i], cf_state := st1\<rparr>"
    let ?s3 = "?s2\<lparr>cf_phase := (cf_phase ?s2)(i := Finishing r2), cf_state := st2\<rparr>"
    let ?s4 = "?s3\<lparr>cf_phase := (cf_phase ?s3)(i := Done (to_client r2)),
        cf_state := (cf_state ?s3)\<lparr>gs_slots := gs_slots (cf_state ?s3) + 1\<rparr>\<rparr>"
    have "gate_step g calls ?s1 ?s2"
      by (rule gate_step.admitted) (simp_all add: adm Inr)
    moreover have "gate_step g calls ?s2 ?s3"
      by (rule gate_step.run [where adm = ad]) (simp_all add: rn)
    moreover have "gate_step g calls ?s3 ?s4"
      by (rule gate_step.finish) simp
    ultimately have "reachable_config g calls s ?s4"
      using first by (meson reach_step reach_refl)
    then show ?thesis
      using adm rn
      by (intro exI [of _ ?s4]) (simp add: sync_wrapper_def Suc execute_def call_admit_def call_run_def Inr)
  qed
qed

text \<open>C13: The wrapper of a tool is implemented by the phases: an uninterrupted call reaches, step
  by step, exactly the state and the result of \<open>sync_wrapper\<close>.\<close>

theorem wrapper_refines_steps:
  assumes "cf_phase s i = Waiting"
  shows "\<exists>s'. reachable_config g calls s s' \<and>
    cf_state s' = fst (sync_wrapper g (tc_env (calls i)) (tc_tool (calls i)) (tc_fn (calls i)) (tc_args (calls i))
                         (tc_kwargs (calls i)) (cf_state s)) \<and>
    cf_phase s' = (cf_phase s)(i := Done (snd (sync_wrapper g (tc_env (calls i)) (tc_tool (calls i)) (tc_fn (calls i))
                         (tc_args (calls i)) (tc_kwargs (calls i)) (cf_state s))))"
  using assms by (rule wrapper_steps)

theorem wrapper_refines_steps_witness:
  "\<exists>s'. reachable_config demo_gate demo_calls (initial_config demo_gate (Some demo_store) [] 0) s' \<and>
     cf_state s' = fst (sync_wrapper demo_gate demo_call_env ''deploy'' demo_fn [] demo_kwargs demo_state)"
proof -
  have w: "cf_phase (initial_config demo_gate (Some demo_store) [] (0 :: nat)) 0 = Waiting"
    and st: "cf_state (initial_config demo_gate (Some demo_store) [] (0 :: nat)) = demo_state"
    by (simp_all add: initial_config_def demo_state_def)
  show ?thesis
    using wrapper_refines_steps [OF w, of demo_gate demo_calls] by (auto simp: st demo_calls_def)
qed

end
