(* ===== verification/Gate_Liveness.thy ===== *)
theory Gate_Liveness
  imports Gate_Concurrency
begin

text \<open>
  Progress of concurrent calls: no call waits on another, no schedule that is fair to a call can
  postpone its end, and when the calls are over every slot is free again.
\<close>

section \<open>Every step brings its call nearer to its end\<close>

fun remaining :: "phase \<Rightarrow> nat" where
  "remaining Waiting = 4"
| "remaining Holding = 3"
| "remaining (Admitted _) = 2"
| "remaining (Finishing _) = 1"
| "remaining (Done _) = 0"

lemma remaining_zero: "remaining p = 0 \<longleftrightarrow> (\<exists>r. p = Done r)"
  by (cases p) simp_all

lemma step_remaining:
  "gate_step g calls s s' \<Longrightarrow> cf_phase s' j = cf_phase s j \<or> remaining (cf_phase s' j) < remaining (cf_phase s j)"
  by (erule gate_stepE) auto

lemma step_enabled:
  assumes "remaining (cf_phase s i) \<noteq> 0"
  shows "\<exists>s'. gate_step g calls s s' \<and> cf_phase s' i \<noteq> cf_phase s i \<and> (\<forall>j. j \<noteq> i \<longrightarrow> cf_phase s' j = cf_phase s j)"
proof (cases "cf_phase s i")
  case Waiting
  then show ?thesis
    using gate_step.refuse [OF Waiting] gate_step.acquire [OF Waiting]
    by (cases "gs_slots (cf_state s)") (force, force)
next
  case Holding
  obtain st' r where adm: "call_admit g (calls i) (cf_state s) = (st', r)"
    by (cases "call_admit g (calls i) (cf_state s)")
  with Holding show ?thesis
    using gate_step.admit_fails [OF Holding] gate_step.admitted [OF Holding] by (cases r) (force, force)
next
  case (Admitted adm)
  obtain st' r where "call_run g (calls i) adm (cf_state s) = (st', r)"
    by (cases "call_run g (calls i) adm (cf_state s)")
  with Admitted have "gate_step g calls s (s\<lparr>cf_phase := (cf_phase s)(i := Finishing r), cf_state := st'\<rparr>)"
    by (rule gate_step.run)
  with Admitted show ?thesis by force
next
  case (Finishing r)
  from gate_step.finish [OF this] Finishing show ?thesis by force
next
  case (Done r)
  with assms show ?thesis by simp
qed

section \<open>Fair schedules\<close>

text \<open>A run may stand still; it is fair to a call that moves whenever it keeps being able to.\<close>

definition gate_run :: "'a gate \<Rightarrow> (nat \<Rightarrow> 'w tool_call) \<Rightarrow> (nat \<Rightarrow> ('a, 'w) config) \<Rightarrow> bool" where
  "gate_run g calls f \<longleftrightarrow> (\<forall>n. f (Suc n) = f n \<or> gate_step g calls (f n) (f (Suc n)))"

definition can_move :: "'a gate \<Rightarrow> (nat \<Rightarrow> 'w tool_call) \<Rightarrow> nat \<Rightarrow> ('a, 'w) config \<Rightarrow> bool" where
  "can_move g calls i s \<longleftrightarrow> (\<exists>s'. gate_step g calls s s' \<and> cf_phase s' i \<noteq> cf_phase s i)"

definition fair_to :: "'a gate \<Rightarrow> (nat \<Rightarrow> 'w tool_call) \<Rightarrow> nat \<Rightarrow> (nat \<Rightarrow> ('a, 'w) config) \<Rightarrow> bool" where
  "fair_to g calls i f \<longleftrightarrow>
     (\<forall>n. (\<forall>m\<ge>n. can_move g calls i (f m)) \<longrightarrow> (\<exists>m\<ge>n. cf_phase (f (Suc m)) i \<noteq> cf_phase (f m) i))"

lemma can_move_iff: "can_move g calls i s \<longleftrightarrow> remaining (cf_phase s i) \<noteq> 0"
proof
  show "remaining (cf_phase s i) \<noteq> 0" if "can_move g calls i s"
    using that step_remaining unfolding can_move_def by fastforce
  show "can_move g calls i s" if "remaining (cf_phase s i) \<noteq> 0"
    using step_enabled [OF that] unfolding can_move_def by blast
qed

lemma run_change:
  "gate_run g calls f \<Longrightarrow>
   cf_phase (f (Suc n)) i = cf_phase (f n) i \<or> remaining (cf_phase (f (Suc n)) i) < remaining (cf_phase (f n) i)"
  unfolding gate_run_def using step_remaining [of g calls "f n" "f (Suc n)" i] by (metis (no_types))

lemma run_remaining_mono:
  assumes "gate_run g calls f"
  shows "n \<le> m \<Longrightarrow> remaining (cf_phase (f m) i) \<le> remaining (cf_phase (f n) i)"
proof (induction rule: dec_induct)
  case base
  then show ?case by simp
next
  case (step m)
  with run_change [OF assms, of m i] show ?case by (auto intro: order_trans less_imp_le)
qed

lemma done_stays:
  assumes "gate_run g calls f" and "cf_phase (f n) i = Done r"
  shows "n \<le> m \<Longrightarrow> cf_phase (f m) i = Done r"
proof (induction rule: dec_induct)
  case base
  then show ?case using assms(2) by simp
next
  case (step m)
  with run_change [OF assms(1), of m i] show ?case by auto
qed

lemma fair_call_ends:
  assumes run: "gate_run g calls f" and fair: "fair_to g calls i f"
  shows "\<exists>n. remaining (cf_phase (f n) i) = 0"
proof -
  have "\<exists>m. remaining (cf_phase (f m) i) = 0" if "remaining (cf_phase (f n) i) = k" for n k
    using that
  proof (induction k arbitrary: n rule: less_induct)
    case (less k)
    show ?case
    proof (rule ccontr)
      assume "\<nexists>m. remaining (cf_phase (f m) i) = 0"
      then have "\<forall>m\<ge>n. can_move g calls i (f m)" by (simp add: can_move_iff)
      then obtain m where m: "n \<le> m" "cf_phase (f (Suc m)) i \<noteq> cf_phase (f m) i"
        using fair unfolding fair_to_def by blast
      then have "remaining (cf_phase (f (Suc m)) i) < k"
        using run_change [OF run, of m i] run_remaining_mono [OF run m(1), of i] less.prems by simp
      from less.IH [OF this refl] \<open>\<nexists>m. remaining (cf_phase (f m) i) = 0\<close> show False by blast
    qed
  qed
  then show ?thesis by blast
qed

lemma common_end:
  assumes run: "gate_run g calls f"
  shows "finite A \<Longrightarrow> \<forall>i\<in>A. fair_to g calls i f \<Longrightarrow> \<exists>n. \<forall>i\<in>A. remaining (cf_phase (f n) i) = 0"
proof (induction rule: finite_induct)
  case (insert i A)
  then obtain n k where n: "\<forall>i\<in>A. remaining (cf_phase (f n) i) = 0" and k: "remaining (cf_phase (f k) i) = 0"
    using fair_call_ends [OF run, of i] by auto
  have "remaining (cf_phase (f (max n k)) j) = 0" if "j \<in> insert i A" for j
    using that n k run_remaining_mono [OF run, of n "max n k" j] run_remaining_mono [OF run, of k "max n k" j] by auto
  then show ?case by blast
qed simp

lemma run_slots_ok:
  assumes "gate_run g calls f" and "slots_ok g (f 0)"
  shows "slots_ok g (f n)"
proof (induction n)
  case 0
  then show ?case using assms(2) .
next
  case (Suc n)
  with assms(1) slots_ok_step [of g calls "f n" "f (Suc n)"] show ?case
    unfolding gate_run_def by metis
qed

text \<open>C14: No call starves and no slot leaks: in every run from the start that is fair to the finitely
  many calls made, each of them ends with a result that stays, and from some moment on every slot of
  the configured limit is free.\<close>

theorem fair_calls_end_and_free_slots:
  assumes "gate_run g calls f" and "f 0 = initial_config g store audit world"
    and "finite A" and "\<forall>i\<in>A. fair_to g calls i f" and "\<forall>n. \<forall>i. i \<notin> A \<longrightarrow> cf_phase (f n) i = Waiting"
  shows "\<exists>n. (\<forall>i\<in>A. \<exists>r. \<forall>m\<ge>n. cf_phase (f m) i = Done r) \<and>
    (\<forall>m\<ge>n. gs_slots (cf_state (f m)) = concurrency_limit g)"
proof -
  obtain n where n: "\<And>i. i \<in> A \<Longrightarrow> remaining (cf_phase (f n) i) = 0"
    using common_end [OF assms(1,3)] assms(4) by blast
  have ended: "\<exists>r. \<forall>m\<ge>n. cf_phase (f m) i = Done r" if "i \<in> A" for i
  proof -
    obtain r where "cf_phase (f n) i = Done r" using n [OF \<open>i \<in> A\<close>] by (auto simp: remaining_zero)
    from done_stays [OF assms(1) this] show ?thesis by blast
  qed
  have "gs_slots (cf_state (f m)) = concurrency_limit g" if "n \<le> m" for m
  proof -
    have "slots_ok g (f 0)"
      using slots_ok_reachable [of g calls store audit world "f 0"] assms(2) by (simp add: reachable_config_def)
    then have "slots_ok g (f m)" by (rule run_slots_ok [OF assms(1)])
    moreover have "\<not> holds_slot (cf_phase (f m) i)" for i
      using ended that assms(5) by (cases "i \<in> A") (metis holds_slot.simps(2), simp)
    ultimately show ?thesis by (simp add: slots_ok_def holders_def)
  qed
  with ended show ?thesis by (intro exI [of _ n]) simp
qed

text \<open>Fair runs exist: serve one call until it is done.\<close>

lemma fair_run_exists:
  "\<exists>f. gate_run g calls f \<and> f 0 = s \<and> fair_to g calls i f \<and> (\<forall>n. \<forall>j. j \<noteq> i \<longrightarrow> cf_phase (f n) j = cf_phase s j)"
proof -
  let ?next = "\<lambda>x y. (if remaining (cf_phase x i) = 0 then y = x
     else gate_step g calls x y \<and> cf_phase y i \<noteq> cf_phase x i \<and> (\<forall>j. j \<noteq> i \<longrightarrow> cf_phase y j = cf_phase x j))"
  have "\<exists>y. ?next x y" for x
    using step_enabled [of x i g calls] by (cases "remaining (cf_phase x i) = 0") simp_all
  then obtain nxt where nxt: "\<And>x. ?next x (nxt x)" by metis
  define f where "f = rec_nat s (\<lambda>_. nxt)"
  have f: "f 0 = s" "\<And>n. ?next (f n) (f (Suc n))"
    using nxt by (simp_all add: f_def)
  have "gate_run g calls f" unfolding gate_run_def using f(2) by metis
  moreover have "fair_to g calls i f"
    unfolding fair_to_def can_move_iff using f(2) by (metis order_refl)
  moreover have "\<forall>j. j \<noteq> i \<longrightarrow> cf_phase (f n) j = cf_phase s j" for n
  proof (induction n)
    case (Suc n)
    with f(2) [of n] show ?case by (auto split: if_splits)
  qed (simp add: f(1))
  ultimately show ?thesis using f(1) by blast
qed

theorem fair_calls_end_and_free_slots_witness:
  "\<exists>f. f 0 = initial_config demo_gate (Some demo_store) [] (0 :: nat) \<and> gate_run demo_gate demo_calls f \<and>
     (\<exists>n r. cf_phase (f n) 7 = Done r \<and> gs_slots (cf_state (f n)) = 32)"
proof -
  obtain f where f: "gate_run demo_gate demo_calls f" "f 0 = initial_config demo_gate (Some demo_store) [] (0 :: nat)"
    "fair_to demo_gate demo_calls 7 f" "\<forall>n. \<forall>j. j \<noteq> 7 \<longrightarrow> cf_phase (f n) j = Waiting"
    using fair_run_exists [of demo_gate demo_calls "initial_config demo_gate (Some demo_store) [] (0 :: nat)" 7]
    by (auto simp: initial_config_def)
  have "concurrency_limit demo_gate = 32"
    by (simp add: concurrency_limit_def demo_gate_def make_gate_def demo_config_def default_config_def
        DEFAULT_MAX_CONCURRENCY_def)
  with fair_calls_end_and_free_slots [OF f(1,2), of "{7}"] f show ?thesis by fastforce
qed

end
