(* ===== verification/Reliability.thy ===== *)
theory Reliability
  imports Redaction
begin

text \<open>
  Bounded retries of safe reads: the retry policy (\<open>reliability/policy.py\<close>) and the GET loop
  (\<open>reliability/http_retry.py\<close>). The network is the sequence of answers \<open>fetch i\<close> to the
  \<open>i\<close>-th request, and \<open>decode\<close> is UTF-8 decoding followed by the JSON decoder; both may raise
  exceptions that the loop does not catch.
\<close>

section \<open>The policy\<close>

definition MAX_SAFE_RETRIES :: int where
  "MAX_SAFE_RETRIES = 2"

text \<open>The two floats nearest to 0.05 and 0.15.\<close>

definition RETRY_BACKOFF_SECONDS :: "pyfloat list" where
  "RETRY_BACKOFF_SECONDS =
     [Finite 3602879701896397 (-56) ''0.05'', Finite 5404319552844595 (-55) ''0.15'']"

record reliability_policy =
  rp_max_retries :: int
  rp_backoff :: "pyfloat list"
  rp_on_rate_limit :: bool
  rp_on_timeout :: bool

definition make_reliability_policy :: "int \<Rightarrow> pyfloat list \<Rightarrow> bool \<Rightarrow> bool \<Rightarrow> reliability_policy result" where
  "make_reliability_policy n backoff on_rate on_timeout =
     (if n < 0 \<or> MAX_SAFE_RETRIES < n then
        Inl (PyError ''ValueError'' (''max_retries must be between 0 and '' @ show_int MAX_SAFE_RETRIES))
      else if int (length backoff) < n then
        Inl (PyError ''ValueError'' ''backoff_seconds must cover max_retries entries'')
      else Inr \<lparr>rp_max_retries = n, rp_backoff = backoff, rp_on_rate_limit = on_rate, rp_on_timeout = on_timeout\<rparr>)"

definition delay_for_attempt :: "reliability_policy \<Rightarrow> int \<Rightarrow> pyfloat result" where
  "delay_for_attempt p attempt =
     (if attempt < 0 \<or> rp_max_retries p \<le> attempt then Inl (PyError ''ValueError'' ''attempt out of retry range'')
      else if nat attempt < length (rp_backoff p) then Inr (rp_backoff p ! nat attempt)
      else Inl (PyError ''IndexError'' ''tuple index out of range''))"

definition should_retry :: "reliability_policy \<Rightarrow> string \<Rightarrow> int \<Rightarrow> bool" where
  "should_retry p error_kind attempt =
     (if rp_max_retries p \<le> attempt then False
      else if error_kind = ''rate_limit'' \<and> rp_on_rate_limit p then True
      else if error_kind = ''timeout'' \<and> rp_on_timeout p then True
      else False)"

definition default_reliability_policy :: reliability_policy where
  "default_reliability_policy =
     \<lparr>rp_max_retries = MAX_SAFE_RETRIES, rp_backoff = RETRY_BACKOFF_SECONDS, rp_on_rate_limit = True, rp_on_timeout = False\<rparr>"

section \<open>The GET loop\<close>

text \<open>
  How opening a URL and reading the body ends: an \<open>HTTPError\<close> with its status, a \<open>TimeoutError\<close>, any
  other \<open>URLError\<close>, a body (a list of bytes), or an exception of another class, with its text
  (\<open>RemoteDisconnected\<close>, \<open>IncompleteRead\<close>, \<open>InvalidURL\<close>), which no reader here catches.
\<close>

datatype http_answer = HttpStatus int | TimedOut | Unreachable | Body string | Fetch_raised string string

text \<open>
  How \<open>json.loads\<close> ends: a value, a \<open>JSONDecodeError\<close> (or a \<open>UnicodeDecodeError\<close>, where bytes are decoded
  first), which the readers catch, or an exception of another class, which they do not: a plain
  \<open>ValueError\<close> for an integer of more than 4300 digits, a \<open>RecursionError\<close> for deep nesting.
\<close>

datatype decoded = Decoded pyval | Undecodable | Decode_raised string string

definition rate_limited :: "http_answer \<Rightarrow> bool" where
  "rate_limited a \<longleftrightarrow> a = HttpStatus 403 \<or> a = HttpStatus 429"

text \<open>What a final answer amounts to. \<open>read(n + 1)\<close> never returns more than \<open>n + 1\<close> bytes.\<close>

definition github_answer :: "(string \<Rightarrow> decoded) \<Rightarrow> nat \<Rightarrow> http_answer \<Rightarrow> pyval result" where
  "github_answer decode max_bytes a =
     (case a of
        HttpStatus c \<Rightarrow>
          (if c = 401 then Inl (Mcp (unauthenticated_error ''GitHub authentication failed'' []))
           else if c = 404 then Inl (Mcp (not_found_error ''GitHub resource was not found'' []))
           else if c = 403 \<or> c = 429 then
             Inl (Mcp (rate_limited_error ''GitHub denied the request or rate limit was reached'' []))
           else Inl (Mcp (upstream_error (''GitHub returned HTTP '' @ show_int c) [])))
      | TimedOut \<Rightarrow> Inl (Mcp (timeout_mcp_error ''GitHub request timed out'' []))
      | Unreachable \<Rightarrow> Inl (Mcp (unavailable_dependency_error ''GitHub is unavailable'' []))
      | Body raw0 \<Rightarrow>
          (let raw = take (max_bytes + 1) raw0 in
           if max_bytes < length raw then
             Inl (Mcp (upstream_error ''GitHub response exceeded the configured size limit'' []))
           else case decode raw of
                  Decoded v \<Rightarrow> Inr v
                | Undecodable \<Rightarrow> Inl (Mcp (upstream_error ''GitHub returned invalid JSON'' []))
                | Decode_raised cls msg \<Rightarrow> Inl (PyError cls msg))
      | Fetch_raised cls msg \<Rightarrow> Inl (PyError cls msg))"

text \<open>
  The loop from a given attempt on: the number of requests made so far, the delays slept so
  far, the log, and the result.
\<close>

record get_trace =
  gt_requests :: nat
  gt_delays :: "pyfloat list"
  gt_logger :: logger
  gt_log :: "log_record list"

function github_get_loop ::
  "reliability_policy \<Rightarrow> string option \<Rightarrow> (nat \<Rightarrow> http_answer) \<Rightarrow> (string \<Rightarrow> decoded) \<Rightarrow> nat \<Rightarrow>
   nat \<Rightarrow> get_trace \<Rightarrow> get_trace \<times> pyval result" where
  "github_get_loop p rid fetch decode max_bytes attempt tr =
     (let a = fetch attempt; tr1 = tr\<lparr>gt_requests := Suc (gt_requests tr)\<rparr> in
      if rate_limited a \<and> should_retry p ''rate_limit'' (int attempt) then
        (case delay_for_attempt p (int attempt) of
           Inl e \<Rightarrow> (tr1, Inl e)
         | Inr delay \<Rightarrow>
             github_get_loop p rid fetch decode max_bytes (Suc attempt)
               (tr1\<lparr>gt_delays := gt_delays tr @ [delay],
                    gt_log := log_with_context 20 ''retry:github_rate_limit'' rid
                       (vdict [(''attempt'', VInt (int attempt)), (''delay'', VFloat delay),
                               (''status'', VInt (case a of HttpStatus c \<Rightarrow> c | _ \<Rightarrow> 0))]) (gt_log tr)\<rparr>))
      else (tr1, github_answer decode max_bytes a))"
  by pat_completeness auto
termination
  by (relation "measure (\<lambda>(p, rid, fetch, decode, max_bytes, attempt, tr). nat (rp_max_retries p) - attempt)")
    (auto simp: should_retry_def split: if_splits)

declare github_get_loop.simps [simp del]

text \<open>The logger is configured anew, at its default level, for every GET.\<close>

definition github_get_json ::
  "string option \<Rightarrow> (nat \<Rightarrow> http_answer) \<Rightarrow> (string \<Rightarrow> decoded) \<Rightarrow> nat \<Rightarrow> logger \<Rightarrow> log_record list \<Rightarrow>
   get_trace \<times> pyval result" where
  "github_get_json rid fetch decode max_bytes lg log =
     (case configure_logging ''INFO'' lg of
        Inl e \<Rightarrow> (\<lparr>gt_requests = 0, gt_delays = [], gt_logger = lg, gt_log = log\<rparr>, Inl e)
      | Inr lg' \<Rightarrow>
          github_get_loop default_reliability_policy rid fetch decode max_bytes 0
            \<lparr>gt_requests = 0, gt_delays = [], gt_logger = lg', gt_log = log\<rparr>)"

section \<open>Properties\<close>

lemma default_policy_valid:
  "make_reliability_policy MAX_SAFE_RETRIES RETRY_BACKOFF_SECONDS True False = Inr default_reliability_policy"
  by (simp add: make_reliability_policy_def default_reliability_policy_def MAX_SAFE_RETRIES_def RETRY_BACKOFF_SECONDS_def)

text \<open>A constructed policy has a delay for every retry it allows, and never allows more than
  two.\<close>

lemma policy_delays_cover_retries:
  assumes "make_reliability_policy n backoff on_rate on_timeout = Inr p"
  shows "(should_retry p kind attempt \<and> 0 \<le> attempt \<longrightarrow>
           attempt < 2 \<and> delay_for_attempt p attempt = Inr (backoff ! nat attempt)) \<and>
    (isl (delay_for_attempt p attempt) = (attempt < 0 \<or> n \<le> attempt))"
  using assms
  by (auto simp: make_reliability_policy_def should_retry_def delay_for_attempt_def MAX_SAFE_RETRIES_def split: if_splits)

lemma default_second_delay:
  "delay_for_attempt default_reliability_policy 1 = Inr (RETRY_BACKOFF_SECONDS ! 1)"
  using policy_delays_cover_retries [OF default_policy_valid, of "''rate_limit''" 1]
  by (simp add: should_retry_def default_reliability_policy_def MAX_SAFE_RETRIES_def)

lemma default_retry: "should_retry default_reliability_policy ''rate_limit'' (int i) \<longleftrightarrow> i < 2"
  by (auto simp: should_retry_def default_reliability_policy_def MAX_SAFE_RETRIES_def)

lemma default_delay: "i < 2 \<Longrightarrow> delay_for_attempt default_reliability_policy (int i) = Inr (RETRY_BACKOFF_SECONDS ! i)"
  by (auto simp: delay_for_attempt_def default_reliability_policy_def MAX_SAFE_RETRIES_def RETRY_BACKOFF_SECONDS_def)

text \<open>The number of retries: how many of the first two answers are rate limits, up to the first other.\<close>

definition retries_needed :: "(nat \<Rightarrow> http_answer) \<Rightarrow> nat" where
  "retries_needed fetch = (if \<not> rate_limited (fetch 0) then 0 else if \<not> rate_limited (fetch 1) then 1 else 2)"

lemma loop_stop:
  "\<not> rate_limited (fetch i) \<or> 2 \<le> i \<Longrightarrow>
   github_get_loop default_reliability_policy rid fetch decode mx i tr =
     (tr\<lparr>gt_requests := Suc (gt_requests tr)\<rparr>, github_answer decode mx (fetch i))"
  by (subst github_get_loop.simps) (auto simp: default_retry Let_def)

lemma loop_retry:
  "rate_limited (fetch i) \<Longrightarrow> i < 2 \<Longrightarrow>
   \<exists>log. github_get_loop default_reliability_policy rid fetch decode mx i tr =
     github_get_loop default_reliability_policy rid fetch decode mx (Suc i)
       (tr\<lparr>gt_requests := Suc (gt_requests tr), gt_delays := gt_delays tr @ [RETRY_BACKOFF_SECONDS ! i],
           gt_log := gt_log tr @ [log]\<rparr>)"
  by (subst github_get_loop.simps) (auto simp: default_retry default_delay Let_def log_with_context_def)

lemma default_loop:
  "\<exists>tr. github_get_loop default_reliability_policy rid fetch decode mx 0
        \<lparr>gt_requests = 0, gt_delays = [], gt_logger = lg, gt_log = log\<rparr> = (tr, github_answer decode mx (fetch (retries_needed fetch))) \<and>
     gt_requests tr = Suc (retries_needed fetch) \<and> gt_requests tr \<le> 3 \<and>
     gt_delays tr = take (retries_needed fetch) RETRY_BACKOFF_SECONDS \<and>
     gt_logger tr = lg \<and>
     (\<exists>new. gt_log tr = log @ new \<and> length new = retries_needed fetch)"
proof -
  let ?t0 = "\<lparr>gt_requests = 0, gt_delays = [], gt_logger = lg, gt_log = log\<rparr>"
  have backoff: "take (Suc 0) RETRY_BACKOFF_SECONDS = [RETRY_BACKOFF_SECONDS ! 0]"
    "take 2 RETRY_BACKOFF_SECONDS = [RETRY_BACKOFF_SECONDS ! 0, RETRY_BACKOFF_SECONDS ! 1]"
    by (simp_all add: RETRY_BACKOFF_SECONDS_def numeral_2_eq_2)
  consider (none) "\<not> rate_limited (fetch 0)" | (one) "rate_limited (fetch 0)" "\<not> rate_limited (fetch 1)"
    | (two) "rate_limited (fetch 0)" "rate_limited (fetch 1)" by blast
  then show ?thesis
  proof cases
    case none
    then show ?thesis
      using loop_stop [of fetch 0 rid decode mx ?t0] by (simp add: retries_needed_def)
  next
    case one
    then show ?thesis
      using loop_retry [of fetch 0 rid decode mx ?t0] loop_stop [of fetch "Suc 0" rid decode mx]
      by (auto simp: retries_needed_def backoff)
  next
    case two
    obtain l1 where l1: "github_get_loop default_reliability_policy rid fetch decode mx 0 ?t0 =
        github_get_loop default_reliability_policy rid fetch decode mx (Suc 0)
          (?t0\<lparr>gt_requests := 1, gt_delays := [RETRY_BACKOFF_SECONDS ! 0], gt_log := log @ [l1]\<rparr>)"
      using loop_retry [of fetch 0 rid decode mx ?t0] two by auto
    obtain l2 where l2: "github_get_loop default_reliability_policy rid fetch decode mx (Suc 0)
          (?t0\<lparr>gt_requests := 1, gt_delays := [RETRY_BACKOFF_SECONDS ! 0], gt_log := log @ [l1]\<rparr>) =
        github_get_loop default_reliability_policy rid fetch decode mx 2
          (?t0\<lparr>gt_requests := 2, gt_delays := [RETRY_BACKOFF_SECONDS ! 0, RETRY_BACKOFF_SECONDS ! 1],
               gt_log := log @ [l1, l2]\<rparr>)"
      using loop_retry [of fetch "Suc 0" rid decode mx
          "?t0\<lparr>gt_requests := 1, gt_delays := [RETRY_BACKOFF_SECONDS ! 0], gt_log := log @ [l1]\<rparr>"] two
      by (auto simp: numeral_2_eq_2)
    show ?thesis
      using two loop_stop [of fetch 2 rid decode mx]
      by (simp add: retries_needed_def l1 l2 [simplified] backoff)
  qed
qed

text \<open>C34: The GET loop terminates after at most three requests whatever the network answers: it
  repeats only on a rate limit, sleeps the policy's delays in order, logs each retry, and
  returns or raises what the last answer amounts to, which may be an exception of the
  connection or of the decoder that the loop does not catch. The shared logger is then at \<open>INFO\<close>, whatever level
  the server was configured with.\<close>

theorem get_json_bounded:
  "\<exists>tr. github_get_json rid fetch decode mx lg log = (tr, github_answer decode mx (fetch (retries_needed fetch))) \<and>
     gt_requests tr = Suc (retries_needed fetch) \<and> gt_requests tr \<le> 3 \<and>
     gt_delays tr = take (retries_needed fetch) RETRY_BACKOFF_SECONDS \<and> lg_level (gt_logger tr) = ''INFO'' \<and>
     (\<exists>new. gt_log tr = log @ new \<and> length new = retries_needed fetch)"
proof -
  obtain lg' where lg: "configure_logging ''INFO'' lg = Inr lg'" "lg_level lg' = ''INFO''"
    using configure_info [of lg] by blast
  show ?thesis
    using default_loop [of rid fetch decode mx lg' log] lg(2) by (auto simp: github_get_json_def lg(1))
qed

end
