(* ===== verification/Net.thy ===== *)
theory Net
  imports Untrusted Config Integration Reliability
begin

text \<open>
  What the adapters share: computations that talk to a service through an injected requester,
  and Python's operations on values whose type the service chooses. A computation maps the
  state of the outside (of any type \<open>'n\<close>) to the state after it and a result.
\<close>

section \<open>Computations over a network\<close>

type_synonym ('n, 'a) net = "'n \<Rightarrow> 'n \<times> 'a result"

definition net_lift :: "'a result \<Rightarrow> ('n, 'a) net" where
  "net_lift r = (\<lambda>n. (n, r))"

abbreviation net_return :: "'a \<Rightarrow> ('n, 'a) net" where
  "net_return x \<equiv> net_lift (Inr x)"

abbreviation net_raise :: "mcp_error \<Rightarrow> ('n, 'a) net" where
  "net_raise e \<equiv> net_lift (Inl (Mcp e))"

definition net_bind :: "('n, 'a) net \<Rightarrow> ('a \<Rightarrow> ('n, 'b) net) \<Rightarrow> ('n, 'b) net" where
  "net_bind m f = (\<lambda>n. case m n of (n', Inl e) \<Rightarrow> (n', Inl e) | (n', Inr x) \<Rightarrow> f x n')"

fun net_mapM :: "('a \<Rightarrow> ('n, 'b) net) \<Rightarrow> 'a list \<Rightarrow> ('n, 'b list) net" where
  "net_mapM f [] = net_return []"
| "net_mapM f (x # xs) = net_bind (f x) (\<lambda>y. net_bind (net_mapM f xs) (\<lambda>ys. net_return (y # ys)))"

lemma net_bind_return [simp]: "net_bind (net_return x) f = f x"
  by (simp add: fun_eq_iff net_bind_def net_lift_def)

lemma net_bind_raise [simp]: "net_bind (net_lift (Inl e)) f = net_lift (Inl e)"
  by (simp add: fun_eq_iff net_bind_def net_lift_def)

definition is_not_found :: "pyexn \<Rightarrow> bool" where
  "is_not_found e \<longleftrightarrow> (case e of Mcp x \<Rightarrow> err_class x = NotFoundErrorC | _ \<Rightarrow> False)"

text \<open>\<open>for x in xs: try: return f(x) except NotFoundError: continue\<close>, then the last resort.\<close>

fun net_first_found :: "('a \<Rightarrow> ('n, 'b) net) \<Rightarrow> ('n, 'b) net \<Rightarrow> 'a list \<Rightarrow> ('n, 'b) net" where
  "net_first_found f otherwise [] = otherwise"
| "net_first_found f otherwise (x # xs) =
     (\<lambda>n. case f x n of
        (n', Inl e) \<Rightarrow> if is_not_found e then net_first_found f otherwise xs n' else (n', Inl e)
      | (n', Inr y) \<Rightarrow> (n', Inr y))"

text \<open>The injected requester: URL, headers and timeout.\<close>

type_synonym 'n requester = "string \<Rightarrow> sdict \<Rightarrow> int \<Rightarrow> ('n, pyval) net"

text \<open>
  A requester that keeps a log of the requests made and answers as it pleases, knowing all
  of them. Any behaviour of the service over time is one of these.
\<close>

type_synonym request_log = "(string \<times> sdict) list"

definition logged :: "(request_log \<Rightarrow> pyval result) \<Rightarrow> request_log requester" where
  "logged answer url headers timeout log =
     (log @ [(url, headers)], answer (log @ [(url, headers)]))"

section \<open>What a computation keeps and yields\<close>

definition keeps :: "('n \<Rightarrow> bool) \<Rightarrow> ('n, 'a) net \<Rightarrow> bool" where
  "keeps P m \<longleftrightarrow> (\<forall>n. P n \<longrightarrow> P (fst (m n)))"

definition yields :: "('a \<Rightarrow> bool) \<Rightarrow> ('n, 'a) net \<Rightarrow> bool" where
  "yields Q m \<longleftrightarrow> (\<forall>n n' x. m n = (n', Inr x) \<longrightarrow> Q x)"

named_theorems net_rules

lemma keepsD: "keeps P m \<Longrightarrow> P n \<Longrightarrow> P (fst (m n))"
  by (simp add: keeps_def)

lemma yieldsD: "yields Q m \<Longrightarrow> m n = (n', Inr x) \<Longrightarrow> Q x"
  by (auto simp: yields_def)

lemma keeps_lift [net_rules]: "keeps P (net_lift r)"
  by (simp add: keeps_def net_lift_def)

lemma keeps_bind [net_rules]: "keeps P m \<Longrightarrow> (\<And>x. keeps P (f x)) \<Longrightarrow> keeps P (net_bind m f)"
  by (auto simp: keeps_def net_bind_def split: prod.split sum.split)

lemma keeps_mapM [net_rules]: "(\<And>x. keeps P (f x)) \<Longrightarrow> keeps P (net_mapM f xs)"
  by (induction xs) (auto intro!: net_rules)

lemma keeps_first_found [net_rules]:
  "(\<And>x. keeps P (f x)) \<Longrightarrow> keeps P otherwise \<Longrightarrow> keeps P (net_first_found f otherwise xs)"
proof (induction xs)
  case Nil
  then show ?case by simp
next
  case (Cons x xs)
  from Cons.prems(1) [of x] Cons.IH [OF Cons.prems] show ?case
    by (auto simp: keeps_def split: prod.split sum.split)
qed

lemma keeps_if [net_rules]: "(b \<Longrightarrow> keeps P m) \<Longrightarrow> (\<not> b \<Longrightarrow> keeps P k) \<Longrightarrow> keeps P (if b then m else k)"
  by simp

lemma yields_lift: "yields Q (net_lift r) \<longleftrightarrow> (\<forall>x. r = Inr x \<longrightarrow> Q x)"
  by (auto simp: yields_def net_lift_def)

lemma net_bind_Inr:
  "net_bind m f n = (n', Inr y) \<longleftrightarrow> (\<exists>n1 x. m n = (n1, Inr x) \<and> f x n1 = (n', Inr y))"
  by (auto simp: net_bind_def split: prod.splits sum.splits)

lemma net_lift_Inr: "net_lift r n = (n', Inr y) \<longleftrightarrow> n' = n \<and> r = Inr y"
  by (auto simp: net_lift_def)

lemma yields_bind: "(\<And>x. yields Q (f x)) \<Longrightarrow> yields Q (net_bind m f)"
  by (auto simp: yields_def net_bind_Inr)

lemma yields_bind2: "yields R m \<Longrightarrow> (\<And>x. R x \<Longrightarrow> yields Q (f x)) \<Longrightarrow> yields Q (net_bind m f)"
  by (auto simp: yields_def net_bind_Inr) blast

lemma yields_if: "(b \<Longrightarrow> yields Q m) \<Longrightarrow> (\<not> b \<Longrightarrow> yields Q k) \<Longrightarrow> yields Q (if b then m else k)"
  by simp

lemma yields_mono: "yields R m \<Longrightarrow> (\<And>x. R x \<Longrightarrow> Q x) \<Longrightarrow> yields Q m"
  by (auto simp: yields_def)

lemma yields_mapM: "(\<And>x. x \<in> set xs \<Longrightarrow> yields (Q x) (f x)) \<Longrightarrow> yields (list_all2 Q xs) (net_mapM f xs)"
proof (induction xs)
  case Nil
  then show ?case by (simp add: yields_lift)
next
  case (Cons x xs)
  have "yields (Q x) (f x)" and "yields (list_all2 Q xs) (net_mapM f xs)"
    using Cons by auto
  then show ?case
    by (auto simp: yields_def net_bind_Inr net_lift_Inr)
qed

lemma yields_first_found:
  "(\<And>x. x \<in> set xs \<Longrightarrow> yields Q (f x)) \<Longrightarrow> yields Q otherwise \<Longrightarrow> yields Q (net_first_found f otherwise xs)"
proof (induction xs)
  case Nil
  then show ?case by simp
next
  case (Cons x xs)
  have "yields Q (f x)" and "yields Q (net_first_found f otherwise xs)"
    using Cons by auto
  then show ?case
    by (auto simp: yields_def split: prod.splits sum.splits if_splits)
qed

section \<open>At most one step outside\<close>

text \<open>A computation that leaves the outside as it is, or changes it by one step of \<open>R\<close>.\<close>

definition one_step :: "('n \<Rightarrow> 'n \<Rightarrow> bool) \<Rightarrow> ('n, 'a) net \<Rightarrow> bool" where
  "one_step R m \<longleftrightarrow> (\<forall>n. fst (m n) = n \<or> R n (fst (m n)))"

named_theorems one_rules

lemma one_stepD: "one_step R m \<Longrightarrow> fst (m n) = n \<or> R n (fst (m n))"
  by (simp add: one_step_def)

lemma one_lift [one_rules]: "one_step R (net_lift r)"
  by (simp add: one_step_def net_lift_def)

lemma one_check: "(\<And>x. r = Inr x \<Longrightarrow> one_step R (f x)) \<Longrightarrow> one_step R (net_bind (net_lift r) f)"
  by (cases r) (simp_all add: one_step_def net_bind_def net_lift_def)

lemma fst_then_return: "fst (net_bind m (\<lambda>x. net_lift (h x)) n) = fst (m n)"
  by (auto simp: net_bind_def net_lift_def split: prod.split sum.split)

lemma one_then [one_rules]: "one_step R m \<Longrightarrow> one_step R (net_bind m (\<lambda>x. net_lift (h x)))"
  by (simp add: one_step_def fst_then_return)

lemma one_check_pair [one_rules]:
  "(\<And>x y. one_step R (f x y)) \<Longrightarrow> one_step R (net_bind (net_lift r) (\<lambda>(x, y). f x y))"
  by (rule one_check) (simp split: prod.split)

lemma one_check_any [one_rules]: "(\<And>x. one_step R (f x)) \<Longrightarrow> one_step R (net_bind (net_lift r) f)"
  by (rule one_check)

lemma one_if [one_rules]: "one_step R m \<Longrightarrow> one_step R k \<Longrightarrow> one_step R (if b then m else k)"
  by simp

lemma keeps_one: "one_step R m \<Longrightarrow> (\<And>n n'. P n \<Longrightarrow> R n n' \<Longrightarrow> P n') \<Longrightarrow> keeps P m"
  unfolding keeps_def by (metis one_stepD)

section \<open>Python on values of unknown type\<close>

text \<open>\<open>v.get(k, dflt)\<close>: only a dictionary has the method.\<close>

definition py_get :: "pyval \<Rightarrow> string \<Rightarrow> pyval \<Rightarrow> pyval result" where
  "py_get v k dflt =
     (case v of
        VDict d \<Rightarrow> Inr (vget_or d k dflt)
      | _ \<Rightarrow> Inl (PyError ''AttributeError'' (CHR 0x27 # type_name v @ CHR 0x27 # '' object has no attribute '' @ str_repr ''get'')))"

text \<open>\<open>str(v.get(k, dflt))\<close> and \<open>bool(v.get(k, dflt))\<close>\<close>

definition get_str :: "pyval \<Rightarrow> string \<Rightarrow> string \<Rightarrow> string result" where
  "get_str v k dflt = res_bind (py_get v k (VStr dflt)) (\<lambda>x. Inr (py_str x))"

definition get_bool :: "pyval \<Rightarrow> string \<Rightarrow> bool result" where
  "get_bool v k = res_bind (py_get v k (VBool False)) (\<lambda>x. Inr (py_bool x))"

definition py_int :: "pyval \<Rightarrow> int result" where
  "py_int v =
     (case v of
        VInt i \<Rightarrow> Inr i
      | VBool b \<Rightarrow> Inr (if b then 1 else 0)
      | VFloat (Finite m e _) \<Rightarrow> Inr (trunc_float m e)
      | VFloat NaN \<Rightarrow> Inl (PyError ''ValueError'' ''cannot convert float NaN to integer'')
      | VFloat _ \<Rightarrow> Inl (PyError ''OverflowError'' ''cannot convert float infinity to integer'')
      | VStr s \<Rightarrow>
          (case parse_int s of
             Some i \<Rightarrow> Inr i
           | None \<Rightarrow> Inl (PyError ''ValueError'' (''invalid literal for int() with base 10: '' @ str_repr s)))
      | _ \<Rightarrow> Inl (PyError ''TypeError''
               (''int() argument must be a string, a bytes-like object or a real number, not '' @ str_repr (type_name v))))"

text \<open>Iteration: a dictionary yields its keys, a string its characters.\<close>

definition py_iter :: "pyval \<Rightarrow> pyval list result" where
  "py_iter v =
     (case v of
        VList xs \<Rightarrow> Inr xs
      | VTuple xs \<Rightarrow> Inr xs
      | VDict d \<Rightarrow> Inr (map fst d)
      | VStr s \<Rightarrow> Inr (map (\<lambda>c. VStr [c]) s)
      | _ \<Rightarrow> Inl (PyError ''TypeError'' (str_repr (type_name v) @ '' object is not iterable'')))"

text \<open>\<open>k in v\<close> for a string \<open>k\<close>\<close>

definition py_contains :: "string \<Rightarrow> pyval \<Rightarrow> bool result" where
  "py_contains k v =
     (case v of
        VDict d \<Rightarrow> Inr (VStr k \<in> set (map fst d))
      | VList xs \<Rightarrow> Inr (VStr k \<in> set xs)
      | VTuple xs \<Rightarrow> Inr (VStr k \<in> set xs)
      | VStr s \<Rightarrow> Inr (py_in k s)
      | _ \<Rightarrow> Inl (PyError ''TypeError'' (''argument of type '' @ str_repr (type_name v) @ '' is not iterable'')))"

text \<open>The bytes of a string's UTF-8 encoding.\<close>

definition utf8_length :: "string \<Rightarrow> nat" where
  "utf8_length s = sum_list (map (\<lambda>c. if code c < 128 then 1 else 2) s)"

text \<open>The headers every request to GitHub carries.\<close>

definition GITHUB_API :: string where
  "GITHUB_API = ''https://api.github.com''"

definition GITHUB_API_VERSION :: string where
  "GITHUB_API_VERSION = ''2026-03-10''"

definition github_headers :: "secret_str option \<Rightarrow> sdict" where
  "github_headers token =
     [(''Accept'', VStr ''application/vnd.github+json''), (''X-GitHub-Api-Version'', VStr GITHUB_API_VERSION),
      (''User-Agent'', VStr ''Yasin-MCP'')]
     @ (if no_secret token then []
        else [(''Authorization'', VStr (''Bearer '' @ get_secret_value (the token)))])"

section \<open>Requests and where they go\<close>

text \<open>
  The law an adapter's caller relies on: whatever the service answers, every request is one
  that the adapter's own rule allows.
\<close>

locale guarded_requester =
  fixes req :: "'n requester" and P :: "'n \<Rightarrow> bool" and allowed :: "string \<Rightarrow> sdict \<Rightarrow> bool"
  assumes request_keeps [net_rules]: "allowed url headers \<Longrightarrow> keeps P (req url headers timeout)"

lemma logged_keeps:
  "ok (url, headers) \<Longrightarrow> keeps (list_all ok) (logged answer url headers timeout)"
  by (simp add: keeps_def logged_def)

interpretation traffic: guarded_requester "logged answer" "list_all (\<lambda>(url, headers). allowed url headers)" allowed
  for answer allowed
  by unfold_locales (rule logged_keeps, simp)

end
