(* ===== verification/Docs.thy ===== *)
theory Docs
  imports Net "HOL-Library.Product_Lexorder" "HOL-Library.Multiset"
begin

text \<open>
  The documentation adapter (\<open>adapters/docs.py\<close>) and its tools (\<open>tools/docs.py\<close>). The decoding of
  a file body (base64, then UTF-8) is the parameter \<open>decode\<close>, whose \<open>None\<close> stands for the
  exceptions the source catches.
\<close>

section \<open>Constants and data\<close>

definition DOCS_OWNER :: string where
  "DOCS_OWNER = ''yusi20006-max''"

definition DOCS_REPOSITORY :: string where
  "DOCS_REPOSITORY = ''YASIN-DOCS''"

definition DOCS_REF :: string where
  "DOCS_REF = ''main''"

definition MAX_DOCUMENT_BYTES :: int where
  "MAX_DOCUMENT_BYTES = 1000000"

definition docs_repository :: string where
  "docs_repository = DOCS_OWNER @ ''/'' @ DOCS_REPOSITORY"

record document_ref =
  dr_path :: string
  dr_sha :: string
  dr_size :: int
  dr_url :: string

record document =
  dc_path :: string
  dc_content :: string
  dc_source_url :: string
  dc_sha :: string
  dc_evidence :: evidence_status

text \<open>The fields with a default (repository, ref, content kind) are never given another value.\<close>

definition document_as_dict :: "document \<Rightarrow> sdict" where
  "document_as_dict d =
     attach_untrusted_envelope
       [(''path'', VStr (dc_path d)), (''content'', VStr (dc_content d)), (''source_url'', VStr (dc_source_url d)),
        (''sha'', VStr (dc_sha d)), (''repository'', VStr docs_repository), (''ref'', VStr DOCS_REF),
        (''content_kind'', VStr ''documentation''), (''evidence_status'', VStr (evidence_value (dc_evidence d))),
        (''provenance'', vdict [(''source'', VStr ''yasin-docs''), (''repository'', VStr docs_repository),
           (''ref'', VStr DOCS_REF), (''path'', VStr (dc_path d)), (''sha'', VStr (dc_sha d)),
           (''source_url'', VStr (dc_source_url d))])]
       ''yasin-docs'' (Some (dc_content d))"

record search_hit =
  sh_document :: document
  sh_matches :: nat

definition search_hit_as_dict :: "search_hit \<Rightarrow> sdict" where
  "search_hit_as_dict h =
     [(''document'', vdict (document_as_dict (sh_document h))), (''matches'', VInt (int (sh_matches h)))]"

record docs_adapter =
  da_token :: "secret_str option"
  da_timeout :: int
  da_max_files :: nat

definition make_docs_adapter :: "secret_str option \<Rightarrow> int \<Rightarrow> int \<Rightarrow> docs_adapter result" where
  "make_docs_adapter token timeout max_files =
     (if timeout \<le> 0 then Inl (Mcp (validation_error ''timeout_seconds must be positive'' []))
      else if \<not> (1 \<le> max_files \<and> max_files \<le> 200) then
        Inl (Mcp (validation_error ''max_files must be between 1 and 200'' []))
      else Inr \<lparr>da_token = token, da_timeout = timeout, da_max_files = nat max_files\<rparr>)"

section \<open>The adapter\<close>

definition docs_get :: "'n requester \<Rightarrow> docs_adapter \<Rightarrow> string \<Rightarrow> ('n, pyval) net" where
  "docs_get req a path = req (GITHUB_API @ path) (github_headers (da_token a)) (da_timeout a)"

definition is_text_document :: "string \<Rightarrow> bool" where
  "is_text_document path =
     list_ex (py_endswith (py_lower path)) [''.md'', ''.mdx'', ''.txt'', ''.yaml'', ''.yml'', ''.json'']"

definition validate_path :: "string \<Rightarrow> unit result" where
  "validate_path path =
     (if path = [] \<or> py_startswith path ''/'' \<or> ''..'' \<in> set (py_split CHR ''/'' path)
      then Inl (Mcp (validation_error ''invalid documentation path'' [])) else Inr ())"

text \<open>One tree entry: \<open>None\<close> when the loop skips it.\<close>

definition tree_entry :: "pyval \<Rightarrow> document_ref option result" where
  "tree_entry item =
     res_bind (py_get item ''type'' VNone) (\<lambda>t.
     if t \<noteq> VStr ''blob'' then Inr None
     else res_bind (get_str item ''path'' []) (\<lambda>path.
       if \<not> is_text_document path then Inr None
       else res_bind (py_get item ''size'' (VInt 0)) (\<lambda>sz.
         res_bind (py_int (py_or sz (VInt 0))) (\<lambda>size.
         if MAX_DOCUMENT_BYTES < size then Inr None
         else res_bind (get_str item ''sha'' []) (\<lambda>sha.
           res_bind (get_str item ''url'' []) (\<lambda>url.
           Inr (Some \<lparr>dr_path = path, dr_sha = sha, dr_size = size, dr_url = url\<rparr>)))))))"

fun collect_refs :: "nat \<Rightarrow> document_ref list \<Rightarrow> pyval list \<Rightarrow> document_ref list result" where
  "collect_refs max_files refs [] = Inr refs"
| "collect_refs max_files refs (item # items) =
     res_bind (tree_entry item) (\<lambda>entry.
       case entry of
         None \<Rightarrow> collect_refs max_files refs items
       | Some r \<Rightarrow>
           if max_files \<le> length (refs @ [r]) then Inr (refs @ [r])
           else collect_refs max_files (refs @ [r]) items)"

definition tree_refs :: "nat \<Rightarrow> pyval \<Rightarrow> document_ref list result" where
  "tree_refs max_files payload =
     res_bind (py_get payload ''truncated'' VNone) (\<lambda>truncated.
     if py_bool truncated then Inl (Mcp (upstream_error ''YASIN-DOCS tree response was truncated'' []))
     else res_bind (py_get payload ''tree'' (VList [])) (\<lambda>tree.
       res_bind (py_iter tree) (\<lambda>items.
       res_bind (collect_refs max_files [] items) (\<lambda>refs. Inr (sort_key dr_path refs)))))"

definition list_documents :: "'n requester \<Rightarrow> docs_adapter \<Rightarrow> ('n, document_ref list) net" where
  "list_documents req a =
     net_bind (docs_get req a (''/repos/'' @ DOCS_OWNER @ ''/'' @ DOCS_REPOSITORY @ ''/git/trees/'' @ DOCS_REF @ ''?recursive=1''))
       (\<lambda>payload. net_lift (tree_refs (da_max_files a) payload))"

definition file_document :: "(string \<Rightarrow> string option) \<Rightarrow> string \<Rightarrow> pyval \<Rightarrow> document result" where
  "file_document decode path payload =
     res_bind (py_get payload ''type'' VNone) (\<lambda>t.
     if t \<noteq> VStr ''file'' then Inl (Mcp (validation_error ''requested documentation path is not a file'' []))
     else res_bind (py_get payload ''content'' VNone) (\<lambda>encoded.
       if \<not> is_str encoded then Inl (Mcp (upstream_error ''YASIN-DOCS file response did not contain content'' []))
       else case decode (py_remove_char CHR 0x0A (py_str encoded)) of
           None \<Rightarrow> Inl (Mcp (upstream_error ''YASIN-DOCS file content could not be decoded'' []))
         | Some content \<Rightarrow>
             if MAX_DOCUMENT_BYTES < int (utf8_length content) then
               Inl (Mcp (validation_error ''document exceeds the maximum supported size'' []))
             else res_bind (get_str payload ''html_url'' []) (\<lambda>url.
               res_bind (get_str payload ''sha'' []) (\<lambda>sha.
               Inr \<lparr>dc_path = path, dc_content = content, dc_source_url = url, dc_sha = sha, dc_evidence = CONFIRMED\<rparr>))))"

definition get_doc :: "'n requester \<Rightarrow> (string \<Rightarrow> string option) \<Rightarrow> docs_adapter \<Rightarrow> string \<Rightarrow> ('n, document) net" where
  "get_doc req decode a path =
     net_bind (net_lift (validate_path path)) (\<lambda>_.
     net_bind (docs_get req a (''/repos/'' @ DOCS_OWNER @ ''/'' @ DOCS_REPOSITORY @ ''/contents/'' @ path @ ''?ref='' @ DOCS_REF))
       (\<lambda>payload. net_lift (file_document decode path payload)))"

text \<open>Each listed document is fetched and counted; hits are sorted by matches, then by path.\<close>

definition scan_document ::
  "'n requester \<Rightarrow> (string \<Rightarrow> string option) \<Rightarrow> docs_adapter \<Rightarrow> string \<Rightarrow> document_ref \<Rightarrow> ('n, search_hit) net" where
  "scan_document req decode a normalized r =
     net_bind (get_doc req decode a (dr_path r)) (\<lambda>document.
       net_return \<lparr>sh_document = document, sh_matches = py_count normalized (py_casefold (dc_content document))\<rparr>)"

definition rank_hits :: "search_hit list \<Rightarrow> search_hit list" where
  "rank_hits hits =
     sort_key (\<lambda>h. (- int (sh_matches h), dc_path (sh_document h))) (filter (\<lambda>h. sh_matches h \<noteq> 0) hits)"

definition search_docs ::
  "'n requester \<Rightarrow> (string \<Rightarrow> string option) \<Rightarrow> docs_adapter \<Rightarrow> string \<Rightarrow> ('n, search_hit list) net" where
  "search_docs req decode a query =
     (let normalized = py_casefold (py_strip query) in
      if normalized = [] then net_raise (validation_error ''query must not be empty'' [])
      else net_bind (list_documents req a) (\<lambda>refs.
        net_bind (net_mapM (scan_document req decode a normalized) refs) (\<lambda>hits. net_return (rank_hits hits))))"

definition adr_candidates :: "string \<Rightarrow> string list" where
  "adr_candidates normalized =
     (if CHR ''/'' \<in> set normalized \<or> list_ex (py_endswith (py_lower normalized)) [''.md'', ''.mdx''] then [normalized]
      else [''docs/adr/'' @ normalized @ ''.md'', ''docs/adr/'' @ normalized @ ''.mdx''])"

definition get_adr :: "'n requester \<Rightarrow> (string \<Rightarrow> string option) \<Rightarrow> docs_adapter \<Rightarrow> string \<Rightarrow> ('n, document) net" where
  "get_adr req decode a name =
     (let normalized = py_strip name in
      if normalized = [] then net_raise (validation_error ''ADR name must not be empty'' [])
      else net_first_found (get_doc req decode a)
             (net_raise (not_found_error (''ADR '' @ str_repr name @ '' was not found'') [])) (adr_candidates normalized))"

definition get_project_architecture ::
  "'n requester \<Rightarrow> (string \<Rightarrow> string option) \<Rightarrow> docs_adapter \<Rightarrow> string \<Rightarrow> ('n, document) net" where
  "get_project_architecture req decode a project =
     (let normalized = py_strip project in
      if normalized = [] then net_raise (validation_error ''project must not be empty'' [])
      else net_bind (search_docs req decode a normalized) (\<lambda>hits.
        case find (\<lambda>h. py_in ''architecture'' (py_lower (dc_path (sh_document h))) \<and>
                      py_in (py_casefold normalized) (py_casefold (dc_content (sh_document h)))) hits of
          Some h \<Rightarrow> net_return (sh_document h)
        | None \<Rightarrow> net_raise (not_found_error
            (''No architecture document was found for project '' @ str_repr project) [])))"

definition list_adrs :: "'n requester \<Rightarrow> docs_adapter \<Rightarrow> ('n, document_ref list) net" where
  "list_adrs req a =
     net_bind (list_documents req a) (\<lambda>refs. net_return (filter (\<lambda>r. py_startswith (dr_path r) ''docs/adr/'') refs))"

definition list_architecture_docs :: "'n requester \<Rightarrow> docs_adapter \<Rightarrow> ('n, document_ref list) net" where
  "list_architecture_docs req a =
     net_bind (list_documents req a) (\<lambda>refs.
       net_return (filter (\<lambda>r. dr_path r = ''ARCHITECTURE.md'' \<or>
         py_startswith (py_lower (dr_path r)) ''docs/architecture/'') refs))"

text \<open>\<open>s.rstrip("/")\<close>\<close>

definition rstrip_slash :: "string \<Rightarrow> string" where
  "rstrip_slash s = rev (dropWhile (\<lambda>c. c = CHR ''/'') (rev s))"

definition under_prefix :: "string \<Rightarrow> search_hit \<Rightarrow> bool" where
  "under_prefix p h \<longleftrightarrow> dc_path (sh_document h) = p \<or> py_startswith (dc_path (sh_document h)) (p @ ''/'')"

definition search_docs_scoped ::
  "'n requester \<Rightarrow> (string \<Rightarrow> string option) \<Rightarrow> docs_adapter \<Rightarrow> string \<Rightarrow> string option \<Rightarrow> ('n, search_hit list) net" where
  "search_docs_scoped req decode a query path_prefix =
     (let p = (case path_prefix of None \<Rightarrow> [] | Some x \<Rightarrow> rstrip_slash (py_strip x)) in
      net_bind (net_lift (if p = [] then Inr () else validate_path p)) (\<lambda>_.
      net_bind (search_docs req decode a query) (\<lambda>hits.
        net_return (if p = [] then hits else filter (under_prefix p) hits))))"

section \<open>The network requester\<close>

text \<open>\<open>_request_json\<close>: what one answer amounts to. Unlike the GitHub reader it does not retry.\<close>

definition docs_answer :: "(string \<Rightarrow> decoded) \<Rightarrow> http_answer \<Rightarrow> pyval result" where
  "docs_answer loads a =
     (case a of
        HttpStatus c \<Rightarrow>
          (if c = 401 then Inl (Mcp (unauthenticated_error ''GitHub authentication failed'' []))
           else if c = 404 then Inl (Mcp (not_found_error ''YASIN-DOCS resource was not found'' []))
           else if c = 403 then
             Inl (Mcp (rate_limited_error ''GitHub denied the request or rate limit was reached'' []))
           else Inl (Mcp (upstream_error (''GitHub returned HTTP '' @ show_int c) [])))
      | TimedOut \<Rightarrow> Inl (Mcp (timeout_mcp_error ''GitHub request timed out'' []))
      | Unreachable \<Rightarrow> Inl (Mcp (unavailable_dependency_error ''GitHub is unavailable'' []))
      | Body raw \<Rightarrow>
          (case loads (take (nat (MAX_DOCUMENT_BYTES + 1)) raw) of
             Undecodable \<Rightarrow> Inl (Mcp (upstream_error ''GitHub returned invalid JSON'' []))
           | Decode_raised cls msg \<Rightarrow> Inl (PyError cls msg)
           | Decoded v \<Rightarrow>
               if is_dict v then Inr v
               else Inl (Mcp (upstream_error ''GitHub returned an unexpected JSON shape'' [])))
      | Fetch_raised cls msg \<Rightarrow> Inl (PyError cls msg))"

text \<open>The state of the network is the number of requests it has answered.\<close>

definition docs_requester :: "(nat \<Rightarrow> string \<Rightarrow> http_answer) \<Rightarrow> (string \<Rightarrow> decoded) \<Rightarrow> nat requester" where
  "docs_requester http loads url headers timeout n = (Suc n, docs_answer loads (http n url))"

section \<open>The tools\<close>

definition ref_to_dict :: "document_ref \<Rightarrow> sdict" where
  "ref_to_dict r =
     attach_untrusted_envelope
       [(''path'', VStr (dr_path r)), (''sha'', VStr (dr_sha r)), (''size'', VInt (dr_size r)), (''url'', VStr (dr_url r)),
        (''repository'', VStr docs_repository), (''ref'', VStr DOCS_REF),
        (''provenance'', vdict [(''source'', VStr ''yasin-docs''), (''repository'', VStr docs_repository),
           (''ref'', VStr DOCS_REF), (''path'', VStr (dr_path r)), (''sha'', VStr (dr_sha r))])]
       ''yasin-docs'' (Some (dr_path r))"

text \<open>The payload of a listing, under the given name and with the given note.\<close>

definition refs_payload :: "string \<Rightarrow> string \<Rightarrow> document_ref list \<Rightarrow> sdict" where
  "refs_payload name note refs =
     [(name, VList (map (vdict \<circ> ref_to_dict) refs)), (''count'', VInt (int (length refs))),
      (''repository'', VStr docs_repository), (''evidence_status'', VStr ''confirmed''), (''note'', VStr note)]"

definition tool_list_documents :: "'n requester \<Rightarrow> docs_adapter \<Rightarrow> ('n, sdict) net" where
  "tool_list_documents req a =
     net_bind (list_documents req a) (\<lambda>refs. net_return (refs_payload ''documents''
       (''Paths are CONFIRMED from the live YASIN-DOCS tree. '' @
        ''Document body claims remain TARGET unless verified elsewhere.'') refs))"

text \<open>\<open>isinstance(x, str)\<close>, or the error of the tool.\<close>

definition need_str :: "string \<Rightarrow> pyval \<Rightarrow> string result" where
  "need_str name v = (case v of VStr s \<Rightarrow> Inr s | _ \<Rightarrow> Inl (Mcp (validation_error (name @ '' must be a string'') [])))"

definition tool_get_document ::
  "'n requester \<Rightarrow> (string \<Rightarrow> string option) \<Rightarrow> docs_adapter \<Rightarrow> pyval \<Rightarrow> ('n, sdict) net" where
  "tool_get_document req decode a path =
     net_bind (net_lift (need_str ''path'' path)) (\<lambda>p.
     net_bind (get_doc req decode a p) (\<lambda>d. net_return (document_as_dict d)))"

definition tool_search ::
  "'n requester \<Rightarrow> (string \<Rightarrow> string option) \<Rightarrow> docs_adapter \<Rightarrow> pyval \<Rightarrow> pyval \<Rightarrow> ('n, sdict) net" where
  "tool_search req decode a query path_prefix =
     net_bind (net_lift (need_str ''query'' query)) (\<lambda>q.
     net_bind (net_lift (case path_prefix of
         VNone \<Rightarrow> Inr None
       | VStr s \<Rightarrow> Inr (Some s)
       | _ \<Rightarrow> Inl (Mcp (validation_error ''path_prefix must be a string or omitted'' [])))) (\<lambda>p.
     net_bind (search_docs_scoped req decode a q p) (\<lambda>hits.
       net_return
         [(''query'', VStr q), (''path_prefix'', opt_str p),
          (''results'', VList (map (vdict \<circ> search_hit_as_dict) hits)), (''count'', VInt (int (length hits))),
          (''repository'', VStr docs_repository), (''evidence_status'', VStr ''confirmed''),
          (''note'', VStr (''Match counts are CONFIRMED against fetched file bodies. '' @
             ''Matched text is documentation content, not runtime proof.''))])))"

definition tool_list_adrs :: "'n requester \<Rightarrow> docs_adapter \<Rightarrow> ('n, sdict) net" where
  "tool_list_adrs req a =
     net_bind (list_adrs req a) (\<lambda>refs. net_return (refs_payload ''adrs''
       (''ADR file presence is CONFIRMED from the repository tree. '' @
        ''ADR decisions describe TARGET architecture intent unless '' @ ''independently verified in code.'') refs))"

definition tool_get_adr ::
  "'n requester \<Rightarrow> (string \<Rightarrow> string option) \<Rightarrow> docs_adapter \<Rightarrow> pyval \<Rightarrow> ('n, sdict) net" where
  "tool_get_adr req decode a name =
     net_bind (net_lift (need_str ''name'' name)) (\<lambda>s.
     net_bind (get_adr req decode a s) (\<lambda>d. net_return (document_as_dict d)))"

definition tool_list_architecture :: "'n requester \<Rightarrow> docs_adapter \<Rightarrow> ('n, sdict) net" where
  "tool_list_architecture req a =
     net_bind (list_architecture_docs req a) (\<lambda>refs. net_return (refs_payload ''architecture_docs''
       (''Architecture document paths are CONFIRMED from the tree. '' @
        ''Architecture statements inside documents are TARGET intent.'') refs))"

definition tool_get_project_architecture ::
  "'n requester \<Rightarrow> (string \<Rightarrow> string option) \<Rightarrow> docs_adapter \<Rightarrow> pyval \<Rightarrow> ('n, sdict) net" where
  "tool_get_project_architecture req decode a project =
     net_bind (net_lift (need_str ''project'' project)) (\<lambda>s.
     net_bind (get_project_architecture req decode a s) (\<lambda>d. net_return (document_as_dict d)))"

section \<open>Where requests go\<close>

definition DOCS_BASE :: string where
  "DOCS_BASE = GITHUB_API @ ''/repos/'' @ DOCS_OWNER @ ''/'' @ DOCS_REPOSITORY"

text \<open>The only requests the adapter may make: the tree, and a file under a checked path.\<close>

definition docs_request_ok :: "docs_adapter \<Rightarrow> string \<Rightarrow> sdict \<Rightarrow> bool" where
  "docs_request_ok a url headers \<longleftrightarrow>
     headers = github_headers (da_token a) \<and>
     (url = DOCS_BASE @ ''/git/trees/main?recursive=1'' \<or>
      (\<exists>path. validate_path path = Inr () \<and> url = DOCS_BASE @ ''/contents/'' @ path @ ''?ref=main''))"

lemma keeps_validated:
  "(validate_path p = Inr () \<Longrightarrow> keeps P m) \<Longrightarrow> keeps P (net_bind (net_lift (validate_path p)) (\<lambda>_. m))"
  by (auto simp: keeps_def net_bind_def net_lift_def split: sum.split)

locale docs_traffic = guarded_requester req P allowed
  for req :: "'n requester" and P :: "'n \<Rightarrow> bool" and allowed :: "string \<Rightarrow> sdict \<Rightarrow> bool" +
  fixes a :: docs_adapter
  assumes docs_allowed: "docs_request_ok a url headers \<Longrightarrow> allowed url headers"
begin

lemma keeps_list_documents [net_rules]: "keeps P (list_documents req a)"
  unfolding list_documents_def docs_get_def
  by (intro net_rules docs_allowed)
    (simp add: docs_request_ok_def DOCS_BASE_def DOCS_REF_def)

lemma keeps_get_doc [net_rules]: "keeps P (get_doc req decode a path)"
  unfolding get_doc_def docs_get_def
  by (intro keeps_validated keeps_bind keeps_lift request_keeps docs_allowed)
    (auto simp: docs_request_ok_def DOCS_BASE_def DOCS_REF_def)

lemma keeps_search_docs [net_rules]: "keeps P (search_docs req decode a query)"
  unfolding search_docs_def scan_document_def Let_def by (intro net_rules)

lemma keeps_search_docs_scoped [net_rules]: "keeps P (search_docs_scoped req decode a query pfx)"
  unfolding search_docs_scoped_def Let_def by (intro net_rules)

lemma keeps_get_adr [net_rules]: "keeps P (get_adr req decode a name)"
  unfolding get_adr_def Let_def by (intro net_rules)

lemma keeps_get_project_architecture [net_rules]: "keeps P (get_project_architecture req decode a project)"
  unfolding get_project_architecture_def Let_def
  by (intro keeps_if keeps_bind keeps_lift keeps_search_docs) (auto intro: net_rules split: option.split)

lemma keeps_lists [net_rules]:
  "keeps P (list_adrs req a)" "keeps P (list_architecture_docs req a)"
  unfolding list_adrs_def list_architecture_docs_def by (intro net_rules)+

lemmas tool_defs = tool_list_documents_def tool_get_document_def tool_search_def tool_list_adrs_def
  tool_get_adr_def tool_list_architecture_def tool_get_project_architecture_def

lemma keeps_tools:
  "keeps P (tool_list_documents req a)" "keeps P (tool_get_document req decode a v)"
  "keeps P (tool_search req decode a v w)" "keeps P (tool_list_adrs req a)" "keeps P (tool_get_adr req decode a v)"
  "keeps P (tool_list_architecture req a)" "keeps P (tool_get_project_architecture req decode a v)"
  unfolding tool_defs by (intro net_rules)+

end

interpretation docs: docs_traffic "logged answer" "list_all (\<lambda>(url, headers). docs_request_ok a url headers)"
    "docs_request_ok a" a
  for answer a
  by unfold_locales

section \<open>What the adapter returns\<close>

definition listed_ref :: "document_ref \<Rightarrow> bool" where
  "listed_ref r \<longleftrightarrow> is_text_document (dr_path r) \<and> dr_size r \<le> MAX_DOCUMENT_BYTES"

definition wf_listing :: "nat \<Rightarrow> document_ref list \<Rightarrow> bool" where
  "wf_listing max_files refs \<longleftrightarrow>
     length refs \<le> max_files \<and> list_all listed_ref refs \<and> sorted (map dr_path refs)"

lemma tree_entry_listed: "tree_entry item = Inr (Some r) \<Longrightarrow> listed_ref r"
  by (auto simp: tree_entry_def listed_ref_def res_bind_eq_Inr split: if_splits)

lemma collect_refs_bounds:
  assumes "collect_refs m refs items = Inr out" and "length refs < m" and "list_all listed_ref refs"
  shows "length out \<le> m \<and> list_all listed_ref out"
  using assms
proof (induction m refs items rule: collect_refs.induct)
  case (2 m refs item items)
  then obtain entry where entry: "tree_entry item = Inr entry"
    by (auto simp: res_bind_eq_Inr)
  with 2 tree_entry_listed [of item] show ?case
    by (cases entry) (auto simp: not_le split: if_splits)
qed simp

lemma tree_refs_wf: "tree_refs m payload = Inr refs \<Longrightarrow> 0 < m \<Longrightarrow> wf_listing m refs"
  using collect_refs_bounds [of m "[]"]
  by (fastforce simp: tree_refs_def res_bind_eq_Inr wf_listing_def list_all_iff split: if_splits)

lemma yields_list_documents: "0 < da_max_files a \<Longrightarrow> yields (wf_listing (da_max_files a)) (list_documents req a)"
  unfolding list_documents_def by (intro yields_bind) (simp add: yields_lift tree_refs_wf)

lemma made_adapter_max: "make_docs_adapter token timeout mx = Inr a \<Longrightarrow> 0 < da_max_files a \<and> da_max_files a \<le> 200"
  by (auto simp: make_docs_adapter_def split: if_splits)

definition wf_document :: "string \<Rightarrow> document \<Rightarrow> bool" where
  "wf_document path d \<longleftrightarrow>
     dc_path d = path \<and> validate_path path = Inr () \<and> dc_evidence d = CONFIRMED \<and>
     int (utf8_length (dc_content d)) \<le> MAX_DOCUMENT_BYTES"

lemma file_document_wf:
  "file_document decode path payload = Inr d \<Longrightarrow> validate_path path = Inr () \<Longrightarrow> wf_document path d"
  by (auto simp: file_document_def wf_document_def res_bind_eq_Inr split: if_splits option.splits)

lemma yields_get_doc: "yields (wf_document path) (get_doc req decode a path)"
  unfolding get_doc_def
  by (rule yields_bind2 [of "\<lambda>_. validate_path path = Inr ()"])
    (auto simp: yields_lift file_document_wf intro!: yields_bind)

lemma adr_candidate_paths:
  "p \<in> set (adr_candidates x) \<Longrightarrow> p = x \<or> py_startswith p ''docs/adr/''"
  by (auto simp: adr_candidates_def split: if_splits)

lemma yields_get_adr:
  "yields (\<lambda>d. wf_document (dc_path d) d \<and> (dc_path d = py_strip name \<or> py_startswith (dc_path d) ''docs/adr/''))
     (get_adr req decode a name)"
  unfolding get_adr_def Let_def
proof (intro yields_if yields_first_found)
  fix p
  assume "p \<in> set (adr_candidates (py_strip name))"
  then show "yields (\<lambda>d. wf_document (dc_path d) d \<and> (dc_path d = py_strip name \<or> py_startswith (dc_path d) ''docs/adr/''))
      (get_doc req decode a p)"
    using adr_candidate_paths [of p] by (intro yields_mono [OF yields_get_doc]) (auto simp: wf_document_def)
qed (simp_all add: yields_lift)

text \<open>A document and the number of matches of a query in it, both folded.\<close>

definition counted :: "string \<Rightarrow> document \<Rightarrow> search_hit" where
  "counted q d = \<lparr>sh_document = d, sh_matches = py_count (py_casefold (py_strip q)) (py_casefold (dc_content d))\<rparr>"

definition hit_rank :: "search_hit \<Rightarrow> int \<times> string" where
  "hit_rank h = (- int (sh_matches h), dc_path (sh_document h))"

lemma net_mapM_then:
  "net_mapM (\<lambda>x. net_bind (f x) (\<lambda>y. net_return (g y))) xs n = (n', Inr zs) \<longleftrightarrow>
     (\<exists>ys. net_mapM f xs n = (n', Inr ys) \<and> zs = map g ys)"
  by (induction xs arbitrary: n zs) (fastforce simp: net_bind_Inr net_lift_Inr)+

lemma scan_all:
  "net_mapM (scan_document req decode a (py_casefold (py_strip q))) refs n = (n', Inr hits) \<longleftrightarrow>
     (\<exists>docs. net_mapM (\<lambda>r. get_doc req decode a (dr_path r)) refs n = (n', Inr docs) \<and> hits = map (counted q) docs)"
  unfolding scan_document_def counted_def [symmetric] by (rule net_mapM_then)

lemma search_docs_Inr:
  "search_docs req decode a q n = (n', Inr hits) \<longleftrightarrow>
     py_casefold (py_strip q) \<noteq> [] \<and>
     (\<exists>n1 refs docs. list_documents req a n = (n1, Inr refs) \<and>
        net_mapM (\<lambda>r. get_doc req decode a (dr_path r)) refs n1 = (n', Inr docs) \<and>
        hits = rank_hits (map (counted q) docs))"
  by (auto simp: search_docs_def Let_def net_bind_Inr net_lift_Inr scan_all; blast)

text \<open>C36: A search that returns has read every document of the listing and lost none: the adapter
  lists the documents once, fetches each listed one in turn and nothing else, and the hits are
  exactly the fetched documents that contain the query, with their number of matches, most
  matches first and by path among equals. The listing has at most the configured number of
  entries (50 unless set, never above 200) and holds text files of bounded size.\<close>

theorem search_ranks_all_matches:
  assumes "make_docs_adapter token timeout mx = Inr a" and "search_docs req decode a q n = (n', Inr hits)"
  shows "\<exists>n1 refs docs. list_documents req a n = (n1, Inr refs) \<and>
    net_mapM (\<lambda>r. get_doc req decode a (dr_path r)) refs n1 = (n', Inr docs) \<and>
    wf_listing (da_max_files a) refs \<and> da_max_files a \<le> 200 \<and>
    list_all2 (\<lambda>r d. wf_document (dr_path r) d) refs docs \<and>
    mset hits = mset (filter (\<lambda>h. sh_matches h \<noteq> 0) (map (counted q) docs)) \<and> sorted (map hit_rank hits)"
proof -
  have pos: "0 < da_max_files a" and le: "da_max_files a \<le> 200"
    using made_adapter_max [OF assms(1)] by simp_all
  obtain n1 refs docs where list: "list_documents req a n = (n1, Inr refs)"
    and docs: "net_mapM (\<lambda>r. get_doc req decode a (dr_path r)) refs n1 = (n', Inr docs)"
    and hits: "hits = rank_hits (map (counted q) docs)"
    using assms(2) by (auto simp: search_docs_Inr)
  have "wf_listing (da_max_files a) refs"
    using yieldsD [OF yields_list_documents [OF pos] list] .
  moreover have "list_all2 (\<lambda>r d. wf_document (dr_path r) d) refs docs"
    using yieldsD [OF yields_mapM [OF yields_get_doc] docs] .
  ultimately show ?thesis
    using list docs le by (auto simp: hits rank_hits_def hit_rank_def [abs_def])
qed

text \<open>A service with two documents.\<close>

definition demo_tree_item :: "string \<Rightarrow> pyval" where
  "demo_tree_item path = vdict [(''type'', VStr ''blob''), (''path'', VStr path), (''size'', VInt 10)]"

definition demo_docs_service :: "nat requester" where
  "demo_docs_service url headers timeout n =
     (Suc n, Inr (if url = DOCS_BASE @ ''/git/trees/main?recursive=1''
        then vdict [(''tree'', VList [demo_tree_item ''b.md'', demo_tree_item ''a.md'', demo_tree_item ''x.png''])]
        else if url = DOCS_BASE @ ''/contents/a.md?ref=main''
        then vdict [(''type'', VStr ''file''), (''content'', VStr ''gate'')]
        else vdict [(''type'', VStr ''file''), (''content'', VStr ''Gate, GATE'')]))"

definition demo_docs_adapter :: docs_adapter where
  "demo_docs_adapter = \<lparr>da_token = None, da_timeout = 30, da_max_files = 50\<rparr>"

lemma demo_search_runs:
  "map_prod id (map_sum id (map (\<lambda>h. (dc_path (sh_document h), sh_matches h))))
     (search_docs demo_docs_service Some demo_docs_adapter '' gate '' 0) = (3, Inr [(''b.md'', 2), (''a.md'', 1)])"
  by code_simp

theorem search_ranks_all_matches_witness:
  "\<exists>n' hits. search_docs demo_docs_service Some demo_docs_adapter '' gate '' 0 = (n', Inr hits) \<and>
     sorted (map hit_rank hits) \<and> length hits = 2"
proof -
  have a: "make_docs_adapter None 30 50 = Inr demo_docs_adapter"
    by (simp add: make_docs_adapter_def demo_docs_adapter_def)
  obtain n' hits where h: "search_docs demo_docs_service Some demo_docs_adapter '' gate '' 0 = (n', Inr hits)"
    and "length hits = 2"
    using demo_search_runs
    by (cases "search_docs demo_docs_service Some demo_docs_adapter '' gate '' 0") (auto simp: map_sum_def split: sum.splits)
  with search_ranks_all_matches [OF a h] show ?thesis by blast
qed

end
