(* ===== verification/Project_Registry.thy ===== *)
theory Project_Registry
  imports Docs
begin

text \<open>
  The project registry kept in the documentation repository (\<open>adapters/project_registry.py\<close>) and
  its tools (\<open>tools/registry.py\<close>). The adapter uses one operation of the documentation adapter,
  \<open>get_doc\<close>, which is its argument \<open>fetch\<close>. PyYAML is third-party: \<open>yaml\<close> is \<open>None\<close> when it cannot be
  imported, and \<open>safe_load\<close> otherwise, with \<open>Undecodable\<close> for a \<open>YAMLError\<close>; any other exception passes.
\<close>

section \<open>Data\<close>

definition REGISTRY_CANDIDATES :: "string list" where
  "REGISTRY_CANDIDATES =
     [''docs/projects/PROJECT_REGISTRY.yaml'', ''docs/projects/PROJECT_REGISTRY.yml'',
      ''PROJECT_REGISTRY.yaml'', ''PROJECT_REGISTRY.yml'']"

record project_metadata =
  pm_name :: string
  pm_role :: "string option"
  pm_repository :: "string option"
  pm_documentation :: "string option"
  pm_status :: "string option"
  pm_owner :: "string option"
  pm_dependencies :: "string list"
  pm_public_contracts :: "string list"
  pm_operational_state :: "string option"
  pm_mcp_capabilities :: "string list"
  pm_source_path :: string
  pm_source_url :: string
  pm_evidence :: evidence_status

definition registry_provenance :: "project_metadata \<Rightarrow> pyval" where
  "registry_provenance p =
     vdict [(''source'', VStr ''yasin-docs-registry''), (''path'', VStr (pm_source_path p)),
            (''source_url'', VStr (pm_source_url p))]"

definition project_as_dict :: "project_metadata \<Rightarrow> sdict" where
  "project_as_dict p =
     (let marker_bits = [pm_name p] @ (if falsy (pm_role p) then [] else [the (pm_role p)])
                        @ (if falsy (pm_documentation p) then [] else [the (pm_documentation p)])
      in attach_untrusted_envelope
           [(''name'', VStr (pm_name p)), (''role'', opt_str (pm_role p)), (''repository'', opt_str (pm_repository p)),
            (''documentation'', opt_str (pm_documentation p)), (''status'', opt_str (pm_status p)),
            (''owner'', opt_str (pm_owner p)), (''dependencies'', VList (map VStr (pm_dependencies p))),
            (''public_contracts'', VList (map VStr (pm_public_contracts p))),
            (''operational_state'', opt_str (pm_operational_state p)),
            (''mcp_capabilities'', VList (map VStr (pm_mcp_capabilities p))),
            (''source_path'', VStr (pm_source_path p)), (''source_url'', VStr (pm_source_url p)),
            (''evidence_status'', VStr (evidence_value (pm_evidence p))), (''provenance'', registry_provenance p)]
           ''yasin-docs-registry'' (Some (py_join [CHR 0x0A] marker_bits)))"

section \<open>Normalizing an entry\<close>

type_synonym entry = "(pyval \<times> pyval) list"

fun first_string :: "entry \<Rightarrow> string list \<Rightarrow> string option" where
  "first_string e [] = None"
| "first_string e (k # ks) =
     (case vget_or e k VNone of
        VStr s \<Rightarrow> if blank s then first_string e ks else Some (py_strip s)
      | _ \<Rightarrow> first_string e ks)"

text \<open>Items that are strings or integers (so also booleans), stripped, without the blank ones.\<close>

definition list_texts :: "pyval list \<Rightarrow> string list" where
  "list_texts items =
     map (\<lambda>v. py_strip (py_str v))
       (filter (\<lambda>v. (case v of VStr _ \<Rightarrow> True | VInt _ \<Rightarrow> True | VBool _ \<Rightarrow> True | _ \<Rightarrow> False) \<and> \<not> blank (py_str v)) items)"

fun string_list :: "entry \<Rightarrow> string list \<Rightarrow> string list" where
  "string_list e [] = []"
| "string_list e (k # ks) =
     (case vget_or e k VNone of
        VList items \<Rightarrow> list_texts items
      | VStr s \<Rightarrow> if blank s then string_list e ks else [py_strip s]
      | _ \<Rightarrow> string_list e ks)"

definition normalize_entry :: "entry \<Rightarrow> document \<Rightarrow> project_metadata result" where
  "normalize_entry e source =
     (case first_string e [''name'', ''project'', ''id''] of
        None \<Rightarrow> Inl (Mcp (validation_error ''project registry entry is missing a name'' []))
      | Some name \<Rightarrow>
          Inr \<lparr>pm_name = name, pm_role = first_string e [''role'', ''type'', ''kind''],
               pm_repository = first_string e [''repository'', ''repo'', ''github''],
               pm_documentation = first_string e [''documentation'', ''docs'', ''doc''],
               pm_status = first_string e [''status'', ''state''], pm_owner = first_string e [''owner'', ''maintainer''],
               pm_dependencies = string_list e [''dependencies'', ''depends_on'', ''deps''],
               pm_public_contracts = string_list e [''public_contracts'', ''contracts'', ''apis''],
               pm_operational_state = first_string e [''operational_state'', ''ops_state'', ''runtime_state''],
               pm_mcp_capabilities = string_list e [''mcp_capabilities'', ''mcp_tools'', ''capabilities''],
               pm_source_path = dc_path source, pm_source_url = dc_source_url source,
               pm_evidence = dc_evidence source\<rparr>)"

section \<open>Reading the registry\<close>

definition parse_registry :: "(string \<Rightarrow> decoded) option \<Rightarrow> string \<Rightarrow> pyval result" where
  "parse_registry yaml content =
     (case yaml of
        None \<Rightarrow> Inl (Mcp (unavailable_dependency_error ''PyYAML is required to parse the YASIN-DOCS project registry'' []))
      | Some safe_load \<Rightarrow>
          (case safe_load content of
             Undecodable \<Rightarrow> Inl (Mcp (validation_error ''YASIN-DOCS project registry is invalid YAML'' []))
           | Decode_raised cls msg \<Rightarrow> Inl (PyError cls msg)
           | Decoded VNone \<Rightarrow> Inl (Mcp (validation_error ''YASIN-DOCS project registry is empty'' []))
           | Decoded v \<Rightarrow>
               if is_dict v \<or> is_list v then Inr v
               else Inl (Mcp (validation_error ''YASIN-DOCS project registry must be a mapping or list'' []))))"

fun dict_of :: "pyval \<Rightarrow> entry option" where
  "dict_of (VDict d) = Some d"
| "dict_of _ = None"

definition dicts_in :: "pyval list \<Rightarrow> entry list" where
  "dicts_in items = List.map_filter dict_of items"

text \<open>\<open>{"name": name, **item}\<close>\<close>

definition named_entry :: "pyval \<Rightarrow> entry \<Rightarrow> entry" where
  "named_entry name item = fold (\<lambda>(k, v). dict_set k v) item [(VStr ''name'', name)]"

fun extract_from_keys :: "entry \<Rightarrow> string list \<Rightarrow> entry list" where
  "extract_from_keys data [] =
     (if list_ex (\<lambda>k. vget data k \<noteq> None) [''name'', ''project'', ''id''] then [data] else [])"
| "extract_from_keys data (k # ks) =
     (case vget_or data k VNone of
        VList items \<Rightarrow> dicts_in items
      | VDict items \<Rightarrow>
          List.map_filter (\<lambda>(name, item). map_option (named_entry name) (dict_of item)) items
      | _ \<Rightarrow> extract_from_keys data ks)"

text \<open>Only a dictionary or a list comes out of the parser.\<close>

definition extract_entries :: "pyval \<Rightarrow> entry list" where
  "extract_entries data =
     (case data of
        VList items \<Rightarrow> dicts_in items
      | VDict d \<Rightarrow> extract_from_keys d [''projects'', ''repositories'', ''items'']
      | _ \<Rightarrow> [])"

definition load_registry ::
  "(string \<Rightarrow> ('n, document) net) \<Rightarrow> (string \<Rightarrow> decoded) option \<Rightarrow> ('n, pyval \<times> document) net" where
  "load_registry fetch yaml =
     net_bind (net_first_found fetch
         (net_raise (unavailable_dependency_error ''YASIN-DOCS project registry is unavailable or not documented'' []))
         REGISTRY_CANDIDATES) (\<lambda>document.
     net_bind (net_lift (parse_registry yaml (dc_content document))) (\<lambda>data. net_return (data, document)))"

text \<open>An entry that cannot be normalized is skipped.\<close>

definition usable_projects :: "document \<Rightarrow> entry list \<Rightarrow> project_metadata list" where
  "usable_projects source entries =
     List.map_filter (\<lambda>e. case normalize_entry e source of Inl _ \<Rightarrow> None | Inr p \<Rightarrow> Some p) entries"

definition list_projects ::
  "(string \<Rightarrow> ('n, document) net) \<Rightarrow> (string \<Rightarrow> decoded) option \<Rightarrow> ('n, project_metadata list) net" where
  "list_projects fetch yaml =
     net_bind (load_registry fetch yaml) (\<lambda>(data, source). net_return (usable_projects source (extract_entries data)))"

definition get_project ::
  "(string \<Rightarrow> ('n, document) net) \<Rightarrow> (string \<Rightarrow> decoded) option \<Rightarrow> string \<Rightarrow> ('n, project_metadata) net" where
  "get_project fetch yaml name =
     (let normalized = py_casefold (py_strip name) in
      if normalized = [] then net_raise (validation_error ''project name must not be empty'' [])
      else net_bind (list_projects fetch yaml) (\<lambda>projects.
        case find (\<lambda>p. py_casefold (pm_name p) = normalized) projects of
          Some p \<Rightarrow> net_return p
        | None \<Rightarrow> net_raise (not_found_error (''project '' @ str_repr name @ '' is not present in the registry'') [])))"

definition dependencies_payload :: "project_metadata \<Rightarrow> sdict" where
  "dependencies_payload p =
     attach_untrusted_envelope
       [(''project'', VStr (pm_name p)), (''depends_on'', VList (map VStr (pm_dependencies p))),
        (''dependency_direction'', VStr ''outbound''), (''evidence_status'', VStr (evidence_value (pm_evidence p))),
        (''provenance'', registry_provenance p),
        (''unknowns'', VList (if pm_dependencies p = [] then [VStr ''dependencies not declared in registry''] else []))]
       ''yasin-docs-registry'' (Some (pm_name p))"

definition list_dependencies ::
  "(string \<Rightarrow> ('n, document) net) \<Rightarrow> (string \<Rightarrow> decoded) option \<Rightarrow> string \<Rightarrow> ('n, sdict) net" where
  "list_dependencies fetch yaml name =
     net_bind (get_project fetch yaml name) (\<lambda>p. net_return (dependencies_payload p))"

section \<open>The tools\<close>

definition tool_list_projects ::
  "(string \<Rightarrow> ('n, document) net) \<Rightarrow> (string \<Rightarrow> decoded) option \<Rightarrow> ('n, sdict) net" where
  "tool_list_projects fetch yaml =
     net_bind (list_projects fetch yaml) (\<lambda>projects. net_return (attach_untrusted_envelope
       [(''projects'', VList (map (vdict \<circ> project_as_dict) projects)), (''count'', VInt (int (length projects))),
        (''evidence_status'', VStr (if projects = [] then ''unresolved'' else ''confirmed''))]
       ''yasin-docs-registry'' (Some ''registry-list'')))"

definition tool_get_project ::
  "(string \<Rightarrow> ('n, document) net) \<Rightarrow> (string \<Rightarrow> decoded) option \<Rightarrow> pyval \<Rightarrow> ('n, sdict) net" where
  "tool_get_project fetch yaml name =
     net_bind (net_lift (need_str ''name'' name)) (\<lambda>s.
     net_bind (get_project fetch yaml s) (\<lambda>p. net_return (project_as_dict p)))"

definition tool_list_dependencies ::
  "(string \<Rightarrow> ('n, document) net) \<Rightarrow> (string \<Rightarrow> decoded) option \<Rightarrow> pyval \<Rightarrow> ('n, sdict) net" where
  "tool_list_dependencies fetch yaml name =
     net_bind (net_lift (need_str ''name'' name)) (\<lambda>s. list_dependencies fetch yaml s)"

section \<open>The contract with the documentation adapter\<close>

definition clean_text :: "string \<Rightarrow> bool" where
  "clean_text s \<longleftrightarrow> s \<noteq> [] \<and> py_strip s = s"

definition clean_option :: "string option \<Rightarrow> bool" where
  "clean_option x \<longleftrightarrow> (case x of None \<Rightarrow> True | Some s \<Rightarrow> clean_text s)"

definition wf_project :: "project_metadata \<Rightarrow> bool" where
  "wf_project p \<longleftrightarrow> clean_text (pm_name p) \<and> pm_source_path p \<in> set REGISTRY_CANDIDATES \<and> pm_evidence p = CONFIRMED \<and>
     list_all clean_text (pm_dependencies p @ pm_public_contracts p @ pm_mcp_capabilities p) \<and>
     list_all clean_option
       [pm_role p, pm_repository p, pm_documentation p, pm_status p, pm_owner p, pm_operational_state p]"

lemma first_string_clean: "first_string e ks = Some s \<Longrightarrow> clean_text s"
  by (induction e ks rule: first_string.induct) (auto simp: clean_text_def blank_def split: pyval.splits if_splits)

lemma list_texts_clean: "list_all clean_text (list_texts items)"
  by (auto simp: list_texts_def list_all_iff clean_text_def blank_def)

lemma list_texts_member: "s \<in> set (list_texts items) \<Longrightarrow> clean_text s"
  using list_texts_clean [of items] by (simp add: list_all_iff)

lemma string_list_clean: "list_all clean_text (string_list e ks)"
  by (induction e ks rule: string_list.induct)
    (auto simp: list_texts_clean clean_text_def [of "py_strip _"] blank_def split: pyval.split)

lemma first_string_option: "clean_option (first_string e ks)"
  using first_string_clean [of e ks] by (cases "first_string e ks") (auto simp: clean_option_def)

lemma normalize_entry_wf:
  assumes "normalize_entry e source = Inr p" and "dc_path source \<in> set REGISTRY_CANDIDATES" and "dc_evidence source = CONFIRMED"
  shows "wf_project p"
proof -
  from assms(1) obtain name where "first_string e [''name'', ''project'', ''id''] = Some name"
    by (auto simp: normalize_entry_def split: option.splits)
  with assms first_string_clean [OF this] show ?thesis
    by (auto simp: normalize_entry_def wf_project_def string_list_clean first_string_option
        simp del: first_string.simps string_list.simps)
qed

lemma usable_projects_wf:
  assumes "dc_path source \<in> set REGISTRY_CANDIDATES" and "dc_evidence source = CONFIRMED"
  shows "list_all wf_project (usable_projects source entries)"
  using normalize_entry_wf [OF _ assms]
  by (auto simp: usable_projects_def List.map_filter_def list_all_iff split: sum.splits)

locale docs_source =
  fixes fetch :: "string \<Rightarrow> ('n, document) net"
  assumes fetched: "yields (\<lambda>d. dc_path d = path \<and> dc_evidence d = CONFIRMED) (fetch path)"
begin

lemma loaded_from_candidate:
  "yields (\<lambda>(data, d). dc_path d \<in> set REGISTRY_CANDIDATES \<and> dc_evidence d = CONFIRMED) (load_registry fetch yaml)"
  unfolding load_registry_def
proof (rule yields_bind2)
  show "yields (\<lambda>d. dc_path d \<in> set REGISTRY_CANDIDATES \<and> dc_evidence d = CONFIRMED)
      (net_first_found fetch
         (net_raise (unavailable_dependency_error ''YASIN-DOCS project registry is unavailable or not documented'' []))
         REGISTRY_CANDIDATES)"
    by (rule yields_first_found) (auto simp: yields_lift intro: yields_mono [OF fetched])
qed (auto intro!: yields_bind simp: yields_lift)

lemma yields_projects: "yields (list_all wf_project) (list_projects fetch yaml)"
  unfolding list_projects_def
  by (rule yields_bind2 [OF loaded_from_candidate]) (auto simp: yields_lift usable_projects_wf)

lemma yields_project:
  "yields (\<lambda>p. wf_project p \<and> py_casefold (pm_name p) = py_casefold (py_strip name)) (get_project fetch yaml name)"
  unfolding get_project_def Let_def
  by (intro yields_if yields_bind2 [OF yields_projects])
    (auto simp: yields_lift list_all_iff find_Some_iff split: option.split)

end

interpretation registry: docs_source "get_doc req decode a"
  for req decode a
  by unfold_locales (rule yields_mono [OF yields_get_doc], simp add: wf_document_def)

context docs_traffic begin

lemma keeps_list_projects [net_rules]: "keeps P (list_projects (get_doc req decode a) yaml)"
  unfolding list_projects_def load_registry_def
  by (intro keeps_bind net_rules) (auto intro: net_rules split: prod.split)

lemma keeps_get_project [net_rules]: "keeps P (get_project (get_doc req decode a) yaml name)"
  unfolding get_project_def Let_def
  by (intro keeps_if keeps_bind keeps_lift keeps_list_projects) (auto intro: net_rules split: option.split)

lemma keeps_registry_tools:
  "keeps P (tool_list_projects (get_doc req decode a) yaml)"
  "keeps P (tool_get_project (get_doc req decode a) yaml v)"
  "keeps P (tool_list_dependencies (get_doc req decode a) yaml v)"
  unfolding tool_list_projects_def tool_get_project_def tool_list_dependencies_def list_dependencies_def
  by (intro net_rules)+

end

section \<open>Properties\<close>

text \<open>The documentation and registry tools reach nothing but the documentation repository:
  whatever the caller passes and whatever the service answers, every request of every tool
  is for the repository's tree or for a file of it under a path without \<open>..\<close>, with the fixed
  headers.\<close>

theorem docs_requests_confined:
  "list_all (list_all (\<lambda>(url, headers). docs_request_ok a url headers))
     [fst (tool_list_documents (logged answer) a []), fst (tool_get_document (logged answer) decode a v []),
      fst (tool_search (logged answer) decode a v w []), fst (tool_list_adrs (logged answer) a []),
      fst (tool_get_adr (logged answer) decode a v []), fst (tool_list_architecture (logged answer) a []),
      fst (tool_get_project_architecture (logged answer) decode a v []),
      fst (tool_list_projects (get_doc (logged answer) decode a) yaml []),
      fst (tool_get_project (get_doc (logged answer) decode a) yaml v []),
      fst (tool_list_dependencies (get_doc (logged answer) decode a) yaml v [])]"
  by (simp add: keepsD [OF docs.keeps_tools(1)] keepsD [OF docs.keeps_tools(2)] keepsD [OF docs.keeps_tools(3)]
      keepsD [OF docs.keeps_tools(4)] keepsD [OF docs.keeps_tools(5)] keepsD [OF docs.keeps_tools(6)]
      keepsD [OF docs.keeps_tools(7)] keepsD [OF docs.keeps_registry_tools(1)]
      keepsD [OF docs.keeps_registry_tools(2)] keepsD [OF docs.keeps_registry_tools(3)])

text \<open>One unusable row does not poison the catalog: exactly the entries with a name are listed.\<close>

lemma usable_projects_eq:
  "usable_projects source entries =
     map (\<lambda>e. projr (normalize_entry e source))
       (filter (\<lambda>e. first_string e [''name'', ''project'', ''id''] \<noteq> None) entries)"
  by (induction entries)
    (auto simp: usable_projects_def List.map_filter_def normalize_entry_def simp del: first_string.simps split: option.splits)

text \<open>C37: A project that a lookup returns is the first listed one whose name equals the requested
  one up to case and surrounding space; its name and every text of it is non-empty and
  stripped, and it cites as confirmed one of the four registry files.\<close>

theorem registry_lookup_sound:
  assumes "get_project (get_doc req decode a) yaml name n = (n', Inr p)"
  shows "wf_project p \<and> py_casefold (pm_name p) = py_casefold (py_strip name) \<and>
    (\<exists>ps. list_projects (get_doc req decode a) yaml n = (n', Inr ps) \<and> list_all wf_project ps \<and>
       find (\<lambda>x. py_casefold (pm_name x) = py_casefold (py_strip name)) ps = Some p)"
proof -
  obtain ps where "list_projects (get_doc req decode a) yaml n = (n', Inr ps)"
    and "find (\<lambda>x. py_casefold (pm_name x) = py_casefold (py_strip name)) ps = Some p"
    using assms by (auto simp: get_project_def Let_def net_bind_Inr net_lift_Inr split: if_splits option.splits)
  with yieldsD [OF registry.yields_projects this(1)] yieldsD [OF registry.yields_project assms] show ?thesis
    by auto
qed

definition demo_yaml :: "string \<Rightarrow> decoded" where
  "demo_yaml content = Decoded (vdict [(''projects'', VList
     [VStr ''junk'', vdict [(''role'', VStr ''nameless'')],
      vdict [(''name'', VStr '' Hub ''), (''deps'', VList [VStr ''core'', VNone, VInt 3])]])])"

lemma demo_lookup:
  "map_prod id (map_sum id (\<lambda>p. (pm_name p, pm_dependencies p)))
     (get_project (get_doc demo_docs_service Some demo_docs_adapter) (Some demo_yaml) ''HUB'' 0) =
   (1, Inr (''Hub'', [''core'', ''3'']))"
  by code_simp

theorem registry_lookup_sound_witness:
  "\<exists>n' p. get_project (get_doc demo_docs_service Some demo_docs_adapter) (Some demo_yaml) ''HUB'' 0 = (n', Inr p) \<and>
     wf_project p \<and> pm_name p = ''Hub''"
proof -
  obtain n' p where p: "get_project (get_doc demo_docs_service Some demo_docs_adapter) (Some demo_yaml) ''HUB'' 0 = (n', Inr p)"
    and "pm_name p = ''Hub''"
    using demo_lookup
    by (cases "get_project (get_doc demo_docs_service Some demo_docs_adapter) (Some demo_yaml) ''HUB'' 0")
      (auto simp: map_sum_def split: sum.splits)
  with registry_lookup_sound [OF p] show ?thesis by blast
qed

end
