(* ===== verification/Github.thy ===== *)
theory Github
  imports Docs
begin

text \<open>
  The GitHub adapter (\<open>adapters/github.py\<close>) and its tools (\<open>tools/github.py\<close>). A payload is whatever the
  service sent: every access to it can fail the way Python fails.
\<close>

section \<open>Records and their dictionaries\<close>

definition MAX_SEARCH_RESULTS :: int where
  "MAX_SEARCH_RESULTS = 50"

definition MAX_RESPONSE_BYTES :: nat where
  "MAX_RESPONSE_BYTES = 1000000"

definition gh_meta :: "string \<Rightarrow> string \<Rightarrow> string option \<Rightarrow> sdict" where
  "gh_meta source_url html_url text_for_markers =
     (let html = (if html_url = [] then [] else [(''html_url'', VStr html_url)]) in
      attach_untrusted_envelope
        ([(''source_url'', VStr source_url), (''evidence_status'', VStr (evidence_value CONFIRMED)),
          (''provenance'', vdict ([(''source'', VStr ''github''), (''source_url'', VStr source_url)] @ html))] @ html)
        ''github'' text_for_markers)"

record repository_info =
  ri_full_name :: string
  ri_default_branch :: string
  ri_description :: pyval
  ri_private :: bool
  ri_html_url :: string
  ri_source_url :: string

definition repository_as_dict :: "repository_info \<Rightarrow> sdict" where
  "repository_as_dict r =
     [(''full_name'', VStr (ri_full_name r)), (''default_branch'', VStr (ri_default_branch r)),
      (''description'', ri_description r), (''private'', VBool (ri_private r))]
     @ gh_meta (ri_source_url r) (ri_html_url r) None"

text \<open>An issue number is an \<open>int\<close>, and in Python a \<open>bool\<close> is one.\<close>

record issue_info =
  ii_number :: pyval
  ii_title :: string
  ii_state :: string
  ii_html_url :: string
  ii_source_url :: string

definition issue_as_dict :: "issue_info \<Rightarrow> sdict" where
  "issue_as_dict i =
     [(''number'', ii_number i), (''title'', VStr (ii_title i)), (''state'', VStr (ii_state i))]
     @ gh_meta (ii_source_url i) (ii_html_url i) None"

record pull_request_info =
  pr_number :: pyval
  pr_title :: string
  pr_state :: string
  pr_draft :: bool
  pr_html_url :: string
  pr_source_url :: string

definition pull_request_as_dict :: "pull_request_info \<Rightarrow> sdict" where
  "pull_request_as_dict p =
     [(''number'', pr_number p), (''title'', VStr (pr_title p)), (''state'', VStr (pr_state p)),
      (''draft'', VBool (pr_draft p))]
     @ gh_meta (pr_source_url p) (pr_html_url p) None"

record commit_status =
  st_sha :: string
  st_state :: string
  st_total_count :: int
  st_source_url :: string

definition commit_status_as_dict :: "commit_status \<Rightarrow> sdict" where
  "commit_status_as_dict s =
     [(''sha'', VStr (st_sha s)), (''state'', VStr (st_state s)), (''total_count'', VInt (st_total_count s))]
     @ gh_meta (st_source_url s) [] None"

record commit_info =
  cm_sha :: string
  cm_message :: string
  cm_author :: string
  cm_date :: string
  cm_html_url :: string
  cm_source_url :: string

definition commit_as_dict :: "commit_info \<Rightarrow> sdict" where
  "commit_as_dict c =
     [(''sha'', VStr (cm_sha c)), (''message'', VStr (cm_message c)), (''author'', VStr (cm_author c)),
      (''date'', VStr (cm_date c))]
     @ gh_meta (cm_source_url c) (cm_html_url c) None"

record branch_info =
  br_name :: string
  br_protected :: bool
  br_commit_sha :: string
  br_source_url :: string

definition branch_as_dict :: "branch_info \<Rightarrow> sdict" where
  "branch_as_dict b =
     [(''name'', VStr (br_name b)), (''protected'', VBool (br_protected b)), (''commit_sha'', VStr (br_commit_sha b))]
     @ gh_meta (br_source_url b) [] None"

record release_info =
  rl_tag_name :: string
  rl_name :: string
  rl_draft :: bool
  rl_prerelease :: bool
  rl_html_url :: string
  rl_published_at :: pyval
  rl_source_url :: string

definition release_as_dict :: "release_info \<Rightarrow> sdict" where
  "release_as_dict r =
     [(''tag_name'', VStr (rl_tag_name r)), (''name'', VStr (rl_name r)), (''draft'', VBool (rl_draft r)),
      (''prerelease'', VBool (rl_prerelease r)), (''published_at'', rl_published_at r)]
     @ gh_meta (rl_source_url r) (rl_html_url r) None"

record code_hit =
  ch_name :: string
  ch_path :: string
  ch_repository :: string
  ch_html_url :: string
  ch_source_url :: string

definition code_hit_as_dict :: "code_hit \<Rightarrow> sdict" where
  "code_hit_as_dict h =
     [(''name'', VStr (ch_name h)), (''path'', VStr (ch_path h)), (''repository'', VStr (ch_repository h))]
     @ gh_meta (ch_source_url h) (ch_html_url h) None"

section \<open>Checks\<close>

record github_adapter =
  ga_token :: "secret_str option"
  ga_timeout :: int

definition make_github_adapter :: "secret_str option \<Rightarrow> int \<Rightarrow> github_adapter result" where
  "make_github_adapter token timeout =
     (if timeout \<le> 0 then Inl (Mcp (validation_error ''timeout_seconds must be positive'' []))
      else Inr \<lparr>ga_token = token, ga_timeout = timeout\<rparr>)"

definition validate_repo :: "string \<Rightarrow> string \<Rightarrow> unit result" where
  "validate_repo owner repository =
     (if owner = [] \<or> repository = [] \<or> list_ex (\<lambda>v. py_in v (owner @ repository)) [''/'', ''..'', '' '']
      then Inl (Mcp (validation_error ''invalid GitHub repository identifier'' [])) else Inr ())"

text \<open>Comparing a value with an integer; \<open>None\<close> stands for a \<open>TypeError\<close>.\<close>

definition py_num_cmp :: "(int \<Rightarrow> int \<Rightarrow> bool) \<Rightarrow> bool \<Rightarrow> bool \<Rightarrow> pyval \<Rightarrow> int \<Rightarrow> bool option" where
  "py_num_cmp rel minus_inf plus_inf v i =
     (case v of
        VInt n \<Rightarrow> Some (rel n i)
      | VBool b \<Rightarrow> Some (rel (if b then 1 else 0) i)
      | VFloat (Finite m e _) \<Rightarrow> Some (rel (m * 2 ^ nat e) (i * 2 ^ nat (- e)))
      | VFloat Inf_neg \<Rightarrow> Some minus_inf
      | VFloat Inf_pos \<Rightarrow> Some plus_inf
      | VFloat NaN \<Rightarrow> Some False
      | _ \<Rightarrow> None)"

definition no_order :: "string \<Rightarrow> string \<Rightarrow> string \<Rightarrow> pyexn" where
  "no_order op l r = PyError ''TypeError''
     (str_repr op @ '' not supported between instances of '' @ str_repr l @ '' and '' @ str_repr r)"

definition validate_limit :: "pyval \<Rightarrow> unit result" where
  "validate_limit limit =
     (case (py_num_cmp (\<ge>) False True limit 1, py_num_cmp (\<le>) True False limit MAX_SEARCH_RESULTS) of
        (Some low, Some high) \<Rightarrow>
          (if \<not> (low \<and> high)
           then Inl (Mcp (validation_error (''limit must be between 1 and '' @ show_int MAX_SEARCH_RESULTS) [])) else Inr ())
      | _ \<Rightarrow> Inl (no_order ''<='' ''int'' (type_name limit)))"

text \<open>\<open>isinstance(v, int)\<close>: a boolean is an integer.\<close>

definition is_int :: "pyval \<Rightarrow> bool" where
  "is_int v = (case v of VInt _ \<Rightarrow> True | VBool _ \<Rightarrow> True | _ \<Rightarrow> False)"

definition int_value :: "pyval \<Rightarrow> int" where
  "int_value v = (case v of VInt i \<Rightarrow> i | VBool b \<Rightarrow> (if b then 1 else 0) | _ \<Rightarrow> 0)"

definition validate_number :: "string \<Rightarrow> pyval \<Rightarrow> unit result" where
  "validate_number what number =
     (case py_num_cmp (<) True False number 1 of
        Some low \<Rightarrow> (if low then Inl (Mcp (validation_error (what @ '' number must be positive'') [])) else Inr ())
      | None \<Rightarrow> Inl (no_order ''<'' (type_name number) ''int''))"

definition validate_sha :: "string \<Rightarrow> unit result" where
  "validate_sha sha =
     (if sha = [] \<or> CHR ''/'' \<in> set sha \<or> CHR '' '' \<in> set sha
      then Inl (Mcp (validation_error ''invalid commit SHA'' [])) else Inr ())"

text \<open>\<open>urllib.parse.quote(query, safe="")\<close>: percent-encoded UTF-8.\<close>

definition utf8_bytes :: "char \<Rightarrow> nat list" where
  "utf8_bytes c = (let n = code c in if n < 128 then [n] else [192 + n div 64, 128 + n mod 64])"

definition upper_hex :: "nat \<Rightarrow> char" where
  "upper_hex n = (if n < 10 then char_of (48 + n) else char_of (55 + n))"

definition unreserved :: "char \<Rightarrow> bool" where
  "unreserved c \<longleftrightarrow> ascii_alnum c \<or> chars ''_.-~'' c"

definition quote_char :: "char \<Rightarrow> string" where
  "quote_char c =
     (if unreserved c then [c]
      else concat (map (\<lambda>b. [CHR ''%'', upper_hex (b div 16), upper_hex (b mod 16)]) (utf8_bytes c)))"

definition quote_query :: "string \<Rightarrow> string" where
  "quote_query q = concat (map quote_char q)"

section \<open>Operations\<close>

definition github_get :: "'n requester \<Rightarrow> github_adapter \<Rightarrow> string \<Rightarrow> ('n, pyval) net" where
  "github_get req g path = req (GITHUB_API @ path) (github_headers (ga_token g)) (ga_timeout g)"

definition repo_path :: "string \<Rightarrow> string \<Rightarrow> string" where
  "repo_path owner repository = ''/repos/'' @ owner @ ''/'' @ repository"

text \<open>The head of every operation on a repository: its checks in order, then the one request.\<close>

definition repo_get ::
  "'n requester \<Rightarrow> github_adapter \<Rightarrow> string \<Rightarrow> string \<Rightarrow> unit result \<Rightarrow> string \<Rightarrow> ('n, pyval) net" where
  "repo_get req g owner repository check rest =
     net_bind (net_lift (validate_repo owner repository)) (\<lambda>_.
     net_bind (net_lift check) (\<lambda>_. github_get req g (repo_path owner repository @ rest)))"

text \<open>A payload that has to be a list, cut to the limit, and one record per item.\<close>

text \<open>\<open>xs[:limit]\<close>: an index is an integer.\<close>

definition py_upto :: "pyval \<Rightarrow> 'a list \<Rightarrow> 'a list result" where
  "py_upto limit xs =
     (if is_int limit then Inr (if 0 \<le> int_value limit then take (nat (int_value limit)) xs
        else take (length xs - nat (- int_value limit)) xs)
      else Inl (PyError ''TypeError'' ''slice indices must be integers or None or have an __index__ method''))"

definition listed_items :: "string \<Rightarrow> pyval \<Rightarrow> pyval \<Rightarrow> (pyval \<Rightarrow> 'a result) \<Rightarrow> 'a list result" where
  "listed_items what limit payload item_of =
     (case payload of
        VList items \<Rightarrow> res_bind (py_upto limit items) (res_mapM item_of)
      | _ \<Rightarrow> Inl (Mcp (upstream_error (''GitHub returned an unexpected '' @ what @ '' shape'') [])))"

definition per_page :: "pyval \<Rightarrow> string" where
  "per_page limit = ''per_page='' @ py_str limit"

definition repository_of :: "string \<Rightarrow> string \<Rightarrow> pyval \<Rightarrow> repository_info result" where
  "repository_of owner repository payload =
     res_bind (get_str payload ''full_name'' (owner @ ''/'' @ repository)) (\<lambda>full_name.
     res_bind (get_str payload ''default_branch'' ''main'') (\<lambda>branch.
     res_bind (py_get payload ''description'' VNone) (\<lambda>description.
     res_bind (get_bool payload ''private'') (\<lambda>private.
     res_bind (get_str payload ''html_url'' []) (\<lambda>html_url.
       Inr \<lparr>ri_full_name = full_name, ri_default_branch = branch, ri_description = description, ri_private = private,
            ri_html_url = html_url, ri_source_url = GITHUB_API @ repo_path owner repository\<rparr>)))))"

definition get_repository :: "'n requester \<Rightarrow> github_adapter \<Rightarrow> string \<Rightarrow> string \<Rightarrow> ('n, repository_info) net" where
  "get_repository req g owner repository =
     net_bind (repo_get req g owner repository (Inr ()) []) (\<lambda>payload. net_lift (repository_of owner repository payload))"

definition issue_of :: "pyval \<Rightarrow> string \<Rightarrow> pyval \<Rightarrow> issue_info result" where
  "issue_of number source_url payload =
     res_bind (get_str payload ''title'' []) (\<lambda>title.
     res_bind (get_str payload ''state'' []) (\<lambda>state.
     res_bind (get_str payload ''html_url'' []) (\<lambda>html_url.
       Inr \<lparr>ii_number = number, ii_title = title, ii_state = state, ii_html_url = html_url, ii_source_url = source_url\<rparr>)))"

definition get_issue :: "'n requester \<Rightarrow> github_adapter \<Rightarrow> string \<Rightarrow> string \<Rightarrow> pyval \<Rightarrow> ('n, issue_info) net" where
  "get_issue req g owner repository number =
     (let rest = ''/issues/'' @ py_str number in
      net_bind (repo_get req g owner repository (validate_number ''issue'' number) rest)
        (\<lambda>payload. net_lift (issue_of number (GITHUB_API @ repo_path owner repository @ rest) payload)))"

text \<open>An item of an issue list: pull requests are left out. The number is read twice, as an integer and as text.\<close>

definition issue_item :: "string \<Rightarrow> pyval \<Rightarrow> issue_info option result" where
  "issue_item base item =
     res_bind (py_contains ''pull_request'' item) (\<lambda>is_pull.
     if is_pull then Inr None
     else res_bind (py_get item ''number'' (VInt 0)) (\<lambda>raw.
       res_bind (py_int raw) (\<lambda>number.
       map_sum id Some (issue_of (VInt number) (base @ ''/issues/'' @ py_str raw) item))))"

definition list_issues :: "'n requester \<Rightarrow> github_adapter \<Rightarrow> string \<Rightarrow> string \<Rightarrow> pyval \<Rightarrow> ('n, issue_info list) net" where
  "list_issues req g owner repository limit =
     net_bind (repo_get req g owner repository (validate_limit limit) (''/issues?state=all&'' @ per_page limit))
       (\<lambda>payload. net_lift (map_sum id (List.map_filter id)
          (listed_items ''issue-list'' limit payload (issue_item (GITHUB_API @ repo_path owner repository)))))"

definition pull_of :: "pyval \<Rightarrow> string \<Rightarrow> pyval \<Rightarrow> pull_request_info result" where
  "pull_of number source_url payload =
     res_bind (get_str payload ''title'' []) (\<lambda>title.
     res_bind (get_str payload ''state'' []) (\<lambda>state.
     res_bind (get_bool payload ''draft'') (\<lambda>draft.
     res_bind (get_str payload ''html_url'' []) (\<lambda>html_url.
       Inr \<lparr>pr_number = number, pr_title = title, pr_state = state, pr_draft = draft, pr_html_url = html_url,
            pr_source_url = source_url\<rparr>))))"

definition get_pull_request ::
  "'n requester \<Rightarrow> github_adapter \<Rightarrow> string \<Rightarrow> string \<Rightarrow> pyval \<Rightarrow> ('n, pull_request_info) net" where
  "get_pull_request req g owner repository number =
     (let rest = ''/pulls/'' @ py_str number in
      net_bind (repo_get req g owner repository (validate_number ''pull request'' number) rest)
        (\<lambda>payload. net_lift (pull_of number (GITHUB_API @ repo_path owner repository @ rest) payload)))"

definition pull_item :: "string \<Rightarrow> pyval \<Rightarrow> pull_request_info result" where
  "pull_item base item =
     res_bind (py_get item ''number'' (VInt 0)) (\<lambda>raw.
     res_bind (py_int raw) (\<lambda>number. pull_of (VInt number) (base @ ''/pulls/'' @ py_str raw) item))"

definition list_pull_requests ::
  "'n requester \<Rightarrow> github_adapter \<Rightarrow> string \<Rightarrow> string \<Rightarrow> pyval \<Rightarrow> ('n, pull_request_info list) net" where
  "list_pull_requests req g owner repository limit =
     net_bind (repo_get req g owner repository (validate_limit limit) (''/pulls?state=all&'' @ per_page limit))
       (\<lambda>payload. net_lift
          (listed_items ''pull-request-list'' limit payload (pull_item (GITHUB_API @ repo_path owner repository))))"

definition get_commit_status ::
  "'n requester \<Rightarrow> github_adapter \<Rightarrow> string \<Rightarrow> string \<Rightarrow> string \<Rightarrow> ('n, commit_status) net" where
  "get_commit_status req g owner repository sha =
     (let rest = ''/commits/'' @ sha @ ''/status'' in
      net_bind (repo_get req g owner repository (validate_sha sha) rest) (\<lambda>payload. net_lift
        (res_bind (get_str payload ''state'' ''unknown'') (\<lambda>state.
         res_bind (res_bind (py_get payload ''total_count'' (VInt 0)) py_int) (\<lambda>total.
           Inr \<lparr>st_sha = sha, st_state = state, st_total_count = total,
                st_source_url = GITHUB_API @ repo_path owner repository @ rest\<rparr>)))))"

text \<open>The runs may come from any value that has a \<open>get\<close>; each is reduced to six entries.\<close>

definition workflow_item :: "string \<Rightarrow> pyval \<Rightarrow> sdict result" where
  "workflow_item base run =
     res_bind (res_mapM (\<lambda>k. map_sum id (Pair k) (py_get run k VNone))
         [''id'', ''name'', ''status'', ''conclusion'', ''html_url'']) (\<lambda>entries.
       Inr (entries @ [(''source_url'', VStr (base @ ''/actions/runs''))]))"

definition list_workflow_runs ::
  "'n requester \<Rightarrow> github_adapter \<Rightarrow> string \<Rightarrow> string \<Rightarrow> pyval \<Rightarrow> ('n, sdict list) net" where
  "list_workflow_runs req g owner repository limit =
     net_bind (repo_get req g owner repository (validate_limit limit) (''/actions/runs?'' @ per_page limit))
       (\<lambda>payload. net_lift
          (res_bind (py_get payload ''workflow_runs'' (VList [])) (\<lambda>runs.
             listed_items ''workflow-run'' limit runs (workflow_item (GITHUB_API @ repo_path owner repository)))))"

text \<open>\<open>x or {}\<close>, and \<open>str(x or "")\<close>\<close>

definition or_empty :: "pyval \<Rightarrow> pyval" where
  "or_empty v = py_or v (VDict [])"

definition text_or_empty :: "pyval \<Rightarrow> string" where
  "text_or_empty v = py_str (py_or v (VStr []))"

definition commit_item :: "string \<Rightarrow> pyval \<Rightarrow> commit_info result" where
  "commit_item base item =
     res_bind (get_str item ''sha'' []) (\<lambda>sha.
     res_bind (py_get item ''commit'' VNone) (\<lambda>raw_commit.
     let commit = or_empty raw_commit in
     res_bind (py_get commit ''author'' VNone) (\<lambda>raw_author.
     let author = or_empty raw_author in
     res_bind (get_str commit ''message'' []) (\<lambda>message.
     res_bind (py_get author ''name'' VNone) (\<lambda>name.
     res_bind (py_get author ''date'' VNone) (\<lambda>date.
     res_bind (get_str item ''html_url'' []) (\<lambda>html_url.
       Inr \<lparr>cm_sha = sha, cm_message = takeWhile (\<lambda>c. c \<noteq> CHR 0x0A) message, cm_author = text_or_empty name,
            cm_date = text_or_empty date, cm_html_url = html_url, cm_source_url = base @ ''/commits/'' @ sha\<rparr>)))))))"

definition list_commits :: "'n requester \<Rightarrow> github_adapter \<Rightarrow> string \<Rightarrow> string \<Rightarrow> pyval \<Rightarrow> ('n, commit_info list) net" where
  "list_commits req g owner repository limit =
     net_bind (repo_get req g owner repository (validate_limit limit) (''/commits?'' @ per_page limit))
       (\<lambda>payload. net_lift (listed_items ''commits'' limit payload (commit_item (GITHUB_API @ repo_path owner repository))))"

definition branch_item :: "string \<Rightarrow> pyval \<Rightarrow> branch_info result" where
  "branch_item base item =
     res_bind (get_str item ''name'' []) (\<lambda>name.
     res_bind (get_bool item ''protected'') (\<lambda>protected.
     res_bind (py_get item ''commit'' VNone) (\<lambda>commit.
     res_bind (get_str (or_empty commit) ''sha'' []) (\<lambda>sha.
       Inr \<lparr>br_name = name, br_protected = protected, br_commit_sha = sha, br_source_url = base @ ''/branches''\<rparr>))))"

definition list_branches :: "'n requester \<Rightarrow> github_adapter \<Rightarrow> string \<Rightarrow> string \<Rightarrow> pyval \<Rightarrow> ('n, branch_info list) net" where
  "list_branches req g owner repository limit =
     net_bind (repo_get req g owner repository (validate_limit limit) (''/branches?'' @ per_page limit))
       (\<lambda>payload. net_lift (listed_items ''branches'' limit payload (branch_item (GITHUB_API @ repo_path owner repository))))"

definition release_item :: "string \<Rightarrow> pyval \<Rightarrow> release_info result" where
  "release_item base item =
     res_bind (get_str item ''tag_name'' []) (\<lambda>tag_name.
     res_bind (py_get item ''name'' VNone) (\<lambda>name.
     res_bind (py_get item ''tag_name'' VNone) (\<lambda>tag.
     res_bind (get_bool item ''draft'') (\<lambda>draft.
     res_bind (get_bool item ''prerelease'') (\<lambda>prerelease.
     res_bind (get_str item ''html_url'' []) (\<lambda>html_url.
     res_bind (py_get item ''published_at'' VNone) (\<lambda>published_at.
       Inr \<lparr>rl_tag_name = tag_name, rl_name = text_or_empty (py_or name tag), rl_draft = draft,
            rl_prerelease = prerelease, rl_html_url = html_url, rl_published_at = published_at,
            rl_source_url = base @ ''/releases''\<rparr>)))))))"

definition list_releases :: "'n requester \<Rightarrow> github_adapter \<Rightarrow> string \<Rightarrow> string \<Rightarrow> pyval \<Rightarrow> ('n, release_info list) net" where
  "list_releases req g owner repository limit =
     net_bind (repo_get req g owner repository (validate_limit limit) (''/releases?'' @ per_page limit))
       (\<lambda>payload. net_lift (listed_items ''releases'' limit payload (release_item (GITHUB_API @ repo_path owner repository))))"

definition code_item :: "pyval \<Rightarrow> code_hit result" where
  "code_item item =
     res_bind (get_str item ''name'' []) (\<lambda>name.
     res_bind (get_str item ''path'' []) (\<lambda>path.
     res_bind (py_get item ''repository'' (VDict [])) (\<lambda>repository.
     res_bind (get_str repository ''full_name'' []) (\<lambda>full_name.
     res_bind (get_str item ''html_url'' []) (\<lambda>html_url.
       Inr \<lparr>ch_name = name, ch_path = path, ch_repository = full_name, ch_html_url = html_url,
            ch_source_url = GITHUB_API @ ''/search/code''\<rparr>)))))"

definition search_code :: "'n requester \<Rightarrow> github_adapter \<Rightarrow> string \<Rightarrow> pyval \<Rightarrow> ('n, code_hit list) net" where
  "search_code req g query limit =
     net_bind (net_lift (if query = [] \<or> blank query
         then Inl (Mcp (validation_error ''search query must be non-empty'' [])) else Inr ())) (\<lambda>_.
     net_bind (net_lift (validate_limit limit)) (\<lambda>_.
     net_bind (github_get req g (''/search/code?q='' @ quote_query (py_strip query) @ ''&'' @ per_page limit))
       (\<lambda>payload. net_lift
          (res_bind (py_get payload ''items'' (VList [])) (\<lambda>items. listed_items ''search'' limit items code_item)))))"

section \<open>The network requester\<close>

text \<open>
  The requester of the running server: the state is the number of HTTP requests made, the logger
  and the log, and a call may retry (theory \<open>Reliability\<close>).
\<close>

definition github_requester ::
  "(nat \<Rightarrow> string \<Rightarrow> http_answer) \<Rightarrow> (string \<Rightarrow> decoded) \<Rightarrow> string option \<Rightarrow> (nat \<times> logger \<times> log_record list) requester" where
  "github_requester http decode rid url headers timeout st =
     (let (tr, r) = github_get_json rid (\<lambda>i. http (fst st + i) url) decode MAX_RESPONSE_BYTES (fst (snd st)) (snd (snd st))
      in ((fst st + gt_requests tr, gt_logger tr, gt_log tr), r))"

section \<open>The tools\<close>

definition need_repo :: "pyval \<Rightarrow> pyval \<Rightarrow> (string \<times> string) result" where
  "need_repo owner repository =
     (case (owner, repository) of
        (VStr o', VStr r) \<Rightarrow> Inr (o', r)
      | _ \<Rightarrow> Inl (Mcp (validation_error ''owner and repository must be strings'' [])))"

definition need_int :: "pyval \<Rightarrow> unit result" where
  "need_int v = (if is_int v then Inr () else Inl (Mcp (validation_error ''number must be an integer'' [])))"

definition listing_payload :: "string \<Rightarrow> string \<Rightarrow> string \<Rightarrow> sdict list \<Rightarrow> sdict" where
  "listing_payload name owner repository items =
     [(''owner'', VStr owner), (''repository'', VStr repository), (name, VList (map vdict items)),
      (''count'', VInt (int (length items))), (''evidence_status'', VStr ''confirmed'')]"

text \<open>A listing tool: check the names, list, and present each item as its dictionary.\<close>

definition listing_tool ::
  "string \<Rightarrow> (string \<Rightarrow> string \<Rightarrow> pyval \<Rightarrow> ('n, 'a list) net) \<Rightarrow> ('a \<Rightarrow> sdict) \<Rightarrow> pyval \<Rightarrow> pyval \<Rightarrow> pyval \<Rightarrow> ('n, sdict) net" where
  "listing_tool name listing as_dict owner repository limit =
     net_bind (net_lift (need_repo owner repository)) (\<lambda>(ow, rep).
     net_bind (listing ow rep limit) (\<lambda>items. net_return (listing_payload name ow rep (map as_dict items))))"

definition tool_get_repository :: "'n requester \<Rightarrow> github_adapter \<Rightarrow> pyval \<Rightarrow> pyval \<Rightarrow> ('n, sdict) net" where
  "tool_get_repository req g owner repository =
     net_bind (net_lift (need_repo owner repository)) (\<lambda>(ow, rep).
     net_bind (get_repository req g ow rep) (\<lambda>r. net_return (repository_as_dict r)))"

definition tool_list_issues :: "'n requester \<Rightarrow> github_adapter \<Rightarrow> pyval \<Rightarrow> pyval \<Rightarrow> pyval \<Rightarrow> ('n, sdict) net" where
  "tool_list_issues req g = listing_tool ''issues'' (list_issues req g) issue_as_dict"

definition tool_list_pull_requests :: "'n requester \<Rightarrow> github_adapter \<Rightarrow> pyval \<Rightarrow> pyval \<Rightarrow> pyval \<Rightarrow> ('n, sdict) net" where
  "tool_list_pull_requests req g = listing_tool ''pull_requests'' (list_pull_requests req g) pull_request_as_dict"

definition tool_list_commits :: "'n requester \<Rightarrow> github_adapter \<Rightarrow> pyval \<Rightarrow> pyval \<Rightarrow> pyval \<Rightarrow> ('n, sdict) net" where
  "tool_list_commits req g = listing_tool ''commits'' (list_commits req g) commit_as_dict"

definition tool_list_branches :: "'n requester \<Rightarrow> github_adapter \<Rightarrow> pyval \<Rightarrow> pyval \<Rightarrow> pyval \<Rightarrow> ('n, sdict) net" where
  "tool_list_branches req g = listing_tool ''branches'' (list_branches req g) branch_as_dict"

definition tool_list_releases :: "'n requester \<Rightarrow> github_adapter \<Rightarrow> pyval \<Rightarrow> pyval \<Rightarrow> pyval \<Rightarrow> ('n, sdict) net" where
  "tool_list_releases req g = listing_tool ''releases'' (list_releases req g) release_as_dict"

definition tool_get_issue :: "'n requester \<Rightarrow> github_adapter \<Rightarrow> pyval \<Rightarrow> pyval \<Rightarrow> pyval \<Rightarrow> ('n, sdict) net" where
  "tool_get_issue req g owner repository number =
     net_bind (net_lift (need_repo owner repository)) (\<lambda>(ow, rep).
     net_bind (net_lift (need_int number)) (\<lambda>_.
     net_bind (get_issue req g ow rep number) (\<lambda>i. net_return (issue_as_dict i))))"

definition tool_get_pull_request :: "'n requester \<Rightarrow> github_adapter \<Rightarrow> pyval \<Rightarrow> pyval \<Rightarrow> pyval \<Rightarrow> ('n, sdict) net" where
  "tool_get_pull_request req g owner repository number =
     net_bind (net_lift (need_repo owner repository)) (\<lambda>(ow, rep).
     net_bind (net_lift (need_int number)) (\<lambda>_.
     net_bind (get_pull_request req g ow rep number) (\<lambda>p. net_return (pull_request_as_dict p))))"

definition tool_get_commit_status :: "'n requester \<Rightarrow> github_adapter \<Rightarrow> pyval \<Rightarrow> pyval \<Rightarrow> pyval \<Rightarrow> ('n, sdict) net" where
  "tool_get_commit_status req g owner repository sha =
     net_bind (net_lift (need_repo owner repository)) (\<lambda>(ow, rep).
     net_bind (net_lift (need_str ''sha'' sha)) (\<lambda>s.
     net_bind (get_commit_status req g ow rep s) (\<lambda>c. net_return (commit_status_as_dict c))))"

definition wrapped_run :: "sdict \<Rightarrow> sdict" where
  "wrapped_run run =
     attach_untrusted_envelope run ''github''
       (Some (text_or_empty (py_or (sget run ''name'' VNone) (sget run ''html_url'' VNone))))"

definition tool_list_workflow_runs :: "'n requester \<Rightarrow> github_adapter \<Rightarrow> pyval \<Rightarrow> pyval \<Rightarrow> pyval \<Rightarrow> ('n, sdict) net" where
  "tool_list_workflow_runs req g owner repository limit =
     net_bind (net_lift (need_repo owner repository)) (\<lambda>(ow, rep).
     net_bind (list_workflow_runs req g ow rep limit) (\<lambda>runs.
       net_return (attach_untrusted_envelope
         (listing_payload ''workflow_runs'' ow rep (map wrapped_run runs)
            @ [(''provenance'', vdict [(''source'', VStr ''github'')])])
         ''github'' (Some rep))))"

text \<open>The toolset: its ten methods with their arguments.\<close>

datatype github_call =
    Get_repository pyval pyval
  | List_issues pyval pyval pyval
  | Get_issue pyval pyval pyval
  | List_pull_requests pyval pyval pyval
  | Get_pull_request pyval pyval pyval
  | List_commits pyval pyval pyval
  | Get_commit_status pyval pyval pyval
  | List_workflow_runs pyval pyval pyval
  | List_branches pyval pyval pyval
  | List_releases pyval pyval pyval

fun github_tool :: "'n requester \<Rightarrow> github_adapter \<Rightarrow> github_call \<Rightarrow> ('n, sdict) net" where
  "github_tool req g (Get_repository ow rep) = tool_get_repository req g ow rep"
| "github_tool req g (List_issues ow rep limit) = tool_list_issues req g ow rep limit"
| "github_tool req g (Get_issue ow rep number) = tool_get_issue req g ow rep number"
| "github_tool req g (List_pull_requests ow rep limit) = tool_list_pull_requests req g ow rep limit"
| "github_tool req g (Get_pull_request ow rep number) = tool_get_pull_request req g ow rep number"
| "github_tool req g (List_commits ow rep limit) = tool_list_commits req g ow rep limit"
| "github_tool req g (Get_commit_status ow rep sha) = tool_get_commit_status req g ow rep sha"
| "github_tool req g (List_workflow_runs ow rep limit) = tool_list_workflow_runs req g ow rep limit"
| "github_tool req g (List_branches ow rep limit) = tool_list_branches req g ow rep limit"
| "github_tool req g (List_releases ow rep limit) = tool_list_releases req g ow rep limit"

section \<open>One request per call\<close>

text \<open>
  Where a call is meant to go: below \<open>/repos/\<close>, the two names and a fixed endpoint. The names and
  the commit are put into the URL as they are; a server takes as the path what stands before
  the first question mark or hash sign.
\<close>

fun call_names :: "github_call \<Rightarrow> pyval list" where
  "call_names (Get_repository ow rep) = [ow, rep]"
| "call_names (List_issues ow rep limit) = [ow, rep]"
| "call_names (Get_issue ow rep number) = [ow, rep]"
| "call_names (List_pull_requests ow rep limit) = [ow, rep]"
| "call_names (Get_pull_request ow rep number) = [ow, rep]"
| "call_names (List_commits ow rep limit) = [ow, rep]"
| "call_names (Get_commit_status ow rep sha) = [ow, rep, sha]"
| "call_names (List_workflow_runs ow rep limit) = [ow, rep]"
| "call_names (List_branches ow rep limit) = [ow, rep]"
| "call_names (List_releases ow rep limit) = [ow, rep]"

fun call_segments :: "github_call \<Rightarrow> string list" where
  "call_segments (Get_repository ow rep) = [''repos'', py_str ow, py_str rep]"
| "call_segments (List_issues ow rep limit) = [''repos'', py_str ow, py_str rep, ''issues'']"
| "call_segments (Get_issue ow rep number) = [''repos'', py_str ow, py_str rep, ''issues'', py_str number]"
| "call_segments (List_pull_requests ow rep limit) = [''repos'', py_str ow, py_str rep, ''pulls'']"
| "call_segments (Get_pull_request ow rep number) = [''repos'', py_str ow, py_str rep, ''pulls'', py_str number]"
| "call_segments (List_commits ow rep limit) = [''repos'', py_str ow, py_str rep, ''commits'']"
| "call_segments (Get_commit_status ow rep sha) = [''repos'', py_str ow, py_str rep, ''commits'', py_str sha, ''status'']"
| "call_segments (List_workflow_runs ow rep limit) = [''repos'', py_str ow, py_str rep, ''actions'', ''runs'']"
| "call_segments (List_branches ow rep limit) = [''repos'', py_str ow, py_str rep, ''branches'']"
| "call_segments (List_releases ow rep limit) = [''repos'', py_str ow, py_str rep, ''releases'']"

definition join_path :: "string list \<Rightarrow> string" where
  "join_path segs = concat (map (\<lambda>s. CHR ''/'' # s) segs)"

definition ends_path :: "char \<Rightarrow> bool" where
  "ends_path c \<longleftrightarrow> c = CHR ''?'' \<or> c = CHR ''#''"

definition path_asked :: "string \<Rightarrow> string" where
  "path_asked url = takeWhile (\<lambda>c. \<not> ends_path c) (drop (length GITHUB_API) url)"

text \<open>The request of a call: its segments, none with a slash, then the query of a listing. Only a name or the
  commit can bring the end of the path into a segment.\<close>

definition call_request :: "github_adapter \<Rightarrow> github_call \<Rightarrow> string \<Rightarrow> sdict \<Rightarrow> bool" where
  "call_request g call url headers \<longleftrightarrow>
     headers = github_headers (ga_token g) \<and> list_all is_str (call_names call) \<and>
     list_all (\<lambda>s. CHR ''/'' \<notin> set s) (call_segments call) \<and>
     list_all (\<lambda>v. py_str v \<noteq> ''..'') (take 2 (call_names call)) \<and>
     (list_all (\<lambda>v. \<not> list_ex ends_path (py_str v)) (call_names call) \<longrightarrow>
        list_all (\<lambda>s. \<not> list_ex ends_path s) (call_segments call)) \<and>
     (\<exists>query. url = GITHUB_API @ join_path (call_segments call) @ query \<and> (query = [] \<or> hd query = CHR ''?''))"

text \<open>A request that some call of the toolset makes.\<close>

definition repo_request :: "github_adapter \<Rightarrow> string \<Rightarrow> sdict \<Rightarrow> bool" where
  "repo_request g url headers \<longleftrightarrow> (\<exists>call. call_request g call url headers)"

text \<open>One allowed request.\<close>

definition requests :: "'n requester \<Rightarrow> (string \<Rightarrow> sdict \<Rightarrow> bool) \<Rightarrow> 'n \<Rightarrow> 'n \<Rightarrow> bool" where
  "requests req ok n n' \<longleftrightarrow> (\<exists>url headers timeout. ok url headers \<and> n' = fst (req url headers timeout n))"

lemma one_request: "ok url headers \<Longrightarrow> one_step (requests req ok) (req url headers timeout)"
  by (auto simp: one_step_def requests_def)

lemma py_in_part: "\<not> py_in p (s @ t) \<Longrightarrow> \<not> py_in p s \<and> \<not> py_in p t"
  unfolding py_in_iff_sublist by (meson sublist_append_leftI sublist_append_rightI sublist_order.order.trans)

lemma py_in_char: "py_in [c] s \<longleftrightarrow> c \<in> set s"
  by (induction s) auto

lemma validate_repo_names:
  assumes "validate_repo owner repository = Inr ()"
  shows "CHR ''/'' \<notin> set owner \<and> CHR ''/'' \<notin> set repository \<and> owner \<noteq> ''..'' \<and> repository \<noteq> ''..''"
proof -
  have "\<not> py_in ''/'' (owner @ repository)" and "\<not> py_in ''..'' (owner @ repository)"
    using assms by (simp_all add: validate_repo_def split: if_splits)
  from py_in_part [OF this(1)] py_in_part [OF this(2)] show ?thesis by (auto simp: py_in_char)
qed

lemma one_repo_get:
  assumes "\<lbrakk>CHR ''/'' \<notin> set owner; CHR ''/'' \<notin> set repository; owner \<noteq> ''..''; repository \<noteq> ''..''; check = Inr ()\<rbrakk>
    \<Longrightarrow> ok (GITHUB_API @ repo_path owner repository @ rest) (github_headers (ga_token g))"
  shows "one_step (requests req ok) (repo_get req g owner repository check rest)"
  unfolding repo_get_def github_get_def
  by (intro one_check one_request) (use assms validate_repo_names in auto)

lemma need_str_Inr: "need_str name v = Inr s \<longleftrightarrow> v = VStr s"
  by (auto simp: need_str_def split: pyval.splits)

lemma need_repo_Inr: "need_repo owner repository = Inr (ow, rep) \<longleftrightarrow> owner = VStr ow \<and> repository = VStr rep"
  by (auto simp: need_repo_def split: pyval.splits)

lemma one_need_repo:
  assumes "\<And>ow rep. owner = VStr ow \<Longrightarrow> repository = VStr rep \<Longrightarrow> one_step R (f ow rep)"
  shows "one_step R (net_bind (net_lift (need_repo owner repository)) (\<lambda>(ow, rep). f ow rep))"
  by (rule one_check) (use assms in \<open>auto simp: need_repo_Inr\<close>)

lemma no_slash_show_int: "CHR ''/'' \<notin> set (show_int i)"
  using show_nat_digits [of "CHR ''/''"] by (auto simp: show_int_def ascii_digit_def code_def)

lemma no_slash_int: "need_int v = Inr u \<Longrightarrow> CHR ''/'' \<notin> set (py_str v)"
  by (cases v) (auto simp: need_int_def is_int_def py_str_def no_slash_show_int split: if_splits)

lemma no_end_int: "need_int v = Inr u \<Longrightarrow> \<not> list_ex ends_path (py_str v)"
  using show_nat_digits [of "CHR ''?''"] show_nat_digits [of "CHR ''#''"]
  by (cases v) (auto simp: need_int_def is_int_def py_str_def list_ex_iff ends_path_def show_int_def ascii_digit_def
      code_def split: if_splits)

lemma call_requestI:
  "\<lbrakk>list_all is_str (call_names call); list_all (\<lambda>s. CHR ''/'' \<notin> set s) (call_segments call);
    list_all (\<lambda>v. py_str v \<noteq> ''..'') (take 2 (call_names call));
    list_all (\<lambda>v. \<not> list_ex ends_path (py_str v)) (call_names call) \<Longrightarrow>
      list_all (\<lambda>s. \<not> list_ex ends_path s) (call_segments call);
    url = GITHUB_API @ join_path (call_segments call) @ query; query = [] \<or> hd query = CHR ''?''\<rbrakk>
   \<Longrightarrow> call_request g call url (github_headers (ga_token g))"
  by (auto simp: call_request_def)

lemmas github_ops = get_repository_def get_issue_def list_issues_def get_pull_request_def list_pull_requests_def
  get_commit_status_def list_workflow_runs_def list_commits_def list_branches_def list_releases_def

lemmas github_tools = tool_get_repository_def tool_list_issues_def tool_get_issue_def tool_list_pull_requests_def
  tool_get_pull_request_def tool_list_commits_def tool_get_commit_status_def tool_list_workflow_runs_def
  tool_list_branches_def tool_list_releases_def listing_tool_def

lemma one_listing_tool:
  assumes "\<And>ow rep. owner = VStr ow \<Longrightarrow> repository = VStr rep \<Longrightarrow> one_step R (listing ow rep limit)"
  shows "one_step R (listing_tool name listing as_dict owner repository limit)"
  unfolding listing_tool_def by (intro one_need_repo one_then) (rule assms)

lemmas call_simps = join_path_def repo_path_def ends_path_def

lemma one_call: "one_step (requests req (call_request g call)) (github_tool req g call)"
proof (cases call)
  case (Get_repository ow rep)
  then show ?thesis
    by (simp only: github_tool.simps github_tools github_ops)
      (intro one_need_repo one_then one_repo_get call_requestI [where query = "[]"]; simp add: call_simps)
next
  case (List_issues ow rep limit)
  then show ?thesis
    by (simp only: github_tool.simps tool_list_issues_def, intro one_listing_tool, simp only: github_ops,
        intro one_then one_repo_get call_requestI [where query = "''?state=all&'' @ per_page limit"]; simp add: call_simps)
next
  case (Get_issue ow rep number)
  then show ?thesis
    by (simp only: github_tool.simps github_tools github_ops Let_def)
      (intro one_need_repo one_check one_then one_repo_get call_requestI [where query = "[]"];
       simp add: call_simps no_slash_int no_end_int)
next
  case (List_pull_requests ow rep limit)
  then show ?thesis
    by (simp only: github_tool.simps tool_list_pull_requests_def, intro one_listing_tool, simp only: github_ops,
        intro one_then one_repo_get call_requestI [where query = "''?state=all&'' @ per_page limit"]; simp add: call_simps)
next
  case (Get_pull_request ow rep number)
  then show ?thesis
    by (simp only: github_tool.simps github_tools github_ops Let_def)
      (intro one_need_repo one_check one_then one_repo_get call_requestI [where query = "[]"];
       simp add: call_simps no_slash_int no_end_int)
next
  case (List_commits ow rep limit)
  then show ?thesis
    by (simp only: github_tool.simps tool_list_commits_def, intro one_listing_tool, simp only: github_ops,
        intro one_then one_repo_get call_requestI [where query = "''?'' @ per_page limit"]; simp add: call_simps)
next
  case (Get_commit_status ow rep sha)
  then show ?thesis
    by (simp only: github_tool.simps github_tools github_ops Let_def)
      (intro one_need_repo one_check one_then one_repo_get call_requestI [where query = "[]"];
       auto simp: call_simps need_str_Inr validate_sha_def split: if_splits)
next
  case (List_workflow_runs ow rep limit)
  then show ?thesis
    by (simp only: github_tool.simps github_tools github_ops)
      (intro one_need_repo one_then one_repo_get call_requestI [where query = "''?'' @ per_page limit"];
       simp add: call_simps)
next
  case (List_branches ow rep limit)
  then show ?thesis
    by (simp only: github_tool.simps tool_list_branches_def, intro one_listing_tool, simp only: github_ops,
        intro one_then one_repo_get call_requestI [where query = "''?'' @ per_page limit"]; simp add: call_simps)
next
  case (List_releases ow rep limit)
  then show ?thesis
    by (simp only: github_tool.simps tool_list_releases_def, intro one_listing_tool, simp only: github_ops,
        intro one_then one_repo_get call_requestI [where query = "''?'' @ per_page limit"]; simp add: call_simps)
qed

lemma one_github_tool: "one_step (requests req (repo_request g)) (github_tool req g call)"
  using one_call [of req g call] unfolding one_step_def requests_def repo_request_def by blast

section \<open>Properties\<close>

lemma path_asked_call:
  assumes "query = [] \<or> hd query = CHR ''?''"
  shows "path_asked (GITHUB_API @ p @ query) = takeWhile (\<lambda>c. \<not> ends_path c) p"
proof -
  have "takeWhile (\<lambda>c. \<not> ends_path c) query = []"
    using assms by (cases query) (auto simp: ends_path_def)
  then show ?thesis
    by (cases "\<exists>c \<in> set p. ends_path c") (auto simp: path_asked_def takeWhile_append takeWhile_eq_all_conv [THEN iffD2])
qed

lemma split_plain: "CHR ''/'' \<notin> set w \<Longrightarrow> py_split CHR ''/'' w = [w]"
  by (induction w) auto

lemma split_at_slash: "CHR ''/'' \<notin> set w \<Longrightarrow> py_split CHR ''/'' (w @ CHR ''/'' # t) = w # py_split CHR ''/'' t"
  by (induction w) auto

lemma split_join_path:
  "CHR ''/'' \<notin> set w \<Longrightarrow> list_all (\<lambda>s. CHR ''/'' \<notin> set s) segs \<Longrightarrow>
   py_split CHR ''/'' (w @ join_path segs) = w # segs"
  by (induction segs arbitrary: w) (simp_all add: join_path_def split_plain split_at_slash)

lemma call_path_head: "prefix ''/repos/'' (join_path (call_segments call))"
  by (cases call) (simp_all add: join_path_def)

lemma names_in_segments: "v \<in> set (call_names call) \<Longrightarrow> py_str v \<in> set (call_segments call)"
  by (cases call) auto

lemma path_of_call:
  assumes "call_request g call url headers"
  shows "path_asked url = takeWhile (\<lambda>c. \<not> ends_path c) (join_path (call_segments call)) \<and>
    take (length GITHUB_API) url = GITHUB_API"
  using assms path_asked_call by (auto simp: call_request_def)

lemma whole_path_of_call:
  assumes "call_request g call url headers" and "list_all (\<lambda>v. \<not> list_ex ends_path (py_str v)) (call_names call)"
  shows "py_split CHR ''/'' (path_asked url) = [] # call_segments call"
proof -
  have "\<forall>c \<in> set (join_path (call_segments call)). \<not> ends_path c"
    using assms by (auto simp: call_request_def join_path_def list_all_iff list_ex_iff ends_path_def)
  then have "path_asked url = join_path (call_segments call)"
    using path_of_call [OF assms(1)] by (simp add: takeWhile_eq_all_conv)
  then show ?thesis
    using assms(1) split_join_path [of "[]" "call_segments call"] by (simp add: call_request_def)
qed

lemma prefix_takeWhile: "prefix p s \<Longrightarrow> list_all P p \<Longrightarrow> prefix p (takeWhile P s)"
  by (auto simp: prefix_def list_all_iff)

text \<open>C23: A GitHub tool cannot be turned on another address: whatever the caller passes and the
  service answers, a call makes at most one request, to \<open>api.github.com\<close>, with the fixed headers,
  for names that are strings without a slash. When neither the names nor the commit hold a
  question mark or a hash sign, the segments of the path asked for are exactly \<open>repos\<close>, the owner,
  the repository and the fixed endpoint of the tool; when one does, the path ends there and
  is a beginning of that one. (Percent escapes in a name are passed on as they are.)\<close>

theorem github_request_confined:
  "case fst (github_tool (logged answer) g call []) of
     [] \<Rightarrow> True
   | [(url, headers)] \<Rightarrow>
       headers = github_headers (ga_token g) \<and> list_all is_str (call_names call) \<and>
       list_all (\<lambda>v. CHR ''/'' \<notin> set (py_str v)) (call_names call) \<and>
       take (length GITHUB_API) url = GITHUB_API \<and> prefix ''/repos/'' (path_asked url) \<and>
       (if list_ex (\<lambda>v. list_ex ends_path (py_str v)) (call_names call)
        then prefix (path_asked url) (join_path (call_segments call))
        else py_split CHR ''/'' (path_asked url) = [] # call_segments call)
   | _ \<Rightarrow> False"
proof -
  consider "fst (github_tool (logged answer) g call []) = []"
    | url headers where "fst (github_tool (logged answer) g call []) = [(url, headers)]" "call_request g call url headers"
    using one_stepD [OF one_call [of "logged answer" g call], of "[]"] by (auto simp: requests_def logged_def)
  then show ?thesis
  proof cases
    case (2 url headers)
    have "prefix ''/repos/'' (path_asked url)" and "prefix (path_asked url) (join_path (call_segments call))"
      using path_of_call [OF 2(2)] prefix_takeWhile [OF call_path_head] by (simp_all add: ends_path_def takeWhile_is_prefix)
    with 2 path_of_call [OF 2(2)] whole_path_of_call [OF 2(2)] names_in_segments [of _ call] show ?thesis
      by (auto simp: call_request_def list_all_iff list_ex_iff)
  qed simp
qed

text \<open>A question mark in a name does cut the path: this call for issues asks for the repository.\<close>

lemma question_mark_cuts:
  "map (path_asked \<circ> fst) (fst (github_tool (logged (\<lambda>_. Inr VNone)) \<lparr>ga_token = None, ga_timeout = 30\<rparr>
     (List_issues (VStr ''a'') (VStr ''b?'') (VInt 5)) [])) = [''/repos/a/b'']"
  by code_simp

text \<open>Every listing is cut to a limit between 1 and 50.\<close>

definition within_limit :: "pyval \<Rightarrow> 'a list \<Rightarrow> bool" where
  "within_limit limit xs \<longleftrightarrow>
     is_int limit \<and> 1 \<le> int_value limit \<and> int_value limit \<le> 50 \<and> int (length xs) \<le> int_value limit"

lemma listed_items_within:
  assumes "listed_items what limit payload f = Inr xs" and "validate_limit limit = Inr ()"
  shows "within_limit limit xs"
proof -
  from assms(1) obtain items ys where ys: "py_upto limit items = Inr ys" and "res_mapM f ys = Inr xs"
    by (auto simp: listed_items_def res_bind_eq_Inr split: pyval.splits)
  moreover have int: "is_int limit" using ys by (simp add: py_upto_def split: if_splits)
  moreover have "1 \<le> int_value limit \<and> int_value limit \<le> 50"
    using assms(2) int
    by (cases limit) (auto simp: is_int_def validate_limit_def py_num_cmp_def int_value_def MAX_SEARCH_RESULTS_def split: if_splits)
  ultimately show ?thesis
    by (auto simp: within_limit_def py_upto_def dest!: res_mapM_length)
qed

lemma yields_repo_listing:
  assumes "\<And>payload xs. items payload = Inr xs \<Longrightarrow> validate_limit limit = Inr () \<Longrightarrow> within_limit limit xs"
  shows "yields (within_limit limit)
    (net_bind (repo_get req g owner repository (validate_limit limit) rest) (\<lambda>payload. net_lift (items payload)))"
proof (rule yields_bind2)
  show "yields (\<lambda>_. validate_limit limit = Inr ()) (repo_get req g owner repository (validate_limit limit) rest)"
    by (auto simp: repo_get_def yields_def net_bind_Inr net_lift_Inr)
qed (auto simp: yields_lift assms)

lemma filtered_within: "within_limit limit xs \<Longrightarrow> within_limit limit (List.map_filter f xs)"
  by (auto simp: within_limit_def List.map_filter_def intro: order_trans [OF _ , of _ "int (length xs)"])

text \<open>Whatever the service sends, a listing that returns has been asked for with a limit from 1
  to 50 and holds at most that many items.\<close>

theorem github_listings_bounded:
  "yields (within_limit limit) (list_issues req g owner repository limit) \<and>
   yields (within_limit limit) (list_pull_requests req g owner repository limit) \<and>
   yields (within_limit limit) (list_workflow_runs req g owner repository limit) \<and>
   yields (within_limit limit) (list_commits req g owner repository limit) \<and>
   yields (within_limit limit) (list_branches req g owner repository limit) \<and>
   yields (within_limit limit) (list_releases req g owner repository limit)"
  unfolding list_issues_def list_pull_requests_def list_workflow_runs_def list_commits_def list_branches_def list_releases_def
  by (intro conjI; rule yields_repo_listing)
    (auto simp: res_bind_eq_Inr map_sum_def intro: listed_items_within filtered_within split: sum.splits)

lemma github_requester_count: "fst (fst (github_requester http decode rid url headers timeout st)) \<le> fst st + 3"
proof -
  obtain lg where lg: "configure_logging ''INFO'' (fst (snd st)) = Inr lg"
    using configure_info [of "fst (snd st)"] by blast
  show ?thesis
    using default_loop [of rid "\<lambda>i. http (fst st + i) url" decode MAX_RESPONSE_BYTES lg "snd (snd st)"]
    by (auto simp: github_requester_def github_get_json_def lg)
qed

text \<open>C38: Over the real requester, with its retries, no tool call makes more than three HTTP requests,
  however long the service keeps refusing.\<close>

theorem github_tool_http_bounded:
  "fst (fst (github_tool (github_requester http decode rid) g call st)) \<le> fst st + 3"
  using one_stepD [OF one_github_tool [of "github_requester http decode rid" g call], of st]
  by (cases st) (auto simp: requests_def simp del: split_paired_All intro: github_requester_count [of _ _ _ _ _ _ "(_, _)", simplified])

text \<open>What a server that decodes percent escapes reads.\<close>

definition hex_value :: "char \<Rightarrow> nat" where
  "hex_value c = (if ascii_digit c then code c - 48 else code c - 55)"

fun percent_decode :: "string \<Rightarrow> nat list" where
  "percent_decode [] = []"
| "percent_decode (c # cs) =
     (if c = CHR ''%'' then (case cs of h # l # rest \<Rightarrow> (16 * hex_value h + hex_value l) # percent_decode rest | _ \<Rightarrow> [37])
      else code c # percent_decode cs)"

lemma hex_value_upper: "n < 16 \<Longrightarrow> hex_value (upper_hex n) = n"
  by (auto simp: hex_value_def upper_hex_def ascii_digit_def)

lemma upper_hex_unreserved: "n < 16 \<Longrightarrow> unreserved (upper_hex n)"
  by (auto simp: upper_hex_def unreserved_def ascii_alnum_def ascii_alpha_def ascii_digit_def)

lemma percent_not_unreserved: "\<not> unreserved (CHR ''%'')"
  by code_simp

lemma utf8_bytes_byte: "b \<in> set (utf8_bytes c) \<Longrightarrow> b < 256"
proof -
  have "code c div 64 < 4"
    using code_less_256 [of c] by (simp add: div_less_iff_less_mult)
  then show "b \<in> set (utf8_bytes c) \<Longrightarrow> b < 256"
    by (auto simp: utf8_bytes_def Let_def split: if_splits)
qed

lemma decode_escapes:
  "\<forall>b \<in> set bs. b < 256 \<Longrightarrow>
   percent_decode (concat (map (\<lambda>b. [CHR ''%'', upper_hex (b div 16), upper_hex (b mod 16)]) bs) @ rest) =
     bs @ percent_decode rest"
  by (induction bs) (auto simp: hex_value_upper less_mult_imp_div_less)

lemma decode_quoted_char: "percent_decode (quote_char c @ rest) = utf8_bytes c @ percent_decode rest"
proof (cases "unreserved c")
  case True
  then have "c \<noteq> CHR ''%''" and "code c < 128"
    using percent_not_unreserved
    by (auto simp: unreserved_def ascii_alnum_def ascii_alpha_def ascii_digit_def chars_def code_def)
  with True show ?thesis by (simp add: quote_char_def utf8_bytes_def)
next
  case False
  then show ?thesis
    using decode_escapes [of "utf8_bytes c" rest] utf8_bytes_byte by (auto simp: quote_char_def)
qed

lemma decode_quoted: "percent_decode (quote_query q) = concat (map utf8_bytes q)"
  by (induction q) (simp_all add: quote_query_def decode_quoted_char)

lemma quoted_char_safe: "list_all (\<lambda>x. unreserved x \<or> x = CHR ''%'') (quote_char c)"
  using utf8_bytes_byte [of _ c]
  by (auto simp: quote_char_def list_all_iff upper_hex_unreserved less_mult_imp_div_less)

text \<open>A code search asks for what the caller wrote and nothing else: decoding the quoted query
  gives back its UTF-8 bytes, and the quoted text holds no character that could end the
  parameter or start another.\<close>

theorem search_query_round_trip:
  "percent_decode (quote_query q) = concat (map utf8_bytes q) \<and>
   list_all (\<lambda>x. unreserved x \<or> x = CHR ''%'') (quote_query q)"
proof
  show "list_all (\<lambda>x. unreserved x \<or> x = CHR ''%'') (quote_query q)"
    unfolding quote_query_def using quoted_char_safe by (induction q) (auto simp: list_all_iff)
qed (rule decode_quoted)

end
