(* ===== verification/Capabilities.thy ===== *)
theory Capabilities
  imports Integration Gate
begin

text \<open>
  Capabilities and their registration: the name policy (\<open>policies/policy.py\<close>), descriptors
  and contracts (\<open>capabilities/descriptor.py\<close>, \<open>protocol/contracts.py\<close>), the registry
  (\<open>capabilities/registry.py\<close>), the tool definitions of \<open>tools/\<close> and the registration
  functions of \<open>capabilities/\<close>.
\<close>

section \<open>The name and mutation policy\<close>

definition PHASE_1_READ_ONLY :: bool where
  "PHASE_1_READ_ONLY \<longleftrightarrow> False"

datatype capability_kind = KIND_TOOL | KIND_RESOURCE

fun kind_value :: "capability_kind \<Rightarrow> string" where
  "kind_value KIND_TOOL = ''tool''"
| "kind_value KIND_RESOURCE = ''resource''"

datatype safety_class = SAFE_READ_ONLY | PROPOSED_MUTATION | CONFIRMED_MUTATION | SAFE_DENY

text \<open>Each forbidden pattern with its text, under \<open>re.IGNORECASE\<close>.\<close>

definition FORBIDDEN_NAME_PATTERNS :: "(string \<times> re) list" where
  "FORBIDDEN_NAME_PATTERNS =
     [(''exec'', lit_ci ''exec''),
      (''shell'', lit_ci ''shell''),
      (''command'', lit_ci ''command''),
      (''^request$'', seqs [Bos, lit_ci ''request'', Eos]),
      (''arbitrary'', lit_ci ''arbitrary''),
      (''filesystem'', lit_ci ''filesystem''),
      (CHR 0x5C # ''bdeploy'', seqs [WordB, lit_ci ''deploy'']),
      (''delete'', lit_ci ''delete''),
      (''^(start|stop|restart)_'',
         seqs [Bos, alts [lit_ci ''start'', lit_ci ''stop'', lit_ci ''restart''], Class (\<lambda>c. c = CHR ''_'')])]"

record policy_decision =
  pd_allowed :: bool
  pd_safety :: safety_class
  pd_reason :: string

fun check_patterns :: "(string \<times> re) list \<Rightarrow> string \<Rightarrow> unit result" where
  "check_patterns [] name = Inr ()"
| "check_patterns ((text, r) # rest) name =
     (if re_search r name then
        Inl (Mcp (policy_denied_error
          (''Capability name '' @ str_repr name @ '' matches a forbidden pattern ('' @ str_repr text @
           '') and cannot be registered.'')
          [(''name'', VStr name), (''pattern'', VStr text)]))
      else check_patterns rest name)"

definition check_capability_name_allowed :: "string \<Rightarrow> unit result" where
  "check_capability_name_allowed name = check_patterns FORBIDDEN_NAME_PATTERNS name"

definition check_mutation_allowed :: "bool \<Rightarrow> unit result" where
  "check_mutation_allowed is_mutating =
     (if is_mutating \<and> PHASE_1_READ_ONLY then
        Inl (Mcp (policy_denied_error ''Mutating capabilities are not permitted in Phase 1 (read-only server).''
               [(''phase_1_read_only'', VBool True)]))
      else Inr ())"

definition evaluate_policy :: "string \<Rightarrow> bool \<Rightarrow> safety_class \<Rightarrow> policy_decision result" where
  "evaluate_policy name is_mutating safety =
     res_bind (check_capability_name_allowed name) (\<lambda>_.
       if safety = SAFE_DENY then
         Inr \<lparr>pd_allowed = False, pd_safety = safety, pd_reason = ''capability is explicitly denied''\<rparr>
       else if is_mutating \<or> safety \<noteq> SAFE_READ_ONLY then
         res_bind (check_mutation_allowed True) (\<lambda>_.
           if PHASE_1_READ_ONLY then Inr \<lparr>pd_allowed = False, pd_safety = SAFE_DENY, pd_reason = ''phase 1 read-only''\<rparr>
           else Inr \<lparr>pd_allowed = True, pd_safety = PROPOSED_MUTATION,
                     pd_reason = ''mutating capability subject to runtime governance''\<rparr>)
       else Inr \<lparr>pd_allowed = True, pd_safety = SAFE_READ_ONLY, pd_reason = ''capability is read-only''\<rparr>)"

section \<open>Descriptors and contracts\<close>

record capability_descriptor =
  cd_name :: string
  cd_kind :: capability_kind
  cd_description :: string
  cd_mutating :: bool

definition make_descriptor :: "string \<Rightarrow> capability_kind \<Rightarrow> string \<Rightarrow> bool \<Rightarrow> capability_descriptor result" where
  "make_descriptor name kind description is_mutating =
     (if name = [] \<or> blank name then Inl (PyError ''ValueError'' ''CapabilityDescriptor.name must not be empty'')
      else if description = [] \<or> blank description then
        Inl (PyError ''ValueError'' ''CapabilityDescriptor.description must not be empty'')
      else res_bind (check_capability_name_allowed name) (\<lambda>_.
           res_bind (check_mutation_allowed is_mutating) (\<lambda>_.
             Inr \<lparr>cd_name = name, cd_kind = kind, cd_description = description, cd_mutating = is_mutating\<rparr>)))"

definition descriptor_for :: "string \<Rightarrow> string \<Rightarrow> string \<Rightarrow> bool \<Rightarrow> capability_descriptor result" where
  "descriptor_for name kind description is_mutating =
     (if kind = ''tool'' then make_descriptor name KIND_TOOL description is_mutating
      else if kind = ''resource'' then make_descriptor name KIND_RESOURCE description is_mutating
      else Inl (Mcp (validation_error (''Unsupported capability kind '' @ str_repr kind) [(''kind'', VStr kind)])))"

definition CURRENT_PROTOCOL_VERSION :: string where
  "CURRENT_PROTOCOL_VERSION = ''2026-07-28''"

definition CONTRACT_VERSION :: string where
  "CONTRACT_VERSION = ''1.0''"

record protocol_version =
  pv_protocol :: string
  pv_contract :: string

definition make_protocol_version :: "string \<Rightarrow> string \<Rightarrow> protocol_version result" where
  "make_protocol_version p c =
     (if blank p then Inl (Mcp (validation_error ''protocol version must not be empty'' []))
      else if blank c then Inl (Mcp (validation_error ''contract version must not be empty'' []))
      else Inr \<lparr>pv_protocol = p, pv_contract = c\<rparr>)"

definition protocol_as_dict :: "protocol_version \<Rightarrow> sdict" where
  "protocol_as_dict p = [(''protocol'', VStr (pv_protocol p)), (''contract'', VStr (pv_contract p))]"

record server_identity =
  si_name :: string
  si_version :: string

definition make_server_identity :: "string \<Rightarrow> string \<Rightarrow> server_identity result" where
  "make_server_identity n v =
     (if blank n then Inl (Mcp (validation_error ''server name must not be empty'' []))
      else if blank v then Inl (Mcp (validation_error ''server version must not be empty'' []))
      else Inr \<lparr>si_name = n, si_version = v\<rparr>)"

definition server_identity_as_dict :: "server_identity \<Rightarrow> sdict" where
  "server_identity_as_dict i = [(''name'', VStr (si_name i)), (''version'', VStr (si_version i))]"

text \<open>The scope of a contract has the values of the descriptor kinds.\<close>

datatype capability_scope = SCOPE_TOOL | SCOPE_RESOURCE

fun scope_value :: "capability_scope \<Rightarrow> string" where
  "scope_value SCOPE_TOOL = ''tool''"
| "scope_value SCOPE_RESOURCE = ''resource''"

record capability_contract =
  cc_descriptor :: capability_descriptor
  cc_scope :: capability_scope
  cc_version :: string
  cc_schema :: sdict
  cc_evidence :: evidence_status
  cc_risk :: risk_level

definition make_contract ::
  "capability_descriptor \<Rightarrow> capability_scope \<Rightarrow> string \<Rightarrow> sdict \<Rightarrow> evidence_status \<Rightarrow> risk_level \<Rightarrow> capability_contract result" where
  "make_contract d scope version schema ev risk =
     (if blank version then Inl (Mcp (validation_error ''capability contract version must not be empty'' []))
      else if scope_value scope \<noteq> kind_value (cd_kind d) then
        Inl (Mcp (validation_error ''capability scope must match its descriptor kind''
               [(''scope'', VStr (scope_value scope)), (''kind'', VStr (kind_value (cd_kind d)))]))
      else Inr \<lparr>cc_descriptor = d, cc_scope = scope, cc_version = version, cc_schema = schema, cc_evidence = ev,
                cc_risk = risk\<rparr>)"

definition cc_name :: "capability_contract \<Rightarrow> string" where
  "cc_name c = cd_name (cc_descriptor c)"

definition contract_as_dict :: "capability_contract \<Rightarrow> sdict" where
  "contract_as_dict c =
     [(''name'', VStr (cc_name c)), (''kind'', VStr (scope_value (cc_scope c))),
      (''description'', VStr (cd_description (cc_descriptor c))), (''version'', VStr (cc_version c)),
      (''input_schema'', vdict (cc_schema c)), (''read_only'', VBool (\<not> cd_mutating (cc_descriptor c))),
      (''evidence_status'', VStr (evidence_value (cc_evidence c))), (''risk'', VStr (risk_value (cc_risk c)))]"

section \<open>The registry\<close>

type_synonym registry = "(string \<times> capability_contract) list"

definition registry_register :: "capability_contract \<Rightarrow> registry \<Rightarrow> registry result" where
  "registry_register c reg =
     (if cc_name c \<in> set (dict_keys reg) then
        Inl (Mcp (validation_error (''Capability '' @ str_repr (cc_name c) @ '' is already registered'')
               [(''name'', VStr (cc_name c))]))
      else Inr (dict_set (cc_name c) c reg))"

fun registry_register_many :: "capability_contract list \<Rightarrow> registry \<Rightarrow> registry result" where
  "registry_register_many [] reg = Inr reg"
| "registry_register_many (c # cs) reg = res_bind (registry_register c reg) (registry_register_many cs)"

definition registry_get :: "registry \<Rightarrow> string \<Rightarrow> capability_contract result" where
  "registry_get reg name =
     (case dict_get reg name of
        Some c \<Rightarrow> Inr c
      | None \<Rightarrow> Inl (Mcp (validation_error (''Capability '' @ str_repr name @ '' is not registered'') [(''name'', VStr name)])))"

definition registry_all :: "registry \<Rightarrow> capability_contract list" where
  "registry_all reg = map (\<lambda>n. the (dict_get reg n)) (sort (dict_keys reg))"

definition registry_len :: "registry \<Rightarrow> nat" where
  "registry_len reg = length reg"

record capability_catalog =
  cat_identity :: server_identity
  cat_protocol :: protocol_version
  cat_capabilities :: "capability_contract list"

definition default_identity :: server_identity where
  "default_identity = \<lparr>si_name = ''Yasin-MCP'', si_version = ''0.1.0''\<rparr>"

definition default_protocol :: protocol_version where
  "default_protocol = \<lparr>pv_protocol = CURRENT_PROTOCOL_VERSION, pv_contract = CONTRACT_VERSION\<rparr>"

definition discover_capabilities ::
  "registry \<Rightarrow> server_identity option \<Rightarrow> protocol_version option \<Rightarrow> capability_catalog" where
  "discover_capabilities reg i p =
     \<lparr>cat_identity = (case i of Some x \<Rightarrow> x | None \<Rightarrow> default_identity),
      cat_protocol = (case p of Some x \<Rightarrow> x | None \<Rightarrow> default_protocol),
      cat_capabilities = registry_all reg\<rparr>"

definition capability_catalog_as_dict :: "capability_catalog \<Rightarrow> sdict" where
  "capability_catalog_as_dict c =
     [(''server'', vdict (server_identity_as_dict (cat_identity c))),
      (''protocol'', vdict (protocol_as_dict (cat_protocol c))),
      (''capabilities'', VList (map (\<lambda>x. vdict (contract_as_dict x)) (cat_capabilities c)))]"

definition surface_metadata :: sdict where
  "surface_metadata =
     [(''package_version'', VStr ''0.1.0''), (''capability_surface_version'', VStr ''1.1.0''),
      (''surface_name'', VStr ''yasin-mcp-read-only''), (''phase'', VStr ''read_only''),
      (''always_on_prefixes'', VList (map VStr [''yasin_docs_'', ''yasin_github_'', ''yasin_registry_''])),
      (''optional_prefixes'', VList (map VStr [''yasin_operations_'']))]"

section \<open>Tool definitions\<close>

record tool_definition =
  td_name :: string
  td_description :: string
  td_schema :: sdict

record runflare_definition =
  rd_name :: string
  rd_operation :: string
  rd_description :: string
  rd_risk :: risk_level
  rd_schema :: sdict
  rd_mutating :: bool

text \<open>The input schemas are closed objects over a few kinds of property.\<close>

definition string_prop :: pyval where
  "string_prop = vdict [(''type'', VStr ''string'')]"

definition integer_prop :: pyval where
  "integer_prop = vdict [(''type'', VStr ''integer'')]"

definition limit_prop :: pyval where
  "limit_prop = vdict [(''type'', VStr ''integer''), (''minimum'', VInt 1), (''maximum'', VInt 50)]"

definition object_schema :: "sdict \<Rightarrow> string list \<Rightarrow> sdict" where
  "object_schema props required =
     [(''type'', VStr ''object''), (''properties'', vdict props)]
     @ (if required = [] then [] else [(''required'', VList (map VStr required))])
     @ [(''additionalProperties'', VBool False)]"

definition DOCS_TOOL_DEFINITIONS :: "tool_definition list" where
  "DOCS_TOOL_DEFINITIONS = [
     \<lparr>td_name = ''yasin_docs_list_documents'',
      td_description = ''List bounded text documents in the canonical YASIN-DOCS repository (read-only, with provenance).'',
      td_schema = object_schema [] []\<rparr>,
     \<lparr>td_name = ''yasin_docs_get_document'',
      td_description = ''Read one YASIN-DOCS document by path (read-only). Returns content with source provenance and evidence_status.'',
      td_schema = object_schema [(''path'', string_prop)] [''path'']\<rparr>,
     \<lparr>td_name = ''yasin_docs_search'',
      td_description = ''Search YASIN-DOCS document bodies for a query string (read-only). Optional path_prefix scopes the search (e.g. docs/adr).'',
      td_schema = object_schema [(''query'', string_prop), (''path_prefix'', string_prop)] [''query'']\<rparr>,
     \<lparr>td_name = ''yasin_docs_list_adrs'',
      td_description = ''List Architecture Decision Records under docs/adr/ (read-only).'',
      td_schema = object_schema [] []\<rparr>,
     \<lparr>td_name = ''yasin_docs_get_adr'',
      td_description = ''Read an ADR by filename or path (read-only). Resolves docs/adr/<name>.md when only a short name is given.'',
      td_schema = object_schema [(''name'', string_prop)] [''name'']\<rparr>,
     \<lparr>td_name = ''yasin_docs_list_architecture'',
      td_description = ''List architecture documentation paths (ARCHITECTURE.md and docs/architecture/*) from YASIN-DOCS (read-only).'',
      td_schema = object_schema [] []\<rparr>,
     \<lparr>td_name = ''yasin_docs_get_project_architecture'',
      td_description = ''Find a project architecture document by project name without inventing missing docs (read-only).'',
      td_schema = object_schema [(''project'', string_prop)] [''project'']\<rparr>]"

definition GITHUB_TOOL_DEFINITIONS :: "tool_definition list" where
  "GITHUB_TOOL_DEFINITIONS = [
     \<lparr>td_name = ''yasin_github_get_repository'',
      td_description = ''Get repository metadata (read-only).'',
      td_schema = object_schema [(''owner'', string_prop), (''repository'', string_prop)] [''owner'', ''repository'']\<rparr>,
     \<lparr>td_name = ''yasin_github_list_issues'',
      td_description = ''List repository issues (read-only, bounded).'',
      td_schema = object_schema [(''owner'', string_prop), (''repository'', string_prop), (''limit'', limit_prop)] [''owner'', ''repository'']\<rparr>,
     \<lparr>td_name = ''yasin_github_get_issue'',
      td_description = ''Get one issue by number (read-only).'',
      td_schema = object_schema [(''owner'', string_prop), (''repository'', string_prop), (''number'', integer_prop)] [''owner'', ''repository'', ''number'']\<rparr>,
     \<lparr>td_name = ''yasin_github_list_pull_requests'',
      td_description = ''List pull requests (read-only, bounded).'',
      td_schema = object_schema [(''owner'', string_prop), (''repository'', string_prop), (''limit'', limit_prop)] [''owner'', ''repository'']\<rparr>,
     \<lparr>td_name = ''yasin_github_get_pull_request'',
      td_description = ''Get one pull request by number (read-only).'',
      td_schema = object_schema [(''owner'', string_prop), (''repository'', string_prop), (''number'', integer_prop)] [''owner'', ''repository'', ''number'']\<rparr>,
     \<lparr>td_name = ''yasin_github_list_commits'',
      td_description = ''List recent commits (read-only, bounded).'',
      td_schema = object_schema [(''owner'', string_prop), (''repository'', string_prop), (''limit'', limit_prop)] [''owner'', ''repository'']\<rparr>,
     \<lparr>td_name = ''yasin_github_get_commit_status'',
      td_description = ''Get combined commit status (read-only).'',
      td_schema = object_schema [(''owner'', string_prop), (''repository'', string_prop), (''sha'', string_prop)] [''owner'', ''repository'', ''sha'']\<rparr>,
     \<lparr>td_name = ''yasin_github_list_workflow_runs'',
      td_description = ''List recent workflow/CI runs (read-only, bounded).'',
      td_schema = object_schema [(''owner'', string_prop), (''repository'', string_prop), (''limit'', limit_prop)] [''owner'', ''repository'']\<rparr>,
     \<lparr>td_name = ''yasin_github_list_branches'',
      td_description = ''List repository branches (read-only, bounded).'',
      td_schema = object_schema [(''owner'', string_prop), (''repository'', string_prop), (''limit'', limit_prop)] [''owner'', ''repository'']\<rparr>,
     \<lparr>td_name = ''yasin_github_list_releases'',
      td_description = ''List repository releases (read-only, bounded).'',
      td_schema = object_schema [(''owner'', string_prop), (''repository'', string_prop), (''limit'', limit_prop)] [''owner'', ''repository'']\<rparr>]"

definition REGISTRY_TOOL_DEFINITIONS :: "tool_definition list" where
  "REGISTRY_TOOL_DEFINITIONS = [
     \<lparr>td_name = ''yasin_registry_list_projects'',
      td_description = ''List projects from the YASIN-DOCS registry (read-only).'',
      td_schema = object_schema [] []\<rparr>,
     \<lparr>td_name = ''yasin_registry_get_project'',
      td_description = ''Get one project metadata entry from the registry.'',
      td_schema = object_schema [(''name'', string_prop)] [''name'']\<rparr>,
     \<lparr>td_name = ''yasin_registry_list_dependencies'',
      td_description = ''List outbound dependencies for a registry project.'',
      td_schema = object_schema [(''name'', string_prop)] [''name'']\<rparr>]"

definition OPERATIONS_TOOL_DEFINITIONS :: "tool_definition list" where
  "OPERATIONS_TOOL_DEFINITIONS = [
     \<lparr>td_name = ''yasin_operations_list_services'',
      td_description = ''List known Yasin-Operations managed services (read-only).'',
      td_schema = object_schema [] []\<rparr>,
     \<lparr>td_name = ''yasin_operations_service_status'',
      td_description = ''Get the current status of a named service (read-only).'',
      td_schema = object_schema [(''service_name'', string_prop)] [''service_name'']\<rparr>,
     \<lparr>td_name = ''yasin_operations_health'',
      td_description = ''Get the Yasin-Operations runtime health summary (read-only).'',
      td_schema = object_schema [] []\<rparr>,
     \<lparr>td_name = ''yasin_operations_diagnostics'',
      td_description = ''Get the Yasin-Operations runtime diagnostic snapshot (read-only).'',
      td_schema = object_schema [] []\<rparr>]"

definition RUNFLARE_CAPABILITY_DEFINITIONS :: "runflare_definition list" where
  "RUNFLARE_CAPABILITY_DEFINITIONS = [
     \<lparr>rd_name = ''runflare_status'', rd_operation = ''status'',
      rd_description = (''Read the configured Runflare project'' @ [CHR 0x27] @ ''s current status/diagnostics.''),
      rd_risk = READ_ONLY, rd_schema = object_schema [] [], rd_mutating = False\<rparr>,
     \<lparr>rd_name = ''runflare_events'', rd_operation = ''events'',
      rd_description = ''Read bounded, sanitized Runflare project events.'',
      rd_risk = READ_ONLY, rd_schema = object_schema [] [], rd_mutating = False\<rparr>,
     \<lparr>rd_name = ''runflare_logs'', rd_operation = ''logs'',
      rd_description = ''Read bounded, sanitized Runflare project logs.'',
      rd_risk = READ_ONLY, rd_schema = object_schema [] [], rd_mutating = False\<rparr>,
     \<lparr>rd_name = ''runflare_deploy'', rd_operation = ''deploy'',
      rd_description = ''Deploy the explicitly configured Runflare project target.'',
      rd_risk = MUTATION, rd_schema = object_schema [] [], rd_mutating = True\<rparr>,
     \<lparr>rd_name = ''runflare_start'', rd_operation = ''start'',
      rd_description = ''Start the explicitly configured Runflare project target.'',
      rd_risk = MUTATION, rd_schema = object_schema [] [], rd_mutating = True\<rparr>,
     \<lparr>rd_name = ''runflare_restart'', rd_operation = ''restart'',
      rd_description = ''Restart the explicitly configured Runflare project target.'',
      rd_risk = MUTATION, rd_schema = object_schema [] [], rd_mutating = True\<rparr>,
     \<lparr>rd_name = ''runflare_stop'', rd_operation = ''stop'',
      rd_description = ''Stop the explicitly configured Runflare project target; confirmation is required.'',
      rd_risk = MUTATION, rd_schema = object_schema [] [], rd_mutating = True\<rparr>]"


section \<open>Registration\<close>

definition read_only_contract :: "tool_definition \<Rightarrow> capability_contract result" where
  "read_only_contract d =
     res_bind (descriptor_for (td_name d) ''tool'' (td_description d) False) (\<lambda>desc.
       make_contract desc SCOPE_TOOL CONTRACT_VERSION (td_schema d) CONFIRMED READ_ONLY)"

definition runflare_contract :: "runflare_definition \<Rightarrow> capability_contract result" where
  "runflare_contract d =
     res_bind (descriptor_for (rd_name d) ''tool'' (rd_description d) (rd_mutating d)) (\<lambda>desc.
       make_contract desc SCOPE_TOOL CONTRACT_VERSION (rd_schema d) CONFIRMED (rd_risk d))"

text \<open>A registration loop: build the contract of each definition and register it.\<close>

fun register_definitions :: "('d \<Rightarrow> capability_contract result) \<Rightarrow> 'd list \<Rightarrow> registry \<Rightarrow> registry result" where
  "register_definitions f [] reg = Inr reg"
| "register_definitions f (d # ds) reg =
     res_bind (f d) (\<lambda>c. res_bind (registry_register c reg) (register_definitions f ds))"

definition register_docs_tools :: "registry \<Rightarrow> registry result" where
  "register_docs_tools = register_definitions read_only_contract DOCS_TOOL_DEFINITIONS"

definition register_github_tools :: "registry \<Rightarrow> registry result" where
  "register_github_tools = register_definitions read_only_contract GITHUB_TOOL_DEFINITIONS"

definition register_registry_tools :: "registry \<Rightarrow> registry result" where
  "register_registry_tools = register_definitions read_only_contract REGISTRY_TOOL_DEFINITIONS"

definition register_runflare_capabilities :: "registry \<Rightarrow> registry result" where
  "register_runflare_capabilities = register_definitions runflare_contract RUNFLARE_CAPABILITY_DEFINITIONS"

text \<open>Only when the gateway executable is available; the flag is also the result.\<close>

definition register_operations_tools :: "bool \<Rightarrow> registry \<Rightarrow> (registry \<times> bool) result" where
  "register_operations_tools available reg =
     (if \<not> available then Inr (reg, False)
      else res_bind (register_definitions read_only_contract OPERATIONS_TOOL_DEFINITIONS reg) (\<lambda>reg'. Inr (reg', True)))"

definition TOOL_GOV_PING_LOW_RISK :: string where
  "TOOL_GOV_PING_LOW_RISK = ''yasin_gov_ping_low_risk''"

definition TOOL_GOV_APPLY_MARK :: string where
  "TOOL_GOV_APPLY_MARK = ''yasin_gov_apply_mark''"

definition governance_ref_contracts :: "capability_contract list result" where
  "governance_ref_contracts =
     res_bind (descriptor_for TOOL_GOV_PING_LOW_RISK ''tool'' ''Governance reference: LOW_RISK ping (Stage 11).'' False) (\<lambda>d1.
     res_bind (make_contract d1 SCOPE_TOOL CONTRACT_VERSION [(''type'', VStr ''object''), (''properties'', vdict [])]
                 CONFIRMED LOW_RISK) (\<lambda>c1.
     res_bind (descriptor_for TOOL_GOV_APPLY_MARK ''tool''
                 ''Governance reference: MUTATION apply_mark (requires approval).'' True) (\<lambda>d2.
     res_bind (make_contract d2 SCOPE_TOOL CONTRACT_VERSION
                 [(''type'', VStr ''object''), (''properties'', vdict [(''mark'', string_prop)])] CONFIRMED MUTATION) (\<lambda>c2.
       Inr [c1, c2]))))"

definition register_governance_ref_tools :: "registry \<Rightarrow> registry result" where
  "register_governance_ref_tools reg =
     res_bind governance_ref_contracts (\<lambda>cs. registry_register_many cs reg)"

text \<open>The reference tools themselves (\<open>tools/governance_ref.py\<close>).\<close>

definition ping_low_risk :: sdict where
  "ping_low_risk = [(''ok'', VBool True), (''capability'', VStr TOOL_GOV_PING_LOW_RISK), (''risk'', VStr ''low_risk'')]"

definition apply_mark :: "pyval \<Rightarrow> sdict" where
  "apply_mark mark =
     (let m = (case mark of VStr s \<Rightarrow> if blank s then ''stage11'' else s | _ \<Rightarrow> ''stage11'') in
      [(''applied'', VBool True), (''mark'', VStr (take 64 (py_strip m))),
       (''capability'', VStr TOOL_GOV_APPLY_MARK), (''risk'', VStr ''mutation'')])"

section \<open>Facts about registration\<close>

lemma registry_register_eq:
  "registry_register c reg = Inr reg' \<longleftrightarrow> cc_name c \<notin> set (dict_keys reg) \<and> reg' = reg @ [(cc_name c, c)]"
  by (auto simp: registry_register_def dict_set_new)

lemma register_many_eq:
  "registry_register_many cs reg = Inr reg' \<longleftrightarrow>
     distinct (map cc_name cs) \<and> set (map cc_name cs) \<inter> set (dict_keys reg) = {} \<and>
     reg' = reg @ map (\<lambda>c. (cc_name c, c)) cs"
proof (induction cs arbitrary: reg)
  case Nil
  then show ?case by auto
next
  case (Cons c cs)
  show ?case
    by (auto simp: res_bind_eq_Inr registry_register_eq Cons.IH)
qed

lemma register_definitions_many:
  "register_definitions f ds reg = Inr reg' \<longleftrightarrow>
     (\<exists>cs. res_mapM f ds = Inr cs \<and> registry_register_many cs reg = Inr reg')"
  by (induction f ds reg rule: register_definitions.induct) (auto simp: res_bind_eq_Inr)

text \<open>Registration accepts exactly the batches whose names are new and pairwise distinct; the
  registry then holds the old entries followed by the new ones, and discovery lists every
  entry once, sorted by name.\<close>

theorem registry_exact:
  "(registry_register_many cs [] = Inr reg) =
     (distinct (map cc_name cs) \<and> reg = map (\<lambda>c. (cc_name c, c)) cs) \<and>
   map cc_name (registry_all (map (\<lambda>c. (cc_name c, c)) cs)) = sort (map cc_name cs)"
proof
  show "(registry_register_many cs [] = Inr reg) =
     (distinct (map cc_name cs) \<and> reg = map (\<lambda>c. (cc_name c, c)) cs)"
    by (simp add: register_many_eq)
  have "cc_name (the (map_of (map (\<lambda>c. (cc_name c, c)) cs) n)) = n" if "n \<in> set (map cc_name cs)" for n
    using that by (induction cs) auto
  then show "map cc_name (registry_all (map (\<lambda>c. (cc_name c, c)) cs)) = sort (map cc_name cs)"
    by (auto simp: registry_all_def comp_def intro!: map_idI)
qed

section \<open>The name policy in words\<close>

lemma check_patterns_eq:
  "check_patterns ps name = Inr u \<longleftrightarrow> (\<forall>(t, r) \<in> set ps. \<not> re_search r name)"
  by (induction ps name rule: check_patterns.induct) auto

text \<open>A capability name passes the policy only if none of the words exec, shell, command,
  arbitrary, filesystem and delete occurs in it, in any letter case.\<close>

theorem forbidden_words_rejected:
  assumes "list_ex (\<lambda>w. py_in w (py_lower name))
    [''exec'', ''shell'', ''command'', ''arbitrary'', ''filesystem'', ''delete'']"
  shows "isl (make_descriptor name kind description mutating) \<and> isl (evaluate_policy name mutating safety)"
proof -
  have low: "py_lower ''exec'' = ''exec''" "py_lower ''shell'' = ''shell''" "py_lower ''command'' = ''command''"
    "py_lower ''arbitrary'' = ''arbitrary''" "py_lower ''filesystem'' = ''filesystem''" "py_lower ''delete'' = ''delete''"
    by code_simp+
  have lit: "re_search (lit_ci ''exec'') name = py_in ''exec'' (py_lower name)"
    "re_search (lit_ci ''shell'') name = py_in ''shell'' (py_lower name)"
    "re_search (lit_ci ''command'') name = py_in ''command'' (py_lower name)"
    "re_search (lit_ci ''arbitrary'') name = py_in ''arbitrary'' (py_lower name)"
    "re_search (lit_ci ''filesystem'') name = py_in ''filesystem'' (py_lower name)"
    "re_search (lit_ci ''delete'') name = py_in ''delete'' (py_lower name)"
    by (subst re_search_lit_ci, simp, simp only: low)+
  have "check_capability_name_allowed name \<noteq> Inr ()"
    using assms lit
    unfolding check_capability_name_allowed_def check_patterns_eq FORBIDDEN_NAME_PATTERNS_def by auto
  then obtain e where "check_capability_name_allowed name = Inl e"
    by (cases "check_capability_name_allowed name") auto
  then show ?thesis
    by (simp add: make_descriptor_def evaluate_policy_def)
qed

theorem forbidden_words_rejected_witness:
  "isl (make_descriptor ''run_SHELL'' KIND_TOOL ''d'' False)"
proof -
  have "list_ex (\<lambda>w. py_in w (py_lower ''run_SHELL''))
    [''exec'', ''shell'', ''command'', ''arbitrary'', ''filesystem'', ''delete'']"
    by code_simp
  from forbidden_words_rejected [OF this] show ?thesis by blast
qed

end
