(* ===== verification/Operations.thy ===== *)
theory Operations
  imports Docs Capabilities Py_Json
begin

text \<open>
  The adapter over the Yasin-Operations gateway process (\<open>adapters/operations.py\<close>), its tools
  (\<open>tools/operations.py\<close>) and the health and diagnostics boundary (\<open>diagnostics/health.py\<close>). Running a
  process is the parameter \<open>spawn\<close>; the JSON decoder is the parameter \<open>loads\<close>.
\<close>

section \<open>Results\<close>

definition OPERATION_LIST_SERVICES :: string where
  "OPERATION_LIST_SERVICES = ''list_services''"

definition OPERATION_SERVICE_STATUS :: string where
  "OPERATION_SERVICE_STATUS = ''service_status''"

definition OPERATION_HEALTH_CHECK :: string where
  "OPERATION_HEALTH_CHECK = ''health_check''"

definition OPERATION_DIAGNOSTICS :: string where
  "OPERATION_DIAGNOSTICS = ''diagnostics''"

definition ALLOWED_OPERATIONS :: "string list" where
  "ALLOWED_OPERATIONS =
     [OPERATION_LIST_SERVICES, OPERATION_SERVICE_STATUS, OPERATION_HEALTH_CHECK, OPERATION_DIAGNOSTICS]"

record operations_result =
  or_operation :: string
  or_success :: bool
  or_status :: string
  or_data :: "(pyval \<times> pyval) list"
  or_error :: "(pyval \<times> pyval) list option"
  or_evidence :: evidence_status
  or_source :: string

definition marker_text :: "(pyval \<times> pyval) list \<Rightarrow> string" where
  "marker_text d =
     take 50000 (case json_dumps True '', '' '': '' (objects_as_text (VDict d)) of
        Some t \<Rightarrow> t | None \<Rightarrow> py_str (VDict d))"

definition operations_as_dict :: "operations_result \<Rightarrow> sdict" where
  "operations_as_dict r =
     attach_untrusted_envelope
       [(''operation'', VStr (or_operation r)), (''success'', VBool (or_success r)), (''status'', VStr (or_status r)),
        (''data'', VDict (or_data r)),
        (''error'', (case or_error r of None \<Rightarrow> VNone | Some e \<Rightarrow> if e = [] then VNone else VDict e)),
        (''evidence_status'', VStr (evidence_value (or_evidence r))), (''source'', VStr (or_source r)),
        (''provenance'', vdict [(''source'', VStr ''yasin-operations''), (''gateway'', VStr (or_source r)),
           (''operation'', VStr (or_operation r))])]
       ''yasin-operations'' (Some (marker_text (or_data r)))"

section \<open>The request\<close>

record operations_adapter =
  oa_executable :: string
  oa_timeout :: int
  oa_max_bytes :: int

text \<open>What the adapter asks of the machine: readable files, commands on the path, the interpreter, identifiers.\<close>

record machine =
  mc_readable :: "string \<Rightarrow> bool"
  mc_on_path :: "string \<Rightarrow> bool"
  mc_python :: string
  mc_request_id :: "string option"
  mc_uuid :: string

definition executable_available :: "machine \<Rightarrow> string \<Rightarrow> bool" where
  "executable_available mc executable =
     (if py_endswith executable ''.py'' then mc_readable mc executable else mc_on_path mc executable)"

definition command_for_executable :: "machine \<Rightarrow> string \<Rightarrow> string list" where
  "command_for_executable mc executable =
     (if py_endswith executable ''.py'' then [mc_python mc, executable, ''gateway''] else [executable, ''gateway''])"

definition build_request :: "machine \<Rightarrow> string \<Rightarrow> string \<Rightarrow> string \<Rightarrow> sdict result" where
  "build_request mc operation target_kind target_identifier =
     (if operation \<notin> set ALLOWED_OPERATIONS then
        Inl (Mcp (validation_error
          (''operation '' @ str_repr operation @ '' is not permitted through the Operations adapter'')
          [(''operation'', VStr operation)]))
      else Inr
        [(''schema_version'', VInt 1),
         (''request'', vdict
           [(''operation'', VStr operation), (''target_kind'', VStr target_kind),
            (''target_identifier'', VStr target_identifier), (''safety_class'', VStr ''read_only''),
            (''parameters'', VDict []), (''actor'', VStr ''yasin-mcp''), (''source'', VStr ''yasin-mcp''),
            (''request_id'', VStr (if falsy (mc_request_id mc) then mc_uuid mc else the (mc_request_id mc)))])])"

definition request_line :: "sdict \<Rightarrow> string result" where
  "request_line request =
     (case json_dumps False '','' '':'' (vdict request) of
        Some t \<Rightarrow> Inr (t @ [CHR 0x0A])
      | None \<Rightarrow> Inl (PyError ''TypeError'' ''not JSON serializable''))"

section \<open>The answer\<close>

text \<open>
  A process that ended, a missing executable, a timeout, or any other exception of
  \<open>subprocess.run\<close> (no permission, output that is not text), with its class and message.
\<close>

datatype proc_outcome = Completed int string | Not_started | Timed_out | Spawn_raised string string

type_synonym 'n spawner = "string list \<Rightarrow> string \<Rightarrow> int \<Rightarrow> 'n \<Rightarrow> 'n \<times> proc_outcome"

text \<open>\<open>splitlines()\<close> also breaks at these characters.\<close>

definition line_boundary :: "char \<Rightarrow> bool" where
  "line_boundary c \<longleftrightarrow> (let n = code c in (10 \<le> n \<and> n \<le> 13) \<or> (28 \<le> n \<and> n \<le> 30) \<or> n = 133)"

definition first_line :: "string \<Rightarrow> string" where
  "first_line stdout = takeWhile (\<lambda>c. \<not> line_boundary c) (py_strip stdout)"

definition answer_result :: "operations_adapter \<Rightarrow> string \<Rightarrow> (pyval \<times> pyval) list \<Rightarrow> operations_result" where
  "answer_result a operation payload =
     \<lparr>or_operation = operation, or_success = py_bool (vget_or payload ''success'' (VBool False)),
      or_status = py_str (vget_or payload ''status'' (VStr ''unknown'')),
      or_data = (case vget_or payload ''data'' VNone of VDict d \<Rightarrow> d | _ \<Rightarrow> []),
      or_error = (case vget_or payload ''error'' VNone of VDict d \<Rightarrow> Some d | _ \<Rightarrow> None),
      or_evidence = (if py_bool (vget_or payload ''service_available'' (VBool True)) then CONFIRMED else EV_UNRESOLVED),
      or_source = ''yasin-operations gateway ('' @ oa_executable a @ '')''\<rparr>"

definition gateway_answer ::
  "(string \<Rightarrow> decoded) \<Rightarrow> operations_adapter \<Rightarrow> string \<Rightarrow> proc_outcome \<Rightarrow> operations_result result" where
  "gateway_answer loads a operation outcome =
     (case outcome of
        Not_started \<Rightarrow> Inl (Mcp (unavailable_dependency_error
          ''Yasin-Operations gateway executable could not be started'' [(''executable'', VStr (oa_executable a))]))
      | Timed_out \<Rightarrow> Inl (Mcp (timeout_mcp_error
          (''Yasin-Operations gateway did not respond within '' @ show_int (oa_timeout a) @ ''s'')
          [(''operation'', VStr operation)]))
      | Spawn_raised c m \<Rightarrow> Inl (PyError c m)
      | Completed returncode stdout \<Rightarrow>
          (if oa_max_bytes a < int (utf8_length stdout) then
             Inl (Mcp (internal_error ''Yasin-Operations gateway response exceeded the maximum allowed size''
               [(''max_response_bytes'', VInt (oa_max_bytes a))]))
           else if first_line stdout = [] then
             Inl (Mcp (internal_error ''Yasin-Operations gateway produced no response''
               [(''operation'', VStr operation), (''returncode'', VInt returncode)]))
           else case loads (first_line stdout) of
               Undecodable \<Rightarrow> Inl (Mcp (internal_error ''Yasin-Operations gateway returned a malformed response''
                 [(''operation'', VStr operation)]))
             | Decode_raised cls msg \<Rightarrow> Inl (PyError cls msg)
             | Decoded (VDict payload) \<Rightarrow> Inr (answer_result a operation payload)
             | Decoded _ \<Rightarrow> Inl (Mcp (internal_error ''Yasin-Operations gateway response envelope must be a JSON object''
                 [(''operation'', VStr operation)]))))"

definition invoke ::
  "'n spawner \<Rightarrow> (string \<Rightarrow> decoded) \<Rightarrow> machine \<Rightarrow> operations_adapter \<Rightarrow> string \<Rightarrow> string \<Rightarrow> string \<Rightarrow>
   ('n, operations_result) net" where
  "invoke spawn loads mc a operation target_kind target_identifier =
     (if \<not> executable_available mc (oa_executable a) then
        net_raise (unavailable_dependency_error ''Yasin-Operations gateway executable is not available on PATH''
          [(''executable'', VStr (oa_executable a))])
      else
        net_bind (net_lift (res_bind (build_request mc operation target_kind target_identifier) request_line)) (\<lambda>line.
          \<lambda>n. case spawn (command_for_executable mc (oa_executable a)) line (oa_timeout a) n of
                (n', outcome) \<Rightarrow> (n', gateway_answer loads a operation outcome)))"

definition op_list_services ::
  "'n spawner \<Rightarrow> (string \<Rightarrow> decoded) \<Rightarrow> machine \<Rightarrow> operations_adapter \<Rightarrow> ('n, operations_result) net" where
  "op_list_services spawn loads mc a = invoke spawn loads mc a OPERATION_LIST_SERVICES ''runtime'' ''local''"

definition op_service_status ::
  "'n spawner \<Rightarrow> (string \<Rightarrow> decoded) \<Rightarrow> machine \<Rightarrow> operations_adapter \<Rightarrow> string \<Rightarrow> ('n, operations_result) net" where
  "op_service_status spawn loads mc a service_name =
     (if blank service_name then net_raise (validation_error ''service_name must not be empty'' [])
      else invoke spawn loads mc a OPERATION_SERVICE_STATUS ''service'' (py_strip service_name))"

definition op_health ::
  "'n spawner \<Rightarrow> (string \<Rightarrow> decoded) \<Rightarrow> machine \<Rightarrow> operations_adapter \<Rightarrow> ('n, operations_result) net" where
  "op_health spawn loads mc a = invoke spawn loads mc a OPERATION_HEALTH_CHECK ''self'' ''runtime''"

definition op_diagnostics ::
  "'n spawner \<Rightarrow> (string \<Rightarrow> decoded) \<Rightarrow> machine \<Rightarrow> operations_adapter \<Rightarrow> ('n, operations_result) net" where
  "op_diagnostics spawn loads mc a = invoke spawn loads mc a OPERATION_DIAGNOSTICS ''runtime'' ''local''"

section \<open>The tools\<close>

datatype operations_call = Ops_list_services | Ops_service_status pyval | Ops_health | Ops_diagnostics

fun operations_tool ::
  "'n spawner \<Rightarrow> (string \<Rightarrow> decoded) \<Rightarrow> machine \<Rightarrow> operations_adapter \<Rightarrow> operations_call \<Rightarrow> ('n, sdict) net" where
  "operations_tool spawn loads mc a Ops_list_services =
     net_bind (op_list_services spawn loads mc a) (\<lambda>r. net_return (operations_as_dict r))"
| "operations_tool spawn loads mc a (Ops_service_status service_name) =
     net_bind (net_lift (need_str ''service_name'' service_name)) (\<lambda>s.
     net_bind (op_service_status spawn loads mc a s) (\<lambda>r. net_return (operations_as_dict r)))"
| "operations_tool spawn loads mc a Ops_health =
     net_bind (op_health spawn loads mc a) (\<lambda>r. net_return (operations_as_dict r))"
| "operations_tool spawn loads mc a Ops_diagnostics =
     net_bind (op_diagnostics spawn loads mc a) (\<lambda>r. net_return (operations_as_dict r))"

text \<open>The reviewable table of what each tool may ask for, and what a tool does ask for.\<close>

definition TOOL_MAP :: "(string \<times> string \<times> string) list" where
  "TOOL_MAP =
     [(''yasin_operations_list_services'', OPERATION_LIST_SERVICES, ''read_only''),
      (''yasin_operations_service_status'', OPERATION_SERVICE_STATUS, ''read_only''),
      (''yasin_operations_health'', OPERATION_HEALTH_CHECK, ''read_only''),
      (''yasin_operations_diagnostics'', OPERATION_DIAGNOSTICS, ''read_only'')]"

section \<open>Health and diagnostics\<close>

record health_status =
  hs_status :: string
  hs_source :: string
  hs_evidence :: evidence_status
  hs_details :: "(pyval \<times> pyval) list"

record diagnostics_snapshot =
  ds_health :: health_status
  ds_diagnostics :: "(pyval \<times> pyval) list"
  ds_capabilities :: sdict

text \<open>A source returns a mapping.\<close>

type_synonym 'n source = "('n, (pyval \<times> pyval) list) net"

text \<open>\<open>dict(source())\<close>: a structured error passes, any other exception becomes the given one.\<close>

definition read_source :: "string \<Rightarrow> 'n source \<Rightarrow> 'n source" where
  "read_source message source =
     (\<lambda>n. case source n of
        (n', Inr d) \<Rightarrow> (n', Inr d)
      | (n', Inl (Mcp e)) \<Rightarrow> (n', Inl (Mcp e))
      | (n', Inl _) \<Rightarrow> (n', Inl (Mcp (unavailable_dependency_error message []))))"

text \<open>The operations reader has a health and a diagnostics method.\<close>

definition get_health :: "'n source option \<Rightarrow> ('n source \<times> 'n source) option \<Rightarrow> ('n, health_status) net" where
  "get_health project_health operations =
     (let confirmed = (\<lambda>source payload. net_return
            \<lparr>hs_status = py_str (vget_or payload ''status'' (VStr ''unknown'')), hs_source = source,
             hs_evidence = CONFIRMED, hs_details = payload\<rparr>) in
      case project_health of
        Some source \<Rightarrow>
          net_bind (read_source ''project health source is unavailable'' source) (confirmed ''project-public-contract'')
      | None \<Rightarrow>
          (case operations of
             Some (health, _) \<Rightarrow>
               net_bind (read_source ''Yasin-Operations health source is unavailable'' health)
                 (confirmed ''yasin-operations-public-contract'')
           | None \<Rightarrow> net_return
               \<lparr>hs_status = ''unresolved'', hs_source = ''none'', hs_evidence = EV_UNRESOLVED,
                hs_details = [(VStr ''reason'', VStr ''no approved health source is configured'')]\<rparr>))"

definition get_capabilities :: "registry \<Rightarrow> sdict" where
  "get_capabilities reg = capability_catalog_as_dict (discover_capabilities reg None None)"

definition get_diagnostics ::
  "registry \<Rightarrow> 'n source option \<Rightarrow> ('n source \<times> 'n source) option \<Rightarrow> ('n, diagnostics_snapshot) net" where
  "get_diagnostics reg project_health operations =
     net_bind (get_health project_health operations) (\<lambda>health.
     net_bind (case operations of
         None \<Rightarrow> net_return [(VStr ''status'', VStr ''unresolved''),
                            (VStr ''reason'', VStr ''Yasin-Operations adapter is optional and unavailable'')]
       | Some (_, diagnostics) \<Rightarrow>
           read_source ''Yasin-Operations diagnostics source is unavailable'' diagnostics) (\<lambda>diagnostics.
     net_return \<lparr>ds_health = health, ds_diagnostics = diagnostics,
                 ds_capabilities = get_capabilities reg\<rparr>))"

section \<open>Properties\<close>

text \<open>A spawner that keeps a log of the processes started and lets them do as they please.\<close>

type_synonym spawn_log = "(string list \<times> string) list"

definition logged_spawn :: "(spawn_log \<Rightarrow> proc_outcome) \<Rightarrow> spawn_log spawner" where
  "logged_spawn outcome argv input timeout log = (log @ [(argv, input)], outcome (log @ [(argv, input)]))"

text \<open>
  What the gateway reads: the two members of the envelope, and a request for one of the
  allowed operations that asks for reading only, without parameters, in the name of this server.
\<close>

definition REQUEST_MEMBERS :: "string list" where
  "REQUEST_MEMBERS =
     [''operation'', ''target_kind'', ''target_identifier'', ''safety_class'', ''parameters'',
      ''actor'', ''source'', ''request_id'']"

fun read_only_request :: "pyval \<Rightarrow> bool" where
  "read_only_request (VDict [(VStr v, VInt n), (VStr q, VDict r)]) =
     (v = ''schema_version'' \<and> n = 1 \<and> q = ''request'' \<and> map fst r = map VStr REQUEST_MEMBERS \<and>
      vget r ''operation'' \<in> set (map (Some \<circ> VStr) ALLOWED_OPERATIONS) \<and>
      vget r ''safety_class'' = Some (VStr ''read_only'') \<and>
      vget r ''parameters'' = Some (VDict []) \<and>
      vget r ''actor'' = Some (VStr ''yasin-mcp'') \<and> vget r ''source'' = Some (VStr ''yasin-mcp''))"
| "read_only_request _ = False"

text \<open>A process start the adapter may make: the fixed command, fed one line with one read-only request.\<close>

definition gateway_start :: "machine \<Rightarrow> operations_adapter \<Rightarrow> string list \<times> string \<Rightarrow> bool" where
  "gateway_start mc a start \<longleftrightarrow>
     fst start = command_for_executable mc (oa_executable a) \<and>
     CHR 0x0A \<notin> set (butlast (snd start)) \<and> last (snd start) = CHR 0x0A \<and>
     (case json_read (snd start) of Some request \<Rightarrow> read_only_request request | None \<Rightarrow> False)"

lemma request_reads_back:
  "build_request mc op kind target = Inr r \<Longrightarrow> reads_back (vdict r) \<and> read_only_request (vdict r)"
  by (auto simp: build_request_def vdict_def vget_def REQUEST_MEMBERS_def split: if_splits)

lemma request_jsonable: "build_request mc op kind target = Inr r \<Longrightarrow> jsonable (vdict r)"
  by (auto simp: build_request_def vdict_def split: if_splits)

lemma request_written:
  assumes "build_request mc op kind target = Inr r"
  shows "\<exists>line. request_line r = Inr line"
proof -
  obtain t where "json_dumps False '','' '':'' (vdict r) = Some t"
    using json_dumps_total [OF request_jsonable [OF assms]] by blast
  then show ?thesis by (simp add: request_line_def)
qed

lemma request_line_starts:
  assumes "build_request mc op kind target = Inr r" and "request_line r = Inr line"
  shows "gateway_start mc a (command_for_executable mc (oa_executable a), line)"
proof -
  from assms(2) obtain t where t: "json_dumps False '','' '':'' (vdict r) = Some t" "line = t @ [CHR 0x0A]"
    by (auto simp: request_line_def split: option.splits)
  have "floats_clean (vdict r)"
    using assms(1) by (auto simp: build_request_def vdict_def split: if_splits)
  then have "CHR 0x0A \<notin> set t"
    using lf_not_in_json_dumps [where i = "'',''" and k = "'':''"] t(1) by auto
  moreover have "json_read line = Some (vdict r)"
    unfolding t(2) using request_reads_back [OF assms(1)] t(1)
    by (intro json_read_dumps [where i = "'',''" and k = "'':''"]) (auto simp: separators_def json_ws_def)
  ultimately show ?thesis
    using request_reads_back [OF assms(1)] by (simp add: gateway_start_def t(2))
qed

definition starts :: "'n spawner \<Rightarrow> (string list \<times> string \<Rightarrow> bool) \<Rightarrow> 'n \<Rightarrow> 'n \<Rightarrow> bool" where
  "starts spawn ok n n' \<longleftrightarrow> (\<exists>argv input timeout. ok (argv, input) \<and> n' = fst (spawn argv input timeout n))"

lemma one_invoke [one_rules]:
  assumes "op \<in> set ALLOWED_OPERATIONS"
  shows "one_step (starts spawn (gateway_start mc a)) (invoke spawn loads mc a op kind target)"
proof -
  obtain r where r: "build_request mc op kind target = Inr r"
    using assms by (simp add: build_request_def)
  then obtain line where line: "request_line r = Inr line"
    using request_written by blast
  have "gateway_start mc a (command_for_executable mc (oa_executable a), line)"
    by (rule request_line_starts [OF r line])
  then show ?thesis
    by (auto simp: one_step_def starts_def invoke_def net_bind_def net_lift_def r line split_beta)
qed

lemma allowed_ops [simp]:
  "OPERATION_LIST_SERVICES \<in> set ALLOWED_OPERATIONS" "OPERATION_SERVICE_STATUS \<in> set ALLOWED_OPERATIONS"
  "OPERATION_HEALTH_CHECK \<in> set ALLOWED_OPERATIONS" "OPERATION_DIAGNOSTICS \<in> set ALLOWED_OPERATIONS"
  by (simp_all add: ALLOWED_OPERATIONS_def)

lemmas op_defs = op_list_services_def op_service_status_def op_health_def op_diagnostics_def

lemma one_operations_tool: "one_step (starts spawn (gateway_start mc a)) (operations_tool spawn loads mc a call)"
  by (cases call) (simp only: operations_tool.simps op_defs, intro one_rules allowed_ops)+

text \<open>C24: No call can make the gateway do anything but read: whatever a caller passes, a tool starts
  at most one process, always the fixed command, and feeds it exactly one line. A JSON reader
  on the other side reads that line as one request for one of the four allowed operations, with
  the safety class \<open>read_only\<close>, no parameters and this server as its actor: no text a caller
  passes can add, drop or change a member.\<close>

theorem operations_start_confined:
  "length (fst (operations_tool (logged_spawn outcome) loads mc a call [])) \<le> 1 \<and>
   list_all (gateway_start mc a) (fst (operations_tool (logged_spawn outcome) loads mc a call []))"
  using one_stepD [OF one_operations_tool [of "logged_spawn outcome" mc a loads call], of "[]"]
  by (auto simp: starts_def logged_spawn_def)

text \<open>A failure is a structured error; a success is marked as untrusted data.\<close>

definition structured_outcome :: "sdict result \<Rightarrow> bool" where
  "structured_outcome r \<longleftrightarrow>
     (case r of Inl e \<Rightarrow> \<exists>x. e = Mcp x | Inr d \<Rightarrow> dict_get d ''untrusted'' = Some (VBool True))"

text \<open>
  The exceptions the adapter passes on: of starting the process, other than a missing executable
  or a timeout, and of the JSON decoder, other than a \<open>JSONDecodeError\<close>.
\<close>

definition passed_exception :: "(string \<Rightarrow> decoded) \<Rightarrow> proc_outcome \<Rightarrow> pyexn option" where
  "passed_exception loads out =
     (case out of
        Spawn_raised cls msg \<Rightarrow> Some (PyError cls msg)
      | Completed _ stdout \<Rightarrow>
          (case loads (first_line stdout) of Decode_raised cls msg \<Rightarrow> Some (PyError cls msg) | _ \<Rightarrow> None)
      | _ \<Rightarrow> None)"

lemma gateway_answer_structured:
  "gateway_answer loads a op out = Inl e \<Longrightarrow> (\<exists>x. e = Mcp x) \<or> passed_exception loads out = Some e"
  by (auto simp: gateway_answer_def passed_exception_def
      split: proc_outcome.splits if_splits decoded.splits pyval.splits)

lemma invoke_structured:
  assumes "op \<in> set ALLOWED_OPERATIONS" and "invoke (logged_spawn outcome) loads mc a op kind target [] = (log, Inl e)"
  shows "(\<exists>x. e = Mcp x) \<or> passed_exception loads (outcome log) = Some e"
proof -
  obtain r line where r: "build_request mc op kind target = Inr r" and "request_line r = Inr line"
    using assms(1) request_written [of mc op kind target] by (auto simp: build_request_def)
  with assms(2) show ?thesis
    by (auto simp: invoke_def net_bind_def net_lift_def logged_spawn_def dest!: gateway_answer_structured split: if_splits)
qed

lemma structured_then_dict:
  assumes "\<And>log e. m [] = (log, Inl e) \<Longrightarrow> (\<exists>x. e = Mcp x) \<or> passed_exception loads (outcome log) = Some e"
  shows "structured_outcome (snd (net_bind m (\<lambda>r. net_return (operations_as_dict r)) [])) \<or>
    (\<exists>e. passed_exception loads (outcome (fst (net_bind m (\<lambda>r. net_return (operations_as_dict r)) []))) = Some e \<and>
       snd (net_bind m (\<lambda>r. net_return (operations_as_dict r)) []) = Inl e)"
proof (cases "m []")
  case (Pair log res)
  with assms [of log] show ?thesis
    by (cases res)
      (auto simp: structured_outcome_def net_bind_def net_lift_def operations_as_dict_def attach_untrusted_envelope_def)
qed

text \<open>C39: A call of an operations tool ends in a structured error or in a payload marked as untrusted,
  however the gateway answers, with two ways out, in which the adapter passes an exception on
  as it is: one of starting the process, other than a missing executable or a timeout, and one
  of the JSON decoder, other than a \<open>JSONDecodeError\<close>.\<close>

theorem operations_outcome_structured:
  "structured_outcome (snd (operations_tool (logged_spawn outcome) loads mc a call [])) \<or>
   (\<exists>e. passed_exception loads (outcome (fst (operations_tool (logged_spawn outcome) loads mc a call []))) = Some e \<and>
      snd (operations_tool (logged_spawn outcome) loads mc a call []) = Inl e)"
proof (cases call)
  case (Ops_service_status v)
  show ?thesis
  proof (cases v)
    case (VStr s)
    have "operations_tool (logged_spawn outcome) loads mc a call [] =
        net_bind (op_service_status (logged_spawn outcome) loads mc a s) (\<lambda>r. net_return (operations_as_dict r)) []"
      by (simp add: Ops_service_status VStr need_str_def)
    then show ?thesis
      by (simp only:) (rule structured_then_dict,
        auto simp: op_defs net_lift_def dest: invoke_structured [rotated] split: if_splits)
  qed (simp_all add: Ops_service_status need_str_def net_bind_def net_lift_def structured_outcome_def)
next
  case Ops_list_services
  then show ?thesis
    by (simp only: operations_tool.simps op_defs) (rule structured_then_dict, rule invoke_structured, rule allowed_ops)
next
  case Ops_health
  then show ?thesis
    by (simp only: operations_tool.simps op_defs) (rule structured_then_dict, rule invoke_structured, rule allowed_ops)
next
  case Ops_diagnostics
  then show ?thesis
    by (simp only: operations_tool.simps op_defs) (rule structured_then_dict, rule invoke_structured, rule allowed_ops)
qed

text \<open>A decoder that refuses a long integer with a plain \<open>ValueError\<close>: the exception leaves the adapter.\<close>

lemma long_integer_escapes:
  "gateway_answer (\<lambda>_. Decode_raised ''ValueError'' msg) \<lparr>oa_executable = exe, oa_timeout = 15, oa_max_bytes = 1000\<rparr> op
     (Completed 0 ''1'') = Inl (PyError ''ValueError'' msg)"
  by (simp add: gateway_answer_def utf8_length_def first_line_def line_boundary_def py_strip_def py_lstrip_def py_rstrip_def
      py_isspace_def code_def)

text \<open>The table agrees with the definitions served, the allow list and the source: it names each served
  operations tool once, allows exactly the permitted operations, and only to read.\<close>

lemma tool_map_read_only:
  "map fst TOOL_MAP = map td_name OPERATIONS_TOOL_DEFINITIONS \<and>
   map (\<lambda>(_, operation, _). operation) TOOL_MAP = ALLOWED_OPERATIONS \<and>
   list_all (\<lambda>(_, _, safety). safety = ''read_only'') TOOL_MAP"
  by (simp add: TOOL_MAP_def OPERATIONS_TOOL_DEFINITIONS_def ALLOWED_OPERATIONS_def)

text \<open>Health is reported only from a source that answered: with none configured it is
  unresolved, the project's own source is asked before the operations gateway, and every
  exception of a source becomes a structured error.\<close>

theorem health_is_sourced:
  "get_health None None n =
     (n, Inr \<lparr>hs_status = ''unresolved'', hs_source = ''none'', hs_evidence = EV_UNRESOLVED,
              hs_details = [(VStr ''reason'', VStr ''no approved health source is configured'')]\<rparr>) \<and>
   fst (get_health (Some source) operations n) = fst (source n) \<and>
   (case (snd (source n), snd (get_health (Some source) operations n)) of
      (Inr d, Inr h) \<Rightarrow> hs_details h = d \<and> hs_evidence h = CONFIRMED \<and> hs_status h = py_str (vget_or d ''status'' (VStr ''unknown''))
    | (Inl e, Inl (Mcp x)) \<Rightarrow> e = Mcp x \<or> x = unavailable_dependency_error ''project health source is unavailable'' []
    | _ \<Rightarrow> False)"
  by (cases "source n")
    (auto simp: get_health_def read_source_def net_bind_def net_lift_def split: sum.split pyexn.split)

end
