(* ===== verification/Runtime.thy ===== *)
theory Runtime
  imports Capabilities
begin

text \<open>
  Server construction (\<open>server/runtime.py\<close>): the capabilities are registered, the risk catalog
  is derived from the registry, the gate is built or extended, and the tools are added
  behind it. The MCP server object is third-party code; what is kept of it is the list of
  tool names that were added, all through \<open>wrap_tool\<close>.
\<close>

section \<open>The risk catalog of a registry\<close>

definition catalog_from_registry :: "registry \<Rightarrow> catalog result" where
  "catalog_from_registry reg = catalog_register_many (map (\<lambda>c. (cc_name c, cc_risk c)) (registry_all reg)) []"

text \<open>Names the gate's catalog lacks are added with the risk the registry gives them.\<close>

fun extend_catalog :: "catalog \<Rightarrow> string list \<Rightarrow> catalog \<Rightarrow> catalog result" where
  "extend_catalog risks [] cat = Inr cat"
| "extend_catalog risks (n # ns) cat =
     (if catalog_contains cat n then extend_catalog risks ns cat
      else res_bind (catalog_resolve risks n) (\<lambda>t.
           res_bind (catalog_register n (ti_risk t) cat) (extend_catalog risks ns)))"

section \<open>Construction\<close>

record 'a server_runtime =
  sr_config :: server_config
  sr_tools :: "string list"
  sr_registry :: registry
  sr_gate :: "'a gate"
  sr_operations :: bool
  sr_runflare :: bool

definition register_all :: "bool \<Rightarrow> registry \<Rightarrow> (registry \<times> bool) result" where
  "register_all ops_available reg =
     res_bind (register_docs_tools reg) (\<lambda>r1.
     res_bind (register_github_tools r1) (\<lambda>r2.
     res_bind (register_registry_tools r2) (\<lambda>r3.
     res_bind (register_runflare_capabilities r3) (\<lambda>r4.
     res_bind (register_operations_tools ops_available r4) (\<lambda>(r5, ops).
     res_bind (register_governance_ref_tools r5) (\<lambda>r6. Inr (r6, ops)))))))"

definition governed_docs :: "string list" where
  "governed_docs = [''yasin_docs_list_documents'', ''yasin_docs_get_document'', ''yasin_docs_search'',
     ''yasin_docs_list_adrs'', ''yasin_docs_get_adr'', ''yasin_docs_list_architecture'',
     ''yasin_docs_get_project_architecture'']"

definition governed_github :: "string list" where
  "governed_github = [''yasin_github_get_repository'', ''yasin_github_list_issues'', ''yasin_github_get_issue'',
     ''yasin_github_list_pull_requests'', ''yasin_github_get_pull_request'', ''yasin_github_list_commits'',
     ''yasin_github_get_commit_status'', ''yasin_github_list_workflow_runs'', ''yasin_github_list_branches'',
     ''yasin_github_list_releases'']"

definition governed_registry :: "string list" where
  "governed_registry = [''yasin_registry_list_projects'', ''yasin_registry_get_project'',
     ''yasin_registry_list_dependencies'']"

definition governed_runflare :: "string list" where
  "governed_runflare = [''runflare_status'', ''runflare_events'', ''runflare_logs'', ''runflare_deploy'',
     ''runflare_start'', ''runflare_restart'']"

definition governed_operations :: "string list" where
  "governed_operations = [''yasin_operations_list_services'', ''yasin_operations_service_status'',
     ''yasin_operations_health'', ''yasin_operations_diagnostics'']"

definition governed_tools :: "bool \<Rightarrow> bool \<Rightarrow> string list" where
  "governed_tools runflare operations =
     governed_docs @ governed_github @ governed_registry @ [TOOL_GOV_PING_LOW_RISK, TOOL_GOV_APPLY_MARK]
     @ (if runflare then governed_runflare else []) @ (if operations then governed_operations else [])"

text \<open>
  \<open>ServerRuntime.create\<close>. \<open>ops_available\<close>: the operations gateway is on the path; \<open>provider\<close>: whether
  a project directory is configured and \<open>RunflareCLI()\<close> was constructed, or the exception of its
  construction that nothing catches (\<open>provider_present\<close> of theory \<open>Startup\<close>); \<open>docs_given\<close>, \<open>github_given\<close>: the caller supplied the adapter, whose timeout is then not
  checked here.
\<close>

definition positive_timeout :: "bool \<Rightarrow> server_config \<Rightarrow> unit result" where
  "positive_timeout given cfg =
     (if \<not> given \<and> request_timeout_seconds cfg \<le> 0
      then Inl (Mcp (validation_error ''timeout_seconds must be positive'' [])) else Inr ())"

definition create_runtime ::
  "server_config option \<Rightarrow> registry option \<Rightarrow> bool \<Rightarrow> bool result \<Rightarrow> bool \<Rightarrow> bool \<Rightarrow> policy option \<Rightarrow>
   (audit_event \<Rightarrow> 'a \<Rightarrow> 'a) \<Rightarrow> 'a gate option \<Rightarrow> 'a server_runtime result" where
  "create_runtime config registry ops_available provider docs_given github_given pol rec governance =
     (let cfg = (case config of Some c \<Rightarrow> c | None \<Rightarrow> default_config);
          reg = (case registry of Some r \<Rightarrow> r | None \<Rightarrow> []) in
      res_bind (positive_timeout docs_given cfg) (\<lambda>_.
      res_bind (register_all ops_available reg) (\<lambda>(reg', ops).
      res_bind provider (\<lambda>runflare_ok.
      res_bind (catalog_from_registry reg') (\<lambda>risks.
      let gate = (case governance of Some g \<Rightarrow> g | None \<Rightarrow> make_gate risks pol rec (Some cfg)) in
      res_bind (extend_catalog risks (dict_keys risks) (g_catalog gate)) (\<lambda>cat.
      res_bind (positive_timeout github_given cfg) (\<lambda>_.
        Inr \<lparr>sr_config = cfg, sr_tools = governed_tools runflare_ok ops, sr_registry = reg',
             sr_gate = gate\<lparr>g_catalog := cat\<rparr>, sr_operations = ops, sr_runflare = runflare_ok\<rparr>)))))))"

definition authentication_boundary_summary :: sdict where
  "authentication_boundary_summary =
     [(''auth_contract_version'', VStr AUTH_CONTRACT_VERSION), (''stdio_peer_identity'', VStr ''unresolved''),
      (''trusted_via_stdio_peer'', VBool False), (''optional_shared_secret'', VBool True),
      (''caller_cannot_set_trusted'', VBool True), (''enforcement_on_tools_call'', VBool True),
      (''auth_before_governance'', VBool True), (''credential_transport'', vdict credential_transport_summary),
      (''evidence_status'', VStr ''confirmed'')]"

definition surface_info :: "'a server_runtime \<Rightarrow> sdict" where
  "surface_info rt = dict_update surface_metadata
     [(''operations_available'', VBool (sr_operations rt)), (''governance'', VStr ''centralized''),
      (''runtime_version'', VStr ''0.1.0''), (''integration'', vdict integration_contract_summary),
      (''authentication'', vdict authentication_boundary_summary),
      (''require_authentication'', VBool (require_authentication (sr_config rt)))]"

definition runtime_capability_catalog :: "'a server_runtime \<Rightarrow> capability_catalog" where
  "runtime_capability_catalog rt = discover_capabilities (sr_registry rt) None None"

section \<open>Registries keep their invariant\<close>

definition wf_registry :: "registry \<Rightarrow> bool" where
  "wf_registry reg \<longleftrightarrow> wf_dict reg \<and> (\<forall>(n, c) \<in> set reg. cc_name c = n)"

lemma wf_registry_many:
  "wf_registry reg \<Longrightarrow> registry_register_many cs reg = Inr reg' \<Longrightarrow> wf_registry reg'"
  by (auto simp: register_many_eq wf_registry_def wf_dict_def comp_def)

lemma register_definitions_wf:
  "register_definitions f ds reg = Inr reg' \<Longrightarrow> wf_registry reg \<Longrightarrow> wf_registry reg'"
  by (auto simp: register_definitions_many intro: wf_registry_many)

lemma register_definitions_keys:
  assumes "register_definitions f ds reg = Inr reg'" and "\<And>d c. f d = Inr c \<Longrightarrow> cc_name c = nm d"
  shows "dict_keys reg' = dict_keys reg @ map nm ds"
proof -
  from assms(1) obtain cs where cs: "list_all2 (\<lambda>d c. f d = Inr c) ds cs"
    and reg': "reg' = reg @ map (\<lambda>c. (cc_name c, c)) cs"
    by (auto simp: register_definitions_many register_many_eq res_mapM_eq_Inr)
  from cs have "map cc_name cs = map nm ds"
    by (induction rule: list_all2_induct) (auto dest: assms(2))
  then show ?thesis by (simp add: reg' comp_def)
qed

lemma descriptor_for_name: "descriptor_for n k d m = Inr x \<Longrightarrow> cd_name x = n"
  by (auto simp: descriptor_for_def make_descriptor_def res_bind_eq_Inr split: if_splits)

lemma make_contract_name: "make_contract d s v sc e r = Inr c \<Longrightarrow> cc_name c = cd_name d \<and> cc_risk c = r"
  by (auto simp: make_contract_def cc_name_def split: if_splits)

lemma read_only_contract_name: "read_only_contract d = Inr c \<Longrightarrow> cc_name c = td_name d"
  by (auto simp: read_only_contract_def res_bind_eq_Inr dest!: descriptor_for_name make_contract_name)

lemma runflare_contract_name: "runflare_contract d = Inr c \<Longrightarrow> cc_name c = rd_name d"
  by (auto simp: runflare_contract_def res_bind_eq_Inr dest!: descriptor_for_name make_contract_name)

lemma governance_ref_names:
  "governance_ref_contracts = Inr cs \<Longrightarrow> map cc_name cs = [TOOL_GOV_PING_LOW_RISK, TOOL_GOV_APPLY_MARK]"
  by (auto simp: governance_ref_contracts_def res_bind_eq_Inr dest!: descriptor_for_name make_contract_name)

lemma definition_names:
  "map td_name DOCS_TOOL_DEFINITIONS = governed_docs"
  "map td_name GITHUB_TOOL_DEFINITIONS = governed_github"
  "map td_name REGISTRY_TOOL_DEFINITIONS = governed_registry"
  "map td_name OPERATIONS_TOOL_DEFINITIONS = governed_operations"
  "map rd_name RUNFLARE_CAPABILITY_DEFINITIONS = governed_runflare @ [''runflare_stop'']"
  by (simp_all add: DOCS_TOOL_DEFINITIONS_def governed_docs_def GITHUB_TOOL_DEFINITIONS_def governed_github_def
      REGISTRY_TOOL_DEFINITIONS_def governed_registry_def OPERATIONS_TOOL_DEFINITIONS_def governed_operations_def
      RUNFLARE_CAPABILITY_DEFINITIONS_def governed_runflare_def)

lemma register_all_facts:
  assumes "register_all av reg = Inr (reg', ops)"
  shows "ops = av" and "wf_registry reg \<Longrightarrow> wf_registry reg'"
    and "dict_keys reg' = dict_keys reg @ governed_docs @ governed_github @ governed_registry @ governed_runflare
      @ [''runflare_stop''] @ (if av then governed_operations else []) @ [TOOL_GOV_PING_LOW_RISK, TOOL_GOV_APPLY_MARK]"
proof -
  obtain r1 r2 r3 r4 r5 cs where
    1: "register_definitions read_only_contract DOCS_TOOL_DEFINITIONS reg = Inr r1" and
    2: "register_definitions read_only_contract GITHUB_TOOL_DEFINITIONS r1 = Inr r2" and
    3: "register_definitions read_only_contract REGISTRY_TOOL_DEFINITIONS r2 = Inr r3" and
    4: "register_definitions runflare_contract RUNFLARE_CAPABILITY_DEFINITIONS r3 = Inr r4" and
    5: "register_operations_tools av r4 = Inr (r5, ops)" and
    6: "governance_ref_contracts = Inr cs" and 7: "registry_register_many cs r5 = Inr reg'"
    using assms
    by (auto simp: register_all_def res_bind_eq_Inr register_docs_tools_def register_github_tools_def
        register_registry_tools_def register_runflare_capabilities_def register_governance_ref_tools_def)
  from 5 show "ops = av"
    by (auto simp: register_operations_tools_def res_bind_eq_Inr split: if_splits)
  have wf5: "wf_registry r4 \<Longrightarrow> wf_registry r5" and
    k5: "dict_keys r5 = dict_keys r4 @ (if av then governed_operations else [])"
    using 5 register_definitions_keys [of read_only_contract OPERATIONS_TOOL_DEFINITIONS r4 r5 td_name]
    by (auto simp: register_operations_tools_def res_bind_eq_Inr definition_names read_only_contract_name
        intro: register_definitions_wf split: if_splits)
  show "wf_registry reg \<Longrightarrow> wf_registry reg'"
    using 1 2 3 4 7 wf5 by (meson register_definitions_wf wf_registry_many)
  have "dict_keys reg' = dict_keys r5 @ [TOOL_GOV_PING_LOW_RISK, TOOL_GOV_APPLY_MARK]"
    using 7 governance_ref_names [OF 6] by (auto simp: register_many_eq comp_def)
  moreover have "dict_keys r4 = dict_keys r3 @ governed_runflare @ [''runflare_stop'']"
    using register_definitions_keys [OF 4 runflare_contract_name] by (simp add: definition_names)
  moreover have "dict_keys r3 = dict_keys r2 @ governed_registry"
    using register_definitions_keys [OF 3 read_only_contract_name] by (simp add: definition_names)
  moreover have "dict_keys r2 = dict_keys r1 @ governed_github"
    using register_definitions_keys [OF 2 read_only_contract_name] by (simp add: definition_names)
  moreover have "dict_keys r1 = dict_keys reg @ governed_docs"
    using register_definitions_keys [OF 1 read_only_contract_name] by (simp add: definition_names)
  ultimately show "dict_keys reg' = dict_keys reg @ governed_docs @ governed_github @ governed_registry @ governed_runflare
      @ [''runflare_stop''] @ (if av then governed_operations else []) @ [TOOL_GOV_PING_LOW_RISK, TOOL_GOV_APPLY_MARK]"
    by (simp add: k5)
qed

section \<open>The derived catalog\<close>

lemma map_of_rev_graph: "map_of (rev (map (\<lambda>n. (n, f n)) ks)) k = (if k \<in> set ks then Some (f k) else None)"
proof -
  have "map_of (map (\<lambda>n. (n, f n)) xs) k = (if k \<in> set xs then Some (f k) else None)" for xs
    by (induction xs) auto
  from this [of "rev ks"] show ?thesis by (simp add: rev_map)
qed

lemma catalog_from_registry_get:
  assumes "wf_registry reg" and "catalog_from_registry reg = Inr cat"
  shows "dict_get cat n = map_option cc_risk (dict_get reg n)"
proof -
  have name: "cc_name (the (dict_get reg k)) = k" if "k \<in> set (dict_keys reg)" for k
  proof -
    from that obtain c where "dict_get reg k = Some c"
      by (metis map_of_eq_None_iff not_Some_eq set_map)
    with assms(1) show ?thesis
      by (auto simp: wf_registry_def dest: map_of_SomeD)
  qed
  have "map (\<lambda>c. (cc_name c, cc_risk c)) (registry_all reg) =
      map (\<lambda>n. (n, cc_risk (the (dict_get reg n)))) (sort (dict_keys reg))"
    using name by (simp add: registry_all_def)
  then have "dict_get cat n = (if n \<in> set (dict_keys reg) then Some (cc_risk (the (dict_get reg n))) else None)"
    using assms(2) cat.put_all_look [of "map (\<lambda>c. (cc_name c, cc_risk c)) (registry_all reg)" "[]" cat]
    by (simp add: catalog_from_registry_def catalog_register_many_put_all map_of_rev_graph)
  moreover have "n \<in> set (dict_keys reg) \<longleftrightarrow> dict_get reg n \<noteq> None"
    by (simp add: map_of_eq_None_iff)
  ultimately show ?thesis by auto
qed

lemma extend_catalog_get:
  "extend_catalog risks ns cat = Inr cat' \<Longrightarrow>
   dict_get cat' k = (case dict_get cat k of Some r \<Rightarrow> Some r
     | None \<Rightarrow> if k \<in> set ns then Some (case dict_get risks k of Some r \<Rightarrow> r | None \<Rightarrow> HIGH_RISK) else None)"
proof (induction risks ns cat rule: extend_catalog.induct)
  case (1 risks cat)
  then show ?case by (simp split: option.split)
next
  case (2 risks n ns cat)
  show ?case
  proof (cases "catalog_contains cat n")
    case True
    with "2.prems" have "extend_catalog risks ns cat = Inr cat'" by simp
    from "2.IH"(1) [OF True this] True show ?thesis
      by (auto simp: catalog_contains_def map_of_eq_None_iff split: option.splits)
  next
    case False
    with "2.prems" obtain t where t: "catalog_resolve risks n = Inr t"
      and rest: "extend_catalog risks ns (dict_set n (ti_risk t) cat) = Inr cat'"
      and reg: "catalog_register n (ti_risk t) cat = Inr (dict_set n (ti_risk t) cat)"
      by (auto simp: res_bind_eq_Inr catalog_register_eq)
    from False have "dict_get cat n = None"
      by (simp add: catalog_contains_def map_of_eq_None_iff)
    with "2.IH"(2) [OF False rest] t show ?thesis
      by (auto simp: catalog_resolve_eq split: option.splits)
  qed
qed

lemma create_runtime_facts:
  assumes "create_runtime config (Some reg) av provider dg gg pol rec gov = Inr rt"
  obtains risks rf where "provider = Inr rf" and "register_all av reg = Inr (sr_registry rt, av)"
    and "catalog_from_registry (sr_registry rt) = Inr risks" and "sr_tools rt = governed_tools rf av"
    and "extend_catalog risks (dict_keys risks)
           (g_catalog (case gov of Some g \<Rightarrow> g | None \<Rightarrow> make_gate risks pol rec (Some (sr_config rt)))) =
         Inr (g_catalog (sr_gate rt))"
    and "g_policy (sr_gate rt) =
           g_policy (case gov of Some g \<Rightarrow> g | None \<Rightarrow> make_gate risks pol rec (Some (sr_config rt)))"
proof -
  from assms obtain r ops rf risks cat where 0: "provider = Inr rf" and 1: "register_all av reg = Inr (r, ops)"
    and 2: "catalog_from_registry r = Inr risks"
    and 3: "extend_catalog risks (dict_keys risks) (g_catalog (case gov of Some g \<Rightarrow> g
          | None \<Rightarrow> make_gate risks pol rec (Some (case config of Some c \<Rightarrow> c | None \<Rightarrow> default_config)))) = Inr cat"
    and 4: "rt = \<lparr>sr_config = (case config of Some c \<Rightarrow> c | None \<Rightarrow> default_config), sr_tools = governed_tools rf ops,
        sr_registry = r, sr_gate = (case gov of Some g \<Rightarrow> g
          | None \<Rightarrow> make_gate risks pol rec (Some (case config of Some c \<Rightarrow> c | None \<Rightarrow> default_config)))\<lparr>g_catalog := cat\<rparr>,
        sr_operations = ops, sr_runflare = rf\<rparr>"
    by (auto simp: create_runtime_def Let_def res_bind_eq_Inr)
  have cfg: "sr_config rt = (case config of Some c \<Rightarrow> c | None \<Rightarrow> default_config)"
    by (simp add: 4)
  have facts: "sr_registry rt = r" "sr_tools rt = governed_tools rf ops" "g_catalog (sr_gate rt) = cat"
    "g_policy (sr_gate rt) = g_policy (case gov of Some g \<Rightarrow> g | None \<Rightarrow> make_gate risks pol rec (Some (sr_config rt)))"
    unfolding cfg by (simp_all add: 4)
  have "ops = av" by (rule register_all_facts(1) [OF 1])
  with 0 1 2 3 facts show ?thesis
    by (intro that [of rf risks]) (simp_all only: cfg)
qed

lemma governed_in_registry:
  "register_all av reg = Inr (reg', ops) \<Longrightarrow> n \<in> set (governed_tools rf av) \<Longrightarrow> n \<in> set (dict_keys reg')"
  unfolding register_all_facts(3) governed_tools_def by auto

text \<open>C19: No tool is served outside governance: whatever registry and gate the server is created
  with, every tool it adds is known to the gate's catalog: with the risk a supplied gate
  already had for it, and else (always, when the gate is the server's own) with exactly the
  risk its registered contract declares.\<close>

theorem served_tools_are_governed:
  assumes "create_runtime config (Some reg) av provider dg gg pol rec gov = Inr rt" and "wf_registry reg"
    and "n \<in> set (sr_tools rt)"
  shows "catalog_contains (g_catalog (sr_gate rt)) n \<and>
    dict_get (g_catalog (sr_gate rt)) n =
      (case Option.bind gov (\<lambda>g. dict_get (g_catalog g) n) of
         Some r \<Rightarrow> Some r
       | None \<Rightarrow> map_option cc_risk (dict_get (sr_registry rt) n))"
proof -
  from assms(1) obtain risks rf where reg: "register_all av reg = Inr (sr_registry rt, av)"
    and risks: "catalog_from_registry (sr_registry rt) = Inr risks" and tools: "sr_tools rt = governed_tools rf av"
    and ext: "extend_catalog risks (dict_keys risks)
           (g_catalog (case gov of Some g \<Rightarrow> g | None \<Rightarrow> make_gate risks pol rec (Some (sr_config rt)))) =
         Inr (g_catalog (sr_gate rt))"
    by (rule create_runtime_facts)
  have wf: "wf_registry (sr_registry rt)"
    by (rule register_all_facts(2) [OF reg assms(2)])
  have "n \<in> set (dict_keys (sr_registry rt))"
    using governed_in_registry [OF reg] assms(3) by (simp add: tools)
  then have n: "dict_get risks n \<noteq> None"
    by (simp add: catalog_from_registry_get [OF wf risks] map_of_eq_None_iff)
  then have nk: "n \<in> set (dict_keys risks)"
    by (auto dest: dict_get_in_keys)
  have "dict_get (g_catalog (sr_gate rt)) n \<noteq> None"
    using extend_catalog_get [OF ext, of n] nk by (simp split: option.split)
  then have "catalog_contains (g_catalog (sr_gate rt)) n"
    by (auto simp: catalog_contains_def map_of_eq_None_iff)
  moreover have "dict_get (g_catalog (sr_gate rt)) n =
      (case Option.bind gov (\<lambda>g. dict_get (g_catalog g) n) of Some r \<Rightarrow> Some r | None \<Rightarrow> dict_get risks n)"
    using extend_catalog_get [OF ext, of n] n nk by (cases gov) (auto simp: make_gate_def split: option.split)
  ultimately show ?thesis
    by (simp add: catalog_from_registry_get [OF wf risks] cong: option.case_cong)
qed

section \<open>Standard start-up\<close>

text \<open>
  Names in small letters that avoid the forbidden words pass the policy; this is cheaper to
  check than running the patterns.
\<close>

definition name_letters :: string where
  "name_letters = ''abcdefghijklmnopqrstuvwxyz_''"

definition harmless_name :: "string \<Rightarrow> bool" where
  "harmless_name n \<longleftrightarrow> n \<noteq> [] \<and> list_all (\<lambda>c. c \<in> set name_letters) n \<and>
     list_all (\<lambda>w. \<not> py_in w n) [''exec'', ''shell'', ''command'', ''arbitrary'', ''filesystem'', ''delete''] \<and>
     list_all (\<lambda>w. \<not> prefix w n) [''request'', ''start'', ''stop'', ''restart'']"

definition no_deploy :: "string \<Rightarrow> bool" where
  "no_deploy n \<longleftrightarrow> \<not> re_search (seqs [WordB, lit_ci ''deploy'']) n"

lemma name_letters_facts:
  "list_all (\<lambda>c. lower_char c = c \<and> \<not> py_isspace c) name_letters"
  by code_simp

lemma harmless_lower: "harmless_name n \<Longrightarrow> py_lower n = n"
  using name_letters_facts by (auto simp: harmless_name_def py_lower_def list_all_iff intro!: map_idI)

lemma harmless_not_blank: "harmless_name n \<Longrightarrow> \<not> blank n"
  using name_letters_facts by (cases n) (auto simp: harmless_name_def blank_iff list_all_iff)

lemma re_search_anchored: "re_search (Seq Bos r) s \<longleftrightarrow> re_ends r (None, s) \<noteq> []"
  by (simp add: re_search_def re_search_from_iff)

lemma re_search_boundary: "re_search (Seq WordB r) s \<Longrightarrow> re_search r s"
  by (auto simp: re_search_def re_search_from_iff split: if_splits)

lemma lit_literals:
  "py_lower ''exec'' = ''exec''" "py_lower ''shell'' = ''shell''" "py_lower ''command'' = ''command''"
  "py_lower ''arbitrary'' = ''arbitrary''" "py_lower ''filesystem'' = ''filesystem''" "py_lower ''delete'' = ''delete''"
  "py_lower ''deploy'' = ''deploy''" "py_lower ''request'' = ''request''" "py_lower ''start'' = ''start''"
  "py_lower ''stop'' = ''stop''" "py_lower ''restart'' = ''restart''"
  by code_simp+

lemma no_deploy_word: "harmless_name n \<Longrightarrow> \<not> py_in ''deploy'' n \<Longrightarrow> no_deploy n"
  using re_search_boundary [of "lit_ci ''deploy''" n] re_search_lit_ci [of "''deploy''" n]
  by (auto simp: no_deploy_def harmless_lower lit_literals)

lemma harmless_allowed:
  assumes "harmless_name n" and "no_deploy n"
  shows "check_capability_name_allowed n = Inr ()"
proof -
  have word: "\<not> re_search (lit_ci w) n" if "w \<noteq> []" "py_lower w = w" "\<not> py_in w n" for w
    using that re_search_lit_ci [of w n] by (simp add: harmless_lower [OF assms(1)])
  have start: "re_ends (lit_ci w) (None, n) = []" if "py_lower w = w" "\<not> prefix w n" for w
    using that re_ends_lit_ci [of w "(None, n)"] by (simp add: harmless_lower [OF assms(1)])
  have req: "\<not> re_search (seqs [Bos, lit_ci ''request'', Eos]) n"
    using start [of "''request''"] assms(1) by (simp add: re_search_anchored harmless_name_def lit_literals del: lit_ci.simps)
  have sss: "\<not> re_search (seqs [Bos, alts [lit_ci ''start'', lit_ci ''stop'', lit_ci ''restart''], Class (\<lambda>c. c = CHR ''_'')]) n"
    using start [of "''start''"] start [of "''stop''"] start [of "''restart''"] assms(1)
    by (simp add: re_search_anchored harmless_name_def lit_literals del: lit_ci.simps)
  show ?thesis
    using assms req sss word [of "''exec''"] word [of "''shell''"] word [of "''command''"] word [of "''arbitrary''"]
      word [of "''filesystem''"] word [of "''delete''"]
    unfolding check_capability_name_allowed_def check_patterns_eq FORBIDDEN_NAME_PATTERNS_def
    by (simp add: harmless_name_def no_deploy_def lit_literals del: lit_ci.simps)
qed

text \<open>A harmless definition yields a contract; a description is not blank if it starts with a letter.\<close>

definition harmless_entry :: "string \<Rightarrow> string \<Rightarrow> bool" where
  "harmless_entry n d \<longleftrightarrow> harmless_name n \<and> d \<noteq> [] \<and> hd d \<in> set ''DFGLORS''"

lemma description_letters: "list_all (\<lambda>c. \<not> py_isspace c) ''DFGLORS''"
  by code_simp

lemma harmless_descriptor:
  assumes "harmless_entry n d" and "no_deploy n"
  shows "descriptor_for n ''tool'' d m = Inr \<lparr>cd_name = n, cd_kind = KIND_TOOL, cd_description = d, cd_mutating = m\<rparr>"
proof -
  have "\<not> blank d"
    using assms(1) description_letters by (cases d) (auto simp: harmless_entry_def blank_iff list_all_iff)
  with assms harmless_not_blank [of n] harmless_allowed [of n] show ?thesis
    by (auto simp: descriptor_for_def make_descriptor_def harmless_entry_def harmless_name_def check_mutation_allowed_def
        PHASE_1_READ_ONLY_def)
qed

lemma contract_made:
  "make_contract \<lparr>cd_name = n, cd_kind = KIND_TOOL, cd_description = d, cd_mutating = m\<rparr> SCOPE_TOOL CONTRACT_VERSION sc CONFIRMED r =
     Inr \<lparr>cc_descriptor = \<lparr>cd_name = n, cd_kind = KIND_TOOL, cd_description = d, cd_mutating = m\<rparr>, cc_scope = SCOPE_TOOL,
          cc_version = CONTRACT_VERSION, cc_schema = sc, cc_evidence = CONFIRMED, cc_risk = r\<rparr>"
proof -
  have "\<not> blank CONTRACT_VERSION" by code_simp
  then show ?thesis by (simp add: make_contract_def)
qed

definition tool_contract :: "string \<Rightarrow> string \<Rightarrow> bool \<Rightarrow> sdict \<Rightarrow> risk_level \<Rightarrow> capability_contract" where
  "tool_contract n d m sc r =
     \<lparr>cc_descriptor = \<lparr>cd_name = n, cd_kind = KIND_TOOL, cd_description = d, cd_mutating = m\<rparr>, cc_scope = SCOPE_TOOL,
      cc_version = CONTRACT_VERSION, cc_schema = sc, cc_evidence = CONFIRMED, cc_risk = r\<rparr>"

lemma tool_contract_simps [simp]: "cc_name (tool_contract n d m sc r) = n" "cc_risk (tool_contract n d m sc r) = r"
  by (simp_all add: tool_contract_def cc_name_def)

lemma read_only_contract_made:
  "harmless_entry (td_name d) (td_description d) \<Longrightarrow> no_deploy (td_name d) \<Longrightarrow>
   read_only_contract d = Inr (tool_contract (td_name d) (td_description d) False (td_schema d) READ_ONLY)"
  by (simp add: read_only_contract_def harmless_descriptor contract_made tool_contract_def)

lemma runflare_contract_made:
  "harmless_entry (rd_name d) (rd_description d) \<Longrightarrow> no_deploy (rd_name d) \<Longrightarrow>
   runflare_contract d = Inr (tool_contract (rd_name d) (rd_description d) (rd_mutating d) (rd_schema d) (rd_risk d))"
  by (simp add: runflare_contract_def harmless_descriptor contract_made tool_contract_def)

lemma definitions_harmless:
  "list_all (\<lambda>d. harmless_entry (td_name d) (td_description d) \<and> \<not> py_in ''deploy'' (td_name d))
     (DOCS_TOOL_DEFINITIONS @ GITHUB_TOOL_DEFINITIONS @ REGISTRY_TOOL_DEFINITIONS @ OPERATIONS_TOOL_DEFINITIONS)"
  by code_simp

lemma runflare_harmless:
  "list_all (\<lambda>d. harmless_entry (rd_name d) (rd_description d)) RUNFLARE_CAPABILITY_DEFINITIONS"
  "list_all (\<lambda>d. rd_name d = ''runflare_deploy'' \<or> \<not> py_in ''deploy'' (rd_name d)) RUNFLARE_CAPABILITY_DEFINITIONS"
  by code_simp+

lemma runflare_deploy_passes: "no_deploy ''runflare_deploy''"
  by code_simp

definition standard_contracts :: "bool \<Rightarrow> capability_contract list" where
  "standard_contracts av =
     (let ro = map (\<lambda>d. tool_contract (td_name d) (td_description d) False (td_schema d) READ_ONLY) in
      ro DOCS_TOOL_DEFINITIONS @ ro GITHUB_TOOL_DEFINITIONS @ ro REGISTRY_TOOL_DEFINITIONS
      @ map (\<lambda>d. tool_contract (rd_name d) (rd_description d) (rd_mutating d) (rd_schema d) (rd_risk d))
          RUNFLARE_CAPABILITY_DEFINITIONS
      @ (if av then ro OPERATIONS_TOOL_DEFINITIONS else [])
      @ [tool_contract TOOL_GOV_PING_LOW_RISK ''Governance reference: LOW_RISK ping (Stage 11).'' False
           [(''type'', VStr ''object''), (''properties'', vdict [])] LOW_RISK,
         tool_contract TOOL_GOV_APPLY_MARK ''Governance reference: MUTATION apply_mark (requires approval).'' True
           [(''type'', VStr ''object''), (''properties'', vdict [(''mark'', string_prop)])] MUTATION])"

lemma governance_ref_made:
  "governance_ref_contracts = Inr
     [tool_contract TOOL_GOV_PING_LOW_RISK ''Governance reference: LOW_RISK ping (Stage 11).'' False
        [(''type'', VStr ''object''), (''properties'', vdict [])] LOW_RISK,
      tool_contract TOOL_GOV_APPLY_MARK ''Governance reference: MUTATION apply_mark (requires approval).'' True
        [(''type'', VStr ''object''), (''properties'', vdict [(''mark'', string_prop)])] MUTATION]"
proof -
  have h: "harmless_entry TOOL_GOV_PING_LOW_RISK ''Governance reference: LOW_RISK ping (Stage 11).''"
    "harmless_entry TOOL_GOV_APPLY_MARK ''Governance reference: MUTATION apply_mark (requires approval).''"
    and "\<not> py_in ''deploy'' TOOL_GOV_PING_LOW_RISK" "\<not> py_in ''deploy'' TOOL_GOV_APPLY_MARK"
    by code_simp+
  then have "no_deploy TOOL_GOV_PING_LOW_RISK" "no_deploy TOOL_GOV_APPLY_MARK"
    by (simp_all add: harmless_entry_def no_deploy_word)
  with h show ?thesis
    by (simp add: governance_ref_contracts_def harmless_descriptor contract_made tool_contract_def)
qed

lemma standard_names_distinct: "distinct (map cc_name (standard_contracts True))"
  by code_simp

lemma read_only_loop:
  assumes "set ds \<subseteq> set (DOCS_TOOL_DEFINITIONS @ GITHUB_TOOL_DEFINITIONS @ REGISTRY_TOOL_DEFINITIONS @ OPERATIONS_TOOL_DEFINITIONS)"
  shows "register_definitions read_only_contract ds reg =
     registry_register_many (map (\<lambda>d. tool_contract (td_name d) (td_description d) False (td_schema d) READ_ONLY) ds) reg"
  using assms definitions_harmless
  by (induction ds arbitrary: reg)
    (auto simp: list_all_iff harmless_entry_def no_deploy_word read_only_contract_made fun_eq_iff res_bind_def split: sum.split)

lemma runflare_loop:
  assumes "set ds \<subseteq> set RUNFLARE_CAPABILITY_DEFINITIONS"
  shows "register_definitions runflare_contract ds reg =
     registry_register_many (map (\<lambda>d. tool_contract (rd_name d) (rd_description d) (rd_mutating d) (rd_schema d) (rd_risk d)) ds) reg"
  using assms
proof (induction ds arbitrary: reg)
  case Nil
  then show ?case by simp
next
  case (Cons d ds)
  then have "harmless_entry (rd_name d) (rd_description d)" and "rd_name d = ''runflare_deploy'' \<or> \<not> py_in ''deploy'' (rd_name d)"
    using runflare_harmless by (auto simp: list_all_iff)
  then have "runflare_contract d = Inr (tool_contract (rd_name d) (rd_description d) (rd_mutating d) (rd_schema d) (rd_risk d))"
    by (intro runflare_contract_made) (auto simp: runflare_deploy_passes no_deploy_word harmless_entry_def)
  with Cons show ?case
    by (simp add: res_bind_def fun_eq_iff split: sum.split)
qed

lemma register_many_append:
  "registry_register_many (as @ bs) reg = res_bind (registry_register_many as reg) (registry_register_many bs)"
  by (induction as arbitrary: reg) (simp_all add: res_bind_def split: sum.split)

abbreviation read_only_contracts :: "tool_definition list \<Rightarrow> capability_contract list" where
  "read_only_contracts \<equiv> map (\<lambda>d. tool_contract (td_name d) (td_description d) False (td_schema d) READ_ONLY)"

lemma definition_loops:
  "register_definitions read_only_contract DOCS_TOOL_DEFINITIONS reg =
     registry_register_many (read_only_contracts DOCS_TOOL_DEFINITIONS) reg"
  "register_definitions read_only_contract GITHUB_TOOL_DEFINITIONS reg =
     registry_register_many (read_only_contracts GITHUB_TOOL_DEFINITIONS) reg"
  "register_definitions read_only_contract REGISTRY_TOOL_DEFINITIONS reg =
     registry_register_many (read_only_contracts REGISTRY_TOOL_DEFINITIONS) reg"
  "register_definitions read_only_contract OPERATIONS_TOOL_DEFINITIONS reg =
     registry_register_many (read_only_contracts OPERATIONS_TOOL_DEFINITIONS) reg"
  "register_definitions runflare_contract RUNFLARE_CAPABILITY_DEFINITIONS reg =
     registry_register_many (map (\<lambda>d. tool_contract (rd_name d) (rd_description d) (rd_mutating d) (rd_schema d) (rd_risk d))
       RUNFLARE_CAPABILITY_DEFINITIONS) reg"
  by (rule read_only_loop, auto)+ (rule runflare_loop, rule subset_refl)

lemma operations_loop:
  "register_operations_tools av r = res_bind (registry_register_many
      (if av then map (\<lambda>d. tool_contract (td_name d) (td_description d) False (td_schema d) READ_ONLY) OPERATIONS_TOOL_DEFINITIONS
       else []) r) (\<lambda>r'. Inr (r', av))"
  by (simp add: register_operations_tools_def definition_loops)

lemma res_bind_assoc: "res_bind (res_bind m f) g = res_bind m (\<lambda>x. res_bind (f x) g)"
  by (cases m) simp_all

lemma register_all_many:
  "register_all av reg = res_bind (registry_register_many (standard_contracts av) reg) (\<lambda>r. Inr (r, av))"
  by (simp add: register_all_def register_docs_tools_def register_github_tools_def register_registry_tools_def
      register_runflare_capabilities_def register_governance_ref_tools_def definition_loops operations_loop
      governance_ref_made standard_contracts_def Let_def register_many_append res_bind_assoc)

lemma standard_distinct: "distinct (map cc_name (standard_contracts av))"
  using standard_names_distinct by (cases av) (auto simp: standard_contracts_def Let_def)

lemma register_all_standard:
  "register_all av [] = Inr (map (\<lambda>c. (cc_name c, c)) (standard_contracts av), av)"
proof -
  have "registry_register_many (standard_contracts av) [] = Inr (map (\<lambda>c. (cc_name c, c)) (standard_contracts av))"
    by (simp add: register_many_eq standard_distinct)
  then show ?thesis by (simp add: register_all_many)
qed

lemma catalog_register_many_total: "list_all (\<lambda>(n, r). \<not> blank n) es \<Longrightarrow> \<exists>c'. catalog_register_many es c = Inr c'"
  by (induction es c rule: catalog_register_many.induct) (auto simp: res_bind_eq_Inr catalog_register_def)

lemma extend_catalog_self: "set ns \<subseteq> set (dict_keys c) \<Longrightarrow> extend_catalog risks ns c = Inr c"
  by (induction ns) (auto simp: catalog_contains_def)

definition standard_risks :: "bool \<Rightarrow> (string \<times> risk_level) list" where
  "standard_risks av = map (\<lambda>c. (cc_name c, cc_risk c)) (standard_contracts av)"

lemma standard_registry_wf: "wf_registry (map (\<lambda>c. (cc_name c, c)) (standard_contracts av))"
  using standard_distinct [of av] by (auto simp: wf_registry_def wf_dict_def comp_def)

lemma standard_not_blank: "list_all (\<lambda>c. \<not> blank (cc_name c)) (standard_contracts av)"
proof -
  have "list_all (\<lambda>c. harmless_name (cc_name c)) (standard_contracts True)"
    by code_simp
  moreover have "set (standard_contracts av) \<subseteq> set (standard_contracts True)"
    by (cases av) (auto simp: standard_contracts_def Let_def)
  ultimately show ?thesis
    using harmless_not_blank by (fastforce simp: list_all_iff)
qed

lemma standard_catalog:
  "\<exists>risks. catalog_from_registry (map (\<lambda>c. (cc_name c, c)) (standard_contracts av)) = Inr risks \<and>
     (\<forall>n. dict_get risks n = dict_get (standard_risks av) n)"
proof -
  let ?reg = "map (\<lambda>c. (cc_name c, c)) (standard_contracts av)"
  have "the (dict_get ?reg n) \<in> set (standard_contracts av)" if n: "n \<in> set (dict_keys ?reg)" for n
  proof -
    from n obtain c where "dict_get ?reg n = Some c"
      by (metis map_of_eq_None_iff not_Some_eq set_map)
    then show ?thesis by (auto dest: map_of_SomeD)
  qed
  then have "set (registry_all ?reg) \<subseteq> set (standard_contracts av)"
    by (auto simp: registry_all_def)
  then have "list_all (\<lambda>(n, r). \<not> blank n) (map (\<lambda>c. (cc_name c, cc_risk c)) (registry_all ?reg))"
    using standard_not_blank [of av] by (auto simp: list_all_iff)
  then obtain risks where risks: "catalog_from_registry ?reg = Inr risks"
    using catalog_register_many_total by (fastforce simp: catalog_from_registry_def)
  have "dict_get (map (\<lambda>c. (cc_name c, cc_risk c)) cs) n = map_option cc_risk (dict_get (map (\<lambda>c. (cc_name c, c)) cs) n)" for cs n
    by (induction cs) auto
  with risks catalog_from_registry_get [OF standard_registry_wf risks] show ?thesis
    by (simp add: standard_risks_def)
qed

text \<open>The tools a standard server serves that need more than a low-risk decision.\<close>

definition approval_bound_tools :: "bool \<Rightarrow> string list" where
  "approval_bound_tools rf =
     TOOL_GOV_APPLY_MARK # (if rf then [''runflare_deploy'', ''runflare_start'', ''runflare_restart''] else [])"

lemma served_risks:
  "filter (\<lambda>n. dict_get (standard_risks True) n \<notin> {Some READ_ONLY, Some LOW_RISK}) (governed_tools True True) =
     approval_bound_tools True"
  "filter (\<lambda>n. dict_get (standard_risks False) n \<notin> {Some READ_ONLY, Some LOW_RISK}) (governed_tools True False) =
     approval_bound_tools True"
  "filter (\<lambda>n. dict_get (standard_risks True) n \<notin> {Some READ_ONLY, Some LOW_RISK}) (governed_tools False True) =
     approval_bound_tools False"
  "filter (\<lambda>n. dict_get (standard_risks False) n \<notin> {Some READ_ONLY, Some LOW_RISK}) (governed_tools False False) =
     approval_bound_tools False"
  "distinct (governed_tools True True)"
  by code_simp+

lemma standard_created:
  assumes "wf_config cfg"
  shows "\<exists>rt. create_runtime (Some cfg) (Some []) av (Inr rf) dg gg None rec None = Inr rt \<and>
     sr_tools rt = governed_tools rf av \<and> g_policy (sr_gate rt) = default_conservative_evaluate \<and>
     g_config (sr_gate rt) = Some cfg \<and>
     (\<forall>n. dict_get (g_catalog (sr_gate rt)) n = dict_get (standard_risks av) n)"
proof -
  have pos: "positive_timeout g cfg = Inr ()" for g
    using assms by (simp add: positive_timeout_def wf_config_def)
  obtain risks where risks: "catalog_from_registry (map (\<lambda>c. (cc_name c, c)) (standard_contracts av)) = Inr risks"
    and get: "\<And>n. dict_get risks n = dict_get (standard_risks av) n"
    using standard_catalog [of av] by blast
  show ?thesis
    by (simp add: create_runtime_def Let_def pos register_all_standard risks make_gate_def extend_catalog_self get)
qed

lemma served_risk_classes:
  "filter (\<lambda>n. dict_get (standard_risks av) n \<notin> {Some READ_ONLY, Some LOW_RISK}) (governed_tools rf av) =
     approval_bound_tools rf"
  using served_risks by (cases rf; cases av) simp_all

lemma governed_distinct: "distinct (governed_tools rf av)"
  using served_risks(5) by (cases rf; cases av) (auto simp: governed_tools_def)

text \<open>C8: Under every valid configuration and in every environment the standard server starts, unless
  the construction of the Runflare provider raises an exception that \<open>create\<close> does not catch (and
  then that one is raised). It serves each tool once, and exactly the reference mutation and,
  with a provider, deploy, start and restart need an approval: all other tools are read-only
  or of low risk.\<close>

theorem standard_startup:
  assumes "wf_config cfg"
  shows "case create_runtime (Some cfg) (Some []) av provider dg gg None rec None of
     Inl e \<Rightarrow> provider = Inl e
   | Inr rt \<Rightarrow> provider = Inr (sr_runflare rt) \<and>
       distinct (sr_tools rt) \<and> g_policy (sr_gate rt) = default_conservative_evaluate \<and>
       filter (\<lambda>n. dict_get (g_catalog (sr_gate rt)) n \<notin> {Some READ_ONLY, Some LOW_RISK}) (sr_tools rt) =
         approval_bound_tools (sr_runflare rt)"
proof (cases provider)
  case (Inl e)
  moreover have "positive_timeout dg cfg = Inr ()"
    using assms by (simp add: positive_timeout_def wf_config_def)
  ultimately show ?thesis
    by (simp add: create_runtime_def Let_def register_all_standard)
next
  case (Inr rf)
  obtain rt where rt: "create_runtime (Some cfg) (Some []) av (Inr rf) dg gg None rec None = Inr rt"
    and "sr_tools rt = governed_tools rf av" "g_policy (sr_gate rt) = default_conservative_evaluate"
    and "\<forall>n. dict_get (g_catalog (sr_gate rt)) n = dict_get (standard_risks av) n"
    using standard_created [OF assms, of av rf dg gg rec] by blast
  moreover have "sr_runflare rt = rf"
    using rt by (auto simp: create_runtime_def Let_def res_bind_eq_Inr)
  ultimately show ?thesis
    using Inr governed_distinct [of rf av] served_risk_classes [of av rf] by simp
qed

theorem standard_startup_witness:
  "\<exists>rt. create_runtime (Some demo_config) (Some []) True (Inr False) False False None memory_record None = Inr rt \<and>
     filter (\<lambda>n. dict_get (g_catalog (sr_gate rt)) n \<notin> {Some READ_ONLY, Some LOW_RISK}) (sr_tools rt) =
       [''yasin_gov_apply_mark'']"
proof -
  have "wf_config demo_config" by code_simp
  from standard_startup [OF this, where av = True and provider = "Inr False" and dg = False and gg = False and rec = memory_record] show ?thesis
    by (auto simp: approval_bound_tools_def TOOL_GOV_APPLY_MARK_def split: sum.splits)
qed

theorem served_tools_are_governed_witness:
  "\<exists>rt. create_runtime (Some demo_config) (Some []) False (Inr True) False False None memory_record None = Inr rt \<and>
     catalog_contains (g_catalog (sr_gate rt)) ''runflare_deploy''"
proof -
  have "wf_config demo_config" by code_simp
  from standard_created [OF this, of False True False False memory_record] obtain rt where
    rt: "create_runtime (Some demo_config) (Some []) False (Inr True) False False None memory_record None = Inr rt"
    and tools: "sr_tools rt = governed_tools True False"
    by blast
  have "wf_registry []" and "''runflare_deploy'' \<in> set (sr_tools rt)"
    by (simp_all add: wf_registry_def tools governed_tools_def governed_runflare_def)
  from served_tools_are_governed [OF rt this] rt show ?thesis by blast
qed

end
