(* ===== verification/Runflare.thy ===== *)
theory Runflare
  imports Net Runtime
begin

text \<open>
  The Runflare provider (\<open>providers/runflare/\<close>) and its tools (\<open>tools/runflare.py\<close>): a wrapper around an
  official command line program that runs a fixed set of commands. The file system and the
  processes are parameters.
\<close>

section \<open>Redaction and the project directory\<close>

text \<open>The five patterns: the kept group; the replaced text is the same for all.\<close>

definition not_delimiter :: "char \<Rightarrow> bool" where
  "not_delimiter c \<longleftrightarrow> \<not> (py_isspace c \<or> c = CHR '','' \<or> c = CHR '';'')"

definition assigned :: "re \<Rightarrow> re" where
  "assigned name = seqs [name, star py_isspace, Class (chars '':=''), star py_isspace]"

definition RUNFLARE_SECRET_PATTERNS :: "re list" where
  "RUNFLARE_SECRET_PATTERNS =
     [seqs [assigned (lit_ci ''authorization''), lit_ci ''bearer'', plus py_isspace],
      assigned (seqs [lit_ci ''api'', opt (chars ''_-''), lit_ci ''key'']),
      assigned (lit_ci ''token''), assigned (lit_ci ''password''), assigned (lit_ci ''secret'')]"

text \<open>\<open>value[:limit]\<close>, where a negative limit counts from the end.\<close>

definition py_take :: "int \<Rightarrow> string \<Rightarrow> string" where
  "py_take limit s = (if 0 \<le> limit then take (nat limit) s else take (length s - nat (- limit)) s)"

definition runflare_redact :: "string \<Rightarrow> int \<Rightarrow> string" where
  "runflare_redact text limit =
     (let v = fold (\<lambda>keep v. re_sub keep (plus not_delimiter) ''[REDACTED]'' v) RUNFLARE_SECRET_PATTERNS text
      in if limit < int (length v) then py_take limit v @ CHR 0x0A # ''[OUTPUT TRUNCATED]'' else v)"

text \<open>
  The file system: \<open>Path(p).expanduser().resolve()\<close> yields the parts of the path, or raises (an \<open>OSError\<close>;
  a \<open>RuntimeError\<close> when the home directory of the named user is unknown or links form a loop), and
  so may \<open>is_dir()\<close>.
\<close>

record file_system =
  fs_resolve :: "string \<Rightarrow> string list result"
  fs_is_dir :: "string list \<Rightarrow> bool result"

definition validate_project_dir :: "file_system \<Rightarrow> environ \<Rightarrow> string \<Rightarrow> string list result" where
  "validate_project_dir fs env project_dir =
     (if project_dir = [] then Inl (PyError ''ValueError'' ''Runflare project directory is not configured'')
      else res_bind (fs_resolve fs project_dir) (\<lambda>path.
        res_bind (fs_is_dir fs path) (\<lambda>is_dir.
        if \<not> is_dir then Inl (PyError ''ValueError'' ''Runflare project directory does not exist'')
        else if falsy (env ''RUNFLARE_ALLOWED_PROJECT_ROOT'') then Inr path
        else res_bind (fs_resolve fs (the (env ''RUNFLARE_ALLOWED_PROJECT_ROOT''))) (\<lambda>allowed.
          if prefix allowed path then Inr path
          else Inl (PyError ''ValueError'' ''Runflare project directory is outside the allowed root'')))))"

section \<open>The command line program\<close>

record cli_result =
  cr_returncode :: int
  cr_stdout :: string
  cr_stderr :: string

record runflare_cli =
  rc_binary :: string
  rc_timeout :: int
  rc_max_output :: int
  rc_project_dir :: "string list"

definition basename :: "string \<Rightarrow> string" where
  "basename path = last (py_split CHR ''/'' path)"

text \<open>\<open>int(os.getenv(name, dflt))\<close>\<close>

definition getenv_int :: "environ \<Rightarrow> string \<Rightarrow> int \<Rightarrow> int result" where
  "getenv_int env name dflt = (case env name of None \<Rightarrow> Inr dflt | Some s \<Rightarrow> py_int (VStr s))"

definition make_runflare_cli :: "file_system \<Rightarrow> environ \<Rightarrow> string option \<Rightarrow> runflare_cli result" where
  "make_runflare_cli fs env project_dir =
     (let binary = (case env ''RUNFLARE_BIN'' of None \<Rightarrow> ''runflare'' | Some b \<Rightarrow> b) in
      if basename binary \<noteq> ''runflare'' then
        Inl (PyError ''ValueError'' ''RUNFLARE_BIN must resolve to the official runflare executable'')
      else
        res_bind (getenv_int env ''RUNFLARE_TIMEOUT_SECONDS'' 120) (\<lambda>timeout.
        res_bind (getenv_int env ''RUNFLARE_MAX_OUTPUT'' 12000) (\<lambda>max_output.
        let configured = (if falsy project_dir
              then (case env ''RUNFLARE_PROJECT_DIR'' of None \<Rightarrow> [] | Some d \<Rightarrow> d) else the project_dir) in
        res_bind (validate_project_dir fs env configured) (\<lambda>dir.
          Inr \<lparr>rc_binary = binary, rc_timeout = timeout, rc_max_output = max_output, rc_project_dir = dir\<rparr>))))"

text \<open>How a process ends; any exception but the two that are caught passes.\<close>

datatype run_outcome = Ran int string string | No_binary | Expired | Run_raised string string

type_synonym 'n runner = "string list \<Rightarrow> string list option \<Rightarrow> int \<Rightarrow> 'n \<Rightarrow> 'n \<times> run_outcome"

definition run_answer :: "runflare_cli \<Rightarrow> run_outcome \<Rightarrow> cli_result result" where
  "run_answer c outcome =
     (case outcome of
        Ran status out err \<Rightarrow>
          Inr \<lparr>cr_returncode = status, cr_stdout = runflare_redact out (rc_max_output c),
               cr_stderr = runflare_redact err (rc_max_output c)\<rparr>
      | No_binary \<Rightarrow> Inl (PyError ''RuntimeError'' ''Official Runflare CLI was not found'')
      | Expired \<Rightarrow> Inl (PyError ''RuntimeError'' ''Runflare CLI timed out'')
      | Run_raised cls msg \<Rightarrow> Inl (PyError cls msg))"

definition cli_run :: "'n runner \<Rightarrow> runflare_cli \<Rightarrow> string list \<Rightarrow> ('n, cli_result) net" where
  "cli_run run c args =
     (if list_ex (\<lambda>arg. CHR 0x00 \<in> set arg) args then net_lift (Inl (PyError ''ValueError'' ''Invalid CLI argument''))
      else (\<lambda>n. case run (rc_binary c # args) (Some (rc_project_dir c)) (rc_timeout c) n of
              (n', outcome) \<Rightarrow> (n', run_answer c outcome)))"

definition cli_status :: "'n runner \<Rightarrow> runflare_cli \<Rightarrow> ('n, cli_result) net" where
  "cli_status run c = cli_run run c [''status'']"

definition cli_deploy :: "'n runner \<Rightarrow> runflare_cli \<Rightarrow> ('n, cli_result) net" where
  "cli_deploy run c = cli_run run c [''deploy'', ''-y'']"

definition cli_logs :: "'n runner \<Rightarrow> runflare_cli \<Rightarrow> bool \<Rightarrow> ('n, cli_result) net" where
  "cli_logs run c follow = cli_run run c ([''log'', ''-y''] @ (if follow then [''-f''] else []))"

definition cli_events :: "'n runner \<Rightarrow> runflare_cli \<Rightarrow> bool \<Rightarrow> ('n, cli_result) net" where
  "cli_events run c follow = cli_run run c ([''event'', ''-y''] @ (if follow then [''-f''] else []))"

definition cli_restart :: "'n runner \<Rightarrow> runflare_cli \<Rightarrow> ('n, cli_result) net" where
  "cli_restart run c = cli_run run c [''restart'', ''-y'']"

definition cli_start :: "'n runner \<Rightarrow> runflare_cli \<Rightarrow> ('n, cli_result) net" where
  "cli_start run c = cli_run run c [''start'', ''-y'']"

definition cli_stop :: "('n, cli_result) net" where
  "cli_stop = net_lift (Inl (PyError ''PermissionError''
     ''runflare_stop requires explicit confirmation outside the MCP server''))"

section \<open>The tools\<close>

definition cli_result_dict :: "cli_result \<Rightarrow> sdict" where
  "cli_result_dict r =
     [(''returncode'', VInt (cr_returncode r)), (''stdout'', VStr (cr_stdout r)), (''stderr'', VStr (cr_stderr r))]"

datatype runflare_call = Rf_status | Rf_events | Rf_logs | Rf_deploy | Rf_start | Rf_restart

fun runflare_operation :: "'n runner \<Rightarrow> runflare_cli \<Rightarrow> runflare_call \<Rightarrow> ('n, cli_result) net" where
  "runflare_operation run c Rf_status = cli_status run c"
| "runflare_operation run c Rf_events = cli_events run c False"
| "runflare_operation run c Rf_logs = cli_logs run c False"
| "runflare_operation run c Rf_deploy = cli_deploy run c"
| "runflare_operation run c Rf_start = cli_start run c"
| "runflare_operation run c Rf_restart = cli_restart run c"

definition runflare_tool :: "'n runner \<Rightarrow> runflare_cli \<Rightarrow> runflare_call \<Rightarrow> ('n, sdict) net" where
  "runflare_tool run c call = net_bind (runflare_operation run c call) (\<lambda>r. net_return (cli_result_dict r))"

definition RUNFLARE_TOOL_DEFINITIONS :: "tool_definition list" where
  "RUNFLARE_TOOL_DEFINITIONS =
     map (\<lambda>(name, description). \<lparr>td_name = name, td_description = description, td_schema = object_schema [] []\<rparr>)
       [(''runflare_status'', ''Read Runflare project status.''),
        (''runflare_events'', ''Read bounded Runflare project events.''),
        (''runflare_logs'', ''Read bounded Runflare project logs.''),
        (''runflare_deploy'', ''Deploy the configured Runflare project.''),
        (''runflare_start'', ''Start the configured Runflare project.''),
        (''runflare_restart'', ''Restart the configured Runflare project.'')]"

section \<open>The compatibility probe\<close>

definition EXPECTED_COMMANDS :: "string list" where
  "EXPECTED_COMMANDS = [''status'', ''deploy'', ''event'', ''log'', ''start'', ''restart'', ''stop'']"

definition EXPECTED_FLAGS :: "(string \<times> string list) list" where
  "EXPECTED_FLAGS =
     [(''deploy'', [''-y'']), (''event'', [''-y'']), (''log'', [''-y'']), (''start'', [''-y'']), (''restart'', [''-y''])]"

record compatibility_report =
  cp_version :: string
  cp_help_text :: string
  cp_missing_commands :: "string list"
  cp_missing_flags :: "string list"
  cp_compatible :: bool

definition probe_answer :: "string list \<Rightarrow> run_outcome \<Rightarrow> string result" where
  "probe_answer args outcome =
     (case outcome of
        Ran status out err \<Rightarrow>
          (if status \<noteq> 0 then Inl (PyError ''RuntimeError'' (''Runflare compatibility probe failed: '' @ hd args))
           else Inr (out @ [CHR 0x0A] @ err))
      | No_binary \<Rightarrow> Inl (PyError ''FileNotFoundError'' [])
      | Expired \<Rightarrow> Inl (PyError ''TimeoutExpired'' [])
      | Run_raised cls msg \<Rightarrow> Inl (PyError cls msg))"

definition probe :: "'n runner \<Rightarrow> string \<Rightarrow> string list \<Rightarrow> ('n, string) net" where
  "probe run binary args =
     (\<lambda>n. case run (binary # args) None 15 n of (n', outcome) \<Rightarrow> (n', probe_answer args outcome))"

definition missing_flags_of :: "string \<times> string list \<Rightarrow> string \<Rightarrow> string list" where
  "missing_flags_of cf command_help =
     map (\<lambda>flag. fst cf @ '':'' @ flag) (filter (\<lambda>flag. \<not> py_in flag command_help) (snd cf))"

definition probe_compatibility :: "'n runner \<Rightarrow> environ \<Rightarrow> string option \<Rightarrow> ('n, compatibility_report) net" where
  "probe_compatibility run env binary =
     (let executable = (if \<not> falsy binary then the binary
                        else if \<not> falsy (env ''RUNFLARE_BIN'') then the (env ''RUNFLARE_BIN'') else ''runflare'') in
      net_bind (probe run executable [''version'']) (\<lambda>version.
      net_bind (probe run executable [''--help'']) (\<lambda>help_text.
      let missing_commands = filter (\<lambda>command. \<not> py_in command help_text) EXPECTED_COMMANDS in
      net_bind (net_mapM (\<lambda>cf. net_bind (probe run executable [fst cf, ''--help''])
          (\<lambda>command_help. net_return (missing_flags_of cf command_help))) EXPECTED_FLAGS) (\<lambda>missing.
      let missing_flags = concat missing in
      net_return \<lparr>cp_version = py_strip version, cp_help_text = help_text, cp_missing_commands = missing_commands,
                  cp_missing_flags = missing_flags, cp_compatible = (missing_commands = [] \<and> missing_flags = [])\<rparr>))))"

section \<open>Properties\<close>

text \<open>A runner that keeps a log of the commands and directories, and lets the processes end as they please.\<close>

type_synonym run_log = "(string list \<times> string list option) list"

definition logged_run :: "(run_log \<Rightarrow> run_outcome) \<Rightarrow> run_log runner" where
  "logged_run outcome argv cwd timeout log = (log @ [(argv, cwd)], outcome (log @ [(argv, cwd)]))"

text \<open>The commands the tools stand for: none takes anything from a caller.\<close>

fun call_command :: "runflare_call \<Rightarrow> string list" where
  "call_command Rf_status = [''status'']"
| "call_command Rf_events = [''event'', ''-y'']"
| "call_command Rf_logs = [''log'', ''-y'']"
| "call_command Rf_deploy = [''deploy'', ''-y'']"
| "call_command Rf_start = [''start'', ''-y'']"
| "call_command Rf_restart = [''restart'', ''-y'']"

lemma operation_runs_command:
  "runflare_operation run c call n =
     (case run (rc_binary c # call_command call) (Some (rc_project_dir c)) (rc_timeout c) n of
        (n', outcome) \<Rightarrow> (n', run_answer c outcome))"
  by (cases call)
    (simp_all add: cli_status_def cli_events_def cli_logs_def cli_deploy_def cli_start_def cli_restart_def cli_run_def)

text \<open>Where commands may run: any directory when no root is set, else one below it.\<close>

definition below_allowed_root :: "file_system \<Rightarrow> environ \<Rightarrow> string list \<Rightarrow> bool" where
  "below_allowed_root fs env dir \<longleftrightarrow>
     (if falsy (env ''RUNFLARE_ALLOWED_PROJECT_ROOT'') then True
      else case fs_resolve fs (the (env ''RUNFLARE_ALLOWED_PROJECT_ROOT'')) of
             Inr allowed \<Rightarrow> prefix allowed dir
           | Inl _ \<Rightarrow> False)"

lemma validated_dir:
  "validate_project_dir fs env d = Inr dir \<longleftrightarrow>
     d \<noteq> [] \<and> fs_resolve fs d = Inr dir \<and> fs_is_dir fs dir = Inr True \<and> below_allowed_root fs env dir"
  by (auto simp: validate_project_dir_def below_allowed_root_def res_bind_eq_Inr split: if_splits sum.splits)

lemma made_cli:
  assumes "make_runflare_cli fs env project_dir = Inr c"
  shows "basename (rc_binary c) = ''runflare'' \<and> fs_is_dir fs (rc_project_dir c) = Inr True \<and>
    below_allowed_root fs env (rc_project_dir c)"
  using assms
  by (auto simp: make_runflare_cli_def validated_dir Let_def res_bind_eq_Inr split: if_splits)

text \<open>A Runflare tool runs exactly one process: the command its name stands for, of an executable
  named \<open>runflare\<close>, in the configured project directory, which lies under the allowed root
  where one is set. Nothing of it depends on the caller.\<close>

theorem runflare_runs_fixed_command:
  assumes "make_runflare_cli fs env project_dir = Inr c"
  shows "fst (runflare_tool (logged_run outcome) c call []) =
      [(rc_binary c # call_command call, Some (rc_project_dir c))] \<and>
    basename (rc_binary c) = ''runflare'' \<and> fs_is_dir fs (rc_project_dir c) = Inr True \<and>
    below_allowed_root fs env (rc_project_dir c)"
  using made_cli [OF assms]
  by (simp add: runflare_tool_def fst_then_return operation_runs_command logged_run_def)

text \<open>A file system in which every absolute path is a directory and no user has a home directory.\<close>

definition demo_fs :: file_system where
  "demo_fs =
     \<lparr>fs_resolve = (\<lambda>p. if py_startswith p ''~'' then Inl (PyError ''RuntimeError'' ''Could not determine home directory.'')
        else Inr (filter (\<lambda>w. w \<noteq> []) (py_split CHR ''/'' p))),
      fs_is_dir = (\<lambda>_. Inr True)\<rparr>"

definition demo_runflare_env :: environ where
  "demo_runflare_env =
     map_of [(''RUNFLARE_PROJECT_DIR'', ''/srv/app''), (''RUNFLARE_ALLOWED_PROJECT_ROOT'', ''/srv''),
             (''RUNFLARE_BIN'', ''/opt/bin/runflare'')]"

lemma demo_cli:
  "make_runflare_cli demo_fs demo_runflare_env None =
     Inr \<lparr>rc_binary = ''/opt/bin/runflare'', rc_timeout = 120, rc_max_output = 12000, rc_project_dir = [''srv'', ''app'']\<rparr>"
  by code_simp

theorem runflare_runs_fixed_command_witness:
  "fst (runflare_tool (logged_run (\<lambda>_. Expired))
      \<lparr>rc_binary = ''/opt/bin/runflare'', rc_timeout = 120, rc_max_output = 12000, rc_project_dir = [''srv'', ''app'']\<rparr>
      Rf_deploy []) = [([''/opt/bin/runflare'', ''deploy'', ''-y''], Some [''srv'', ''app''])]"
  using runflare_runs_fixed_command [OF demo_cli, of "\<lambda>_. Expired" Rf_deploy] by simp

definition harmless_probe :: "string list \<times> string list option \<Rightarrow> bool" where
  "harmless_probe start \<longleftrightarrow>
     snd start = None \<and> (tl (fst start) = [''version''] \<or> last (fst start) = ''--help'')"

lemma keeps_probe: "args = [''version''] \<or> last (b # args) = ''--help'' \<Longrightarrow>
  keeps (list_all harmless_probe) (probe (logged_run outcome) b args)"
  by (auto simp: keeps_def probe_def logged_run_def harmless_probe_def)

text \<open>The compatibility probe only asks for versions and help texts: whatever the program prints,
  no probe starts a deployment or another mutation.\<close>

theorem probe_is_read_only:
  "list_all harmless_probe (fst (probe_compatibility (logged_run outcome) env binary []))"
proof -
  have "keeps (list_all harmless_probe) (probe_compatibility (logged_run outcome) env binary)"
    unfolding probe_compatibility_def Let_def
    by (intro net_rules keeps_probe) simp_all
  then show ?thesis by (rule keepsD) simp
qed

lemma py_take_length: "0 \<le> limit \<Longrightarrow> int (length (py_take limit s)) \<le> limit"
  by (simp add: py_take_def)

text \<open>What a tool returns of a process's output is bounded by the configured limit and a short mark.\<close>

lemma redacted_output_bounded: "0 \<le> limit \<Longrightarrow> int (length (runflare_redact t limit)) \<le> limit + 19"
  using py_take_length [of limit] by (simp add: runflare_redact_def Let_def)

section \<open>With the server\<close>

text \<open>The exception classes that \<open>except (OSError, ValueError)\<close> catches.\<close>

definition OS_ERROR_CLASSES :: "string list" where
  "OS_ERROR_CLASSES =
     [''OSError'', ''BlockingIOError'', ''ChildProcessError'', ''ConnectionError'', ''BrokenPipeError'',
      ''ConnectionAbortedError'', ''ConnectionRefusedError'', ''ConnectionResetError'', ''FileExistsError'',
      ''FileNotFoundError'', ''InterruptedError'', ''IsADirectoryError'', ''NotADirectoryError'', ''PermissionError'',
      ''ProcessLookupError'', ''TimeoutError'']"

definition VALUE_ERROR_CLASSES :: "string list" where
  "VALUE_ERROR_CLASSES = [''ValueError'', ''UnicodeError'', ''UnicodeDecodeError'', ''UnicodeEncodeError'']"

definition setup_caught :: "pyexn \<Rightarrow> bool" where
  "setup_caught e \<longleftrightarrow> exn_class_name e \<in> set (OS_ERROR_CLASSES @ VALUE_ERROR_CLASSES)"

text \<open>
  The provider that \<open>ServerRuntime.create\<close> sets up: absent when no directory is set, or when its
  construction raises an \<open>OSError\<close> or \<open>ValueError\<close>; any other exception passes.
\<close>

definition construct_cli :: "file_system \<Rightarrow> environ \<Rightarrow> runflare_cli option result" where
  "construct_cli fs env =
     (if falsy (env ''RUNFLARE_PROJECT_DIR'') then Inr None
      else case make_runflare_cli fs env None of
             Inr c \<Rightarrow> Inr (Some c)
           | Inl e \<Rightarrow> if setup_caught e then Inr None else Inl e)"

definition provider_present :: "file_system \<Rightarrow> environ \<Rightarrow> bool result" where
  "provider_present fs env = map_sum id (\<lambda>cli. cli \<noteq> None) (construct_cli fs env)"

lemma provider_present_iff:
  "provider_present fs env = Inr rf \<longleftrightarrow> (\<exists>cli. construct_cli fs env = Inr cli \<and> rf = (cli \<noteq> None))"
  by (auto simp: provider_present_def map_sum_def split: sum.split)

lemma constructed_cli:
  assumes "construct_cli fs env = Inr (Some c)"
  shows "\<not> falsy (env ''RUNFLARE_PROJECT_DIR'') \<and> make_runflare_cli fs env None = Inr c \<and>
    fs_resolve fs (the (env ''RUNFLARE_PROJECT_DIR'')) = Inr (rc_project_dir c)"
proof -
  from assms have "\<not> falsy (env ''RUNFLARE_PROJECT_DIR'')" and made: "make_runflare_cli fs env None = Inr c"
    by (auto simp: construct_cli_def split: if_splits sum.splits)
  with made show ?thesis
    by (auto simp: make_runflare_cli_def validated_dir Let_def res_bind_eq_Inr falsy_def split: if_splits)
qed

lemma runflare_tool_names: "map td_name RUNFLARE_TOOL_DEFINITIONS = governed_runflare"
  by (simp add: RUNFLARE_TOOL_DEFINITIONS_def governed_runflare_def)

lemma served_runflare_needs_provider:
  assumes "n \<in> set (governed_tools rf av)" and "n \<in> set (map rd_name RUNFLARE_CAPABILITY_DEFINITIONS)"
  shows "rf \<and> n \<in> set governed_runflare \<and> n \<noteq> ''runflare_stop''"
proof -
  have "''runflare_stop'' \<notin> set (governed_tools True av)" and "rf \<or> n \<notin> set governed_runflare"
    using assms(1)
    by (auto simp: governed_tools_def governed_docs_def governed_github_def governed_registry_def governed_runflare_def
        governed_operations_def TOOL_GOV_PING_LOW_RISK_def TOOL_GOV_APPLY_MARK_def)
  moreover have "n \<noteq> ''runflare_stop''"
    using assms(1) calculation(1) by (auto simp: governed_tools_def split: if_splits)
  ultimately show ?thesis
    using assms(2) unfolding definition_names by auto
qed

text \<open>C25: The server serves a Runflare tool only when a provider could be set up: with an executable
  whose file name is \<open>runflare\<close> and with the configured project directory, which exists and, where
  an allowed root is configured, lies below it (without one it may be any directory). The
  capability \<open>runflare_stop\<close> is never served.\<close>

theorem served_runflare_is_scoped:
  assumes "create_runtime config (Some reg) av (provider_present fs env) dg gg pol rec gov = Inr rt"
    and "n \<in> set (sr_tools rt)" and "n \<in> set (map rd_name RUNFLARE_CAPABILITY_DEFINITIONS)"
  shows "n \<in> set (map td_name RUNFLARE_TOOL_DEFINITIONS) \<and> n \<noteq> ''runflare_stop'' \<and>
    (\<exists>c. construct_cli fs env = Inr (Some c) \<and> basename (rc_binary c) = ''runflare'' \<and>
       fs_resolve fs (the (env ''RUNFLARE_PROJECT_DIR'')) = Inr (rc_project_dir c) \<and>
       fs_is_dir fs (rc_project_dir c) = Inr True \<and> below_allowed_root fs env (rc_project_dir c))"
proof -
  obtain rf where rf: "provider_present fs env = Inr rf" and tools: "sr_tools rt = governed_tools rf av"
    using assms(1) by (rule create_runtime_facts)
  have n: "rf" "n \<in> set governed_runflare" "n \<noteq> ''runflare_stop''"
    using served_runflare_needs_provider [of n rf av] assms(2,3) by (simp_all add: tools)
  then obtain c where c: "construct_cli fs env = Inr (Some c)"
    using rf by (auto simp: provider_present_iff)
  with n made_cli [of fs env None c] constructed_cli [OF c] show ?thesis
    by (auto simp flip: runflare_tool_names)
qed

theorem served_runflare_is_scoped_witness:
  "\<exists>rt. create_runtime (Some demo_config) (Some []) False (provider_present demo_fs demo_runflare_env)
       False False None memory_record None = Inr rt \<and>
     ''runflare_deploy'' \<in> set (sr_tools rt) \<and>
     (\<exists>c. construct_cli demo_fs demo_runflare_env = Inr (Some c) \<and> below_allowed_root demo_fs demo_runflare_env (rc_project_dir c))"
proof -
  have present: "provider_present demo_fs demo_runflare_env = Inr True"
    by (simp add: provider_present_def construct_cli_def demo_cli) (simp add: demo_runflare_env_def falsy_def)
  have "wf_config demo_config" by code_simp
  from standard_created [OF this, of False True False False memory_record]
  obtain rt where
    rt: "create_runtime (Some demo_config) (Some []) False (provider_present demo_fs demo_runflare_env)
           False False None memory_record None = Inr rt"
    and tools: "sr_tools rt = governed_tools True False"
    unfolding present by blast
  have served: "''runflare_deploy'' \<in> set (sr_tools rt)"
    by (simp add: tools governed_tools_def governed_runflare_def)
  have "''runflare_deploy'' \<in> set (map rd_name RUNFLARE_CAPABILITY_DEFINITIONS)"
    unfolding definition_names by (simp add: governed_runflare_def)
  from served_runflare_is_scoped [OF rt served this] rt served show ?thesis by blast
qed

end
