(* ===== verification/Server_Tools.thy ===== *)
theory Server_Tools
  imports Project_Registry Github Operations Runflare
begin

text \<open>
  The bodies of the served tools: the methods of the toolsets, called with the arguments of a
  client, over one world in which every request and every process start is recorded. What the
  services answer is an arbitrary function of everything that has happened before.
\<close>

section \<open>The world outside\<close>

datatype effect =
    Request string sdict
  | Gateway "string list" string
  | Command "string list" "string list option"

record outside =
  ou_http :: "effect list \<Rightarrow> string \<Rightarrow> http_answer"
  ou_gateway :: "effect list \<Rightarrow> proc_outcome"
  ou_command :: "effect list \<Rightarrow> run_outcome"
  ou_json :: "string \<Rightarrow> decoded"
  ou_yaml :: "(string \<Rightarrow> decoded) option"
  ou_base64 :: "string \<Rightarrow> string option"
  ou_machine :: machine

definition docs_wire :: "outside \<Rightarrow> effect list requester" where
  "docs_wire w url headers timeout log =
     (let log' = log @ [Request url headers] in (log', docs_answer (ou_json w) (ou_http w log' url)))"

text \<open>The GitHub reader may repeat a request (theory \<open>Reliability\<close>); its answer does not depend on the
  logger.\<close>

definition github_wire :: "outside \<Rightarrow> effect list requester" where
  "github_wire w url headers timeout log =
     (let sent = (\<lambda>k. log @ replicate k (Request url headers));
          (tr, r) = github_get_json (mc_request_id (ou_machine w)) (\<lambda>i. ou_http w (sent (Suc i)) url) (ou_json w)
                      MAX_RESPONSE_BYTES \<lparr>lg_level = ''INFO'', lg_stream_handlers = 1\<rparr> []
      in (sent (gt_requests tr), r))"

definition gateway_wire :: "outside \<Rightarrow> effect list spawner" where
  "gateway_wire w argv input timeout log =
     (let log' = log @ [Gateway argv input] in (log', ou_gateway w log'))"

definition command_wire :: "outside \<Rightarrow> effect list runner" where
  "command_wire w argv cwd timeout log =
     (let log' = log @ [Command argv cwd] in (log', ou_command w log'))"

section \<open>Calling a method\<close>

text \<open>A parameter and its default.\<close>

type_synonym parameters = "(string \<times> pyval option) list"

text \<open>\<open>'a'\<close>, \<open>'a' and 'b'\<close>, \<open>'a', 'b', and 'c'\<close>\<close>

fun name_series :: "string list \<Rightarrow> string" where
  "name_series [] = []"
| "name_series [a] = str_repr a"
| "name_series [a, b] = str_repr a @ '' and '' @ str_repr b"
| "name_series [a, b, c] = str_repr a @ '', '' @ str_repr b @ '', and '' @ str_repr c"
| "name_series (a # ns) = str_repr a @ '', '' @ name_series ns"

definition plural :: "nat \<Rightarrow> string \<Rightarrow> string" where
  "plural n s = s @ (if n = 1 then [] else ''s'')"

definition type_error :: "string \<Rightarrow> string \<Rightarrow> pyexn" where
  "type_error f msg = PyError ''TypeError'' (f @ ''() '' @ msg)"

text \<open>
  The call of a bound method: keyword arguments are checked first, then the number of
  positional ones (which counts the object), then what is missing.
\<close>

definition bind_parameters :: "string \<Rightarrow> parameters \<Rightarrow> pyval list \<Rightarrow> sdict \<Rightarrow> pyval list result" where
  "bind_parameters f ps args kwargs =
     (let names = map fst ps; taken = take (length args) names; rest = drop (length args) ps;
          required = length (filter (\<lambda>(n, d). d = None) ps);
          missing = map fst (filter (\<lambda>(n, d). d = None \<and> dict_get kwargs n = None) rest) in
      case find (\<lambda>(k, v). k \<notin> set names \<or> k \<in> set taken) kwargs of
        Some (k, _) \<Rightarrow>
          Inl (type_error f (if k \<notin> set names then ''got an unexpected keyword argument '' @ str_repr k
                             else ''got multiple values for argument '' @ str_repr k))
      | None \<Rightarrow>
          if length ps < length args then
            Inl (type_error f (''takes '' @
              (if required = length ps then show_nat (Suc (length ps)) @ '' '' @ plural (Suc (length ps)) ''positional argument''
               else ''from '' @ show_nat (Suc required) @ '' to '' @ show_nat (Suc (length ps)) @ '' positional arguments'')
              @ '' but '' @ show_nat (Suc (length args)) @ '' were given''))
          else if missing \<noteq> [] then
            Inl (type_error f (''missing '' @ show_nat (length missing) @ '' required '' @
              plural (length missing) ''positional argument'' @ '': '' @ name_series missing))
          else Inr (args @ map (\<lambda>(n, d). case dict_get kwargs n of Some v \<Rightarrow> v | None \<Rightarrow> the d) rest))"

record tool_method =
  tm_name :: string
  tm_params :: parameters
  tm_body :: "pyval list \<Rightarrow> (effect list, sdict) net"

definition call_method :: "tool_method \<Rightarrow> effect list tool_fn" where
  "call_method m args kwargs log =
     (case bind_parameters (tm_name m) (tm_params m) args kwargs of
        Inl e \<Rightarrow> (log, Inl e)
      | Inr vs \<Rightarrow> (case tm_body m vs log of (log', r) \<Rightarrow> (log', map_sum id vdict r)))"

section \<open>The methods the server adds\<close>

text \<open>What \<open>ServerRuntime.create\<close> binds the tools to.\<close>

record server_parts =
  sp_docs :: docs_adapter
  sp_github :: github_adapter
  sp_operations :: operations_adapter
  sp_cli :: "runflare_cli option"

definition docs_methods :: "outside \<Rightarrow> docs_adapter \<Rightarrow> (string \<times> tool_method) list" where
  "docs_methods w a =
     (let req = docs_wire w; dec = ou_base64 w in
      [(''yasin_docs_list_documents'', \<lparr>tm_name = ''DocsToolset.list_documents'', tm_params = [],
          tm_body = \<lambda>vs. tool_list_documents req a\<rparr>),
       (''yasin_docs_get_document'', \<lparr>tm_name = ''DocsToolset.get_document'', tm_params = [(''path'', None)],
          tm_body = \<lambda>vs. tool_get_document req dec a (vs ! 0)\<rparr>),
       (''yasin_docs_search'', \<lparr>tm_name = ''DocsToolset.search'', tm_params = [(''query'', None), (''path_prefix'', Some VNone)],
          tm_body = \<lambda>vs. tool_search req dec a (vs ! 0) (vs ! 1)\<rparr>),
       (''yasin_docs_list_adrs'', \<lparr>tm_name = ''DocsToolset.list_adrs'', tm_params = [],
          tm_body = \<lambda>vs. tool_list_adrs req a\<rparr>),
       (''yasin_docs_get_adr'', \<lparr>tm_name = ''DocsToolset.get_adr'', tm_params = [(''name'', None)],
          tm_body = \<lambda>vs. tool_get_adr req dec a (vs ! 0)\<rparr>),
       (''yasin_docs_list_architecture'', \<lparr>tm_name = ''DocsToolset.list_architecture'', tm_params = [],
          tm_body = \<lambda>vs. tool_list_architecture req a\<rparr>),
       (''yasin_docs_get_project_architecture'', \<lparr>tm_name = ''DocsToolset.get_project_architecture'',
          tm_params = [(''project'', None)], tm_body = \<lambda>vs. tool_get_project_architecture req dec a (vs ! 0)\<rparr>)])"

definition registry_methods :: "outside \<Rightarrow> docs_adapter \<Rightarrow> (string \<times> tool_method) list" where
  "registry_methods w a =
     (let fetch = get_doc (docs_wire w) (ou_base64 w) a in
      [(''yasin_registry_list_projects'', \<lparr>tm_name = ''RegistryToolset.list_projects'', tm_params = [],
          tm_body = \<lambda>vs. tool_list_projects fetch (ou_yaml w)\<rparr>),
       (''yasin_registry_get_project'', \<lparr>tm_name = ''RegistryToolset.get_project'', tm_params = [(''name'', None)],
          tm_body = \<lambda>vs. tool_get_project fetch (ou_yaml w) (vs ! 0)\<rparr>),
       (''yasin_registry_list_dependencies'', \<lparr>tm_name = ''RegistryToolset.list_dependencies'', tm_params = [(''name'', None)],
          tm_body = \<lambda>vs. tool_list_dependencies fetch (ou_yaml w) (vs ! 0)\<rparr>)])"

definition repo_params :: "parameters \<Rightarrow> parameters" where
  "repo_params extra = [(''owner'', None), (''repository'', None)] @ extra"

text \<open>The ten methods: tool, method, further parameters, and the call.\<close>

definition github_methods :: "outside \<Rightarrow> github_adapter \<Rightarrow> (string \<times> tool_method) list" where
  "github_methods w g =
     (let m = (\<lambda>tool name extra call. (tool, \<lparr>tm_name = ''GitHubToolset.'' @ name, tm_params = repo_params extra,
            tm_body = \<lambda>vs. github_tool (github_wire w) g (call vs)\<rparr>));
          limit = [(''limit'', Some (VInt 20))] in
      [m ''yasin_github_get_repository'' ''get_repository'' [] (\<lambda>vs. Get_repository (vs ! 0) (vs ! 1)),
       m ''yasin_github_list_issues'' ''list_issues'' limit (\<lambda>vs. List_issues (vs ! 0) (vs ! 1) (vs ! 2)),
       m ''yasin_github_get_issue'' ''get_issue'' [(''number'', None)] (\<lambda>vs. Get_issue (vs ! 0) (vs ! 1) (vs ! 2)),
       m ''yasin_github_list_pull_requests'' ''list_pull_requests'' limit
         (\<lambda>vs. List_pull_requests (vs ! 0) (vs ! 1) (vs ! 2)),
       m ''yasin_github_get_pull_request'' ''get_pull_request'' [(''number'', None)]
         (\<lambda>vs. Get_pull_request (vs ! 0) (vs ! 1) (vs ! 2)),
       m ''yasin_github_list_commits'' ''list_commits'' limit (\<lambda>vs. List_commits (vs ! 0) (vs ! 1) (vs ! 2)),
       m ''yasin_github_get_commit_status'' ''get_commit_status'' [(''sha'', None)]
         (\<lambda>vs. Get_commit_status (vs ! 0) (vs ! 1) (vs ! 2)),
       m ''yasin_github_list_workflow_runs'' ''list_workflow_runs'' limit
         (\<lambda>vs. List_workflow_runs (vs ! 0) (vs ! 1) (vs ! 2)),
       m ''yasin_github_list_branches'' ''list_branches'' limit (\<lambda>vs. List_branches (vs ! 0) (vs ! 1) (vs ! 2)),
       m ''yasin_github_list_releases'' ''list_releases'' limit (\<lambda>vs. List_releases (vs ! 0) (vs ! 1) (vs ! 2))])"

definition governance_methods :: "(string \<times> tool_method) list" where
  "governance_methods =
     [(TOOL_GOV_PING_LOW_RISK, \<lparr>tm_name = ''GovernanceReferenceToolset.ping_low_risk'', tm_params = [],
         tm_body = \<lambda>vs. net_return ping_low_risk\<rparr>),
      (TOOL_GOV_APPLY_MARK, \<lparr>tm_name = ''GovernanceReferenceToolset.apply_mark'',
         tm_params = [(''mark'', Some (VStr ''stage11''))], tm_body = \<lambda>vs. net_return (apply_mark (vs ! 0))\<rparr>)]"

definition runflare_methods :: "outside \<Rightarrow> runflare_cli \<Rightarrow> (string \<times> tool_method) list" where
  "runflare_methods w c =
     map (\<lambda>(name, call). (''runflare_'' @ name, \<lparr>tm_name = ''RunflareToolset.'' @ name, tm_params = [],
            tm_body = \<lambda>vs. runflare_tool (command_wire w) c call\<rparr>))
       [(''status'', Rf_status), (''events'', Rf_events), (''logs'', Rf_logs), (''deploy'', Rf_deploy),
        (''start'', Rf_start), (''restart'', Rf_restart)]"

definition operations_methods :: "outside \<Rightarrow> operations_adapter \<Rightarrow> (string \<times> tool_method) list" where
  "operations_methods w a =
     (let m = (\<lambda>name ps call. (''yasin_operations_'' @ name, \<lparr>tm_name = ''OperationsToolset.'' @ name, tm_params = ps,
            tm_body = \<lambda>vs. operations_tool (gateway_wire w) (ou_json w) (ou_machine w) a (call vs)\<rparr>)) in
      [m ''list_services'' [] (\<lambda>vs. Ops_list_services),
       m ''service_status'' [(''service_name'', None)] (\<lambda>vs. Ops_service_status (vs ! 0)),
       m ''health'' [] (\<lambda>vs. Ops_health), m ''diagnostics'' [] (\<lambda>vs. Ops_diagnostics)])"

text \<open>The calls of \<open>add_governed\<close>, in their order; \<open>operations\<close>: the gateway was available.\<close>

definition served_methods :: "outside \<Rightarrow> server_parts \<Rightarrow> bool \<Rightarrow> (string \<times> tool_method) list" where
  "served_methods w p operations =
     docs_methods w (sp_docs p) @ github_methods w (sp_github p) @ registry_methods w (sp_docs p) @ governance_methods
     @ (case sp_cli p of Some c \<Rightarrow> runflare_methods w c | None \<Rightarrow> [])
     @ (if operations then operations_methods w (sp_operations p) else [])"

definition served_tool :: "outside \<Rightarrow> server_parts \<Rightarrow> bool \<Rightarrow> string \<Rightarrow> effect list tool_fn option" where
  "served_tool w p operations name = map_option call_method (dict_get (served_methods w p operations) name)"

lemma method_names:
  "map fst (docs_methods w a) = governed_docs" "map fst (github_methods w g) = governed_github"
  "map fst (registry_methods w a) = governed_registry" "map fst (runflare_methods w c) = governed_runflare"
  "map fst governance_methods = [TOOL_GOV_PING_LOW_RISK, TOOL_GOV_APPLY_MARK]"
  "map fst (operations_methods w oa) = governed_operations"
  by (simp_all add: docs_methods_def github_methods_def registry_methods_def runflare_methods_def governance_methods_def
      operations_methods_def Let_def governed_docs_def governed_github_def governed_registry_def governed_runflare_def
      governed_operations_def)

text \<open>The methods are exactly the tools that the runtime lists.\<close>

lemma served_names: "map fst (served_methods w p operations) = governed_tools (sp_cli p \<noteq> None) operations"
  by (cases "sp_cli p") (simp_all add: served_methods_def governed_tools_def method_names)

lemma served_tool_iff: "served_tool w p operations n \<noteq> None \<longleftrightarrow> n \<in> set (governed_tools (sp_cli p \<noteq> None) operations)"
  unfolding served_tool_def served_names [of w p operations, symmetric] by (simp add: map_of_eq_None_iff)

section \<open>What a tool does outside\<close>

fun runflare_tool_name :: "runflare_call \<Rightarrow> string" where
  "runflare_tool_name Rf_status = ''runflare_status''"
| "runflare_tool_name Rf_events = ''runflare_events''"
| "runflare_tool_name Rf_logs = ''runflare_logs''"
| "runflare_tool_name Rf_deploy = ''runflare_deploy''"
| "runflare_tool_name Rf_start = ''runflare_start''"
| "runflare_tool_name Rf_restart = ''runflare_restart''"

fun docs_effect :: "docs_adapter \<Rightarrow> effect \<Rightarrow> bool" where
  "docs_effect a (Request url headers) = docs_request_ok a url headers"
| "docs_effect a _ = False"

fun github_effect :: "github_adapter \<Rightarrow> effect \<Rightarrow> bool" where
  "github_effect g (Request url headers) = repo_request g url headers"
| "github_effect g _ = False"

fun gateway_effect :: "machine \<Rightarrow> operations_adapter \<Rightarrow> effect \<Rightarrow> bool" where
  "gateway_effect mc a (Gateway argv input) = gateway_start mc a (argv, input)"
| "gateway_effect mc a _ = False"

fun command_effect :: "runflare_cli \<Rightarrow> runflare_call \<Rightarrow> effect \<Rightarrow> bool" where
  "command_effect c call (Command argv cwd) = (argv = rc_binary c # call_command call \<and> cwd = Some (rc_project_dir c))"
| "command_effect c call _ = False"

text \<open>What the tool of a name may do.\<close>

definition allowed_effect :: "outside \<Rightarrow> server_parts \<Rightarrow> string \<Rightarrow> effect \<Rightarrow> bool" where
  "allowed_effect w p n e \<longleftrightarrow>
     n \<in> set (governed_docs @ governed_registry) \<and> docs_effect (sp_docs p) e \<or>
     n \<in> set governed_github \<and> github_effect (sp_github p) e \<or>
     n \<in> set governed_operations \<and> gateway_effect (ou_machine w) (sp_operations p) e \<or>
     (\<exists>c call. sp_cli p = Some c \<and> n = runflare_tool_name call \<and> command_effect c call e)"

definition grows :: "effect list \<Rightarrow> (effect \<Rightarrow> bool) \<Rightarrow> effect list \<Rightarrow> bool" where
  "grows base ok log \<longleftrightarrow> (\<exists>new. log = base @ new \<and> list_all ok new)"

lemma grows_append: "grows base ok log \<Longrightarrow> list_all ok es \<Longrightarrow> grows base ok (log @ es)"
  by (auto simp: grows_def)

lemma grows_mono: "grows base ok log \<Longrightarrow> (\<And>e. ok e \<Longrightarrow> ok' e) \<Longrightarrow> grows base ok' log"
  by (auto simp: grows_def list_all_iff)

lemma keeps_grows_mono:
  "keeps (grows base ok) m \<Longrightarrow> (\<And>e. ok e \<Longrightarrow> ok' e) \<Longrightarrow> grows base ok' (fst (m base))"
  using keepsD [of "grows base ok" m base] by (auto simp: grows_def list_all_iff)

interpretation wire: docs_traffic "docs_wire w" "grows base (docs_effect a)" "docs_request_ok a" a
  for w base a
  by unfold_locales (auto simp: keeps_def docs_wire_def Let_def intro: grows_append)

lemma docs_methods_confined:
  "(n, m) \<in> set (docs_methods w a) \<union> set (registry_methods w a) \<Longrightarrow> keeps (grows base (docs_effect a)) (tm_body m vs)"
  by (auto simp: docs_methods_def registry_methods_def Let_def wire.keeps_tools wire.keeps_registry_tools)

lemma github_methods_confined:
  assumes "(n, m) \<in> set (github_methods w g)"
  shows "keeps (grows base (github_effect g)) (tm_body m vs)"
proof -
  from assms obtain call where "tm_body m vs = github_tool (github_wire w) g call"
    by (auto simp: github_methods_def Let_def simp del: github_tool.simps)
  moreover have "keeps (grows base (github_effect g)) (github_tool (github_wire w) g call)"
    by (rule keeps_one [OF one_github_tool])
      (auto simp: requests_def github_wire_def Let_def list_all_iff split: prod.split intro!: grows_append)
  ultimately show ?thesis by simp
qed

lemma operations_methods_confined:
  assumes "(n, m) \<in> set (operations_methods w a)"
  shows "keeps (grows base (gateway_effect (ou_machine w) a)) (tm_body m vs)"
proof -
  from assms obtain call where "tm_body m vs = operations_tool (gateway_wire w) (ou_json w) (ou_machine w) a call"
    by (auto simp: operations_methods_def Let_def simp del: operations_tool.simps)
  moreover have "keeps (grows base (gateway_effect (ou_machine w) a))
      (operations_tool (gateway_wire w) (ou_json w) (ou_machine w) a call)"
    by (rule keeps_one [OF one_operations_tool]) (auto simp: starts_def gateway_wire_def Let_def intro!: grows_append)
  ultimately show ?thesis by simp
qed

lemma runflare_methods_confined:
  assumes "(n, m) \<in> set (runflare_methods w c)"
  obtains call where "n = runflare_tool_name call" and "keeps (grows base (command_effect c call)) (tm_body m vs)"
proof -
  have "\<exists>call. n = runflare_tool_name call \<and> tm_body m vs = runflare_tool (command_wire w) c call"
    using assms unfolding runflare_methods_def by (auto; metis runflare_tool_name.simps)
  then obtain call where "n = runflare_tool_name call" and "tm_body m vs = runflare_tool (command_wire w) c call"
    by blast
  moreover have "keeps (grows base (command_effect c call)) (runflare_tool (command_wire w) c call)"
    by (auto simp: keeps_def runflare_tool_def fst_then_return operation_runs_command command_wire_def Let_def
        intro!: grows_append)
  ultimately show ?thesis using that by simp
qed

lemma governance_methods_confined: "(n, m) \<in> set governance_methods \<Longrightarrow> keeps P (tm_body m vs)"
  by (auto simp: governance_methods_def intro: net_rules)

lemma method_listed: "(n, m) \<in> set ms \<Longrightarrow> map fst ms = names \<Longrightarrow> n \<in> set names"
  by force

lemma served_method_confined:
  assumes "(n, m) \<in> set (served_methods w p operations)"
  shows "grows log (allowed_effect w p n) (fst (tm_body m vs log))"
proof -
  consider (docs) "(n, m) \<in> set (docs_methods w (sp_docs p))" | (registry) "(n, m) \<in> set (registry_methods w (sp_docs p))"
    | (github) "(n, m) \<in> set (github_methods w (sp_github p))" | (gov) "(n, m) \<in> set governance_methods"
    | (cli) c where "sp_cli p = Some c" "(n, m) \<in> set (runflare_methods w c)"
    | (ops) "(n, m) \<in> set (operations_methods w (sp_operations p))"
    using assms by (cases "sp_cli p") (auto simp: served_methods_def split: if_splits)
  then show ?thesis
  proof cases
    case docs
    with method_listed [OF docs method_names(1)] show ?thesis
      by (intro keeps_grows_mono [OF docs_methods_confined [of n m w "sp_docs p"]]) (simp_all add: allowed_effect_def)
  next
    case registry
    with method_listed [OF registry method_names(3)] show ?thesis
      by (intro keeps_grows_mono [OF docs_methods_confined [of n m w "sp_docs p"]]) (simp_all add: allowed_effect_def)
  next
    case github
    with method_listed [OF github method_names(2)] show ?thesis
      by (intro keeps_grows_mono [OF github_methods_confined [OF github]]) (simp_all add: allowed_effect_def)
  next
    case gov
    show ?thesis
      by (rule keepsD [OF governance_methods_confined [OF gov]]) (simp add: grows_def)
  next
    case cli
    obtain call where n: "n = runflare_tool_name call" and body: "keeps (grows log (command_effect c call)) (tm_body m vs)"
      using runflare_methods_confined [OF cli(2)] by blast
    show ?thesis
      by (rule keeps_grows_mono [OF body]) (use cli(1) n in \<open>auto simp: allowed_effect_def\<close>)
  next
    case ops
    with method_listed [OF ops method_names(6)] show ?thesis
      by (intro keeps_grows_mono [OF operations_methods_confined [OF ops]]) (simp_all add: allowed_effect_def)
  qed
qed

lemma served_tool_confined:
  assumes "served_tool w p operations n = Some fn" and "fn args kwargs log = (log', r)"
  shows "\<exists>new. log' = log @ new \<and> list_all (allowed_effect w p n) new"
proof -
  obtain m where "(n, m) \<in> set (served_methods w p operations)" and fn: "fn = call_method m"
    using assms(1) by (auto simp: served_tool_def dest: map_of_SomeD)
  have "grows log (allowed_effect w p n) (fst (tm_body m vs log))" for vs
    using \<open>(n, m) \<in> set (served_methods w p operations)\<close> by (rule served_method_confined)
  with assms(2) show ?thesis
    by (auto simp: fn call_method_def grows_def map_prod_def split: sum.splits prod.splits) (metis fst_conv)
qed

end
