(* ===== verification/Logging.thy ===== *)
theory Logging
  imports Audit_Trail
begin

text \<open>
  The lines that the configured logger writes (\<open>audit/logging_setup.py\<close>), the
  request id in scope (\<open>audit/context.py\<close>), and traced operations (\<open>audit/traced.py\<close>). A
  context variable is a value passed through; the log is the list of the records made.
\<close>

section \<open>The lines the logger writes\<close>

text \<open>A logger at \<open>NOTSET\<close> takes the level of the root logger, \<open>WARNING\<close>.\<close>

definition enabled_for :: "logger \<Rightarrow> int \<Rightarrow> bool" where
  "enabled_for lg level \<longleftrightarrow>
     (case level_number (lg_level lg) of None \<Rightarrow> False | Some n \<Rightarrow> (if n = 0 then 30 else n) \<le> level)"

definition level_name :: "int \<Rightarrow> string" where
  "level_name n =
     (if n = 50 then ''CRITICAL'' else if n = 40 then ''ERROR'' else if n = 30 then ''WARNING'' else if n = 20 then ''INFO''
      else if n = 10 then ''DEBUG'' else if n = 0 then ''NOTSET'' else ''Level '' @ show_int n)"

text \<open>
  \<open>JsonFormatter.format\<close> in the handler that \<open>configure_logging\<close> adds: one text per enabled
  record; the handler drops a record that cannot be written as JSON.
\<close>

definition format_line :: "string \<Rightarrow> log_record \<Rightarrow> string option" where
  "format_line name r =
     json_dumps True '', '' '': '' (objects_as_text (format_record (level_name (lr_level r)) name r))"

definition log_lines :: "logger \<Rightarrow> string \<Rightarrow> log_record list \<Rightarrow> string list" where
  "log_lines lg name records =
     List.map_filter (format_line name) (filter (\<lambda>r. enabled_for lg (lr_level r)) records)"

section \<open>The request id in scope\<close>

text \<open>
  \<open>request_scope\<close>: the body runs with the given id, or a generated one, in the context variable;
  the token that \<open>set\<close> returned puts the old value back, whatever the body did.
\<close>

definition request_scope ::
  "string option \<Rightarrow> string \<Rightarrow> (string \<Rightarrow> string option \<Rightarrow> string option \<times> 'a) \<Rightarrow> string option \<Rightarrow> string option \<times> 'a" where
  "request_scope request_id fresh body var =
     (let rid = (if falsy request_id then fresh else the request_id); (var', r) = body rid (Some rid) in (var, r))"

text \<open>
  \<open>run_traced\<close>: \<open>INFO\<close> (20) at the start and the end, \<open>ERROR\<close> (40) with the first 500
  characters of the exception text when the operation raises. \<open>fresh\<close> is the generated
  request id; the operation reads the context variable and may set it.
\<close>

definition exn_text :: "pyexn \<Rightarrow> string" where
  "exn_text e = (case e of Mcp m \<Rightarrow> mcp_error_str m | PyError _ s \<Rightarrow> s | ToolError s \<Rightarrow> s)"

definition ensure_logger :: "logger \<Rightarrow> logger result" where
  "ensure_logger lg = configure_logging ''INFO'' lg"

definition run_traced ::
  "string \<Rightarrow> (string option \<Rightarrow> string option \<times> 'a result) \<Rightarrow> sdict \<Rightarrow> string option \<Rightarrow> string \<Rightarrow>
   string option \<Rightarrow> logger \<Rightarrow> log_record list \<Rightarrow> logger \<times> string option \<times> log_record list \<times> 'a result" where
  "run_traced operation fn flds request_id fresh var lg log =
     (case ensure_logger lg of
        Inl e \<Rightarrow> (lg, var, log, Inl e)
      | Inr lg' \<Rightarrow> (lg', request_scope request_id fresh (\<lambda>rid var.
       let merged = dict_update [(''operation'', VStr operation)] (redact_dict flds);
           log1 = log_with_context 20 (''start:'' @ operation) (Some rid) (vdict merged) log;
           (var', r) = fn var
       in case r of
            Inl exc \<Rightarrow>
              (var', log_with_context 40 (''error:'' @ operation) (Some rid)
                 (vdict [(''operation'', VStr operation), (''error_type'', VStr (exn_class_name exc)),
                         (''error'', VStr (take 500 (exn_text exc)))]) log1, Inl exc)
          | Inr x \<Rightarrow>
              (var', log_with_context 20 (''end:'' @ operation) (Some rid)
                 (vdict [(''operation'', VStr operation), (''ok'', VBool True)]) log1, Inr x)) var))"

text \<open>A traced operation logs exactly two records, a start and then an end or an error
  under one request id, which is the one the operation finds in its scope, no secret field in
  either; it passes the outcome through, leaves the context variable as it was and the
  logger at \<open>INFO\<close>.\<close>

theorem run_traced_logs:
  "\<exists>lg' rid r1 r2. run_traced op fn flds req fresh var lg log = (lg', var, log @ [r1, r2], snd (fn (Some rid))) \<and>
     lg_level lg' = ''INFO'' \<and> rid = (if falsy req then fresh else the req) \<and>
     lr_request_id r1 = Some rid \<and> lr_request_id r2 = Some rid \<and>
     lr_message r1 = ''start:'' @ op \<and>
     lr_message r2 = (if isl (snd (fn (Some rid))) then ''error:'' else ''end:'') @ op \<and>
     secret_free (lr_fields r1) \<and> secret_free (lr_fields r2)"
proof -
  obtain rid where rid: "rid = (if falsy req then fresh else the req)" by blast
  obtain lg' where lg: "configure_logging ''INFO'' lg = Inr lg'" "lg_level lg' = ''INFO''"
    using configure_info [of lg] by blast
  show ?thesis
    by (rule exI [of _ lg'], rule exI [of _ rid], cases "fn (Some rid)"; cases "snd (fn (Some rid))")
      (auto simp: run_traced_def ensure_logger_def lg request_scope_def rid [symmetric] log_with_context_def Let_def)
qed

section \<open>The audit log as written\<close>

text \<open>What one event should look like to whoever reads the log.\<close>

definition log_entry :: "string \<Rightarrow> audit_event \<Rightarrow> pyval" where
  "log_entry name e =
     vdict [(''level'', VStr ''INFO''), (''logger'', VStr name), (''message'', VStr ''governance_audit''),
            (''fields'', objects_as_text (audited e))]"

text \<open>An event without floats, and with text for the keys of its context.\<close>

definition plain_event :: "audit_event \<Rightarrow> bool" where
  "plain_event e \<longleftrightarrow> reads_back (objects_as_text (audited e))"

lemma record_keys_harmless [simp]:
  "\<not> is_sensitive_key (VStr ''level'')" "\<not> is_sensitive_key (VStr ''logger'')" "\<not> is_sensitive_key (VStr ''message'')"
  "\<not> is_sensitive_key (VStr ''fields'')" "\<not> is_sensitive_key (VStr ''request_id'')"
  by code_simp+

lemma audited_dict: "is_dict (audited e)" "py_bool (audited e)"
  by (simp_all add: audited_def redact_vdict event_as_dict_def redact_dict_def vdict_def)

lemma audited_fixed: "redact (audited e) = audited e" "secret_free (audited e)"
  by (simp_all add: audited_def redact_id)

lemma secret_free_objects: "secret_free v \<Longrightarrow> secret_free (objects_as_text v)"
proof (induction v rule: objects_as_text.induct)
  case (4 d)
  then show ?case by (fastforce simp: list_all_iff)
qed (auto simp: list_all_iff)

lemma log_entry_secret_free: "secret_free (log_entry name e)"
  using secret_free_objects [OF audited_fixed(2) [of e]] by (simp add: log_entry_def vdict_def)

text \<open>The record an event makes, whatever was logged before.\<close>

definition audit_log_record :: "audit_event \<Rightarrow> log_record" where
  "audit_log_record e =
     \<lparr>lr_level = 20, lr_message = ''governance_audit'', lr_request_id = None, lr_fields = audited e\<rparr>"

lemma logging_record_eq: "logging_record e log = log @ [audit_log_record e]"
  using audited_dict(1) [of e]
  by (simp add: logging_record_def audit_log_record_def sanitize_audit_payload_def audited_def)

lemma fold_logging_record: "fold logging_record es log = log @ map audit_log_record es"
  by (induction es arbitrary: log) (simp_all add: logging_record_eq)

lemma formatted_entry:
  "objects_as_text (format_record (level_name 20) name (audit_log_record e)) = log_entry name e"
  by (simp add: format_record_def audit_log_record_def audited_dict audited_fixed log_entry_def vdict_def level_name_def)

lemma logged_line:
  assumes "plain_event e"
  shows "\<exists>line. format_line name (audit_log_record e) = Some line \<and> CHR 0x0A \<notin> set line \<and>
    json_read line = Some (log_entry name e)"
proof -
  have rb: "reads_back (log_entry name e)"
    using assms by (simp add: log_entry_def reads_back_vdict wf_dict_def plain_event_def)
  obtain line where line: "json_dumps True '', '' '': '' (log_entry name e) = Some line"
    using json_dumps_total [OF jsonable_reads_back [OF rb]] by blast
  moreover have "CHR 0x0A \<notin> set line"
    using lf_not_in_json_dumps [OF _ _ floats_clean_reads_back [OF rb] line] by simp
  moreover have "json_read line = Some (log_entry name e)"
    using json_read_dumps [OF _ rb line, of "[]"] by (simp add: separators_def json_ws_def)
  moreover have "format_line name (audit_log_record e) = json_dumps True '', '' '': '' (log_entry name e)"
    using formatted_entry [of name e] by (simp add: format_line_def audit_log_record_def)
  ultimately show ?thesis by simp
qed

text \<open>C33: The audit log cannot be forged: take any sequence of events that hold no floats and whose
  dictionaries have text for keys, with whatever text they like. At a level that shows \<open>INFO\<close> the
  log has one line per event, in order, and a reader of JSON gets from each line exactly its
  redacted event; no event can end a line early or write into another. At any other level
  nothing is written.\<close>

theorem audit_log_reads_back:
  assumes "list_all plain_event es"
  shows "if enabled_for lg 20
    then map json_read (log_lines lg name (fold logging_record es [])) = map (\<lambda>e. Some (log_entry name e)) es \<and>
      list_all (\<lambda>line. CHR 0x0A \<notin> set line) (log_lines lg name (fold logging_record es [])) \<and>
      list_all (\<lambda>e. secret_free (log_entry name e)) es
    else log_lines lg name (fold logging_record es []) = []"
proof (cases "enabled_for lg 20")
  case False
  then have "filter (\<lambda>r. enabled_for lg (lr_level r)) (map audit_log_record es) = []"
    by (simp add: filter_empty_conv audit_log_record_def)
  with False show ?thesis by (simp add: fold_logging_record log_lines_def map_filter_simps)
next
  case True
  have lines: "log_lines lg name (map audit_log_record es) = List.map_filter (format_line name) (map audit_log_record es)"
    using True by (simp add: log_lines_def audit_log_record_def comp_def)
  have "map json_read (List.map_filter (format_line name) (map audit_log_record es)) = map (\<lambda>e. Some (log_entry name e)) es \<and>
      list_all (\<lambda>line. CHR 0x0A \<notin> set line) (List.map_filter (format_line name) (map audit_log_record es))"
    using assms
  proof (induction es)
    case (Cons e es)
    with logged_line [of e name] show ?case by (auto simp: map_filter_simps)
  qed (simp add: map_filter_simps)
  with True lines show ?thesis
    by (simp add: fold_logging_record log_entry_secret_free list_all_iff)
qed

definition forging_event :: audit_event where
  "forging_event =
     \<lparr>ae_type = REQUEST, ae_tool = [CHR ''x'', CHR 0x22, CHR 0x0A, CHR ''{''], ae_risk = None, ae_decision = None,
      ae_success = None, ae_message = None, ae_context = [(''auth_token'', VStr ''s3cret'')], ae_timestamp = ''now'', ae_extra = []\<rparr>"

theorem audit_log_reads_back_witness:
  "map json_read (log_lines \<lparr>lg_level = ''INFO'', lg_stream_handlers = 1\<rparr> ''audit'' (fold logging_record [forging_event] []))
     = [Some (log_entry ''audit'' forging_event)]"
proof -
  have "list_all plain_event [forging_event]" by code_simp
  from audit_log_reads_back [OF this, of "\<lparr>lg_level = ''INFO'', lg_stream_handlers = 1\<rparr>" "''audit''"] show ?thesis
    by (simp add: enabled_for_def)
qed

end
