(* ===== verification/Command_Line.thy ===== *)
theory Command_Line
  imports Py_Value
begin

text \<open>
  The command line of \<open>server/cli.py\<close>: the parser that \<open>_build_parser\<close> builds, with the options
  \<open>-h\<close>, \<open>--help\<close> and \<open>--version\<close> and no positional argument, and what \<open>parse_args\<close> of Python's
  \<open>argparse\<close> does with it (of 3.11, on a terminal wide enough for one line of usage): long
  options may be abbreviated and short ones joined, \<open>--\<close> ends the options.
\<close>

section \<open>The parser\<close>

text \<open>The name and version text; \<open>installed\<close> is the version in the package metadata, if there is one.\<close>

definition package_version :: "string option \<Rightarrow> string" where
  "package_version installed =
     (case installed of Some v \<Rightarrow> ''yasin-mcp '' @ v | None \<Rightarrow> ''yasin-mcp unknown'')"

definition usage_text :: string where
  "usage_text = ''usage: yasin-mcp [-h] [--version]'' @ [CHR 0x0A]"

definition help_text :: string where
  "help_text = usage_text @ [CHR 0x0A] @ ''Run the read-only Yasin-MCP server over stdio.'' @ [CHR 0x0A, CHR 0x0A] @
     ''options:'' @ [CHR 0x0A] @ ''  -h, --help  show this help message and exit'' @ [CHR 0x0A] @
     ''  --version   show program'' @ [CHR 0x27] @ ''s version number and exit'' @ [CHR 0x0A]"

datatype cli_option = Help_option | Version_option

fun option_names :: "cli_option \<Rightarrow> string list" where
  "option_names Help_option = [''-h'', ''--help'']"
| "option_names Version_option = [''--version'']"

definition option_title :: "cli_option \<Rightarrow> string" where
  "option_title opt = py_join ''/'' (option_names opt)"

section \<open>One argument\<close>

text \<open>What an argument is taken for: an option, one with a value it cannot have, or none of the parser's.\<close>

datatype cli_word = Other_word | Flag cli_option | Flag_with_value cli_option string | Ambiguous_flag

definition exact_option :: "string \<Rightarrow> cli_option option" where
  "exact_option s = find (\<lambda>opt. s \<in> set (option_names opt)) [Help_option, Version_option]"

text \<open>Joined short options after \<open>-h\<close>: only \<open>-h\<close> itself is one.\<close>

fun joined_flags :: "string \<Rightarrow> cli_word" where
  "joined_flags [] = Flag Help_option"
| "joined_flags (c # cs) =
     (if c = CHR ''-'' then Flag_with_value Help_option (c # cs)
      else if c \<noteq> CHR ''h'' then Flag Help_option
      else case cs of
          d # ds \<Rightarrow> if d = CHR ''='' then Flag_with_value Help_option ds else joined_flags cs
        | [] \<Rightarrow> Flag Help_option)"

definition before_equals :: "string \<Rightarrow> string" where
  "before_equals arg = takeWhile (\<lambda>c. c \<noteq> CHR ''='') arg"

definition after_equals :: "string \<Rightarrow> string option" where
  "after_equals arg = (if CHR ''='' \<in> set arg then Some (tl (dropWhile (\<lambda>c. c \<noteq> CHR ''='') arg)) else None)"

definition flag_or_value :: "cli_option \<Rightarrow> string option \<Rightarrow> cli_word" where
  "flag_or_value opt v = (case v of None \<Rightarrow> Flag opt | Some x \<Rightarrow> Flag_with_value opt x)"

definition abbreviated :: "string \<Rightarrow> cli_option list" where
  "abbreviated start =
     filter (\<lambda>opt. list_ex (prefix start) (option_names opt)) [Help_option, Version_option]"

definition classify_word :: "string \<Rightarrow> cli_word" where
  "classify_word arg =
     (if \<not> prefix ''-'' arg then Other_word
      else if exact_option arg \<noteq> None then Flag (the (exact_option arg))
      else if length arg = 1 then Other_word
      else if after_equals arg \<noteq> None \<and> exact_option (before_equals arg) \<noteq> None
        then Flag_with_value (the (exact_option (before_equals arg))) (the (after_equals arg))
      else if prefix ''--'' arg then
        (case abbreviated (before_equals arg) of
           [] \<Rightarrow> Other_word
         | [opt] \<Rightarrow> flag_or_value opt (after_equals arg)
         | _ \<Rightarrow> Ambiguous_flag)
      else if prefix ''-h'' arg then joined_flags (drop 2 arg) else Other_word)"

section \<open>All arguments\<close>

text \<open>The parse goes on, or the process exits with a status after printing a text.\<close>

datatype cli_parse = Parsed | Cli_exit int string

definition usage_error :: "string \<Rightarrow> cli_parse" where
  "usage_error message = Cli_exit 2 (usage_text @ ''yasin-mcp: error: '' @ message @ [CHR 0x0A])"

fun act_on_words :: "string option \<Rightarrow> string list \<Rightarrow> cli_parse option" where
  "act_on_words installed [] = None"
| "act_on_words installed (arg # args) =
     (case classify_word arg of
        Flag Help_option \<Rightarrow> Some (Cli_exit 0 help_text)
      | Flag Version_option \<Rightarrow> Some (Cli_exit 0 (package_version installed @ [CHR 0x0A]))
      | Flag_with_value opt v \<Rightarrow>
          Some (usage_error (''argument '' @ option_title opt @ '': ignored explicit argument '' @ str_repr v))
      | _ \<Rightarrow> act_on_words installed args)"

text \<open>All options are read before the first one acts; words that are none of them are refused last.\<close>

definition parse_arguments :: "string option \<Rightarrow> string list \<Rightarrow> cli_parse" where
  "parse_arguments installed argv =
     (let options = takeWhile (\<lambda>a. a \<noteq> ''--'') argv in
      case find (\<lambda>a. classify_word a = Ambiguous_flag) options of
        Some a \<Rightarrow> usage_error (''ambiguous option: '' @ a @ '' could match --help, --version'')
      | None \<Rightarrow>
          (case act_on_words installed options of
             Some exit \<Rightarrow> exit
           | None \<Rightarrow> if argv = [] then Parsed else usage_error (''unrecognized arguments: '' @ py_join '' '' argv)))"

section \<open>Facts\<close>

lemma act_on_words_exits: "act_on_words installed args = Some r \<Longrightarrow> \<exists>status text. r = Cli_exit status text \<and> status \<in> {0, 2}"
  by (induction args) (auto simp: usage_error_def split: cli_word.splits cli_option.splits)

text \<open>Only the empty command line starts the server: any argument ends the process, with
  status 0 for help or the version, else with 2.\<close>

lemma parse_arguments_cases:
  "if argv = [] then parse_arguments installed argv = Parsed
   else \<exists>status text. parse_arguments installed argv = Cli_exit status text \<and> status \<in> {0, 2}"
  using act_on_words_exits [of installed "takeWhile (\<lambda>a. a \<noteq> ''--'') argv"]
  by (auto simp: parse_arguments_def usage_error_def Let_def split: option.splits)

lemma parse_arguments_Parsed [simp]: "parse_arguments installed argv = Parsed \<longleftrightarrow> argv = []"
  using parse_arguments_cases [of argv installed] by (auto split: if_splits)

lemma parse_no_arguments [simp]: "parse_arguments installed [] = Parsed"
  by simp

lemma version_flag: "parse_arguments installed [''--version''] = Cli_exit 0 (package_version installed @ [CHR 0x0A])"
  by (simp add: parse_arguments_def classify_word_def exact_option_def)

text \<open>The transport cannot be chosen on the command line.\<close>

lemma transport_option_refused:
  "parse_arguments installed [''--transport'', ''remote''] =
     usage_error ''unrecognized arguments: --transport remote''"
  by (simp add: parse_arguments_def classify_word_def exact_option_def after_equals_def before_equals_def abbreviated_def)

end
