(* ===== verification/Startup.thy ===== *)
theory Startup
  imports Server_Tools Logging Command_Line
begin

text \<open>
  The start of the stdio server: \<open>main\<close> of \<open>server/cli.py\<close> and the adapters that
  \<open>ServerRuntime.create\<close> constructs when it is given none.
\<close>

section \<open>The adapters\<close>

definition DEFAULT_MAX_FILES :: int where
  "DEFAULT_MAX_FILES = 50"

definition DEFAULT_GATEWAY_EXECUTABLE :: string where
  "DEFAULT_GATEWAY_EXECUTABLE = ''yasin-operations''"

definition DEFAULT_GATEWAY_TIMEOUT :: int where
  "DEFAULT_GATEWAY_TIMEOUT = 15"

definition DEFAULT_MAX_RESPONSE_BYTES :: int where
  "DEFAULT_MAX_RESPONSE_BYTES = 1000000"

definition default_operations_adapter :: operations_adapter where
  "default_operations_adapter =
     \<lparr>oa_executable = DEFAULT_GATEWAY_EXECUTABLE, oa_timeout = DEFAULT_GATEWAY_TIMEOUT,
      oa_max_bytes = DEFAULT_MAX_RESPONSE_BYTES\<rparr>"

definition construct_parts :: "file_system \<Rightarrow> environ \<Rightarrow> server_config \<Rightarrow> server_parts result" where
  "construct_parts fs env cfg =
     res_bind (make_docs_adapter (github_token cfg) (request_timeout_seconds cfg) DEFAULT_MAX_FILES) (\<lambda>docs.
     res_bind (construct_cli fs env) (\<lambda>cli.
     res_bind (make_github_adapter (github_token cfg) (request_timeout_seconds cfg)) (\<lambda>gh.
       Inr \<lparr>sp_docs = docs, sp_github = gh, sp_operations = default_operations_adapter, sp_cli = cli\<rparr>)))"

definition gateway_available :: "machine \<Rightarrow> server_parts \<Rightarrow> bool" where
  "gateway_available mc p = executable_available mc (oa_executable (sp_operations p))"

definition start_server ::
  "file_system \<Rightarrow> environ \<Rightarrow> machine \<Rightarrow> (audit_event \<Rightarrow> 'a \<Rightarrow> 'a) \<Rightarrow> server_config \<Rightarrow> ('a server_runtime \<times> server_parts) result" where
  "start_server fs env mc rec cfg =
     res_bind (construct_parts fs env cfg) (\<lambda>p.
     res_bind (create_runtime (Some cfg) None (gateway_available mc p) (provider_present fs env) False False None rec None) (\<lambda>rt.
       Inr (rt, p)))"

section \<open>The process\<close>

text \<open>How the process goes on: it exits with a code and a message, an exception escapes, or it serves.\<close>

datatype 'a process = Exits int string | Escapes pyexn | Serves "'a server_runtime" server_parts logger

definition run_main ::
  "file_system \<Rightarrow> environ \<Rightarrow> machine \<Rightarrow> (audit_event \<Rightarrow> 'a \<Rightarrow> 'a) \<Rightarrow> logger \<Rightarrow> 'a process" where
  "run_main fs env mc rec lg =
     (case load_config env of
        Inl e \<Rightarrow>
          if exn_class_name e = ''InvalidConfigurationError'' then Exits 2 (''yasin-mcp: configuration error: '' @ exn_text e)
          else Escapes e
      | Inr cfg \<Rightarrow>
          (case res_bind (configure_logging (log_level cfg) lg) (\<lambda>lg'.
                  res_bind (start_server fs env mc rec cfg) (\<lambda>(rt, p). Inr (rt, p, lg'))) of
             Inl e \<Rightarrow> Escapes e
           | Inr (rt, p, lg') \<Rightarrow> Serves rt p lg'))"

text \<open>\<open>main\<close>: the arguments first.\<close>

definition cli_main ::
  "string option \<Rightarrow> string list \<Rightarrow> file_system \<Rightarrow> environ \<Rightarrow> machine \<Rightarrow> (audit_event \<Rightarrow> 'a \<Rightarrow> 'a) \<Rightarrow> logger \<Rightarrow> 'a process" where
  "cli_main installed argv fs env mc rec lg =
     (case parse_arguments installed argv of
        Cli_exit status text \<Rightarrow> Exits status text
      | Parsed \<Rightarrow> run_main fs env mc rec lg)"

lemma cli_main_no_arguments [simp]: "cli_main installed [] fs env mc rec lg = run_main fs env mc rec lg"
  by (simp add: cli_main_def)

section \<open>Starting\<close>

lemma py_int_str_error: "py_int (VStr s) = Inl e \<Longrightarrow> exn_class_name e = ''ValueError''"
  by (auto simp: py_int_def split: option.splits)

text \<open>The file system raises \<open>e\<close> while a directory is resolved or looked at.\<close>

definition lookup_raises :: "file_system \<Rightarrow> environ \<Rightarrow> string \<Rightarrow> pyexn \<Rightarrow> bool" where
  "lookup_raises fs env d e \<longleftrightarrow>
     (case fs_resolve fs d of
        Inl x \<Rightarrow> x = e
      | Inr path \<Rightarrow>
          fs_is_dir fs path = Inl e \<or>
          \<not> falsy (env ''RUNFLARE_ALLOWED_PROJECT_ROOT'') \<and> fs_resolve fs (the (env ''RUNFLARE_ALLOWED_PROJECT_ROOT'')) = Inl e)"

lemma validate_project_dir_error:
  "validate_project_dir fs env d = Inl e \<Longrightarrow> exn_class_name e = ''ValueError'' \<or> lookup_raises fs env d e"
  by (auto simp: validate_project_dir_def lookup_raises_def res_bind_eq_Inl split: if_splits)

lemma make_runflare_cli_error:
  "make_runflare_cli fs env None = Inl e \<Longrightarrow> \<not> falsy (env ''RUNFLARE_PROJECT_DIR'') \<Longrightarrow>
   exn_class_name e = ''ValueError'' \<or> lookup_raises fs env (the (env ''RUNFLARE_PROJECT_DIR'')) e"
  by (auto simp: make_runflare_cli_def Let_def res_bind_eq_Inl getenv_int_def falsy_def
      split: if_splits option.splits dest: py_int_str_error validate_project_dir_error)

lemma construct_cli_error:
  assumes "construct_cli fs env = Inl e"
  shows "\<not> falsy (env ''RUNFLARE_PROJECT_DIR'') \<and> \<not> setup_caught e \<and>
    lookup_raises fs env (the (env ''RUNFLARE_PROJECT_DIR'')) e"
proof -
  have e: "\<not> falsy (env ''RUNFLARE_PROJECT_DIR'')" "make_runflare_cli fs env None = Inl e" "\<not> setup_caught e"
    using assms by (auto simp: construct_cli_def split: if_splits sum.splits)
  then have "exn_class_name e \<noteq> ''ValueError''"
    by (auto simp: setup_caught_def VALUE_ERROR_CLASSES_def)
  with e make_runflare_cli_error [OF e(2,1)] show ?thesis by simp
qed

lemma construct_parts_total:
  assumes "wf_config cfg" and "construct_cli fs env = Inr cli"
  shows "\<exists>p. construct_parts fs env cfg = Inr p \<and>
    sp_docs p = \<lparr>da_token = github_token cfg, da_timeout = request_timeout_seconds cfg, da_max_files = 50\<rparr> \<and>
    sp_github p = \<lparr>ga_token = github_token cfg, ga_timeout = request_timeout_seconds cfg\<rparr> \<and> sp_cli p = cli"
  using assms
  by (auto simp: construct_parts_def make_docs_adapter_def make_github_adapter_def wf_config_def DEFAULT_MAX_FILES_def)

lemma constructed_cli_part: "construct_parts fs env cfg = Inr p \<Longrightarrow> construct_cli fs env = Inr (sp_cli p)"
  by (auto simp: construct_parts_def res_bind_eq_Inr)

lemma create_runtime_empty: "create_runtime c None av rf dg gg pol rec gov = create_runtime c (Some []) av rf dg gg pol rec gov"
  by (simp add: create_runtime_def)

lemma start_server_parts:
  assumes "start_server fs env mc rec cfg = Inr (rt, p)"
  shows "construct_parts fs env cfg = Inr p"
    and "create_runtime (Some cfg) (Some []) (gateway_available mc p) (Inr (sp_cli p \<noteq> None)) False False None rec None = Inr rt"
proof -
  show parts: "construct_parts fs env cfg = Inr p"
    using assms unfolding start_server_def by (auto simp: res_bind_eq_Inr)
  have "provider_present fs env = Inr (sp_cli p \<noteq> None)"
    using constructed_cli_part [OF parts] by (simp add: provider_present_def)
  with assms parts show "create_runtime (Some cfg) (Some []) (gateway_available mc p) (Inr (sp_cli p \<noteq> None)) False False
      None rec None = Inr rt"
    unfolding start_server_def create_runtime_empty by (auto simp: res_bind_eq_Inr)
qed

lemma started_server:
  assumes "wf_config cfg" and "start_server fs env mc rec cfg = Inr (rt, p)"
  shows "sr_config rt = cfg \<and> sr_tools rt = governed_tools (sp_cli p \<noteq> None) (gateway_available mc p)"
proof -
  note rt = start_server_parts(2) [OF assms(2)]
  then have "sr_config rt = cfg"
    by (auto simp: create_runtime_def Let_def res_bind_eq_Inr)
  with rt standard_created [OF assms(1), of "gateway_available mc p" "sp_cli p \<noteq> None" False False rec] show ?thesis
    by auto
qed

lemma start_server_total:
  assumes "wf_config cfg" and "construct_cli fs env = Inr cli"
  shows "\<exists>rt p. start_server fs env mc rec cfg = Inr (rt, p) \<and> sp_cli p = cli"
proof -
  obtain p where p: "construct_parts fs env cfg = Inr p" and cli: "sp_cli p = cli"
    using construct_parts_total [OF assms] by blast
  have "provider_present fs env = Inr (cli \<noteq> None)"
    by (simp add: provider_present_def assms(2))
  then show ?thesis
    using standard_created [OF assms(1), of "gateway_available mc p" "cli \<noteq> None" False False rec] p cli
    by (auto simp: start_server_def create_runtime_empty)
qed

lemma start_server_raises:
  assumes "wf_config cfg" and "construct_cli fs env = Inl e"
  shows "start_server fs env mc rec cfg = Inl e"
  using assms by (simp add: start_server_def construct_parts_def make_docs_adapter_def wf_config_def DEFAULT_MAX_FILES_def)

lemma config_step_errors:
  "make_server_config c = Inl e \<Longrightarrow> exn_class_name e = ''InvalidConfigurationError''"
  "env_int env k i = Inl e \<Longrightarrow> exn_class_name e = ''InvalidConfigurationError''"
  "env_bool env k b = Inl e \<Longrightarrow> exn_class_name e = ''InvalidConfigurationError''"
  unfolding make_server_config_def env_int_def env_bool_def Let_def invalid_configuration_def
  by (auto split: if_splits option.splits)

lemma load_config_error: "load_config env = Inl e \<Longrightarrow> exn_class_name e = ''InvalidConfigurationError''"
  unfolding load_config_def res_bind_eq_Inl by (elim disjE exE conjE; erule config_step_errors)

lemma configured_logger:
  "wf_config cfg \<Longrightarrow> \<exists>lg'. configure_logging (log_level cfg) lg = Inr lg' \<and> lg_level lg' = log_level cfg \<and>
     0 < lg_stream_handlers lg'"
  by (auto simp: wf_config_def VALID_LOG_LEVELS_def configure_logging_def level_number.simps)

lemma run_main_outcome:
  "case run_main fs env mc rec lg of
     Exits status message \<Rightarrow> status = 2 \<and> isl (load_config env)
   | Escapes e \<Rightarrow> \<not> isl (load_config env) \<and> construct_cli fs env = Inl e
   | Serves rt p lg' \<Rightarrow>
       load_config env = Inr (sr_config rt) \<and> lg_level lg' = log_level (sr_config rt) \<and> 0 < lg_stream_handlers lg' \<and>
       sr_tools rt = map fst (served_methods w p (gateway_available mc p)) \<and>
       sp_docs p = \<lparr>da_token = github_token (sr_config rt), da_timeout = request_timeout_seconds (sr_config rt), da_max_files = 50\<rparr> \<and>
       sp_github p = \<lparr>ga_token = github_token (sr_config rt), ga_timeout = request_timeout_seconds (sr_config rt)\<rparr> \<and>
       construct_cli fs env = Inr (sp_cli p)"
proof (cases "load_config env")
  case (Inl e)
  with load_config_error [OF Inl] show ?thesis
    by (simp add: run_main_def)
next
  case (Inr cfg)
  then have wf: "wf_config cfg"
    using load_config_constructed by (auto simp: make_server_config_Inr)
  obtain lg' where lg': "configure_logging (log_level cfg) lg = Inr lg'" "lg_level lg' = log_level cfg" "0 < lg_stream_handlers lg'"
    using configured_logger [OF wf] by blast
  show ?thesis
  proof (cases "construct_cli fs env")
    case (Inl e)
    then show ?thesis
      using start_server_raises [OF wf Inl, of mc rec] by (simp add: run_main_def Inr lg')
  next
    case cli: (Inr cli)
    obtain rt p where rt: "start_server fs env mc rec cfg = Inr (rt, p)" and p: "sp_cli p = cli"
      using start_server_total [OF wf cli, of mc rec] by blast
    have "run_main fs env mc rec lg = Serves rt p lg'"
      by (simp add: run_main_def Inr lg' rt)
    with Inr lg' cli p started_server [OF wf rt] start_server_parts(1) [OF rt] construct_parts_total [OF wf cli] show ?thesis
      by (auto simp: served_names)
  qed
qed

text \<open>C9: How a start ends: with any argument the process exits, with status 0 for help or the version
  and else with 2; without arguments it exits with code 2 because the configuration does not
  load, or serves, under the loaded configuration and at its log level, exactly the tools whose
  methods the toolsets provide, with adapters that hold the configured token and timeout, or
  ends in an exception that nothing catches. That exception can only be one that the file system
  raises while the configured Runflare directories are resolved, and that is neither an
  \<open>OSError\<close> nor a \<open>ValueError\<close> (as the \<open>RuntimeError\<close> for the home of an unknown user): without a
  Runflare directory none escapes.\<close>

theorem main_exits_or_serves:
  "case cli_main installed argv fs env mc rec lg of
     Exits status message \<Rightarrow> if argv \<noteq> [] then status \<in> {0, 2} else status = 2 \<and> isl (load_config env)
   | Escapes e \<Rightarrow>
       argv = [] \<and> \<not> isl (load_config env) \<and> construct_cli fs env = Inl e \<and> \<not> setup_caught e \<and>
       \<not> falsy (env ''RUNFLARE_PROJECT_DIR'') \<and> lookup_raises fs env (the (env ''RUNFLARE_PROJECT_DIR'')) e
   | Serves rt p lg' \<Rightarrow>
       argv = [] \<and>
       load_config env = Inr (sr_config rt) \<and> lg_level lg' = log_level (sr_config rt) \<and> 0 < lg_stream_handlers lg' \<and>
       sr_tools rt = map fst (served_methods w p (gateway_available mc p)) \<and>
       sp_docs p = \<lparr>da_token = github_token (sr_config rt), da_timeout = request_timeout_seconds (sr_config rt), da_max_files = 50\<rparr> \<and>
       sp_github p = \<lparr>ga_token = github_token (sr_config rt), ga_timeout = request_timeout_seconds (sr_config rt)\<rparr> \<and>
       construct_cli fs env = Inr (sp_cli p)"
proof (cases "argv = []")
  case True
  with run_main_outcome [where w = w and fs = fs and env = env and mc = mc and rec = rec and lg = lg]
  show ?thesis
    by (simp split: process.splits) (use construct_cli_error [of fs env] in blast)
next
  case False
  with parse_arguments_cases [of argv installed] show ?thesis
    by (auto simp: cli_main_def)
qed

text \<open>The exception does escape: a directory in the home of a user that does not exist.\<close>

definition homeless_env :: environ where
  "homeless_env = [''RUNFLARE_PROJECT_DIR'' \<mapsto> ''~nobody/app'']"

lemma unknown_user_escapes:
  "cli_main None [] demo_fs homeless_env mc rec lg =
     Escapes (PyError ''RuntimeError'' ''Could not determine home directory.'')"
proof -
  have "construct_cli demo_fs homeless_env = Inl (PyError ''RuntimeError'' ''Could not determine home directory.'')"
    by code_simp
  moreover have "\<not> isl (load_config homeless_env)"
    by code_simp
  ultimately show ?thesis
    using run_main_outcome [where w = w and fs = demo_fs and env = homeless_env and mc = mc and rec = rec and lg = lg]
    by (auto split: process.splits)
qed

lemma serving_process:
  assumes "cli_main installed argv fs env mc rec lg = Serves rt p lg'"
  shows "\<exists>cfg. load_config env = Inr cfg \<and> start_server fs env mc rec cfg = Inr (rt, p) \<and>
    configure_logging (log_level cfg) lg = Inr lg'"
  using assms
  by (auto simp: cli_main_def run_main_def res_bind_eq_Inr split: sum.splits if_splits prod.splits cli_parse.splits)

text \<open>No argument selects the remote transport.\<close>

lemma transport_flag_exits:
  "cli_main installed [''--transport'', ''remote''] fs env mc rec lg =
     Exits 2 (usage_text @ ''yasin-mcp: error: unrecognized arguments: --transport remote'' @ [CHR 0x0A])"
  by (simp add: cli_main_def transport_option_refused usage_error_def)

section \<open>The message of a failed start\<close>

definition SECRET_VARIABLES :: "string set" where
  "SECRET_VARIABLES = {''YASIN_MCP_AUTH_TOKEN'', ''YASIN_MCP_GITHUB_TOKEN''}"

text \<open>Two environments that differ at most in the values of the secrets that are set.\<close>

definition same_but_secrets :: "environ \<Rightarrow> environ \<Rightarrow> bool" where
  "same_but_secrets env env' \<longleftrightarrow>
     (\<forall>k. k \<notin> SECRET_VARIABLES \<longrightarrow> env k = env' k) \<and> (\<forall>k. falsy (env k) \<longleftrightarrow> falsy (env' k))"

lemma same_env_reads:
  assumes "same_but_secrets env env'" and "k \<notin> SECRET_VARIABLES"
  shows "env_int env k i = env_int env' k i" "env_bool env k b = env_bool env' k b" "env_str env k s = env_str env' k s"
    "env_opt env k = env_opt env' k"
proof -
  have "env k = env' k" using assms by (simp add: same_but_secrets_def)
  then show "env_int env k i = env_int env' k i" "env_bool env k b = env_bool env' k b" "env_str env k s = env_str env' k s"
    "env_opt env k = env_opt env' k"
    by (simp_all add: env_int_def env_bool_def env_str_def env_opt_def)
qed

lemma no_secret_env: "no_secret (env_secret env k) \<longleftrightarrow> falsy (env k)"
  by (auto simp: no_secret_def env_secret_def falsy_def)

text \<open>The checks look at no token, but at whether one is set.\<close>

lemma make_server_config_error:
  assumes "make_server_config c = Inl e" and "no_secret t \<longleftrightarrow> no_secret (auth_token c)"
  shows "make_server_config (c\<lparr>github_token := g, auth_token := t\<rparr>) = Inl e"
  using assms by (auto simp: make_server_config_def Let_def split: if_splits)

lemmas make_server_config_error_fields = make_server_config_error
  [of "\<lparr>log_level = lv, request_timeout_seconds = rt, max_concurrent_requests = mc, github_token = g0, auth_token = t0,
        auth_subject_id = su, require_authentication = ra, remote_enabled = re, remote_host = ho, remote_port = po,
        remote_tls_certfile = ce, remote_tls_keyfile = ke, remote_allow_insecure_http = ai\<rparr>"
    for lv rt mc g0 t0 su ra re ho po ce ke ai, simplified]

lemma load_config_error_same:
  assumes same: "same_but_secrets env env'" and "load_config env = Inl e"
  shows "load_config env' = Inl e"
proof -
  have reads: "env_int env' k i = env_int env k i" "env_bool env' k b = env_bool env k b"
    "env_str env' k s = env_str env k s" "env_opt env' k = env_opt env k" if "k \<notin> SECRET_VARIABLES" for k i b s
    using same_env_reads [OF same that] by simp_all
  have secret: "no_secret (env_secret env' k) \<longleftrightarrow> no_secret (env_secret env k)" for k
    using same by (simp add: no_secret_env same_but_secrets_def)
  show ?thesis
    using assms(2)
    by (auto simp: load_config_def reads SECRET_VARIABLES_def res_bind_eq_Inl)
      (erule notE, erule make_server_config_error_fields, rule secret)
qed

text \<open>C31: The message of a failed start holds no secret: whatever values the two tokens have, the
  process exits with the same code and the same message.\<close>

theorem exit_message_secret_free:
  assumes "same_but_secrets env env'" and "cli_main installed argv fs env mc rec lg = Exits status message"
  shows "cli_main installed argv fs env' mc rec lg = Exits status message"
proof (cases "argv = []")
  case False
  with assms(2) parse_arguments_cases [of argv installed] show ?thesis
    by (auto simp: cli_main_def)
next
  case True
  with assms(2) obtain e where e: "load_config env = Inl e" and out: "exn_class_name e = ''InvalidConfigurationError''"
    "Exits status message = Exits 2 (''yasin-mcp: configuration error: '' @ exn_text e)"
    by (auto simp: run_main_def split: sum.splits if_splits prod.splits)
  have "load_config env' = Inl e"
    using assms(1) e by (rule load_config_error_same)
  with out True show ?thesis by (auto simp: run_main_def)
qed

definition loud_env :: "string \<Rightarrow> environ" where
  "loud_env token = [''YASIN_MCP_LOG_LEVEL'' \<mapsto> ''loud'', ''YASIN_MCP_AUTH_TOKEN'' \<mapsto> token]"

lemma loud_refused: "isl (load_config (loud_env ''one''))"
  by code_simp

theorem exit_message_secret_free_witness:
  "\<forall>mc lg. \<exists>message. cli_main None [] demo_fs (loud_env ''two'') mc memory_record lg = Exits 2 message"
proof (intro allI)
  fix mc lg
  obtain e where e: "load_config (loud_env ''one'') = Inl e"
    using loud_refused by (auto simp: isl_def)
  have "cli_main None [] demo_fs (loud_env ''one'') mc memory_record lg = Exits 2 (''yasin-mcp: configuration error: '' @ exn_text e)"
    by (simp add: run_main_def e load_config_error [OF e])
  moreover have "same_but_secrets (loud_env ''one'') (loud_env ''two'')"
    by (auto simp: same_but_secrets_def SECRET_VARIABLES_def loud_env_def falsy_def)
  ultimately show "\<exists>message. cli_main None [] demo_fs (loud_env ''two'') mc memory_record lg = Exits 2 message"
    using exit_message_secret_free by blast
qed

end
