(* ===== verification/Gate_Accounting.thy ===== *)
theory Gate_Accounting
  imports Gate_Concurrency Gate_Safety Startup
begin

text \<open>
  Accounting for mutations: over every interleaving of calls, what a mutating tool has done outside
  is covered by the grants spent on it in the approval store of \<open>approval/store.py\<close>. The
  argument is made once, for any tools whose runs have a cost, and used for the commands that
  the Runflare tools of \<open>tools/runflare.py\<close> run.
\<close>

section \<open>Spent grants\<close>

text \<open>The tokens of the single-use grants for a tool that have been used.\<close>

definition spent_tokens :: "string \<Rightarrow> approval_store \<Rightarrow> string set" where
  "spent_tokens n m =
     set (filter (\<lambda>t. case dict_get m t of None \<Rightarrow> False
                      | Some (gr, used) \<Rightarrow> used \<and> ag_single_use gr \<and> ag_tool_name gr = n) (dict_keys m))"

definition only_single_use :: "string \<Rightarrow> approval_store \<Rightarrow> bool" where
  "only_single_use n m \<longleftrightarrow>
     list_all (\<lambda>t. case dict_get m t of None \<Rightarrow> True
                   | Some (gr, used) \<Rightarrow> if ag_tool_name gr = n then ag_single_use gr else True) (dict_keys m)"

lemma in_spent_tokens:
  "t \<in> spent_tokens n m \<longleftrightarrow> (\<exists>gr. dict_get m t = Some (gr, True) \<and> ag_single_use gr \<and> ag_tool_name gr = n)"
  by (auto simp: spent_tokens_def dict_get_in_keys split: option.splits dest: dict_get_in_keys)

lemma finite_spent_tokens [simp]: "finite (spent_tokens n m)"
  by (simp add: spent_tokens_def)

lemma only_single_useD: "only_single_use n m \<Longrightarrow> dict_get m t = Some (gr, c) \<Longrightarrow> ag_tool_name gr = n \<Longrightarrow> ag_single_use gr"
  using dict_get_in_keys [of m t "(gr, c)"] unfolding only_single_use_def list_all_iff by force

lemma only_single_useI:
  "(\<And>t gr c. dict_get m t = Some (gr, c) \<Longrightarrow> ag_tool_name gr = n \<Longrightarrow> ag_single_use gr) \<Longrightarrow> only_single_use n m"
  by (auto simp: only_single_use_def list_all_iff split: option.splits)

text \<open>How the store grows: used grants stay used, and a reusable grant stays one.\<close>

definition store_after :: "string \<Rightarrow> approval_store \<Rightarrow> approval_store \<Rightarrow> bool" where
  "store_after n m m' \<longleftrightarrow> spent_tokens n m \<subseteq> spent_tokens n m' \<and> (only_single_use n m' \<longrightarrow> only_single_use n m)"

lemma store_after_refl [simp]: "store_after n m m"
  by (simp add: store_after_def)

lemma store_after_entries:
  assumes "\<And>t gr c. dict_get m t = Some (gr, c) \<Longrightarrow> \<exists>c'. dict_get m' t = Some (gr, c') \<and> (c \<longrightarrow> c')"
  shows "store_after n m m'"
proof -
  have "spent_tokens n m \<subseteq> spent_tokens n m'"
    using assms by (fastforce simp: in_spent_tokens)
  moreover have "only_single_use n m" if "only_single_use n m'"
    by (rule only_single_useI) (use assms only_single_useD [OF that] in blast)
  ultimately show ?thesis by (simp add: store_after_def)
qed

lemma spends_store_after: "spends m t m' \<Longrightarrow> store_after n m m'"
proof (rule store_after_entries)
  fix x gr c
  assume "spends m t m'" and "dict_get m x = Some (gr, c)"
  then show "\<exists>c'. dict_get m' x = Some (gr, c') \<and> (c \<longrightarrow> c')"
    by (cases "x = t") (auto elim: spends_same simp: spends_other)
qed

lemma issue_store_after:
  assumes "dict_get m tok = None"
  shows "store_after n m (fst (issue tool subj req proj ttl su tok aid now m))"
proof (rule store_after_entries)
  fix x gr c
  assume x: "dict_get m x = Some (gr, c)"
  with assms have "x \<noteq> tok" by auto
  with x show "\<exists>c'. dict_get (fst (issue tool subj req proj ttl su tok aid now m)) x = Some (gr, c') \<and> (c \<longrightarrow> c')"
    by (simp add: issue_other)
qed

section \<open>An admission of a mutating tool spends a grant for it\<close>

lemma admitted_mutation_spends:
  assumes "g_policy g = default_conservative_evaluate" and "dict_get (g_catalog g) (tc_tool c) = Some MUTATION"
    and "gs_store st = Some m" and "call_admit g c st = (st', Inr adm)"
  obtains m' t gr k where "gs_store st' = Some m'" and "dict_get m t = Some (gr, k)" and "ag_tool_name gr = tc_tool c"
    and "ag_single_use gr \<Longrightarrow> \<not> k \<and> m' = dict_set t (gr, True) m" and "store_after n m m'"
proof (cases rule: execute_cases [of g "tc_env c" "tc_tool c" None "tc_kwargs c" None None st "\<lambda>_ _ w. (w, Inr VNone)" "[]"])
  case (ran store1 tool ctx2 w r)
  let ?inp = "extract_inputs g (tc_env c) (tc_kwargs c) None None"
  from ran(1) have dec: "decide g (tc_env c) (tc_tool c) None ?inp (Some m) = (store1, Inr (tool, ALLOW, ctx2))"
    by (simp add: assms(3))
  then have "catalog_resolve (g_catalog g) (tc_tool c) = Inr tool"
    by (rule decide_Inr) (simp add: resolve_tool_def)
  then have "ti_risk tool = MUTATION" using assms(2) by (simp add: catalog_resolve_eq)
  from dcp.admitted_mutation_grant [OF assms(1) dec this] obtain tok gr m' where
    tok: "ci_approval ?inp = Some tok" and live: "live_grant m (py_strip tok) = Some gr" and name: "ag_tool_name gr = tc_tool c"
    and store1: "store1 = Some m'"
    and after: "live_grant m' = (if ag_single_use gr then (live_grant m)(py_strip tok := None) else live_grant m)"
    by blast
  obtain k where entry: "dict_get m (py_strip tok) = Some (gr, k)" and unspent: "\<not> (k \<and> ag_single_use gr)"
    using live by (auto simp: live_grant_def split: option.splits if_splits)
  have how: "m' = m \<or> spends m (py_strip tok) m'"
    using decide_spends [OF dec] store1 tok by auto
  have "m' = dict_set (py_strip tok) (gr, True) m" if "ag_single_use gr"
  proof -
    have "m' \<noteq> m" using after live that by (auto dest: fun_cong [of _ _ "py_strip tok"])
    with how entry that show ?thesis by (simp add: spends_def)
  qed
  moreover have "gs_store st' = Some m'"
    using ran(3) assms(4) store1 by (auto simp: call_admit_def)
  moreover have "store_after n m m'" using how spends_store_after by auto
  ultimately show ?thesis using that entry name unspent by blast
qed (use assms(4) in \<open>simp_all add: call_admit_def\<close>)

section \<open>Calls admitted, begun and paid for\<close>

definition admitted_calls :: "(nat \<Rightarrow> 'w tool_call) \<Rightarrow> string \<Rightarrow> ('a, 'w) config \<Rightarrow> nat set" where
  "admitted_calls calls n s = set (filter (\<lambda>i. tc_tool (calls i) = n) (cf_log s))"

definition pending :: "phase \<Rightarrow> bool" where
  "pending ph \<longleftrightarrow> (case ph of Admitted _ \<Rightarrow> True | _ \<Rightarrow> False)"

definition begun_calls :: "(nat \<Rightarrow> 'w tool_call) \<Rightarrow> string \<Rightarrow> ('a, 'w) config \<Rightarrow> nat set" where
  "begun_calls calls n s = {i \<in> admitted_calls calls n s. \<not> pending (cf_phase s i)}"

lemma finite_admitted_calls [simp]: "finite (admitted_calls calls n s)"
  by (simp add: admitted_calls_def)

lemma finite_begun_calls [simp]: "finite (begun_calls calls n s)"
  by (simp add: begun_calls_def)

lemma begun_le_admitted: "card (begun_calls calls n s) \<le> card (admitted_calls calls n s)"
  by (rule card_mono) (auto simp: begun_calls_def)

text \<open>A call is in the log exactly from its admission on.\<close>

definition log_ok :: "('a, 'w) config \<Rightarrow> bool" where
  "log_ok s \<longleftrightarrow> (\<forall>i. (cf_phase s i \<in> {Waiting, Holding} \<longrightarrow> i \<notin> set (cf_log s)) \<and>
     (pending (cf_phase s i) \<longrightarrow> i \<in> set (cf_log s)))"

lemma log_ok_update:
  assumes "log_ok s" and "cf_phase s' = (cf_phase s)(i := p)" and "set (cf_log s') - {i} = set (cf_log s) - {i}"
    and "p \<in> {Waiting, Holding} \<Longrightarrow> i \<notin> set (cf_log s')" and "pending p \<Longrightarrow> i \<in> set (cf_log s')"
  shows "log_ok s'"
proof -
  have "j \<in> set (cf_log s') \<longleftrightarrow> j \<in> set (cf_log s)" if "j \<noteq> i" for j
    using assms(3) that by blast
  with assms(1,2,4,5) show ?thesis by (simp add: log_ok_def)
qed

lemma log_ok_step:
  assumes "gate_step g calls s s'" and ok: "log_ok s"
  shows "log_ok s'"
  using assms(1)
proof cases
  case (acquire i k)
  then have "i \<notin> set (cf_log s)" using ok by (simp add: log_ok_def)
  with acquire show ?thesis by (intro log_ok_update [OF ok, of s' i Holding]) (simp_all add: pending_def)
next
  case (admitted i st' adm)
  then show ?thesis by (intro log_ok_update [OF ok, of s' i "Admitted adm"]) auto
next
  case token_issued
  with ok show ?thesis by (simp add: log_ok_def)
next
  case (refuse i)
  then show ?thesis
    by (intro log_ok_update [OF ok, of s' i "Done (Inl (raise_as_mcp_tool_error (concurrency_error g)))"])
      (simp_all add: pending_def)
next
  case (admit_fails i st' e)
  then show ?thesis by (intro log_ok_update [OF ok, of s' i "Finishing (Inl e)"]) (simp_all add: pending_def)
next
  case (run i adm st' r)
  then show ?thesis by (intro log_ok_update [OF ok, of s' i "Finishing r"]) (simp_all add: pending_def)
next
  case (finish i r)
  then show ?thesis by (intro log_ok_update [OF ok, of s' i "Done (to_client r)"]) (simp_all add: pending_def)
qed

lemma call_admit_world: "gs_world (fst (call_admit g c st)) = gs_world st"
  unfolding call_admit_def
  by (cases rule: execute_cases [of g "tc_env c" "tc_tool c" None "tc_kwargs c" None None st "\<lambda>_ _ w. (w, Inr VNone)" "[]"]) simp_all

text \<open>Admitted calls are covered by spent grants.\<close>

definition covered :: "(nat \<Rightarrow> 'w tool_call) \<Rightarrow> string \<Rightarrow> ('a, 'w) config \<Rightarrow> bool" where
  "covered calls n s \<longleftrightarrow>
     (\<exists>m. gs_store (cf_state s) = Some m \<and>
        (only_single_use n m \<longrightarrow> card (admitted_calls calls n s) \<le> card (spent_tokens n m)))"

lemma covered_grows:
  assumes "covered calls n s" and "gs_store (cf_state s) = Some m" and "gs_store (cf_state s') = Some m'"
    and "store_after n m m'" and "admitted_calls calls n s' = admitted_calls calls n s"
  shows "covered calls n s'"
proof -
  have "card (spent_tokens n m) \<le> card (spent_tokens n m')"
    using assms(4) by (intro card_mono) (auto simp: store_after_def)
  with assms show ?thesis by (auto simp: covered_def store_after_def)
qed

lemma covered_admission:
  assumes "covered calls n s" and "gs_store (cf_state s) = Some m" and "gs_store (cf_state s') = Some m'"
    and "store_after n m m'" and "dict_get m t = Some (gr, k)" and "ag_tool_name gr = n"
    and spent: "ag_single_use gr \<Longrightarrow> \<not> k \<and> m' = dict_set t (gr, True) m"
    and "admitted_calls calls n s' = insert i (admitted_calls calls n s)"
  shows "covered calls n s'"
proof -
  have "card (admitted_calls calls n s') \<le> card (spent_tokens n m')" if single: "only_single_use n m'"
  proof -
    have one: "only_single_use n m" using assms(4) single by (simp add: store_after_def)
    have su: "ag_single_use gr" using only_single_useD [OF one assms(5,6)] .
    then have m': "m' = dict_set t (gr, True) m" and "\<not> k" using spent by simp_all
    then have "t \<notin> spent_tokens n m" and "t \<in> spent_tokens n m'"
      using assms(5,6) su by (simp_all add: in_spent_tokens)
    moreover have "spent_tokens n m \<subseteq> spent_tokens n m'" using assms(4) by (simp add: store_after_def)
    ultimately have "card (insert t (spent_tokens n m)) \<le> card (spent_tokens n m')" by (intro card_mono) auto
    moreover have "card (admitted_calls calls n s) \<le> card (spent_tokens n m)"
      using assms(1,2) one by (simp add: covered_def)
    moreover have "card (admitted_calls calls n s') \<le> Suc (card (admitted_calls calls n s))"
      unfolding assms(8) by (rule card_insert_le_m1) simp_all
    ultimately show ?thesis using \<open>t \<notin> spent_tokens n m\<close> by simp
  qed
  with assms(3) show ?thesis by (auto simp: covered_def)
qed

lemma covered_step:
  assumes "g_policy g = default_conservative_evaluate" and "dict_get (g_catalog g) n = Some MUTATION"
    and "gate_step g calls s s'" and cov: "covered calls n s"
  shows "covered calls n s'"
proof -
  from cov obtain m where m: "gs_store (cf_state s) = Some m" by (auto simp: covered_def)
  have same: "covered calls n s'" if "cf_log s' = cf_log s" "gs_store (cf_state s') = gs_store (cf_state s)"
    by (rule covered_grows [OF cov m, of s' m]) (use that m in \<open>simp_all add: admitted_calls_def\<close>)
  from assms(3) show ?thesis
  proof cases
    case (admit_fails i st' e)
    obtain m' where "gs_store st' = Some m'" and "m' = m \<or> (\<exists>t. presents g (calls i) t \<and> spends m t m')"
      using admit_fails(3) m by (rule call_admit_store)
    with admit_fails spends_store_after [of m _ m' n] show ?thesis
      by (intro covered_grows [OF cov m]) (auto simp: admitted_calls_def)
  next
    case (admitted i st' adm)
    show ?thesis
    proof (cases "tc_tool (calls i) = n")
      case True
      then have "dict_get (g_catalog g) (tc_tool (calls i)) = Some MUTATION" using assms(2) by simp
      from admitted_mutation_spends [OF assms(1) this m admitted(3), of n] obtain m' t gr k where
        "gs_store st' = Some m'" "dict_get m t = Some (gr, k)" "ag_tool_name gr = n"
        "ag_single_use gr \<Longrightarrow> \<not> k \<and> m' = dict_set t (gr, True) m" "store_after n m m'"
        unfolding True by metis
      with admitted True show ?thesis
        by (intro covered_admission [OF cov m, of s' m' t gr k i]) (auto simp: admitted_calls_def)
    next
      case False
      obtain m' where "gs_store st' = Some m'" and "m' = m \<or> (\<exists>t. presents g (calls i) t \<and> spends m t m')"
        using admitted(3) m by (rule call_admit_store)
      with admitted False spends_store_after [of m _ m' n] show ?thesis
        by (intro covered_grows [OF cov m]) (auto simp: admitted_calls_def)
    qed
  next
    case (run i adm st' r)
    then have "gs_store st' = gs_store (cf_state s)"
      using run_tool_store [of g "tc_env (calls i)" "tc_tool (calls i)" "tc_fn (calls i)" "tc_args (calls i)" adm "cf_state s"]
      by (simp add: call_run_def)
    with run show ?thesis by (intro same) simp_all
  next
    case (token_issued m0 tok tool subj req proj ttl su aid now)
    with m have [simp]: "m0 = m" by simp
    show ?thesis
      by (rule covered_grows [OF cov m, of s' "fst (issue tool subj req proj ttl su tok aid now m)"])
        (use token_issued issue_store_after in \<open>simp_all add: admitted_calls_def\<close>)
  qed (rule same; simp)+
qed

section \<open>Tools whose runs have a cost\<close>

text \<open>A run of the tool \<open>n\<close> costs at most one, a run of any other nothing.\<close>

locale metered_tools =
  fixes tools :: "string \<Rightarrow> 'w tool_fn option" and cost :: "'w \<Rightarrow> nat" and n :: string
  assumes metered: "tools k = Some fn \<Longrightarrow> cost (fst (fn args kw w)) \<le> cost w + (if k = n then 1 else 0)"
begin

lemma paid_step:
  assumes "\<forall>i. tools (tc_tool (calls i)) = Some (tc_fn (calls i))"
    and "gate_step g calls s s'" and ok: "log_ok s"
    and paid: "cost (gs_world (cf_state s)) \<le> card (begun_calls calls n s)"
  shows "cost (gs_world (cf_state s')) \<le> card (begun_calls calls n s')"
proof -
  have idle: ?thesis if "gs_world (cf_state s') = gs_world (cf_state s)" and "begun_calls calls n s \<subseteq> begun_calls calls n s'"
    using paid card_mono [OF finite_begun_calls that(2)] that(1) by simp
  have kept: "begun_calls calls n s \<subseteq> begun_calls calls n s'"
    if "cf_log s' = cf_log s" "cf_phase s' = (cf_phase s)(i := q)" "\<not> pending q" for i q
    using that by (auto simp: begun_calls_def admitted_calls_def)
  from assms(2) show ?thesis
  proof cases
    case (refuse i)
    then show ?thesis by (intro idle kept [of i "Done (Inl (raise_as_mcp_tool_error (concurrency_error g)))"]) (simp_all add: pending_def)
  next
    case (acquire i k)
    then show ?thesis by (intro idle kept [of i Holding]) (simp_all add: pending_def)
  next
    case (admit_fails i st' e)
    with call_admit_world [of g "calls i" "cf_state s"] show ?thesis
      by (intro idle kept [of i "Finishing (Inl e)"]) (simp_all add: pending_def)
  next
    case (admitted i st' adm)
    have "i \<notin> set (cf_log s)" using ok admitted(2) by (simp add: log_ok_def)
    with admitted call_admit_world [of g "calls i" "cf_state s"] show ?thesis
      by (intro idle) (auto simp: begun_calls_def admitted_calls_def)
  next
    case (run i adm st' r)
    have i: "i \<in> set (cf_log s)" "pending (cf_phase s i)" using ok run(2) by (simp_all add: log_ok_def pending_def)
    have "gs_world st' = fst (tc_fn (calls i) (tc_args (calls i)) (ad_kwargs adm) (gs_world (cf_state s)))"
      using run(3) by (auto simp: call_run_def run_tool_def split_beta)
    then have world: "cost (gs_world st') \<le> cost (gs_world (cf_state s)) + (if tc_tool (calls i) = n then 1 else 0)"
      using assms(1) metered by simp
    have begun: "begun_calls calls n s' = (if tc_tool (calls i) = n then insert i (begun_calls calls n s) else begun_calls calls n s)"
      using run i by (auto simp: begun_calls_def admitted_calls_def pending_def)
    have "i \<notin> begun_calls calls n s" using i by (simp add: begun_calls_def)
    with world begun paid run show ?thesis by (cases "tc_tool (calls i) = n") simp_all
  next
    case (finish i r)
    then show ?thesis by (intro idle kept [of i "Done (to_client r)"]) (simp_all add: pending_def)
  next
    case token_issued
    then show ?thesis by (intro idle) (simp_all add: begun_calls_def admitted_calls_def)
  qed
qed

text \<open>From an empty store: the cost of all runs is covered by the grants spent on the tool.\<close>

lemma cost_covered:
  assumes "\<forall>i. tools (tc_tool (calls i)) = Some (tc_fn (calls i))"
    and "g_policy g = default_conservative_evaluate" and "dict_get (g_catalog g) n = Some MUTATION"
    and "reachable_config g calls (initial_config g (Some []) audit world) s" and "cost world = 0"
    and "gs_store (cf_state s) = Some m" and "only_single_use n m"
  shows "cost (gs_world (cf_state s)) \<le> card (spent_tokens n m)"
proof -
  have "(gate_step g calls)\<^sup>*\<^sup>* (initial_config g (Some []) audit world) s"
    using assms(4) by (simp add: reachable_config_def)
  then have "log_ok s \<and> covered calls n s \<and> cost (gs_world (cf_state s)) \<le> card (begun_calls calls n s)"
  proof (induction rule: rtranclp_induct)
    case base
    show ?case
      by (simp add: log_ok_def pending_def covered_def admitted_calls_def initial_config_def initial_state_def assms(5))
  next
    case (step y z)
    with log_ok_step covered_step [OF assms(2,3)] paid_step [OF assms(1)] show ?case by blast
  qed
  moreover from this assms(6,7) have "card (admitted_calls calls n s) \<le> card (spent_tokens n m)"
    by (simp add: covered_def)
  ultimately show ?thesis using begun_le_admitted [of calls n s] by linarith
qed

end

section \<open>The commands of the Runflare tools\<close>

text \<open>How often the command of a Runflare tool was run.\<close>

definition commands_run :: "runflare_call \<Rightarrow> effect list \<Rightarrow> nat" where
  "commands_run call log =
     length (filter (\<lambda>e. case e of Command argv cwd \<Rightarrow> tl argv = call_command call | _ \<Rightarrow> False) log)"

lemma commands_run_append: "commands_run call (log @ new) = commands_run call log + commands_run call new"
  by (simp add: commands_run_def)

lemma commands_run_Nil [simp]: "commands_run call [] = 0"
  by (simp add: commands_run_def)

lemma call_command_inject: "call_command a = call_command b \<longleftrightarrow> a = b"
  by (cases a; cases b) simp_all

lemma commands_run_none: "list_all (allowed_effect w p n) new \<Longrightarrow> n \<noteq> runflare_tool_name call \<Longrightarrow> commands_run call new = 0"
  by (induction new)
    (auto simp: commands_run_def allowed_effect_def call_command_inject split: effect.splits)

lemma served_runflare_method:
  assumes "(runflare_tool_name call, m) \<in> set (served_methods w p av)"
  obtains c where "tm_body m = (\<lambda>vs. runflare_tool (command_wire w) c call)"
proof -
  have fixed: "runflare_tool_name call \<notin> set (governed_docs @ governed_github @ governed_registry @
      [TOOL_GOV_PING_LOW_RISK, TOOL_GOV_APPLY_MARK] @ governed_operations)"
  proof
    assume "runflare_tool_name call \<in> set (governed_docs @ governed_github @ governed_registry @
        [TOOL_GOV_PING_LOW_RISK, TOOL_GOV_APPLY_MARK] @ governed_operations)"
    moreover have "list_all (\<lambda>n. hd n = CHR ''y'') (governed_docs @ governed_github @ governed_registry @
        [TOOL_GOV_PING_LOW_RISK, TOOL_GOV_APPLY_MARK] @ governed_operations)"
      by code_simp
    ultimately have "hd (runflare_tool_name call) = CHR ''y''" unfolding list_all_iff by (rule bspec [rotated])
    then show False by (cases call) simp_all
  qed
  with assms obtain c where "(runflare_tool_name call, m) \<in> set (runflare_methods w c)"
    using method_listed [OF _ method_names(1)] method_listed [OF _ method_names(2)] method_listed [OF _ method_names(3)]
      method_listed [OF _ method_names(5)] method_listed [OF _ method_names(6)]
    by (cases "sp_cli p"; fastforce simp: served_methods_def split: if_splits)
  then show ?thesis
    using that by (cases call) (auto simp: runflare_methods_def)
qed

interpretation runflare: metered_tools "served_tool w p av" "commands_run call" "runflare_tool_name call"
  for w p av call
proof unfold_locales
  fix k fn args kw and log :: "effect list"
  assume "served_tool w p av k = Some fn"
  then obtain m where m: "(k, m) \<in> set (served_methods w p av)" and fn: "fn = call_method m"
    by (auto simp: served_tool_def dest: map_of_SomeD)
  show "commands_run call (fst (fn args kw log)) \<le> commands_run call log + (if k = runflare_tool_name call then 1 else 0)"
  proof (cases "k = runflare_tool_name call")
    case False
    obtain new where "fst (fn args kw log) = log @ new" and "list_all (allowed_effect w p k) new"
      using served_tool_confined [OF \<open>served_tool w p av k = Some fn\<close>, of args kw log] by (metis prod.collapse)
    with False show ?thesis by (simp add: commands_run_append commands_run_none)
  next
    case True
    then obtain c where "tm_body m = (\<lambda>vs. runflare_tool (command_wire w) c call)"
      using m served_runflare_method by blast
    then have body: "fst (tm_body m vs log) = log @ [Command (rc_binary c # call_command call) (Some (rc_project_dir c))]" for vs
      by (simp add: runflare_tool_def fst_then_return operation_runs_command command_wire_def Let_def)
    have "fst (fn args kw log) = log \<or> (\<exists>vs. fst (fn args kw log) = fst (tm_body m vs log))"
      by (auto simp: fn call_method_def split_beta split: sum.split)
    with body True show ?thesis by (auto simp: commands_run_append commands_run_def)
  qed
qed

end
