(* ===== verification/Core_Contracts.thy ===== *)
theory Core_Contracts
  imports Mcp_Errors Py_Regex
begin

text \<open>
  The exports in the shape of the Yasin-Core contracts (\<open>compat/core_contracts.py\<close>): health
  reports, service status snapshots and error records, each built from loosely typed
  observations and checked by a validator of the same module.
\<close>

section \<open>Vocabularies\<close>

definition CORE_CONTRACT_VERSION :: string where
  "CORE_CONTRACT_VERSION = ''1.1.0''"

definition CORE_MIN_VERSION :: string where
  "CORE_MIN_VERSION = ''3.4.0''"

definition CORE_VERSION_COMPAT :: string where
  "CORE_VERSION_COMPAT = ''>=3.4.0''"

definition CORE_IMPORT_BOUNDARY :: string where
  "CORE_IMPORT_BOUNDARY = ''yasin_core.sdk''"

text \<open>The sets, in the order in which \<open>sorted\<close> prints them.\<close>

definition CORE_HEALTH_STATES :: "string list" where
  "CORE_HEALTH_STATES = [''DEGRADED'', ''HEALTHY'', ''UNHEALTHY'', ''UNKNOWN'']"

definition CORE_STATUS_VALUES :: "string list" where
  "CORE_STATUS_VALUES = [''FAILED'', ''IDLE'', ''RUNNING'', ''STALE'', ''STOPPED'', ''SUCCESS'', ''UNKNOWN'']"

definition CORE_ERROR_CODES :: "string list" where
  "CORE_ERROR_CODES = [''CONFLICT'', ''INVALID'', ''NOT_FOUND'', ''REFUSED'', ''TIMEOUT'', ''UNAVAILABLE'', ''UNKNOWN'']"

definition HEALTHY_TOKENS :: "string list" where
  "HEALTHY_TOKENS = [''healthy'', ''ok'', ''up'']"

definition DEGRADED_TOKENS :: "string list" where
  "DEGRADED_TOKENS = [''degraded'']"

definition UNHEALTHY_TOKENS :: "string list" where
  "UNHEALTHY_TOKENS = [''unhealthy'', ''failed'', ''failure'', ''error'', ''down'']"

fun coerce_error_code_compatible :: "error_category \<Rightarrow> string" where
  "coerce_error_code_compatible VALIDATION_ERROR = ''INVALID''"
| "coerce_error_code_compatible NOT_FOUND = ''NOT_FOUND''"
| "coerce_error_code_compatible UNAUTHENTICATED = ''REFUSED''"
| "coerce_error_code_compatible UNAUTHORIZED = ''REFUSED''"
| "coerce_error_code_compatible POLICY_DENIED = ''REFUSED''"
| "coerce_error_code_compatible RATE_LIMITED = ''CONFLICT''"
| "coerce_error_code_compatible TIMEOUT = ''TIMEOUT''"
| "coerce_error_code_compatible UNAVAILABLE_DEPENDENCY = ''UNAVAILABLE''"
| "coerce_error_code_compatible UPSTREAM_ERROR = ''UNAVAILABLE''"
| "coerce_error_code_compatible INTERNAL_ERROR = ''UNKNOWN''"

section \<open>Redaction\<close>

text \<open>
  The two patterns. Both groups of the first are kept and the word after them is replaced;
  the second is replaced whole.
\<close>

definition SECRET_KEEP :: re where
  "SECRET_KEEP =
     seqs [alts [lit_ci ''token'', lit_ci ''secret'', lit_ci ''password'', lit_ci ''passwd'',
                 seqs [lit_ci ''api'', opt (chars ''_-''), lit_ci ''key''], lit_ci ''bearer'', lit_ci ''authorization''],
           star py_isspace, Class (chars '':=''), star py_isspace]"

definition SECRET_GONE :: re where
  "SECRET_GONE = plus (\<lambda>c. \<not> py_isspace c)"

definition jwt_char :: "char \<Rightarrow> bool" where
  "jwt_char c \<longleftrightarrow> ascii_alnum c \<or> c = CHR ''_'' \<or> c = CHR ''-''"

definition JWT_PATTERN :: re where
  "JWT_PATTERN =
     seqs [Class (\<lambda>c. c = CHR ''e''), Class (\<lambda>c. c = CHR ''y''), Class (\<lambda>c. c = CHR ''J''), plus jwt_char,
           Class (\<lambda>c. c = CHR ''.''), plus jwt_char, Class (\<lambda>c. c = CHR ''.''), plus jwt_char]"

definition redact_secrets_compatible :: "pyval \<Rightarrow> int \<Rightarrow> string" where
  "redact_secrets_compatible text limit =
     (let cleaned = re_sub SECRET_KEEP SECRET_GONE ''***'' (py_str text);
          cleaned2 = re_sub Eps JWT_PATTERN ''***'' cleaned
      in take (nat (max 1 limit)) cleaned2)"

section \<open>Coercions\<close>

definition coerce_health_state_compatible :: "pyval \<Rightarrow> string" where
  "coerce_health_state_compatible value =
     (let token = py_lower (py_strip (py_str (py_or value (VStr [])))) in
      if token \<in> set HEALTHY_TOKENS then ''HEALTHY''
      else if token \<in> set DEGRADED_TOKENS then ''DEGRADED''
      else if token \<in> set UNHEALTHY_TOKENS then ''UNHEALTHY''
      else ''UNKNOWN'')"

definition coerce_status_value_compatible :: "pyval \<Rightarrow> string" where
  "coerce_status_value_compatible value =
     (let token = py_upper (py_strip (py_str (py_or value (VStr [])))) in
      if token \<in> set CORE_STATUS_VALUES then token else ''UNKNOWN'')"

fun coerce_pid :: "pyval \<Rightarrow> pyval" where
  "coerce_pid (VInt i) = (if i \<le> 0 then VNone else VInt i)"
| "coerce_pid _ = VNone"

section \<open>Validators\<close>

definition core_error :: "string \<Rightarrow> pyexn" where
  "core_error msg = PyError ''ValueError'' msg"

text \<open>The text of an f-string that names a set of allowed values.\<close>

definition one_of :: "string \<Rightarrow> string list \<Rightarrow> string" where
  "one_of what vs = what @ '' must be one of '' @ py_repr (VList (map VStr vs)) @ ''.''"

definition non_empty_str :: "pyval \<Rightarrow> bool" where
  "non_empty_str v \<longleftrightarrow> is_str v \<and> \<not> blank (py_str v)"

definition is_bool :: "pyval \<Rightarrow> bool" where
  "is_bool v \<longleftrightarrow> (case v of VBool _ \<Rightarrow> True | _ \<Rightarrow> False)"

definition pid_ok :: "pyval \<Rightarrow> bool" where
  "pid_ok v \<longleftrightarrow> (case v of VNone \<Rightarrow> True | VInt i \<Rightarrow> 0 < i | _ \<Rightarrow> False)"

definition validate_core_health_report :: "pyval \<Rightarrow> unit result" where
  "validate_core_health_report v =
     (case v of
        VDict d \<Rightarrow>
          (if \<not> non_empty_str (vget_or d ''service'' VNone) then
             Inl (core_error ''HealthReport.service must be a non-empty string.'')
           else if py_str (vget_or d ''state'' VNone) \<notin> set CORE_HEALTH_STATES then
             Inl (core_error (one_of ''HealthReport.state'' CORE_HEALTH_STATES))
           else if \<not> is_str (vget_or d ''message'' VNone) then
             Inl (core_error ''HealthReport.message must be a string.'')
           else if \<not> is_dict (vget_or d ''details'' VNone) then
             Inl (core_error ''HealthReport.details must be a dict.'')
           else Inr ())
      | _ \<Rightarrow> Inl (core_error ''HealthReport snapshot must be a dict.''))"

definition validate_core_service_status :: "pyval \<Rightarrow> unit result" where
  "validate_core_service_status v =
     (case v of
        VDict d \<Rightarrow>
          (if \<not> non_empty_str (vget_or d ''name'' VNone) then
             Inl (core_error ''ServiceStatus.name must be a non-empty string.'')
           else if py_str (vget_or d ''status'' VNone) \<notin> set CORE_STATUS_VALUES then
             Inl (core_error (one_of ''ServiceStatus.status'' CORE_STATUS_VALUES))
           else if \<not> pid_ok (vget_or d ''pid'' VNone) then
             Inl (core_error ''ServiceStatus.pid must be a positive integer PID or None.'')
           else if \<not> is_bool (vget_or d ''running'' VNone) then
             Inl (core_error ''ServiceStatus.running must be a bool.'')
           else if \<not> is_str (vget_or d ''message'' VNone) then
             Inl (core_error ''ServiceStatus.message must be a string.'')
           else if \<not> is_dict (vget_or d ''extra'' VNone) then
             Inl (core_error ''ServiceStatus.extra must be a dict.'')
           else Inr ())
      | _ \<Rightarrow> Inl (core_error ''ServiceStatus snapshot must be a dict.''))"

definition validate_core_error_info :: "pyval \<Rightarrow> unit result" where
  "validate_core_error_info v =
     (case v of
        VDict d \<Rightarrow>
          (if py_str (vget_or d ''code'' VNone) \<notin> set CORE_ERROR_CODES then
             Inl (core_error (one_of ''ErrorInfo.code'' CORE_ERROR_CODES))
           else if \<not> is_str (vget_or d ''message'' VNone) then
             Inl (core_error ''ErrorInfo.message must be a string.'')
           else if \<not> is_dict (vget_or d ''details'' VNone) then
             Inl (core_error ''ErrorInfo.details must be a dict.'')
           else Inr ())
      | _ \<Rightarrow> Inl (core_error ''ErrorInfo record must be a dict.''))"

section \<open>Builders\<close>

text \<open>A builder validates the record it has built and returns it.\<close>

definition checked_record :: "(pyval \<Rightarrow> unit result) \<Rightarrow> sdict \<Rightarrow> sdict result" where
  "checked_record check d = res_bind (check (vdict d)) (\<lambda>_. Inr d)"

definition mcp_health_to_core_report ::
  "pyval \<Rightarrow> pyval \<Rightarrow> pyval \<Rightarrow> (pyval \<times> pyval) list option \<Rightarrow> sdict result" where
  "mcp_health_to_core_report service status message details =
     (let name = py_strip (py_str (py_or service (VStr []))) in
      if name = [] then Inl (core_error ''service must be a non-empty string.'')
      else checked_record validate_core_health_report
             [(''service'', VStr name), (''state'', VStr (coerce_health_state_compatible status)),
              (''message'', VStr (py_str (py_or message (VStr [])))),
              (''details'', VDict (case details of None \<Rightarrow> [] | Some d \<Rightarrow> d))])"

definition operations_result_to_core_status ::
  "pyval \<Rightarrow> pyval \<Rightarrow> pyval \<Rightarrow> pyval \<Rightarrow> pyval \<Rightarrow> (pyval \<times> pyval) list option \<Rightarrow> sdict result" where
  "operations_result_to_core_status name status running message pid extra =
     (let service_name = py_strip (py_str (py_or name (VStr []))) in
      if service_name = [] then Inl (core_error ''name must be a non-empty string.'')
      else checked_record validate_core_service_status
             [(''name'', VStr service_name), (''status'', VStr (coerce_status_value_compatible status)),
              (''pid'', coerce_pid pid), (''running'', VBool (py_bool running)),
              (''message'', VStr (py_str (py_or message (VStr [])))),
              (''extra'', VDict (case extra of None \<Rightarrow> [] | Some d \<Rightarrow> d))])"

definition CORE_BLOCKED_KEYS :: "string list" where
  "CORE_BLOCKED_KEYS =
     [''token'', ''secret'', ''password'', ''credential'', ''authorization'', ''api_key'', ''apikey'']"

definition core_blocked_key :: "string \<Rightarrow> bool" where
  "core_blocked_key k \<longleftrightarrow> list_ex (\<lambda>part. py_in part (normal_key k)) CORE_BLOCKED_KEYS"

fun core_safe_details :: "sdict \<Rightarrow> sdict \<Rightarrow> sdict" where
  "core_safe_details out [] = out"
| "core_safe_details out ((key, value) # items) =
     (if core_blocked_key key then core_safe_details out items
      else core_safe_details (dict_set key (safe_value value) out) items)"

definition mcp_error_to_core_info :: "mcp_error \<Rightarrow> sdict option \<Rightarrow> sdict result" where
  "mcp_error_to_core_info e details =
     (let given = (case details of Some d \<Rightarrow> d | None \<Rightarrow> err_details e)
      in checked_record validate_core_error_info
           [(''code'', VStr (coerce_error_code_compatible (err_category e))),
            (''message'', VStr (redact_secrets_compatible (VStr (err_message e)) 500)),
            (''details'', vdict (core_safe_details [] given))])"

definition core_contract_summary :: sdict where
  "core_contract_summary =
     [(''core_contract_version'', VStr CORE_CONTRACT_VERSION), (''core_min_version'', VStr CORE_MIN_VERSION),
      (''core_version_compat'', VStr CORE_VERSION_COMPAT), (''core_import_boundary'', VStr CORE_IMPORT_BOUNDARY),
      (''scope'', VStr ''observation_only''), (''lifecycle'', VStr ''not_owned''),
      (''control_plane'', VStr ''YasinHub''), (''shared_contracts'', VStr ''Yasin-Core''),
      (''produces'', VList (map VStr [''HealthReport'', ''ServiceStatus'', ''ErrorInfo''])),
      (''explicitly_not_produced'', VList [VStr ''ControlResult'']), (''control_result_owner'', VStr ''YasinHub'')]"

section \<open>The contract of a builder\<close>

text \<open>
  What a consumer of an export relies on: a record that comes out passes the validator of
  its contract, and the only failure is the one the builder announces.
\<close>

locale record_builder =
  fixes build :: "'a \<Rightarrow> sdict result"
    and check :: "pyval \<Rightarrow> unit result"
    and usable :: "'a \<Rightarrow> bool"
  assumes built_checks: "build x = Inr r \<Longrightarrow> check (vdict r) = Inr ()"
    and built_iff: "(\<exists>r. build x = Inr r) = usable x"
begin

lemma unusable_raises: "\<not> usable x \<Longrightarrow> \<exists>e. build x = Inl e"
  using built_iff [of x] by (cases "build x") auto

lemma batch_checks:
  assumes "list_all usable xs"
  shows "\<exists>rs. res_mapM build xs = Inr rs \<and> list_all (\<lambda>r. check (vdict r) = Inr ()) rs"
  using assms
proof (induction xs)
  case Nil
  then show ?case by simp
next
  case (Cons x xs)
  then obtain r rs where "build x = Inr r" and "res_mapM build xs = Inr rs"
    and "list_all (\<lambda>r. check (vdict r) = Inr ()) rs"
    using built_iff [of x] by auto
  then show ?case using built_checks [of x r] by simp
qed

end

lemma vget_or_vdict: "vget_or (map (\<lambda>(k, v). (VStr k, v)) d) k x = (case dict_get d k of Some v \<Rightarrow> v | None \<Rightarrow> x)"
  by (simp add: vget_or_def vget_def)

lemma checked_record_Inr: "checked_record check d = Inr r \<longleftrightarrow> r = d \<and> check (vdict d) = Inr ()"
  by (auto simp: checked_record_def res_bind_eq_Inr)

lemma health_state_known: "coerce_health_state_compatible v \<in> set CORE_HEALTH_STATES"
  by (simp add: coerce_health_state_compatible_def CORE_HEALTH_STATES_def Let_def)

lemma status_value_known: "coerce_status_value_compatible v \<in> set CORE_STATUS_VALUES"
  by (simp add: coerce_status_value_compatible_def CORE_STATUS_VALUES_def Let_def)

lemma error_code_known: "coerce_error_code_compatible c \<in> set CORE_ERROR_CODES"
  by (cases c) (simp_all add: CORE_ERROR_CODES_def)

lemma coerced_pid_ok: "pid_ok (coerce_pid v)"
  by (cases v) (simp_all add: pid_ok_def)

lemma stripped_not_blank: "py_strip s \<noteq> [] \<Longrightarrow> \<not> blank (py_strip s)"
  by (simp add: blank_def)

definition given_name :: "pyval \<Rightarrow> string" where
  "given_name v = py_strip (py_str (py_or v (VStr [])))"

lemma health_report_valid:
  "given_name service \<noteq> [] \<Longrightarrow> validate_core_health_report
     (vdict [(''service'', VStr (given_name service)), (''state'', VStr (coerce_health_state_compatible status)),
             (''message'', VStr m), (''details'', VDict d)]) = Inr ()"
  using health_state_known [of status]
  by (simp add: validate_core_health_report_def vdict_def vget_or_def vget_def non_empty_str_def given_name_def stripped_not_blank)

lemma service_status_valid:
  "given_name name \<noteq> [] \<Longrightarrow> validate_core_service_status
     (vdict [(''name'', VStr (given_name name)), (''status'', VStr (coerce_status_value_compatible status)),
             (''pid'', coerce_pid pid), (''running'', VBool r), (''message'', VStr m), (''extra'', VDict d)]) = Inr ()"
  using status_value_known [of status] coerced_pid_ok [of pid]
  by (simp add: validate_core_service_status_def vdict_def vget_or_def vget_def non_empty_str_def given_name_def
      stripped_not_blank is_bool_def)

lemma error_info_valid:
  "validate_core_error_info
     (vdict [(''code'', VStr (coerce_error_code_compatible c)), (''message'', VStr m), (''details'', vdict d)]) = Inr ()"
  using error_code_known [of c]
  by (simp add: validate_core_error_info_def vdict_def vget_or_def vget_def)

interpretation health: record_builder
  "\<lambda>(service, status, message, details). mcp_health_to_core_report service status message details"
  validate_core_health_report "\<lambda>(service, _). given_name service \<noteq> []"
  by unfold_locales
    (auto simp: mcp_health_to_core_report_def Let_def checked_record_Inr health_report_valid
      simp flip: given_name_def split: if_splits)

interpretation status: record_builder
  "\<lambda>(name, status, running, message, pid, extra). operations_result_to_core_status name status running message pid extra"
  validate_core_service_status "\<lambda>(name, _). given_name name \<noteq> []"
  by unfold_locales
    (auto simp: operations_result_to_core_status_def Let_def checked_record_Inr service_status_valid
      simp flip: given_name_def split: if_splits)

interpretation info: record_builder "\<lambda>(e, details). mcp_error_to_core_info e details"
  validate_core_error_info "\<lambda>_. True"
  by unfold_locales
    (auto simp: mcp_error_to_core_info_def Let_def checked_record_Inr error_info_valid)

section \<open>Properties\<close>

text \<open>A health report is exported exactly for a named service; it passes the validator of its
  contract, and it says \<open>HEALTHY\<close> only for one of the three explicit tokens: never as a guess.\<close>

theorem health_report_never_guesses:
  "(given_name service \<noteq> []) =
     (\<exists>r. mcp_health_to_core_report service status message details = Inr r \<and>
        validate_core_health_report (vdict r) = Inr () \<and>
        (dict_get r ''state'' = Some (VStr ''HEALTHY'')) =
          (py_lower (given_name status) \<in> {''healthy'', ''ok'', ''up''}))"
    (is "?named = (\<exists>r. ?built r \<and> ?valid r \<and> ?honest r)")
proof -
  have "?honest r" if "?built r" for r
    using that
    by (auto simp: mcp_health_to_core_report_def Let_def checked_record_Inr coerce_health_state_compatible_def
        HEALTHY_TOKENS_def given_name_def split: if_splits)
  moreover have "(\<exists>r. ?built r) = ?named" and "?built r \<Longrightarrow> ?valid r" for r
    using health.built_iff [of "(service, status, message, details)"]
      health.built_checks [of "(service, status, message, details)"] by auto
  ultimately show ?thesis by blast
qed

lemma core_safe_details_items:
  assumes "list_all (\<lambda>(k, v). \<not> core_blocked_key k \<and> is_scalar v) out"
  shows "list_all (\<lambda>(k, v). \<not> core_blocked_key k \<and> is_scalar v) (core_safe_details out ds)"
  using assms
proof (induction out ds rule: core_safe_details.induct)
  case (2 out k v items)
  then show ?case
    using dict_set_items [of _ k "safe_value v" out] by (fastforce simp: list_all_iff split: if_splits)
qed simp

lemma redacted_length: "length (redact_secrets_compatible t limit) \<le> nat (max 1 limit)"
  by (simp add: redact_secrets_compatible_def Let_def)

text \<open>C40: Every structured error can be exported: the record passes the validator of its contract,
  its message is at most 500 characters, and its details hold only scalars under keys that
  do not name a credential.\<close>

theorem error_export_total_and_safe:
  "\<exists>code_text msg ds. mcp_error_to_core_info e details =
       Inr [(''code'', VStr code_text), (''message'', VStr msg), (''details'', vdict ds)] \<and>
     validate_core_error_info (vdict [(''code'', VStr code_text), (''message'', VStr msg), (''details'', vdict ds)]) = Inr () \<and>
     code_text \<in> set CORE_ERROR_CODES \<and> length msg \<le> 500 \<and>
     list_all (\<lambda>(k, v). \<not> core_blocked_key k \<and> is_scalar v) ds"
proof -
  obtain r where r: "mcp_error_to_core_info e details = Inr r"
    using info.built_iff [of "(e, details)"] by auto
  then have "validate_core_error_info (vdict r) = Inr ()"
    using info.built_checks [of "(e, details)"] by simp
  with r show ?thesis
    using redacted_length [of "VStr (err_message e)" 500] error_code_known [of "err_category e"]
      core_safe_details_items [of "[]"]
    by (auto simp: mcp_error_to_core_info_def Let_def checked_record_Inr)
qed

text \<open>
  The redaction stops at the scheme of an authorization header: the word after the separator
  is the scheme, and the credential behind it stays.
\<close>

lemma bearer_credential_survives:
  "redact_secrets_compatible (VStr ''Authorization: Bearer abc'') 500 = ''Authorization: *** abc''"
  by code_simp

end
