(* ===== verification/Tool_Signature.thy ===== *)
theory Tool_Signature
  imports Server_Tools
begin

text \<open>
  What \<open>wrap_tool\<close> of \<open>governance/gate.py\<close> does besides the call itself: it refuses coroutine
  functions, and it gives the wrapper the signature of the wrapped function with its annotations
  resolved, from which the MCP library makes the schema of the tool. Evaluating the text of an
  annotation in the globals of the function's module is a parameter.
\<close>

section \<open>Signatures\<close>

text \<open>An annotation is missing, still the source text, or a type (named by its text).\<close>

datatype annotation = Unannotated | Source_text string | Concrete_type string

datatype parameter_kind = Positional_only | Positional_or_keyword | Var_positional | Keyword_only | Var_keyword

record parameter =
  pa_name :: string
  pa_kind :: parameter_kind
  pa_default :: "pyval option"
  pa_annotation :: annotation

record py_signature =
  sg_parameters :: "parameter list"
  sg_return :: annotation

record callable =
  cb_coroutine :: bool
  cb_signature :: py_signature
  cb_evaluate :: "string \<Rightarrow> string result"

text \<open>\<open>get_type_hints\<close>: the annotations in order, those of the parameters before the result's; the first
  that cannot be evaluated raises.\<close>

fun evaluate_hints :: "(string \<Rightarrow> string result) \<Rightarrow> (string \<times> annotation) list \<Rightarrow> (string \<times> string) list result" where
  "evaluate_hints eval [] = Inr []"
| "evaluate_hints eval ((name, a) # rest) =
     (case a of
        Unannotated \<Rightarrow> evaluate_hints eval rest
      | Concrete_type t \<Rightarrow> res_bind (evaluate_hints eval rest) (\<lambda>hs. Inr ((name, t) # hs))
      | Source_text s \<Rightarrow>
          res_bind (eval s) (\<lambda>t. res_bind (evaluate_hints eval rest) (\<lambda>hs. Inr ((name, t) # hs))))"

definition type_hints :: "callable \<Rightarrow> (string \<times> string) list result" where
  "type_hints cb =
     evaluate_hints (cb_evaluate cb)
       (map (\<lambda>p. (pa_name p, pa_annotation p)) (sg_parameters (cb_signature cb))
        @ [(''return'', sg_return (cb_signature cb))])"

definition resolved :: "(string \<times> string) list \<Rightarrow> string \<Rightarrow> annotation \<Rightarrow> annotation" where
  "resolved hints name a = (case dict_get hints name of Some t \<Rightarrow> Concrete_type t | None \<Rightarrow> a)"

definition exposed_signature :: "callable \<Rightarrow> py_signature result" where
  "exposed_signature cb =
     (let sg = cb_signature cb in
      res_bind
        (case type_hints cb of
           Inl e \<Rightarrow> if exn_class_name e \<in> {''NameError'', ''TypeError''} then Inr [] else Inl e
         | Inr hints \<Rightarrow> Inr hints)
        (\<lambda>hints.
          if hints = [] then Inr sg
          else Inr \<lparr>sg_parameters = map (\<lambda>p. p\<lparr>pa_annotation := resolved hints (pa_name p) (pa_annotation p)\<rparr>) (sg_parameters sg),
                    sg_return = (if sg_return sg = Unannotated then Unannotated
                                 else resolved hints ''return'' (sg_return sg))\<rparr>))"

text \<open>The wrapped tool: its signature, and the guarded call of theory \<open>Gate\<close>.\<close>

record ('a, 'w) wrapped_tool =
  wt_signature :: py_signature
  wt_call :: "call_env \<Rightarrow> pyval list \<Rightarrow> sdict \<Rightarrow> ('a, 'w) gate_state \<Rightarrow> ('a, 'w) gate_state \<times> pyval result"

definition wrap_tool :: "'a gate \<Rightarrow> string \<Rightarrow> callable \<Rightarrow> 'w tool_fn \<Rightarrow> ('a, 'w) wrapped_tool result" where
  "wrap_tool g tool_name cb fn =
     (if cb_coroutine cb then
        Inl (PyError ''TypeError'' (''Async tool functions are not supported by GovernanceGate (tool '' @ str_repr tool_name @ '')''))
      else res_bind (exposed_signature cb) (\<lambda>sg.
        Inr \<lparr>wt_signature = sg, wt_call = (\<lambda>ce. sync_wrapper g ce tool_name fn)\<rparr>))"

section \<open>The signature stays that of the function\<close>

text \<open>All of a parameter but its annotation.\<close>

definition parameter_shape :: "parameter \<Rightarrow> string \<times> parameter_kind \<times> pyval option" where
  "parameter_shape p = (pa_name p, pa_kind p, pa_default p)"

lemma exposed_signature_cases:
  assumes "exposed_signature cb = Inr sg"
  obtains (unchanged) "sg = cb_signature cb"
    | (hints) hints where "sg_parameters sg =
        map (\<lambda>p. p\<lparr>pa_annotation := resolved hints (pa_name p) (pa_annotation p)\<rparr>) (sg_parameters (cb_signature cb))"
proof -
  obtain hints where "(if hints = [] then Inr (cb_signature cb)
      else Inr \<lparr>sg_parameters = map (\<lambda>p. p\<lparr>pa_annotation := resolved hints (pa_name p) (pa_annotation p)\<rparr>) (sg_parameters (cb_signature cb)),
               sg_return = (if sg_return (cb_signature cb) = Unannotated then Unannotated
                            else resolved hints ''return'' (sg_return (cb_signature cb)))\<rparr>) = (Inr sg :: py_signature result)"
    using assms unfolding exposed_signature_def Let_def res_bind_eq_Inr by blast
  then show ?thesis
    by (cases "hints = []") (use unchanged hints in \<open>fastforce+\<close>)
qed

lemma exposed_shape:
  assumes "exposed_signature cb = Inr sg"
  shows "map parameter_shape (sg_parameters sg) = map parameter_shape (sg_parameters (cb_signature cb))"
  using assms by (cases rule: exposed_signature_cases) (simp_all add: parameter_shape_def comp_def)

lemma hint_names: "evaluate_hints eval as = Inr hints \<Longrightarrow> (name, a) \<in> set as \<Longrightarrow> a \<noteq> Unannotated \<Longrightarrow> name \<in> set (dict_keys hints)"
  by (induction eval as arbitrary: hints rule: evaluate_hints.induct)
    (auto simp: res_bind_eq_Inr split: annotation.splits)

text \<open>If every annotation can be evaluated, none is left as source text.\<close>

lemma parameter_hint:
  assumes "type_hints cb = Inr hints" and "p \<in> set (sg_parameters (cb_signature cb))"
  shows "pa_annotation p = Unannotated \<or> (\<exists>t. dict_get hints (pa_name p) = Some t)"
proof (cases "pa_annotation p = Unannotated")
  case False
  have "(pa_name p, pa_annotation p) \<in> set (map (\<lambda>p. (pa_name p, pa_annotation p)) (sg_parameters (cb_signature cb))
      @ [(''return'', sg_return (cb_signature cb))])"
    using assms(2) by simp
  with assms(1) have "pa_name p \<in> set (dict_keys hints)"
    unfolding type_hints_def by (rule hint_names) (rule False)
  then have "dict_get hints (pa_name p) \<noteq> None" by (simp only: map_of_eq_None_iff set_map) simp
  then show ?thesis by blast
qed simp

lemma no_source_text:
  assumes "type_hints cb = Inr hints" and "exposed_signature cb = Inr sg" and "p \<in> set (sg_parameters sg)"
  shows "pa_annotation p \<noteq> Source_text s"
proof -
  have "exposed_signature cb =
    (if hints = [] then Inr (cb_signature cb)
     else Inr \<lparr>sg_parameters = map (\<lambda>p. p\<lparr>pa_annotation := resolved hints (pa_name p) (pa_annotation p)\<rparr>) (sg_parameters (cb_signature cb)),
               sg_return = (if sg_return (cb_signature cb) = Unannotated then Unannotated
                            else resolved hints ''return'' (sg_return (cb_signature cb)))\<rparr>)"
    by (simp only: exposed_signature_def assms(1) Let_def sum.case res_bind_Inr)
  with assms(2,3) obtain q where q: "q \<in> set (sg_parameters (cb_signature cb))" and
    p: "p = q \<and> hints = [] \<or> p = q\<lparr>pa_annotation := resolved hints (pa_name q) (pa_annotation q)\<rparr>"
    by (cases "hints = []") auto
  from parameter_hint [OF assms(1) q] p show ?thesis
    by (auto simp: resolved_def split: option.splits)
qed

section \<open>The signatures of the served tools\<close>

text \<open>The annotations in the toolsets, and what they mean in the modules that hold them.\<close>

definition parameter_source :: "string \<Rightarrow> string" where
  "parameter_source name =
     (if name \<in> {''limit'', ''number''} then ''int'' else if name = ''path_prefix'' then ''str | None'' else ''str'')"

definition tool_namespace :: "string \<Rightarrow> string result" where
  "tool_namespace text =
     (case map_of [(''str'', ''str''), (''int'', ''int''), (''str | None'', ''str | None''),
                   (''dict[str, Any]'', ''dict[str, typing.Any]'')] text of
        Some t \<Rightarrow> Inr t
      | None \<Rightarrow> Inl (PyError ''NameError'' text))"

text \<open>A bound method of a toolset, as Python shows it: the object is not among its parameters.\<close>

definition method_callable :: "tool_method \<Rightarrow> callable" where
  "method_callable m =
     \<lparr>cb_coroutine = False,
      cb_signature =
        \<lparr>sg_parameters = map (\<lambda>(name, d). \<lparr>pa_name = name, pa_kind = Positional_or_keyword, pa_default = d,
             pa_annotation = Source_text (parameter_source name)\<rparr>) (tm_params m),
         sg_return = Source_text ''dict[str, Any]''\<rparr>,
      cb_evaluate = tool_namespace\<rparr>"

definition RESERVED_ARGUMENTS :: "string list" where
  "RESERVED_ARGUMENTS = [AUTH_TOKEN_KWARG, APPROVAL_TOKEN_KWARG]"

definition client_type :: "annotation \<Rightarrow> bool" where
  "client_type a \<longleftrightarrow> a \<in> {Concrete_type ''str'', Concrete_type ''int'', Concrete_type ''str | None''}"

definition faithful_signature :: "tool_method \<Rightarrow> ('a, 'w) wrapped_tool result \<Rightarrow> bool" where
  "faithful_signature m r \<longleftrightarrow>
     (case r of
        Inl e \<Rightarrow> False
      | Inr t \<Rightarrow>
          map parameter_shape (sg_parameters (wt_signature t)) =
            map (\<lambda>(name, d). (name, Positional_or_keyword, d)) (tm_params m) \<and>
          list_all (\<lambda>p. client_type (pa_annotation p) \<and> pa_name p \<notin> set RESERVED_ARGUMENTS) (sg_parameters (wt_signature t)) \<and>
          sg_return (wt_signature t) = Concrete_type ''dict[str, typing.Any]'')"

text \<open>Faithfulness depends on the names and defaults of the parameters alone.\<close>

definition parameters_faithful :: "parameters \<Rightarrow> bool" where
  "parameters_faithful ps \<longleftrightarrow>
     (case exposed_signature (method_callable \<lparr>tm_name = [], tm_params = ps, tm_body = \<lambda>_. net_return []\<rparr>) of
        Inl e \<Rightarrow> False
      | Inr sg \<Rightarrow>
          list_all (\<lambda>p. client_type (pa_annotation p) \<and> pa_name p \<notin> set RESERVED_ARGUMENTS) (sg_parameters sg) \<and>
          sg_return sg = Concrete_type ''dict[str, typing.Any]'')"

lemma parameters_faithful_wrap:
  assumes "parameters_faithful (tm_params m)"
  shows "faithful_signature m (wrap_tool g n (method_callable m) fn)"
proof -
  have same: "method_callable \<lparr>tm_name = [], tm_params = tm_params m, tm_body = \<lambda>_. net_return []\<rparr> = method_callable m"
    by (simp add: method_callable_def)
  from assms obtain sg where sg: "exposed_signature (method_callable m) = Inr sg"
    "list_all (\<lambda>p. client_type (pa_annotation p) \<and> pa_name p \<notin> set RESERVED_ARGUMENTS) (sg_parameters sg)"
    "sg_return sg = Concrete_type ''dict[str, typing.Any]''"
    unfolding parameters_faithful_def same by (auto split: sum.splits)
  from exposed_shape [OF sg(1)] have "map parameter_shape (sg_parameters sg) =
      map (\<lambda>(name, d). (name, Positional_or_keyword, d)) (tm_params m)"
    by (simp add: method_callable_def parameter_shape_def comp_def split_beta)
  with sg show ?thesis
    by (simp add: faithful_signature_def wrap_tool_def) (simp add: method_callable_def)
qed

lemma toolset_parameters:
  "list_all parameters_faithful
     [[], [(''path'', None)], [(''query'', None), (''path_prefix'', Some VNone)], [(''name'', None)], [(''project'', None)],
      repo_params [], repo_params [(''limit'', Some (VInt 20))], repo_params [(''number'', None)], repo_params [(''sha'', None)],
      [(''mark'', Some (VStr ''stage11''))], [(''service_name'', None)]]"
  by code_simp

lemma served_parameters:
  assumes "(n, m) \<in> set (served_methods w p operations)"
  shows "parameters_faithful (tm_params m)"
  using assms toolset_parameters
  by (cases "sp_cli p")
    (auto simp: served_methods_def docs_methods_def github_methods_def registry_methods_def governance_methods_def
      runflare_methods_def operations_methods_def Let_def split: if_splits)

text \<open>C20: Governance hides no parameter from a client and adds none: \<open>wrap_tool\<close> accepts every served
  tool, and the signature from which its schema is made has exactly the parameters of the
  method that runs, in order and with their defaults, each with a concrete type; neither
  reserved credential argument is among them.\<close>

theorem served_signatures_faithful:
  "list_all (\<lambda>(n, m). faithful_signature m (wrap_tool g n (method_callable m) (call_method m)))
     (served_methods w p operations)"
  using served_parameters parameters_faithful_wrap by (fastforce simp: list_all_iff)

end
