(* ===== verification/Remote.thy ===== *)
theory Remote
  imports Gate Reliability
begin

text \<open>
  The remote transport (\<open>transport/bearer.py\<close>, \<open>transport/remote.py\<close>): the bearer credential,
  the optional asserted context of a request, and the middleware that decides whether the
  MCP application sees a request and with which context variables. The JSON decoder is
  the parameter \<open>loads\<close> (type \<open>decoded\<close>); the application itself is third-party code.
\<close>

section \<open>Bearer credentials\<close>

text \<open>\<open>s.split(None, 1)\<close>\<close>

definition split_first_word :: "string \<Rightarrow> string list" where
  "split_first_word s =
     (let t = py_lstrip s;
          w = takeWhile (\<lambda>c. \<not> py_isspace c) t;
          rest = py_lstrip (dropWhile (\<lambda>c. \<not> py_isspace c) t)
      in if t = [] then [] else if rest = [] then [w] else [w, rest])"

definition extract_bearer_token :: "string option \<Rightarrow> string option" where
  "extract_bearer_token header =
     (if falsy header then None
      else case split_first_word (py_strip (the header)) of
             [scheme, rest] \<Rightarrow>
               (if py_lower scheme \<noteq> ''bearer'' then None
                else if py_strip rest = [] then None else Some (py_strip rest))
           | _ \<Rightarrow> None)"

record token_verifier =
  tv_secret :: string
  tv_subject_id :: string
  tv_client_id :: string

record access_token =
  at_token :: string
  at_client_id :: string
  at_scopes :: "string list"
  at_claims :: sdict

text \<open>\<open>hmac.compare_digest\<close> where nothing catches its \<open>TypeError\<close>.\<close>

definition checked_digest :: "string \<Rightarrow> string \<Rightarrow> bool result" where
  "checked_digest a b =
     (case compare_digest a b of
        Some ok \<Rightarrow> Inr ok
      | None \<Rightarrow> Inl (PyError ''TypeError'' ''comparing strings with non-ASCII characters is not supported''))"

definition verify_token :: "token_verifier \<Rightarrow> string \<Rightarrow> access_token option result" where
  "verify_token v token =
     (if token = [] \<or> tv_secret v = [] then Inr None
      else res_bind (checked_digest token (tv_secret v)) (\<lambda>ok.
        if \<not> ok then Inr None
        else Inr (Some \<lparr>at_token = ''***'', at_client_id = tv_client_id v, at_scopes = [''mcp''],
                       at_claims = [(''sub'', VStr (tv_subject_id v))]\<rparr>)))"

section \<open>The asserted context header\<close>

definition CONTEXT_HEADER :: string where
  "CONTEXT_HEADER = ''x-yasin-context''"

definition MAX_CONTEXT_HEADER_LENGTH :: nat where
  "MAX_CONTEXT_HEADER_LENGTH = 8192"

text \<open>A decoded JSON object has string keys.\<close>

definition object_fields :: "(pyval \<times> pyval) list \<Rightarrow> sdict" where
  "object_fields d = map (\<lambda>(k, v). (py_str k, v)) d"

definition extract_integration_context ::
  "(string \<Rightarrow> decoded) \<Rightarrow> string option \<Rightarrow> integration_context option result" where
  "extract_integration_context loads raw =
     (if falsy raw then Inr None
      else if MAX_CONTEXT_HEADER_LENGTH < length (the raw) then
        Inl (PyError ''ValueError'' ''integration context header too large'')
      else case loads (the raw) of
          Undecodable \<Rightarrow> Inl (PyError ''ValueError'' ''integration context is not valid JSON'')
        | Decode_raised cls msg \<Rightarrow> Inl (PyError cls msg)
        | Decoded (VDict d) \<Rightarrow> map_sum id Some (from_mapping (Inr (object_fields d)))
        | Decoded _ \<Rightarrow> Inl (PyError ''ValueError'' ''integration context must be a JSON object''))"

section \<open>The middleware\<close>

record asgi_scope =
  as_type :: string
  as_path :: string
  as_headers :: "(string \<times> string) list"

text \<open>
  What becomes of a request: forwarded to the application, which runs with these context
  variables, answered with a status and a JSON body, or an exception.
\<close>

datatype disposition = Forward auth_vars | Reply int sdict | Raise pyexn

definition error_body :: "string \<Rightarrow> string \<Rightarrow> sdict" where
  "error_body code_text message =
     [(''error_contract_version'', VStr ''1.0.0''), (''code'', VStr code_text), (''message'', VStr message)]"

definition decoded_headers :: "(string \<times> string) list \<Rightarrow> (string \<times> string) list" where
  "decoded_headers hs = fold (\<lambda>(k, v). dict_set (py_lower k) v) hs []"

definition bearer_middleware ::
  "(string \<Rightarrow> decoded) \<Rightarrow> bool \<Rightarrow> string option \<Rightarrow> asgi_scope \<Rightarrow> auth_vars \<Rightarrow> disposition" where
  "bearer_middleware loads required expected scope av =
     (if as_type scope \<noteq> ''http'' then Forward av
      else if as_path scope \<in> {''/healthz'', ''/readyz''} then Forward av
      else
        let headers = decoded_headers (as_headers scope) in
        case extract_integration_context loads (dict_get headers CONTEXT_HEADER) of
          Inl (PyError cls msg) \<Rightarrow>
            (if cls = ''ValueError'' then Reply 400 (error_body ''INVALID_CONTEXT'' msg) else Raise (PyError cls msg))
        | Inl e \<Rightarrow> Raise e
        | Inr asserted \<Rightarrow>
            let token = extract_bearer_token (dict_get headers ''authorization'') in
            if required then
              (if token = None then Reply 401 (error_body ''AUTHENTICATION_REQUIRED'' ''Bearer authentication required'')
               else if falsy expected then Reply 401 (error_body ''AUTHENTICATION_FAILED'' ''Bearer authentication failed'')
               else case checked_digest (the token) (the expected) of
                      Inl e \<Rightarrow> Raise e
                    | Inr False \<Rightarrow> Reply 401 (error_body ''AUTHENTICATION_FAILED'' ''Bearer authentication failed'')
                    | Inr True \<Rightarrow> Forward (av\<lparr>av_secret := token, av_asserted := asserted\<rparr>))
            else
              (case (if falsy token \<or> falsy expected then Inr False else checked_digest (the token) (the expected)) of
                 Inl e \<Rightarrow> Raise e
               | Inr True \<Rightarrow> Forward (av\<lparr>av_secret := token, av_asserted := asserted\<rparr>)
               | Inr False \<Rightarrow>
                   if asserted \<noteq> None then Forward (av\<lparr>av_secret := None, av_asserted := asserted\<rparr>) else Forward av))"

definition expected_secret :: "server_config \<Rightarrow> string option" where
  "expected_secret cfg = map_option get_secret_value (auth_token cfg)"

text \<open>The middleware as \<open>build_remote_asgi_app\<close> installs it, and the start-up checks of the server.\<close>

definition remote_request ::
  "(string \<Rightarrow> decoded) \<Rightarrow> server_config \<Rightarrow> asgi_scope \<Rightarrow> auth_vars \<Rightarrow> disposition" where
  "remote_request loads cfg scope av =
     bearer_middleware loads (require_authentication cfg) (expected_secret cfg) scope av"

definition remote_server_checks :: "server_config \<Rightarrow> unit result" where
  "remote_server_checks cfg =
     (if \<not> remote_enabled cfg then
        Inl (PyError ''RuntimeError'' ''remote transport is not enabled in configuration'')
      else if \<not> remote_allow_insecure_http cfg \<and> (falsy (remote_tls_certfile cfg) \<or> falsy (remote_tls_keyfile cfg)) then
        Inl (PyError ''RuntimeError''
          (''remote TLS cert/key required or enable remote_allow_insecure_http '' @ ''only for local test''))
      else Inr ())"

section \<open>Facts\<close>

lemma checked_digest_True: "checked_digest a b = Inr True \<longleftrightarrow> a = b \<and> is_ascii a"
  by (auto simp: checked_digest_def compare_digest_def)

lemma extract_bearer_nonempty: "extract_bearer_token h = Some t \<Longrightarrow> t \<noteq> [] \<and> py_strip t = t"
  by (auto simp: extract_bearer_token_def split: list.splits if_splits)

lemma extracted_context_wf:
  assumes "extract_integration_context loads raw = Inr (Some c)"
  shows "wf_integration_context c"
proof -
  from assms obtain d where "map_sum id Some (from_mapping (Inr (object_fields d))) = Inr (Some c)"
    by (auto simp: extract_integration_context_def split: if_splits decoded.splits pyval.splits)
  then have "from_mapping (Inr (object_fields d)) = Inr c"
    by (cases "from_mapping (Inr (object_fields d))") auto
  then show ?thesis by (rule from_mapping_wf)
qed

definition protected_request :: "asgi_scope \<Rightarrow> bool" where
  "protected_request scope \<longleftrightarrow> as_type scope = ''http'' \<and> as_path scope \<notin> {''/healthz'', ''/readyz''}"

definition presented_bearer :: "asgi_scope \<Rightarrow> string option" where
  "presented_bearer scope = extract_bearer_token (dict_get (decoded_headers (as_headers scope)) ''authorization'')"

lemma middleware_forward:
  assumes "bearer_middleware loads required expected scope av = Forward av'" and "protected_request scope"
  obtains asserted where
    "extract_integration_context loads (dict_get (decoded_headers (as_headers scope)) CONTEXT_HEADER) = Inr asserted"
    and "(presented_bearer scope \<noteq> None \<and> presented_bearer scope = expected \<and> is_ascii (the expected) \<and>
           av' = av\<lparr>av_secret := presented_bearer scope, av_asserted := asserted\<rparr>) \<or>
         (\<not> required \<and> asserted \<noteq> None \<and> av' = av\<lparr>av_secret := None, av_asserted := asserted\<rparr>) \<or>
         (\<not> required \<and> asserted = None \<and> av' = av)"
proof -
  from assms obtain asserted where
    a: "extract_integration_context loads (dict_get (decoded_headers (as_headers scope)) CONTEXT_HEADER) = Inr asserted"
    by (auto simp: bearer_middleware_def protected_request_def Let_def split: sum.splits pyexn.splits if_splits)
  show ?thesis
  proof (cases "required")
    case True
    with assms a show ?thesis
      by (intro that [OF a])
        (auto simp: bearer_middleware_def protected_request_def presented_bearer_def Let_def falsy_def checked_digest_True
           split: if_splits sum.splits bool.splits)
  next
    case False
    with assms a show ?thesis
      by (intro that [OF a])
        (auto simp: bearer_middleware_def protected_request_def presented_bearer_def Let_def falsy_def checked_digest_True
           split: if_splits sum.splits bool.splits)
  qed
qed

text \<open>C12: With required authentication every request but a health probe reaches the application
  only if its bearer token is exactly the configured secret; it then runs with that token
  and a validated context, and the gate accepts it as authenticated.\<close>

theorem remote_requires_bearer:
  assumes "wf_config cfg" and "require_authentication cfg" and "protected_request scope"
    and "remote_request loads cfg scope av = Forward av'"
  shows "knows_secret (auth_token cfg) (av_secret av') \<and> av_secret av' = presented_bearer scope \<and>
    (av_asserted av' = None \<or> wf_integration_context (the (av_asserted av'))) \<and>
    (no_conflict (asserted_or_default (av_asserted av')) (auth_subject_id cfg) =
      (\<exists>b. resolve_authentication cfg (av_asserted av') (av_secret av') = Inr b))"
proof -
  from assms(4) obtain asserted where
    a: "extract_integration_context loads (dict_get (decoded_headers (as_headers scope)) CONTEXT_HEADER) = Inr asserted"
    and t: "presented_bearer scope \<noteq> None" "presented_bearer scope = expected_secret cfg"
      "is_ascii (the (expected_secret cfg))" "av' = av\<lparr>av_secret := presented_bearer scope, av_asserted := asserted\<rparr>"
    unfolding remote_request_def by (rule middleware_forward) (use assms(2,3) in auto)
  obtain sec where sec: "auth_token cfg = Some sec" and eq: "presented_bearer scope = Some (get_secret_value sec)"
    using t(1,2) by (cases "auth_token cfg") (auto simp: expected_secret_def)
  have "get_secret_value sec \<noteq> []"
    using extract_bearer_nonempty eq by (fastforce simp: presented_bearer_def)
  then have k: "knows_secret (auth_token cfg) (av_secret av')"
    using t sec eq by (simp add: knows_secret_def expected_secret_def)
  moreover have "asserted = None \<or> wf_integration_context (the asserted)"
    using a by (cases asserted) (auto dest: extracted_context_wf)
  ultimately show ?thesis
    using t(4) assms(1) by (simp add: resolve_known wf_config_subject bind_context_eq)
qed

text \<open>Without required authentication the middleware still never passes on a token it has not
  verified: the secret in effect is the caller's own earlier one, none, or the configured one.\<close>

theorem remote_never_forwards_unverified:
  assumes "protected_request scope" and "remote_request loads cfg scope av = Forward av'"
  shows "av_secret av' = av_secret av \<or> av_secret av' = None \<or> av_secret av' = expected_secret cfg"
  using assms(2) unfolding remote_request_def by (rule middleware_forward) (use assms(1) in auto)

definition demo_scope :: asgi_scope where
  "demo_scope = \<lparr>as_type = ''http'', as_path = ''/mcp'', as_headers = [(''Authorization'', ''Bearer s3cret'')]\<rparr>"

definition no_vars :: auth_vars where
  "no_vars = \<lparr>av_secret = None, av_asserted = None\<rparr>"

lemma demo_forwarded:
  "remote_request (\<lambda>_. Undecodable) demo_config demo_scope no_vars = Forward (no_vars\<lparr>av_secret := Some ''s3cret''\<rparr>)"
  "protected_request demo_scope" "wf_config demo_config" "require_authentication demo_config"
  by code_simp+

theorem remote_requires_bearer_witness: "knows_secret (auth_token demo_config) (Some ''s3cret'')"
  using remote_requires_bearer [OF demo_forwarded(3,4,2,1), THEN conjunct1] by simp

theorem remote_never_forwards_unverified_witness:
  "expected_secret demo_config = Some ''s3cret'' \<and>
   (Some ''s3cret'' = av_secret no_vars \<or> Some ''s3cret'' = None \<or> Some ''s3cret'' = expected_secret demo_config)"
  using remote_never_forwards_unverified [OF demo_forwarded(2,1)]
  by (simp add: expected_secret_def demo_config_def)

text \<open>A context header whose fields are malformed is not answered with \<open>INVALID_CONTEXT\<close>: the
  validation error is not a \<open>ValueError\<close> and leaves the middleware as an exception.\<close>

theorem malformed_context_escapes:
  assumes "protected_request scope"
    and "dict_get (decoded_headers (as_headers scope)) CONTEXT_HEADER = Some raw"
    and "raw \<noteq> []" and "length raw \<le> 8192" and "loads raw = Decoded (VDict d)"
    and "from_mapping (Inr (object_fields d)) = Inl (Mcp e)"
  shows "bearer_middleware loads required expected scope av = Raise (Mcp e)"
  using assms
  by (simp add: bearer_middleware_def protected_request_def Let_def extract_integration_context_def falsy_def
      MAX_CONTEXT_HEADER_LENGTH_def)

theorem malformed_context_escapes_witness:
  "\<exists>e. bearer_middleware (\<lambda>_. Decoded (VDict [(VStr ''role'', VStr ''admin'')])) True (Some ''s3cret'')
     (demo_scope\<lparr>as_headers := [(''X-Yasin-Context'', ''{}'')]\<rparr>) no_vars = Raise (Mcp e)"
proof -
  let ?s = "demo_scope\<lparr>as_headers := [(''X-Yasin-Context'', ''{}'')]\<rparr>"
  have p: "protected_request ?s" and h: "dict_get (decoded_headers (as_headers ?s)) CONTEXT_HEADER = Some ''{}''"
    by code_simp+
  obtain e where f: "from_mapping (Inr (object_fields [(VStr ''role'', VStr ''admin'')])) = Inl (Mcp e)"
    by (simp add: from_mapping_def object_fields_def py_str_def context_fields_def)
  have "bearer_middleware (\<lambda>_. Decoded (VDict [(VStr ''role'', VStr ''admin'')])) True (Some ''s3cret'') ?s no_vars
      = Raise (Mcp e)"
    by (rule malformed_context_escapes [OF p h _ _ _ f]) simp_all
  then show ?thesis ..
qed

text \<open>So does an exception of the decoder that is not a \<open>ValueError\<close>, as for a deeply nested header.\<close>

lemma nested_context_escapes:
  "bearer_middleware (\<lambda>_. Decode_raised ''RecursionError'' msg) required expected
     (demo_scope\<lparr>as_headers := [(''X-Yasin-Context'', ''['')]\<rparr>) av = Raise (PyError ''RecursionError'' msg)"
proof -
  let ?s = "demo_scope\<lparr>as_headers := [(''X-Yasin-Context'', ''['')]\<rparr>"
  have "protected_request ?s" and h: "dict_get (decoded_headers (as_headers ?s)) CONTEXT_HEADER = Some ''[''"
    by code_simp+
  then show ?thesis
    by (simp add: bearer_middleware_def protected_request_def Let_def extract_integration_context_def falsy_def
        MAX_CONTEXT_HEADER_LENGTH_def)
qed

text \<open>A configuration that passed its own checks never trips the server's: a valid one that
  enables the remote transport is served, any other valid one is refused.\<close>

theorem remote_start_iff_enabled:
  assumes "wf_config cfg"
  shows "(remote_server_checks cfg = Inr ()) = remote_enabled cfg"
  using assms by (auto simp: remote_server_checks_def wf_config_def)

theorem remote_start_iff_enabled_witness: "remote_server_checks demo_config \<noteq> Inr ()"
  using remote_start_iff_enabled [OF demo_forwarded(3)] by (simp add: demo_config_def default_config_def)

end
