(* ===== verification/Remote_App.thy ===== *)
theory Remote_App
  imports Remote Startup Gate_Safety
begin

text \<open>
  The remote server as \<open>transport/remote.py\<close> assembles it: the routes and the middleware, the
  settings for uvicorn, and its life: requests pass the middleware, and the application behind it
  calls tools. What the framework and the MCP application do with a request they are given is
  not constrained: any tool call may follow, at any time, in the context of any request that
  was let in, or in that of the server itself.
\<close>

section \<open>The application\<close>

text \<open>The routes of the MCP application are opaque, and so is its lifespan handler.\<close>

datatype 'r app_route = Health_route string "string list" | Base_route 'r

record ('r, 'l) base_app =
  ba_routes :: "'r list"
  ba_lifespan :: "'l option"

record ('r, 'l) remote_app =
  ra_required :: bool
  ra_expected :: "string option"
  ra_routes :: "'r app_route list"
  ra_lifespan :: "'l option"

definition health_body :: sdict where
  "health_body = [(''status'', VStr ''ok'')]"

text \<open>\<open>streamable_http_app\<close> of the MCP server is given the path and the host.\<close>

definition build_remote_asgi_app ::
  "(string \<Rightarrow> string \<Rightarrow> ('r, 'l) base_app) \<Rightarrow> server_config \<Rightarrow> string \<Rightarrow> ('r, 'l) remote_app" where
  "build_remote_asgi_app streamable_http_app cfg path =
     (let base = streamable_http_app path (remote_host cfg) in
      \<lparr>ra_required = require_authentication cfg, ra_expected = expected_secret cfg,
       ra_routes = [Health_route ''/healthz'' [''GET''], Health_route ''/readyz'' [''GET'']] @ map Base_route (ba_routes base),
       ra_lifespan = ba_lifespan base\<rparr>)"

record ('r, 'l) uvicorn_config =
  uc_app :: "('r, 'l) remote_app"
  uc_host :: string
  uc_port :: int
  uc_log_level :: string
  uc_certfile :: "string option"
  uc_keyfile :: "string option"

definition run_remote_server ::
  "(string \<Rightarrow> string \<Rightarrow> ('r, 'l) base_app) \<Rightarrow> 'a server_runtime \<Rightarrow> ('r, 'l) uvicorn_config result" where
  "run_remote_server streamable_http_app rt =
     (let cfg = sr_config rt in
      res_bind (remote_server_checks cfg) (\<lambda>_.
        Inr \<lparr>uc_app = build_remote_asgi_app streamable_http_app cfg ''/mcp'', uc_host = remote_host cfg,
             uc_port = remote_port cfg, uc_log_level = py_lower (log_level cfg),
             uc_certfile = remote_tls_certfile cfg, uc_keyfile = remote_tls_keyfile cfg\<rparr>))"

text \<open>A request as the assembled application takes it: its middleware in front.\<close>

definition app_request ::
  "(string \<Rightarrow> decoded) \<Rightarrow> ('r, 'l) remote_app \<Rightarrow> asgi_scope \<Rightarrow> auth_vars \<Rightarrow> disposition" where
  "app_request loads app scope av = bearer_middleware loads (ra_required app) (ra_expected app) scope av"

lemma app_request_remote:
  "app_request loads (build_remote_asgi_app base cfg path) scope av = remote_request loads cfg scope av"
  by (simp add: app_request_def build_remote_asgi_app_def remote_request_def Let_def)

text \<open>A remote server that starts is the one its valid configuration describes: it has TLS unless
  plain HTTP was allowed, a port in range, and the only paths free of the bearer check are
  those of the two health routes, which come before every route of the application.\<close>

definition open_path :: "string \<Rightarrow> bool" where
  "open_path path \<longleftrightarrow> \<not> protected_request \<lparr>as_type = ''http'', as_path = path, as_headers = []\<rparr>"

lemma remote_server_started:
  assumes "wf_config (sr_config rt)" and "run_remote_server base rt = Inr uc"
  shows "remote_enabled (sr_config rt) \<and>
    (remote_allow_insecure_http (sr_config rt) \<or> \<not> falsy (uc_certfile uc) \<and> \<not> falsy (uc_keyfile uc)) \<and>
    1 \<le> uc_port uc \<and> uc_port uc \<le> 65535 \<and>
    ra_routes (uc_app uc) = [Health_route ''/healthz'' [''GET''], Health_route ''/readyz'' [''GET'']] @
      map Base_route (ba_routes (base ''/mcp'' (uc_host uc))) \<and>
    (\<forall>path. open_path path \<longleftrightarrow> (\<exists>methods. Health_route path methods \<in> set (ra_routes (uc_app uc))))"
proof -
  from assms(2) have checks: "remote_server_checks (sr_config rt) = Inr ()"
    by (auto simp: run_remote_server_def Let_def res_bind_eq_Inr)
  with assms show ?thesis
    by (auto simp: run_remote_server_def Let_def build_remote_asgi_app_def remote_server_checks_def wf_config_def
        open_path_def protected_request_def split: if_splits)
qed

section \<open>The life of the server\<close>

text \<open>
  Every request runs in a context of its own, with the variables the middleware set; code outside
  any request finds them unset. A tool call names its context, its arguments, the clock and
  the stamps of its audit events.
\<close>

record call_data =
  cd_tool :: string
  cd_args :: "pyval list"
  cd_kwargs :: sdict
  cd_now :: int
  cd_stamp :: "nat \<Rightarrow> string"

datatype remote_event = Http_request asgi_scope | Tool_call nat call_data

record 'a remote_state =
  rs_contexts :: "auth_vars list"
  rs_replies :: "disposition list"
  rs_gate :: "('a, effect list) gate_state"

definition unset_vars :: auth_vars where
  "unset_vars = \<lparr>av_secret = None, av_asserted = None\<rparr>"

definition remote_start :: "('a, effect list) gate_state \<Rightarrow> 'a remote_state" where
  "remote_start st = \<lparr>rs_contexts = [unset_vars], rs_replies = [], rs_gate = st\<rparr>"

record ('a, 'r, 'l) remote_server =
  rv_runtime :: "'a server_runtime"
  rv_parts :: server_parts
  rv_app :: "('r, 'l) remote_app"
  rv_env :: environ
  rv_outside :: outside

definition server_tool :: "('a, 'r, 'l) remote_server \<Rightarrow> string \<Rightarrow> effect list tool_fn option" where
  "server_tool v n =
     served_tool (rv_outside v) (rv_parts v) (gateway_available (ou_machine (rv_outside v)) (rv_parts v)) n"

definition context_env :: "('a, 'r, 'l) remote_server \<Rightarrow> auth_vars \<Rightarrow> call_data \<Rightarrow> call_env" where
  "context_env v av c = \<lparr>ce_env = rv_env v, ce_vars = av, ce_now = cd_now c, ce_stamp = cd_stamp c\<rparr>"

fun remote_step :: "('a, 'r, 'l) remote_server \<Rightarrow> remote_event \<Rightarrow> 'a remote_state \<Rightarrow> 'a remote_state" where
  "remote_step v (Http_request scope) s =
     (let d = app_request (ou_json (rv_outside v)) (rv_app v) scope unset_vars in
      case d of
        Forward av \<Rightarrow> s\<lparr>rs_contexts := rs_contexts s @ [av], rs_replies := rs_replies s @ [d]\<rparr>
      | _ \<Rightarrow> s\<lparr>rs_replies := rs_replies s @ [d]\<rparr>)"
| "remote_step v (Tool_call i c) s =
     (if i < length (rs_contexts s) then
        (case server_tool v (cd_tool c) of
           None \<Rightarrow> s
         | Some fn \<Rightarrow>
             s\<lparr>rs_gate := fst (sync_wrapper (sr_gate (rv_runtime v)) (context_env v (rs_contexts s ! i) c) (cd_tool c) fn
                              (cd_args c) (cd_kwargs c) (rs_gate s))\<rparr>)
      else s)"

definition remote_run :: "('a, 'r, 'l) remote_server \<Rightarrow> remote_event list \<Rightarrow> 'a remote_state \<Rightarrow> 'a remote_state" where
  "remote_run v evs s = fold (remote_step v) evs s"

text \<open>The secret is presented by a bearer token, or by the reserved argument of a call.\<close>

fun presents_secret :: "server_config \<Rightarrow> remote_event \<Rightarrow> bool" where
  "presents_secret cfg (Http_request scope) \<longleftrightarrow> knows_secret (auth_token cfg) (presented_bearer scope)"
| "presents_secret cfg (Tool_call i c) \<longleftrightarrow>
     knows_secret (auth_token cfg) (map_option py_str (case dict_get (cd_kwargs c) AUTH_TOKEN_KWARG of
        Some v \<Rightarrow> if v = VNone then None else Some v | None \<Rightarrow> None))"

section \<open>Without the secret\<close>

lemma decide_unauthenticated:
  assumes "g_config g = Some cfg" and "require_authentication cfg"
    and "\<not> knows_secret (auth_token cfg) (ci_secret (extract_inputs g ce kwargs p t))"
  shows "\<exists>e. decide g ce n ctx (extract_inputs g ce kwargs p t) store = (store, Inl e)"
proof (cases "authenticate_call g ce ctx (ci_secret (extract_inputs g ce kwargs p t))")
  case (Inl e)
  then show ?thesis by (simp add: decide_def)
next
  case (Inr ctx1)
  then obtain asserted b where "resolve_authentication cfg asserted (ci_secret (extract_inputs g ce kwargs p t)) = Inr b"
    using assms(1) by (rule authenticate_call_bound) (rule ci_secret_ambient)
  with assms(2,3) resolve_required_knows show ?thesis by blast
qed

text \<open>An unauthenticated call changes nothing: no effect, no approval consumed, no slot lost.\<close>

lemma unauthenticated_call_changes_nothing:
  fixes st :: "('a, 'w) gate_state"
  assumes "g_config g = Some cfg" and "require_authentication cfg"
    and "\<not> knows_secret (auth_token cfg) (ci_secret (extract_inputs g ce kwargs None None))"
  shows "fst (sync_wrapper g ce n fn args kwargs st) = st"
proof (cases "gs_slots st = 0")
  case True
  then show ?thesis by (simp add: sync_wrapper_def)
next
  case False
  let ?st = "st\<lparr>gs_slots := gs_slots st - 1\<rparr>"
  obtain e where e: "decide g ce n None (extract_inputs g ce kwargs None None) (gs_store ?st) = (gs_store ?st, Inl e)"
    using decide_unauthenticated [OF assms] by blast
  have "fst (execute g ce n fn args kwargs None None None ?st) = ?st"
    by (cases rule: execute_cases [of g ce n None kwargs None None ?st fn args]) (use e in auto)
  with False show ?thesis by (simp add: sync_wrapper_def split_beta Let_def)
qed

text \<open>A call in a context without a secret presents the one of its arguments or of the process.\<close>

lemma unset_context_secret:
  assumes "\<not> knows_secret configured (get_presented_secret (rv_env v) unset_vars)"
    and "\<not> knows_secret configured (map_option py_str (case dict_get (cd_kwargs c) AUTH_TOKEN_KWARG of
        Some x \<Rightarrow> if x = VNone then None else Some x | None \<Rightarrow> None))"
  shows "\<not> knows_secret configured (ci_secret (extract_inputs g (context_env v unset_vars c) (cd_kwargs c) None None))"
  using assms
  by (auto simp: extract_inputs_def extract_presented_secret_def extract_credential_def context_env_def sget_def
      Let_def split_beta split: option.splits if_splits)

lemma request_without_secret:
  assumes "require_authentication cfg" and "\<not> presents_secret cfg (Http_request scope)"
  shows "app_request loads (build_remote_asgi_app base cfg path) scope unset_vars = Forward av \<longleftrightarrow>
    \<not> protected_request scope \<and> av = unset_vars"
proof (cases "protected_request scope")
  case True
  have False if "app_request loads (build_remote_asgi_app base cfg path) scope unset_vars = Forward av"
  proof -
    from that assms(1) have "bearer_middleware loads True (expected_secret cfg) scope unset_vars = Forward av"
      by (simp add: app_request_remote remote_request_def)
    then obtain asserted where a: "presented_bearer scope \<noteq> None" "presented_bearer scope = expected_secret cfg"
      "is_ascii (the (expected_secret cfg))"
      using True by (rule middleware_forward) auto
    then obtain tok where tok: "presented_bearer scope = Some tok" by blast
    then have "tok \<noteq> []" using extract_bearer_nonempty [of _ tok] by (simp add: presented_bearer_def)
    with a tok have "knows_secret (auth_token cfg) (presented_bearer scope)"
      by (auto simp: knows_secret_def expected_secret_def)
    with assms(2) show False by simp
  qed
  with True show ?thesis by blast
next
  case False
  then show ?thesis
    by (auto simp: app_request_remote remote_request_def bearer_middleware_def protected_request_def)
qed

text \<open>How many requests were let in because their path is open.\<close>

definition open_requests :: "remote_event list \<Rightarrow> nat" where
  "open_requests evs =
     length (filter (\<lambda>ev. case ev of Http_request scope \<Rightarrow> \<not> protected_request scope | _ \<Rightarrow> False) evs)"

lemma remote_step_without_secret:
  assumes "require_authentication cfg" and "g_config (sr_gate (rv_runtime v)) = Some cfg"
    and "rv_app v = build_remote_asgi_app base cfg path"
    and "\<not> knows_secret (auth_token cfg) (get_presented_secret (rv_env v) unset_vars)"
    and "\<not> presents_secret cfg ev" and "rs_contexts s = replicate n unset_vars"
  shows "rs_gate (remote_step v ev s) = rs_gate s \<and>
    rs_contexts (remote_step v ev s) = replicate (n + open_requests [ev]) unset_vars"
proof (cases ev)
  case (Http_request scope)
  let ?d = "app_request (ou_json (rv_outside v)) (build_remote_asgi_app base cfg path) scope unset_vars"
  have let_in: "?d = Forward av \<longleftrightarrow> \<not> protected_request scope \<and> av = unset_vars" for av
    using assms(1,5) Http_request by (intro request_without_secret) simp_all
  show ?thesis
  proof (cases "protected_request scope")
    case True
    then have "\<forall>av. ?d \<noteq> Forward av" using let_in by blast
    with True show ?thesis
      by (simp add: Http_request assms(3,6) Let_def open_requests_def split: disposition.split)
  next
    case False
    with let_in [of unset_vars] show ?thesis
      by (simp add: Http_request assms(3,6) Let_def open_requests_def replicate_append_same)
  qed
next
  case (Tool_call i c)
  have "rs_contexts s ! i = unset_vars" if "i < length (rs_contexts s)"
    using assms(6) that by simp
  moreover have "fst (sync_wrapper (sr_gate (rv_runtime v)) (context_env v unset_vars c) m fn args (cd_kwargs c) (rs_gate s)) = rs_gate s"
    for m fn args
    by (rule unauthenticated_call_changes_nothing [OF assms(2,1)])
      (rule unset_context_secret [OF assms(4)], use assms(5) Tool_call in simp)
  ultimately show ?thesis
    using assms(6) Tool_call by (auto simp: open_requests_def split: option.split)
qed

lemma remote_run_without_secret:
  assumes "require_authentication cfg" and "g_config (sr_gate (rv_runtime v)) = Some cfg"
    and "rv_app v = build_remote_asgi_app base cfg path"
    and "\<not> knows_secret (auth_token cfg) (get_presented_secret (rv_env v) unset_vars)"
  shows "list_all (\<lambda>ev. \<not> presents_secret cfg ev) evs \<Longrightarrow> rs_contexts s = replicate n unset_vars \<Longrightarrow>
    rs_gate (remote_run v evs s) = rs_gate s \<and>
    rs_contexts (remote_run v evs s) = replicate (n + open_requests evs) unset_vars"
proof (induction evs arbitrary: s n)
  case (Cons ev evs)
  from remote_step_without_secret [OF assms, of ev s n] Cons.prems
  have step: "rs_gate (remote_step v ev s) = rs_gate s"
    "rs_contexts (remote_step v ev s) = replicate (n + open_requests [ev]) unset_vars"
    by simp_all
  have "open_requests (ev # evs) = open_requests [ev] + open_requests evs" by (simp add: open_requests_def)
  with Cons.IH [OF _ step(2)] Cons.prems step(1) show ?case
    by (simp add: remote_run_def add.assoc)
qed (simp add: remote_run_def open_requests_def)

lemma started_gate_config:
  assumes "wf_config cfg" and "start_server fs env mc rec cfg = Inr (rt, p)"
  shows "g_config (sr_gate rt) = Some cfg" and "sr_config rt = cfg"
  using standard_created [OF assms(1), of "gateway_available mc p" "sp_cli p \<noteq> None" False False rec]
    start_server_parts(2) [OF assms(2)] started_server [OF assms]
  by auto

text \<open>C11: Without the secret the remote server does nothing at all: where authentication is required and the
  process was not given the secret, take any sequence of requests, none with the right bearer
  token, and of tool calls that the application may make in any context, none with the
  secret as its argument. Then the gate is exactly as it was: no effect outside, no approval
  consumed, no slot lost; and only requests to the health paths, or none over HTTP, were let in.\<close>

theorem nothing_without_secret:
  assumes "wf_config cfg" and "require_authentication cfg"
    and "start_server fs env mc rec cfg = Inr (rt, p)" and "run_remote_server base rt = Inr uc"
    and "\<not> knows_secret (auth_token cfg) (get_presented_secret env unset_vars)"
    and "list_all (\<lambda>ev. \<not> presents_secret cfg ev) evs"
  shows "case remote_run \<lparr>rv_runtime = rt, rv_parts = p, rv_app = uc_app uc, rv_env = env, rv_outside = w\<rparr> evs (remote_start st) of
    s \<Rightarrow> rs_gate s = st \<and> length (rs_contexts s) = Suc (open_requests evs) \<and> set (rs_contexts s) = {unset_vars}"
proof -
  have app: "uc_app uc = build_remote_asgi_app base cfg ''/mcp''"
    using assms(4) started_gate_config(2) [OF assms(1,3)] by (auto simp: run_remote_server_def Let_def res_bind_eq_Inr)
  let ?v = "\<lparr>rv_runtime = rt, rv_parts = p, rv_app = uc_app uc, rv_env = env, rv_outside = w\<rparr>"
  have "rs_contexts (remote_start st) = replicate 1 unset_vars" by (simp add: remote_start_def)
  with remote_run_without_secret [OF assms(2), of ?v base "''/mcp''" evs "remote_start st" 1] assms(5,6)
    started_gate_config(1) [OF assms(1,3)] app
  have "rs_gate (remote_run ?v evs (remote_start st)) = rs_gate (remote_start st)"
    and "rs_contexts (remote_run ?v evs (remote_start st)) = replicate (1 + open_requests evs) unset_vars"
    by simp_all
  then show ?thesis
    by (auto simp: remote_start_def Let_def)
qed

text \<open>A demonstration: plain HTTP, a secret, and a client that guesses.\<close>

definition remote_config :: server_config where
  "remote_config = demo_config\<lparr>remote_enabled := True, remote_allow_insecure_http := True\<rparr>"

definition guessing_events :: "remote_event list" where
  "guessing_events =
     [Http_request \<lparr>as_type = ''http'', as_path = ''/healthz'', as_headers = []\<rparr>,
      Http_request \<lparr>as_type = ''http'', as_path = ''/mcp'', as_headers = [(''Authorization'', ''Bearer guess'')]\<rparr>,
      Tool_call 1 \<lparr>cd_tool = TOOL_GOV_APPLY_MARK, cd_args = [], cd_kwargs = [(AUTH_TOKEN_KWARG, VStr ''guess'')],
        cd_now = 0, cd_stamp = (\<lambda>_. [])\<rparr>]"

lemma guessing: "list_all (\<lambda>ev. \<not> presents_secret remote_config ev) guessing_events" "open_requests guessing_events = 1"
  "wf_config remote_config" "require_authentication remote_config" "remote_server_checks remote_config = Inr ()"
  "\<not> knows_secret (auth_token remote_config) (get_presented_secret Map.empty unset_vars)"
  by code_simp+

theorem nothing_without_secret_witness:
  "\<forall>mc w base st. \<exists>rt p uc. start_server demo_fs Map.empty mc memory_record remote_config = Inr (rt, p) \<and>
     run_remote_server base rt = Inr uc \<and>
     (case remote_run \<lparr>rv_runtime = rt, rv_parts = p, rv_app = uc_app uc, rv_env = Map.empty, rv_outside = w\<rparr>
        guessing_events (remote_start st) of s \<Rightarrow> rs_gate s = st \<and> length (rs_contexts s) = 2)"
proof (intro allI)
  fix mc w base st
  obtain rt p where start: "start_server demo_fs Map.empty mc memory_record remote_config = Inr (rt, p)"
    using start_server_total [OF guessing(3), of demo_fs Map.empty None mc memory_record] by (auto simp: construct_cli_def falsy_def)
  have "sr_config rt = remote_config" using started_gate_config(2) [OF guessing(3) start] .
  then obtain uc where uc: "run_remote_server base rt = Inr uc"
    using guessing(5) by (simp add: run_remote_server_def Let_def)
  from nothing_without_secret [OF guessing(3,4) start uc guessing(6,1), of w st] start uc
  show "\<exists>rt p uc. start_server demo_fs Map.empty mc memory_record remote_config = Inr (rt, p) \<and>
     run_remote_server base rt = Inr uc \<and>
     (case remote_run \<lparr>rv_runtime = rt, rv_parts = p, rv_app = uc_app uc, rv_env = Map.empty, rv_outside = w\<rparr>
        guessing_events (remote_start st) of s \<Rightarrow> rs_gate s = st \<and> length (rs_contexts s) = 2)"
    by (auto simp: guessing(2))
qed

section \<open>A secret in the environment\<close>

text \<open>The approval token of the environment is not used by a remote server, the secret of the environment
  is: where authentication is not required, any client, without a credential of its own, is
  then trusted as the configured subject.\<close>

lemma environment_secret_trusts_everyone:
  assumes "wf_config cfg" and "\<not> require_authentication cfg"
    and "knows_secret (auth_token cfg) (env ''YASIN_MCP_PRESENT_AUTH_TOKEN'')"
  shows "app_request loads (build_remote_asgi_app base cfg path) \<lparr>as_type = ''http'', as_path = ''/mcp'', as_headers = []\<rparr>
      unset_vars = Forward unset_vars \<and>
    (\<exists>b. resolve_execution_auth env unset_vars (Some cfg) None None None = Inr (Some b) \<and> bound_trust b = TRUSTED)"
proof -
  have present: "get_presented_secret env unset_vars = env ''YASIN_MCP_PRESENT_AUTH_TOKEN''"
    using assms(3) by (auto simp: get_presented_secret_def unset_vars_def knows_secret_def falsy_def split: option.splits)
  obtain b where b: "resolve_authentication cfg None (env ''YASIN_MCP_PRESENT_AUTH_TOKEN'') = Inr b"
    using wf_config_subject [OF assms(1)]
    by (simp add: resolve_known [OF assms(3)] bind_context_eq asserted_or_default_def no_conflict_def
        default_integration_context_def assms(2) trusted_outcome_def)
  moreover have "bound_trust b = TRUSTED"
    using bound_trusted_iff [OF assms(1) b] assms(3) by simp
  moreover have "app_request loads (build_remote_asgi_app base cfg path) \<lparr>as_type = ''http'', as_path = ''/mcp'', as_headers = []\<rparr>
      unset_vars = Forward unset_vars"
    using assms(2)
    by (simp add: app_request_remote remote_request_def bearer_middleware_def decoded_headers_def
        extract_integration_context_def extract_bearer_token_def falsy_def)
  ultimately show ?thesis
    by (simp add: resolve_execution_auth_def present Let_def) (simp add: unset_vars_def)
qed

end
