(* ===== verification/Name_Policy.thy ===== *)
theory Name_Policy
  imports Runtime
begin

text \<open>
  The forbidden patterns of \<open>policies/policy.py\<close> in plain words: the search of the nine regular
  expressions by backtracking accepts and refuses exactly the names of a direct definition.
\<close>

section \<open>Case-insensitive literals\<close>

lemma code_lower: "code (lower_char c) =
    (if (65 \<le> code c \<and> code c \<le> 90) \<or> (192 \<le> code c \<and> code c \<le> 222 \<and> code c \<noteq> 215) then code c + 32 else code c)"
  by (auto simp: lower_char_def Let_def code_def)

lemma code_eq_iff: "code a = code b \<longleftrightarrow> a = b"
  by (auto simp: code_def)

lemma character_codes: "code (CHR ''d'') = 100" "code (CHR ''_'') = 95" "code (CHR 0x0A) = 10"
  by (simp_all add: code_def)

lemma lower_char_d: "lower_char c = CHR ''d'' \<Longrightarrow> word_char c"
  using code_lower [of c]
  by (auto simp: character_codes word_char_def ascii_alnum_def ascii_alpha_def split: if_splits)

lemma lower_char_special: "lower_char c = CHR ''_'' \<longleftrightarrow> c = CHR ''_''" "lower_char c = CHR 0x0A \<longleftrightarrow> c = CHR 0x0A"
  using code_lower [of c]
  by (auto simp: code_eq_iff [symmetric] character_codes split: if_splits)

text \<open>A literal matches in one way: it takes as many characters as it has.\<close>

lemma re_ends_literal:
  assumes "w \<noteq> []"
  shows "re_ends (lit_ci w) (pv, s) =
    (if prefix (py_lower w) (py_lower s) then [(Some (s ! (length w - 1)), drop (length w) s)] else [])"
  using assms
proof (induction w arbitrary: pv s rule: lit_ci.induct)
  case (2 c)
  then show ?case by (cases s) (auto simp: py_lower_def)
next
  case (3 c d ds)
  then show ?case by (cases s) (auto simp: py_lower_def)
qed simp

section \<open>Forbidden names\<close>

fun deploy_starts_word :: "char option \<Rightarrow> string \<Rightarrow> bool" where
  "deploy_starts_word pv [] = False"
| "deploy_starts_word pv (c # cs) =
     ((case pv of None \<Rightarrow> True | Some p \<Rightarrow> \<not> word_char p) \<and> prefix ''deploy'' (py_lower (c # cs)) \<or>
      deploy_starts_word (Some c) cs)"

definition forbidden_name :: "string \<Rightarrow> bool" where
  "forbidden_name name \<longleftrightarrow>
     list_ex (\<lambda>w. py_in w (py_lower name)) [''exec'', ''shell'', ''command'', ''arbitrary'', ''filesystem'', ''delete''] \<or>
     py_lower name \<in> {''request'', ''request'' @ [CHR 0x0A]} \<or>
     list_ex (\<lambda>w. prefix w (py_lower name)) [''start_'', ''stop_'', ''restart_''] \<or>
     deploy_starts_word None name"

section \<open>The patterns, one by one\<close>

lemma lower_literals: "py_lower ''start_'' = ''start_''" "py_lower ''stop_'' = ''stop_''" "py_lower ''restart_'' = ''restart_''"
  by code_simp+

lemma search_deploy: "re_search_from (Seq WordB (lit_ci ''deploy'')) pv s \<longleftrightarrow> deploy_starts_word pv s"
proof (induction s arbitrary: pv)
  case Nil
  show ?case by (simp add: re_ends_literal lit_literals del: lit_ci.simps) (simp add: py_lower_def)
next
  case (Cons c cs)
  have "word_char c" if "prefix ''deploy'' (py_lower (c # cs))"
    using that by (intro lower_char_d) (simp add: py_lower_def)
  then show ?case
    by (auto simp: Cons.IH re_ends_literal lit_literals at_word_boundary_def simp del: lit_ci.simps split: option.splits if_splits)
qed

lemma search_deploy_word: "re_search (seqs [WordB, lit_ci ''deploy'']) s \<longleftrightarrow> deploy_starts_word None s"
  using search_deploy [of None s] by (simp add: re_search_def del: lit_ci.simps)

lemma search_request:
  "re_search (seqs [Bos, lit_ci ''request'', Eos]) s \<longleftrightarrow> py_lower s \<in> {''request'', ''request'' @ [CHR 0x0A]}"
proof -
  have "re_search (seqs [Bos, lit_ci ''request'', Eos]) s \<longleftrightarrow>
      prefix ''request'' (py_lower s) \<and> drop (length ''request'') s \<in> {[], [CHR 0x0A]}"
    by (simp add: re_search_anchored re_ends_literal lit_literals del: lit_ci.simps)
  also have "\<dots> \<longleftrightarrow> prefix ''request'' (py_lower s) \<and> py_lower (drop (length ''request'') s) \<in> {[], [CHR 0x0A]}"
    by (auto simp: py_lower_def map_eq_Cons_conv lower_char_special)
  also have "\<dots> \<longleftrightarrow> py_lower s \<in> {''request'', ''request'' @ [CHR 0x0A]}"
    by (auto simp: prefix_def py_lower_def drop_map [symmetric] simp del: map_append)
  finally show ?thesis .
qed

lemma search_start:
  "re_search (seqs [Bos, alts [lit_ci ''start'', lit_ci ''stop'', lit_ci ''restart''], Class (\<lambda>c. c = CHR ''_'')]) s \<longleftrightarrow>
     list_ex (\<lambda>w. prefix w (py_lower s)) [''start_'', ''stop_'', ''restart_'']"
proof -
  have word: "prefix (w @ ''_'') (py_lower s) \<longleftrightarrow> prefix w (py_lower s) \<and> (\<exists>cs. drop (length w) s = CHR ''_'' # cs)" for w
  proof -
    have "prefix (w @ ''_'') (py_lower s) \<longleftrightarrow> prefix w (py_lower s) \<and> (\<exists>cs. drop (length w) (py_lower s) = CHR ''_'' # cs)"
      by (auto simp: prefix_def)
    also have "(\<exists>cs. drop (length w) (py_lower s) = CHR ''_'' # cs) \<longleftrightarrow> (\<exists>cs. drop (length w) s = CHR ''_'' # cs)"
      by (auto simp: py_lower_def drop_map map_eq_Cons_conv lower_char_special)
    finally show ?thesis .
  qed
  show ?thesis
    using word [of "''start''"] word [of "''stop''"] word [of "''restart''"]
    by (simp add: re_search_anchored re_ends_literal lit_literals del: lit_ci.simps split: list.split)
qed

lemma refused_parts: "(\<not> a \<and> \<not> b \<and> \<not> c \<and> \<not> r \<and> \<not> d \<and> \<not> e \<and> \<not> p \<and> \<not> f \<and> \<not> s) \<longleftrightarrow>
    \<not> ((a \<or> b \<or> c \<or> d \<or> e \<or> f) \<or> r \<or> s \<or> p)"
  by blast

text \<open>C26: The name policy in words: a capability name is refused, with a structured error, exactly if one of
  the words exec, shell, command, arbitrary, filesystem, delete occurs in it, if it is request (or
  request and a line feed), if it starts with start_, stop_ or restart_, or if deploy occurs in it after
  no letter, digit or underscore; in any letter case. So runflare_deploy passes.\<close>

theorem name_policy_exact:
  "case check_capability_name_allowed name of
     Inr u \<Rightarrow> \<not> forbidden_name name
   | Inl e \<Rightarrow> forbidden_name name \<and> (\<exists>msg ds. e = Mcp (policy_denied_error msg ds))"
proof -
  have word: "re_search (lit_ci w) name \<longleftrightarrow> py_in w (py_lower name)" if "w \<noteq> []" "py_lower w = w" for w
    using that re_search_lit_ci [of w name] by simp
  have words: "list_ex (\<lambda>w. py_in w (py_lower name)) [''exec'', ''shell'', ''command'', ''arbitrary'', ''filesystem'', ''delete''] \<longleftrightarrow>
      re_search (lit_ci ''exec'') name \<or> re_search (lit_ci ''shell'') name \<or> re_search (lit_ci ''command'') name \<or>
      re_search (lit_ci ''arbitrary'') name \<or> re_search (lit_ci ''filesystem'') name \<or> re_search (lit_ci ''delete'') name"
    by (simp only: list_ex_iff list.set bex_simps word list.distinct not_False_eq_True lit_literals simp_thms)
  have "check_capability_name_allowed name = Inr () \<longleftrightarrow> \<not> forbidden_name name"
    unfolding check_capability_name_allowed_def check_patterns_eq forbidden_name_def words
      search_request [symmetric] search_start [symmetric] search_deploy_word [symmetric]
    unfolding FORBIDDEN_NAME_PATTERNS_def list.set ball_simps prod.case simp_thms
    by (rule refused_parts)
  moreover have "\<exists>msg ds. e = Mcp (policy_denied_error msg ds)" if "check_patterns ps name = Inl e" for ps e
    using that by (induction ps name rule: check_patterns.induct) (auto split: if_splits)
  ultimately show ?thesis
    by (auto simp: check_capability_name_allowed_def split: sum.split)
qed

end
