(* ===== verification/Spec2Isabelle.thy ===== *)
theory Spec2Isabelle
  imports Approval_Ledger Gate_Safety Gate_Liveness Gate_Accounting Core_Contracts Startup Tool_Signature Remote_App Name_Policy
begin

text \<open>
  A verification development for Yasin-MCP, an MCP server that serves tools behind a
  governance gate. All file names below are under \<open>src/src/yasin_mcp\<close>.

  \<^bold>\<open>The program.\<close> \<open>server/runtime.py\<close> builds a server from a configuration (\<open>config/config.py\<close>): it
  registers capability contracts (\<open>capabilities/\<close>, checked by \<open>policies/policy.py\<close>), derives a
  risk catalog from them (\<open>governance/catalog.py\<close>) and serves every tool through the wrapper of
  \<open>governance/gate.py\<close>. A call takes a concurrency slot, has its reserved credential arguments
  removed, is authenticated (\<open>auth/\<close>), has its approval token checked and consumed
  (\<open>approval/store.py\<close>), is decided by the policy (\<open>governance/policy.py\<close>), audited
  (\<open>governance/audit.py\<close>) and only then runs the tool. Errors are structured and reach the client
  reduced to a safe payload (\<open>errors/\<close>). The remote transport (\<open>transport/\<close>) puts a bearer check
  and an asserted context (\<open>contracts/integration_context.py\<close>) in front of the same gate.

  \<^bold>\<open>The theories.\<close>
  \<^item> \<open>Prelude\<close>: results (\<open>error + value\<close>) and their bind, insertion-ordered dictionaries.
  \<^item> \<open>Py_String\<close>, \<open>Py_Value\<close>, \<open>Py_Regex\<close>: the part of Python the program computes with. Strings are
    lists of code points below 256; values are the tree \<open>pyval\<close> with \<open>repr\<close>, \<open>str\<close> and JSON text;
    floats are exact dyadic numbers with the text the source gives them; regular expressions
    are matched by backtracking on the set of end positions.
  \<^item> \<open>Py_Json\<close>: a strict reader of JSON text, written from the grammar, and the round trip with the
    model of \<open>json.dumps\<close>: what a client reads in an error and the gateway in a request.
  \<^item> \<open>Mcp_Errors\<close>: \<open>errors/errors.py\<close>, \<open>errors/client_contract.py\<close>, \<open>protocol/errors.py\<close>.
  \<^item> \<open>Redaction\<close>: the redaction, the records and the logger of \<open>audit/logging_setup.py\<close>. \<open>Logging\<close>: the
    lines the logger writes, the request id in scope (\<open>audit/context.py\<close>) and traced operations
    (\<open>audit/traced.py\<close>).
  \<^item> \<open>Governance\<close>: \<open>governance/types.py\<close>, \<open>catalog.py\<close>, \<open>policy.py\<close>; the contracts \<open>keyed_registry\<close> and
    \<open>conservative_policy\<close> that the gate relies on are locales, interpreted by the catalog and the
    default policy.
  \<^item> \<open>Approval\<close>: \<open>approval/\<close>; \<open>Approval_Ledger\<close>: the abstract ledger of usable grants that the store
    refines; \<open>Audit_Trail\<close>: \<open>governance/audit.py\<close>; \<open>Config\<close>: \<open>config/config.py\<close>;
    \<open>Integration\<close>: \<open>contracts/\<close>; \<open>Auth\<close>: \<open>auth/\<close>.
  \<^item> \<open>Gate\<close>: \<open>governance/gate.py\<close>, one definition per method, the state being the approval store,
    the recorder's state, the world the tools act on and the free slots. \<open>Gate_Safety\<close>: what one
    call guarantees. \<open>Gate_Concurrency\<close>: the same calls cut into the phases between which other
    threads run, as an inductive step relation; the sequential wrapper refines it. \<open>Gate_Liveness\<close>:
    fair runs of that relation. \<open>Gate_Accounting\<close>: what tools with a cost have done in any such
    run is covered by spent approvals (locale \<open>metered_tools\<close>, interpreted by the Runflare tools).
  \<^item> \<open>Capabilities\<close>, \<open>Runtime\<close>: \<open>policies/policy.py\<close>, \<open>capabilities/\<close>, the tool definitions of \<open>tools/\<close>,
    \<open>server/runtime.py\<close>. \<open>Name_Policy\<close>: the forbidden patterns in plain words.
  \<^item> \<open>Remote\<close>: the bearer check of \<open>transport/\<close>. \<open>Remote_App\<close>: the application and the uvicorn
    settings of \<open>transport/remote.py\<close>, and the life of the remote server as a sequence of
    requests and of tool calls made in their contexts.
  \<^item> \<open>Reliability\<close>: \<open>reliability/\<close>. \<open>Untrusted\<close>: \<open>security/\<close>.
    \<open>Core_Contracts\<close>: \<open>compat/core_contracts.py\<close>.
  \<^item> \<open>Net\<close>: computations over an injected requester, what such a computation keeps, yields and does
    at most once, and the locale \<open>guarded_requester\<close> of requesters that keep an invariant.
  \<^item> \<open>Docs\<close>, \<open>Project_Registry\<close>, \<open>Github\<close>, \<open>Operations\<close>, \<open>Runflare\<close>: the adapters (\<open>adapters/\<close>,
    \<open>providers/runflare/\<close>, \<open>diagnostics/health.py\<close>) and their toolsets (\<open>tools/\<close>). The registry rests on
    the documentation adapter through the locale \<open>docs_source\<close>.
  \<^item> \<open>Server_Tools\<close>: the methods that \<open>ServerRuntime.create\<close> puts behind the gate, called as Python calls
    them, over one world in which requests and process starts are recorded.
  \<^item> \<open>Tool_Signature\<close>: the signature that \<open>wrap_tool\<close> gives a governed tool.
  \<^item> \<open>Command_Line\<close>, \<open>Startup\<close>: the argument parser and \<open>main\<close> of \<open>server/cli.py\<close>, and the
    construction of the adapters.

  \<^bold>\<open>What the theorems show.\<close> End to end (this theory): in the process that \<open>main\<close> starts, a call of a
  served tool has only the effects its tool may have, and any at all only if it is
  authenticated where required and approved where the tool mutates; and however calls
  interleave, each deployment, start and restart is paid for by its own spent approval. Below that: a single-use
  approval admits one call under every interleaving, and the store is no more and no less than
  a ledger of usable grants; slots are neither lost nor duplicated
  and, in a fair schedule, every call ends; credentials reach neither a tool body nor an audit
  record, and the log as written cannot be forged; the errors and audit events of every path;
  that a remote server does nothing at all for clients without the secret, whatever the
  framework does with their requests; that \<open>main\<close> exits or serves, and which one kind of
  exception can escape it; that the loaded configuration, the registry and the catalog are what their documentation
  promises; that searches and listings return what they should within their bounds; round trips
  and type invariants of client contexts; and that the HTTP loop stops. Several theorems
  describe behaviour that a reader might not expect (\<open>without_store_context_decides\<close>,
  \<open>malformed_context_escapes\<close>, \<open>invalid_token_never_runs\<close>, \<open>bearer_credential_survives\<close>,
  \<open>unknown_user_escapes\<close>, \<open>long_integer_escapes\<close>, \<open>question_mark_cuts\<close>).

  \<^bold>\<open>Parameters and bounds.\<close> The clock, the environment, the file system, generated tokens and identifiers
  are arguments; times are integers of an arbitrary unit. The network, the gateway process and
  the provider's processes are arbitrary functions of everything that has happened before.
  The JSON, YAML and base64 decoders are arbitrary functions, so no theorem depends on
  what they return. What is outside may also raise: an answer of the network, a start of a process,
  a decoder (type \<open>decoded\<close>) and the file system each have an outcome for any exception that the
  code does not catch there, and the models pass it on as the code does. Only the JSON reader of \<open>Py_Json\<close> uses fuel, the length of the text: each of its
  steps uses up a character. Every other recursion is structural or has a measure.

  \<^bold>\<open>Not modelled.\<close> Redirects that \<open>urlopen\<close> follows (a request is one call of it) and percent escapes in
  URLs; code points above 255; the streams behind the handlers of Python's logging; the MCP
  library, which turns signatures into schemas and serves standard input and output; the
  routing of the ASGI framework, uvicorn and TLS. \<open>argparse\<close> is modelled for the one parser the program
  builds, as Python 3.11 behaves. The cases in which an imported package is missing, the
  generation of random identifiers and type aliases have no definition.
\<close>

section \<open>The assembled server\<close>

lemma approval_bound_mutation:
  assumes "dict_get c n = dict_get (standard_risks av) n" and "n \<in> set (governed_tools rf av)"
  shows "n \<in> set (approval_bound_tools rf) \<longleftrightarrow> dict_get c n \<notin> {Some READ_ONLY, Some LOW_RISK}"
  using assms by (auto simp flip: served_risk_classes [of av rf])

lemma standard_mutations_computed:
  "list_all (\<lambda>n. dict_get (standard_risks True) n = Some MUTATION) (approval_bound_tools True)"
  "list_all (\<lambda>n. dict_get (standard_risks False) n = Some MUTATION) (approval_bound_tools True)"
  by code_simp+

lemma approval_bound_are_mutations:
  "n \<in> set (approval_bound_tools rf) \<Longrightarrow> dict_get (standard_risks av) n = Some MUTATION"
  using standard_mutations_computed
  by (cases av; cases rf) (auto simp: list_all_iff approval_bound_tools_def)

lemma standard_guard:
  assumes "wf_config cfg"
    and "create_runtime (Some cfg) (Some []) av (Inr rf) dg gg None rec None = Inr rt"
    and "n \<in> set (sr_tools rt)" and "gs_store st = Some s"
    and runs: "runs_body (sr_gate rt) ce n kwargs ctx p t st"
  shows "(require_authentication cfg \<longrightarrow>
      knows_secret (auth_token cfg) (ci_secret (extract_inputs (sr_gate rt) ce kwargs p t))) \<and>
    (if n \<in> set (approval_bound_tools rf)
     then \<exists>tok gr. ci_approval (extract_inputs (sr_gate rt) ce kwargs p t) = Some tok \<and>
            live_grant s (py_strip tok) = Some gr \<and> ag_tool_name gr = n \<and> ce_now ce < ag_expires_at gr
     else dict_get (g_catalog (sr_gate rt)) n \<in> {Some READ_ONLY, Some LOW_RISK})"
proof -
  from standard_created [OF assms(1), of av rf dg gg rec] assms(2)
  have tools: "sr_tools rt = governed_tools rf av" and pol: "g_policy (sr_gate rt) = default_conservative_evaluate"
    and cfg: "g_config (sr_gate rt) = Some cfg"
    and cat: "\<And>n. dict_get (g_catalog (sr_gate rt)) n = dict_get (standard_risks av) n"
    by auto
  have secret: "require_authentication cfg \<longrightarrow>
      knows_secret (auth_token cfg) (ci_secret (extract_inputs (sr_gate rt) ce kwargs p t))"
    using runs cfg by (rule runs_body_authenticated) (blast intro: resolve_required_knows)
  have cls: "n \<in> set (approval_bound_tools rf) \<longleftrightarrow> dict_get (g_catalog (sr_gate rt)) n \<notin> {Some READ_ONLY, Some LOW_RISK}"
    by (rule approval_bound_mutation) (use assms(3) in \<open>simp_all add: cat tools\<close>)
  show ?thesis
  proof (cases "n \<in> set (approval_bound_tools rf)")
    case True
    obtain store1 tool ctx2 where
      dec: "decide (sr_gate rt) ce n ctx (extract_inputs (sr_gate rt) ce kwargs p t) (Some s) = (store1, Inr (tool, ALLOW, ctx2))"
      and "catalog_resolve (g_catalog (sr_gate rt)) n = Inr tool"
      using runs by (rule runs_body_catalog) (simp add: assms(4))
    then have "ti_risk tool = MUTATION"
      using approval_bound_are_mutations [OF True, of av] by (auto simp: catalog_resolve_eq cat)
    from dcp.admitted_mutation_grant [OF pol dec this] True secret show ?thesis by auto
  next
    case False
    with cls secret show ?thesis by auto
  qed
qed

lemma changed_world_runs:
  "gs_world (fst (execute g ce n fn args kwargs ctx p t st)) \<noteq> gs_world st \<Longrightarrow> runs_body g ce n kwargs ctx p t st"
  by (cases rule: execute_cases [of g ce n ctx kwargs p t st fn args]) (auto simp: runs_body_decide)

text \<open>C2: The assembled server: whatever valid configuration it is started with, if a served tool
  changes the world on behalf of a call, then the call knew the secret where one is
  required, and a tool that mutates (the reference mutation, deploy, start, restart) ran on
  a presented approval that was live for it and had not expired.\<close>

theorem standard_server_protected:
  assumes "wf_config cfg"
    and "create_runtime (Some cfg) (Some []) av (Inr rf) dg gg None rec None = Inr rt"
    and "n \<in> set (sr_tools rt)" and "gs_store st = Some s"
    and "gs_world (fst (execute (sr_gate rt) ce n fn args kwargs ctx p t st)) \<noteq> gs_world st"
  shows "(require_authentication cfg \<longrightarrow>
      knows_secret (auth_token cfg) (ci_secret (extract_inputs (sr_gate rt) ce kwargs p t))) \<and>
    (if n \<in> set (approval_bound_tools rf)
     then \<exists>tok gr. ci_approval (extract_inputs (sr_gate rt) ce kwargs p t) = Some tok \<and>
            live_grant s (py_strip tok) = Some gr \<and> ag_tool_name gr = n \<and> ce_now ce < ag_expires_at gr
     else dict_get (g_catalog (sr_gate rt)) n \<in> {Some READ_ONLY, Some LOW_RISK})"
  using assms(1-4) changed_world_runs [OF assms(5)] by (rule standard_guard)

section \<open>From the command line to the outside\<close>

lemma wrapper_world:
  fixes st :: "('a, effect list) gate_state"
  assumes "\<And>kw log log' r. fn args kw log = (log', r) \<Longrightarrow> \<exists>new. log' = log @ new \<and> list_all ok new"
  shows "\<exists>new. gs_world (fst (sync_wrapper g ce n fn args kwargs st)) = gs_world st @ new \<and> list_all ok new \<and>
    (new = [] \<or> runs_body g ce n kwargs None None None (st\<lparr>gs_slots := gs_slots st - 1\<rparr>))"
proof (cases "gs_slots st = 0")
  case True
  then show ?thesis by (simp add: sync_wrapper_def)
next
  case False
  let ?st = "st\<lparr>gs_slots := gs_slots st - 1\<rparr>"
  have "\<exists>new. gs_world (fst (execute g ce n fn args kwargs None None None ?st)) = gs_world st @ new \<and> list_all ok new \<and>
      (new = [] \<or> runs_body g ce n kwargs None None None ?st)"
  proof (cases rule: execute_cases [of g ce n None kwargs None None ?st fn args])
    case (ran store1 tool ctx2 w r)
    with assms [OF ran(2)] show ?thesis by (auto simp: runs_body_decide)
  qed simp_all
  with False show ?thesis by (simp add: sync_wrapper_def split_beta Let_def)
qed

text \<open>C1: End to end: in the process that \<open>main\<close> starts, whatever a client passes to a served tool and
  the services answer, the call only adds effects that its tool may have: requests for the
  documentation repository, one kind of request for a GitHub repository, one read-only request
  to the operations gateway, or the one command of a Runflare tool. It adds any only if it
  knew the secret where one is required, and a tool that needs an approval only on a live one.\<close>

theorem served_call_effects:
  assumes "cli_main installed argv fs env mc rec lg = Serves rt p lg'"
    and "served_tool w p (gateway_available mc p) n = Some fn" and "gs_store st = Some s"
  shows "\<exists>new. gs_world (fst (sync_wrapper (sr_gate rt) ce n fn args kwargs st)) = gs_world st @ new \<and>
    list_all (allowed_effect w p n) new \<and>
    (new \<noteq> [] \<longrightarrow>
       (require_authentication (sr_config rt) \<longrightarrow>
          knows_secret (auth_token (sr_config rt)) (ci_secret (extract_inputs (sr_gate rt) ce kwargs None None))) \<and>
       (n \<in> set (approval_bound_tools (sp_cli p \<noteq> None)) \<longrightarrow>
          (\<exists>tok gr. ci_approval (extract_inputs (sr_gate rt) ce kwargs None None) = Some tok \<and>
             live_grant s (py_strip tok) = Some gr \<and> ag_tool_name gr = n \<and> ce_now ce < ag_expires_at gr)))"
proof -
  obtain cfg where cfg: "load_config env = Inr cfg" and start: "start_server fs env mc rec cfg = Inr (rt, p)"
    using serving_process [OF assms(1)] by blast
  have wf: "wf_config cfg"
    using cfg load_config_constructed by (auto simp: make_server_config_Inr)
  have created: "create_runtime (Some cfg) (Some []) (gateway_available mc p) (Inr (sp_cli p \<noteq> None)) False False None rec None = Inr rt"
    using start by (rule start_server_parts(2))
  have rt: "sr_config rt = cfg" "sr_tools rt = governed_tools (sp_cli p \<noteq> None) (gateway_available mc p)"
    using started_server [OF wf start] by auto
  have served: "n \<in> set (sr_tools rt)"
    using served_tool_iff [of w p "gateway_available mc p" n] assms(2) by (simp add: rt)
  obtain new where new: "gs_world (fst (sync_wrapper (sr_gate rt) ce n fn args kwargs st)) = gs_world st @ new"
    "list_all (allowed_effect w p n) new"
    and runs: "new = [] \<or> runs_body (sr_gate rt) ce n kwargs None None None (st\<lparr>gs_slots := gs_slots st - 1\<rparr>)"
    using wrapper_world [of fn args "allowed_effect w p n"] served_tool_confined [OF assms(2)] by blast
  have "gs_store (st\<lparr>gs_slots := gs_slots st - 1\<rparr>) = Some s" by (simp add: assms(3))
  from runs standard_guard [OF wf created served this] new show ?thesis
    by (intro exI [of _ new]) (auto simp: rt split: if_splits)
qed

text \<open>The decision reads no more of a gate than its policy, its configuration and the risk of the tool.\<close>

lemma runs_body_same:
  assumes "g_policy g = g_policy g'" and "g_config g = g_config g'"
    and "dict_get (g_catalog g) n = dict_get (g_catalog g') n"
  shows "runs_body g ce n kwargs ctx p t st = runs_body g' ce n kwargs ctx p t st"
proof -
  have "extract_inputs g ce kwargs p t = extract_inputs g' ce kwargs p t"
    by (simp add: extract_inputs_def assms)
  moreover have "authenticate_call g ce ctx = authenticate_call g' ce ctx"
    by (simp add: fun_eq_iff authenticate_call_def assms)
  moreover have "resolve_tool g n = resolve_tool g' n"
    by (simp add: resolve_tool_def catalog_resolve_def assms)
  moreover from this have "evaluate g n = evaluate g' n"
    by (simp add: fun_eq_iff evaluate_def assms)
  ultimately show ?thesis
    by (simp only: runs_body_def decide_def)
qed

definition demo_deploy_gate :: "audit_event list gate" where
  "demo_deploy_gate = make_gate [(''runflare_deploy'', MUTATION)] None memory_record (Some demo_config)"

definition demo_deploy_state :: "(audit_event list, nat) gate_state" where
  "demo_deploy_state =
     initial_state demo_deploy_gate (Some (fst (issue ''runflare_deploy'' None None None 60 True ''tk'' ''id'' 0 []))) [] 0"

lemma demo_deploy_runs: "runs_body demo_deploy_gate demo_call_env ''runflare_deploy'' demo_kwargs None None None demo_deploy_state"
  by code_simp

lemma demo_deploy_risk: "dict_get (standard_risks False) ''runflare_deploy'' = Some MUTATION"
  by code_simp

theorem standard_server_protected_witness:
  "\<exists>rt tok gr. create_runtime (Some demo_config) (Some []) False (Inr True) False False None memory_record None = Inr rt \<and>
     ci_approval (extract_inputs (sr_gate rt) demo_call_env demo_kwargs None None) = Some tok \<and>
     live_grant (the (gs_store demo_deploy_state)) (py_strip tok) = Some gr \<and> ag_tool_name gr = ''runflare_deploy''"
proof -
  have wf: "wf_config demo_config" by code_simp
  from standard_created [OF wf, of False True False False memory_record] obtain rt where
    rt: "create_runtime (Some demo_config) (Some []) False (Inr True) False False None memory_record None = Inr rt"
    and tools: "sr_tools rt = governed_tools True False"
    and pol: "g_policy (sr_gate rt) = default_conservative_evaluate"
    and cfg: "g_config (sr_gate rt) = Some demo_config"
    and cat: "\<And>n. dict_get (g_catalog (sr_gate rt)) n = dict_get (standard_risks False) n"
    by blast
  have served: "''runflare_deploy'' \<in> set (sr_tools rt)"
    by (simp add: tools governed_tools_def governed_runflare_def)
  obtain s where s: "gs_store demo_deploy_state = Some s"
    by (simp add: demo_deploy_state_def initial_state_def)
  have "runs_body (sr_gate rt) demo_call_env ''runflare_deploy'' demo_kwargs None None None demo_deploy_state"
    using demo_deploy_runs
    by (subst runs_body_same [of _ demo_deploy_gate]) (simp_all add: pol cfg cat demo_deploy_risk demo_deploy_gate_def make_gate_def)
  then have "gs_world (fst (execute (sr_gate rt) demo_call_env ''runflare_deploy'' demo_fn [] demo_kwargs None None None
      demo_deploy_state)) \<noteq> gs_world demo_deploy_state"
    by (cases rule: execute_cases [of "sr_gate rt" demo_call_env "''runflare_deploy''" None demo_kwargs None None
          demo_deploy_state demo_fn "[]"]) (auto simp: runs_body_decide demo_fn_def)
  from standard_server_protected [OF wf rt served s this] show ?thesis
    by (auto simp: rt s approval_bound_tools_def)
qed

text \<open>A deployment, with the secret and a token issued for it.\<close>

definition demo_served_env :: environ where
  "demo_served_env = demo_env(''RUNFLARE_PROJECT_DIR'' \<mapsto> ''/srv/app'', ''RUNFLARE_ALLOWED_PROJECT_ROOT'' \<mapsto> ''/srv'')"

definition deploy_kwargs :: sdict where
  "deploy_kwargs = [(''_yasin_auth_token'', VStr ''s3cret''), (''_yasin_approval_token'', VStr ''tk'')]"

definition deploy_state :: "nat \<Rightarrow> (audit_event list, effect list) gate_state" where
  "deploy_state k =
     \<lparr>gs_store = Some (fst (issue ''runflare_deploy'' None None None 60 True ''tk'' ''id'' 0 [])), gs_audit = [],
      gs_world = [], gs_slots = k\<rparr>"

lemma demo_served_loads: "load_config demo_served_env = Inr demo_config"
  by code_simp

lemma demo_served_cli: "construct_cli demo_fs demo_served_env =
    Inr (Some \<lparr>rc_binary = ''runflare'', rc_timeout = 120, rc_max_output = 12000, rc_project_dir = [''srv'', ''app'']\<rparr>)"
  by code_simp

lemma deploy_runs: "runs_body demo_deploy_gate demo_call_env ''runflare_deploy'' deploy_kwargs None None None (deploy_state 0)"
  by code_simp

definition deploy_call :: "outside \<Rightarrow> runflare_cli \<Rightarrow> effect list tool_fn" where
  "deploy_call w c = call_method
     \<lparr>tm_name = ''RunflareToolset.deploy'', tm_params = [], tm_body = \<lambda>vs. runflare_tool (command_wire w) c Rf_deploy\<rparr>"

lemma deploy_tool: "sp_cli p = Some c \<Longrightarrow> served_tool w p av ''runflare_deploy'' = Some (deploy_call w c)"
  by (simp add: deploy_call_def served_tool_def served_methods_def docs_methods_def github_methods_def registry_methods_def
      governance_methods_def runflare_methods_def TOOL_GOV_PING_LOW_RISK_def TOOL_GOV_APPLY_MARK_def Let_def)

lemma deploy_call_world:
  "fst (deploy_call w c [] [] log) = log @ [Command (rc_binary c # call_command Rf_deploy) (Some (rc_project_dir c))]"
  by (simp add: deploy_call_def call_method_def bind_parameters_def split_beta runflare_tool_def fst_then_return
      operation_runs_command command_wire_def Let_def del: runflare_operation.simps)

definition deploy_store :: approval_store where
  "deploy_store = fst (issue ''runflare_deploy'' None None None 60 True ''tk'' ''id'' 0 [])"

lemma deploy_store_single_use: "only_single_use ''runflare_deploy'' deploy_store"
  "only_single_use ''runflare_deploy'' (dict_set ''tk'' (fst (the (dict_get deploy_store ''tk'')), True) deploy_store)"
  by code_simp+

lemma spent_deploy_store:
  assumes "m = deploy_store \<or> spends deploy_store t m"
  shows "only_single_use ''runflare_deploy'' m"
proof (cases "m = deploy_store")
  case False
  then obtain gr c where e: "dict_get deploy_store t = Some (gr, c)"
    and m: "m = deploy_store \<or> m = dict_set t (gr, True) deploy_store"
    using assms by (auto simp: spends_def split: if_splits)
  have "t = ''tk''"
    using e by (simp add: deploy_store_def issue_def split: if_splits)
  with e m deploy_store_single_use show ?thesis by auto
qed (simp add: deploy_store_single_use)

text \<open>The server started with a provider, and the deployment in it.\<close>

lemma demo_deployment:
  obtains rt p lg' c where "cli_main None [] demo_fs demo_served_env mc memory_record lg = Serves rt p lg'"
    and "sp_cli p = Some c" and "concurrency_limit (sr_gate rt) = Suc 31"
    and "\<And>k. gs_world (fst (sync_wrapper (sr_gate rt) demo_call_env ''runflare_deploy'' (deploy_call w c) [] deploy_kwargs
           (deploy_state (Suc k)))) = [Command (rc_binary c # call_command Rf_deploy) (Some (rc_project_dir c))]"
    and "\<And>k. \<exists>m. gs_store (fst (sync_wrapper (sr_gate rt) demo_call_env ''runflare_deploy'' (deploy_call w c) [] deploy_kwargs
           (deploy_state (Suc k)))) = Some m \<and> only_single_use ''runflare_deploy'' m"
proof -
  have wf: "wf_config demo_config" by code_simp
  obtain rt p where start: "start_server demo_fs demo_served_env mc memory_record demo_config = Inr (rt, p)"
    using start_server_total [OF wf demo_served_cli] by blast
  obtain lg' where "configure_logging (log_level demo_config) lg = Inr lg'"
    using configured_logger [OF wf] by blast
  with start have main: "cli_main None [] demo_fs demo_served_env mc memory_record lg = Serves rt p lg'"
    by (simp add: run_main_def demo_served_loads)
  obtain c where c: "sp_cli p = Some c"
    using constructed_cli_part [OF start_server_parts(1) [OF start]] demo_served_cli by (cases "sp_cli p") auto
  have gate: "g_policy (sr_gate rt) = default_conservative_evaluate" "g_config (sr_gate rt) = Some demo_config"
    "dict_get (g_catalog (sr_gate rt)) ''runflare_deploy'' = Some MUTATION"
    using standard_created [OF wf, of "gateway_available mc p" "sp_cli p \<noteq> None" False False memory_record]
      start_server_parts(2) [OF start] approval_bound_are_mutations [of "''runflare_deploy''" True "gateway_available mc p"]
    by (auto simp: approval_bound_tools_def)
  have "max_concurrent_requests demo_config = 32" by code_simp
  then have limit: "concurrency_limit (sr_gate rt) = Suc 31" by (simp add: concurrency_limit_def gate)
  let ?run = "\<lambda>k. fst (sync_wrapper (sr_gate rt) demo_call_env ''runflare_deploy'' (deploy_call w c) [] deploy_kwargs (deploy_state (Suc k)))"
  have "gs_world (?run k) = [Command (rc_binary c # call_command Rf_deploy) (Some (rc_project_dir c))] \<and>
      (\<exists>m. gs_store (?run k) = Some m \<and> only_single_use ''runflare_deploy'' m)" for k
  proof -
    have "runs_body (sr_gate rt) demo_call_env ''runflare_deploy'' deploy_kwargs None None None (deploy_state 0)"
      using deploy_runs by (subst runs_body_same [of _ demo_deploy_gate]) (simp_all add: gate demo_deploy_gate_def make_gate_def)
    then have runs: "runs_body (sr_gate rt) demo_call_env ''runflare_deploy'' deploy_kwargs None None None (deploy_state k)"
      by (simp add: runs_body_decide deploy_state_def)
    have store: "gs_store (deploy_state k) = Some deploy_store" by (simp add: deploy_state_def deploy_store_def)
    have cleaned: "dict_pop APPROVAL_TOKEN_KWARG (dict_pop AUTH_TOKEN_KWARG deploy_kwargs) = []"
      by (simp add: deploy_kwargs_def APPROVAL_TOKEN_KWARG_def AUTH_TOKEN_KWARG_def)
    have slot: "deploy_state (Suc k)\<lparr>gs_slots := gs_slots (deploy_state (Suc k)) - 1\<rparr> = deploy_state k" "gs_slots (deploy_state (Suc k)) \<noteq> 0"
      by (simp_all add: deploy_state_def)
    show ?thesis
    proof (cases rule: execute_cases [of "sr_gate rt" demo_call_env "''runflare_deploy''" None deploy_kwargs None None
          "deploy_state k" "deploy_call w c" "[]"])
      case (ran store1 tool ctx2 w' r)
      have w': "w' = [Command (rc_binary c # call_command Rf_deploy) (Some (rc_project_dir c))]"
        using ran(2) deploy_call_world [of w c "gs_world (deploy_state k)"] by (simp add: cleaned deploy_state_def)
      from decide_spends [OF ran(1) [unfolded store]] spent_deploy_store obtain m where
        "store1 = Some m" "only_single_use ''runflare_deploy'' m" by blast
      with ran(4) w' slot show ?thesis by (simp add: sync_wrapper_def)
    qed (use runs in \<open>auto simp: runs_body_decide\<close>)
  qed
  with that [OF main c limit] show ?thesis by blast
qed

theorem served_call_effects_witness:
  "\<forall>w mc lg. \<exists>rt p lg' fn e es. cli_main None [] demo_fs demo_served_env mc memory_record lg = Serves rt p lg' \<and>
     served_tool w p (gateway_available mc p) ''runflare_deploy'' = Some fn \<and>
     gs_world (fst (sync_wrapper (sr_gate rt) demo_call_env ''runflare_deploy'' fn [] deploy_kwargs (deploy_state 1))) = e # es \<and>
     allowed_effect w p ''runflare_deploy'' e"
proof (intro allI)
  fix w mc lg
  obtain rt p lg' c where main: "cli_main None [] demo_fs demo_served_env mc memory_record lg = Serves rt p lg'"
    and c: "sp_cli p = Some c"
    and world: "\<And>k. gs_world (fst (sync_wrapper (sr_gate rt) demo_call_env ''runflare_deploy'' (deploy_call w c) [] deploy_kwargs
           (deploy_state (Suc k)))) = [Command (rc_binary c # call_command Rf_deploy) (Some (rc_project_dir c))]"
    by (rule demo_deployment [of mc lg w]) blast
  note fn = deploy_tool [OF c, of w "gateway_available mc p"]
  have "gs_store (deploy_state 1) = Some deploy_store" "gs_world (deploy_state 1) = []"
    by (simp_all add: deploy_state_def deploy_store_def)
  with served_call_effects [OF main fn this(1), of demo_call_env "[]" deploy_kwargs] world [of 0]
  have "allowed_effect w p ''runflare_deploy'' (Command (rc_binary c # call_command Rf_deploy) (Some (rc_project_dir c)))"
    by auto
  with main fn world [of 0] show "\<exists>rt p lg' fn e es. cli_main None [] demo_fs demo_served_env mc memory_record lg = Serves rt p lg' \<and>
       served_tool w p (gateway_available mc p) ''runflare_deploy'' = Some fn \<and>
       gs_world (fst (sync_wrapper (sr_gate rt) demo_call_env ''runflare_deploy'' fn [] deploy_kwargs (deploy_state 1))) = e # es \<and>
       allowed_effect w p ''runflare_deploy'' e"
    by auto
qed

section \<open>Every mutation is paid for\<close>

lemma served_gate:
  assumes "cli_main installed argv fs env mc rec lg = Serves rt p lg'"
  shows "g_policy (sr_gate rt) = default_conservative_evaluate"
    and "dict_get (g_catalog (sr_gate rt)) n = dict_get (standard_risks (gateway_available mc p)) n"
proof -
  obtain cfg where cfg: "load_config env = Inr cfg" and start: "start_server fs env mc rec cfg = Inr (rt, p)"
    using serving_process [OF assms(1)] by blast
  have wf: "wf_config cfg"
    using cfg load_config_constructed by (auto simp: make_server_config_Inr)
  from standard_created [OF wf, of "gateway_available mc p" "sp_cli p \<noteq> None" False False rec] start_server_parts(2) [OF start]
  show "g_policy (sr_gate rt) = default_conservative_evaluate"
    and "dict_get (g_catalog (sr_gate rt)) n = dict_get (standard_risks (gateway_available mc p)) n"
    by auto
qed

text \<open>C3: Every mutation is paid for: in the process that \<open>main\<close> starts, take any number of concurrent
  calls of the served tools, interleaved in any way, with approvals issued at any time. Then
  the provider's deploy (start, restart) command has been run at most as often as a
  single-use approval for exactly this tool has been spent, provided no reusable approval was
  issued for it; in particular never, while none was issued.\<close>

theorem mutations_accounted:
  assumes "cli_main installed argv fs env mc rec lg = Serves rt p lg'"
    and "call \<in> {Rf_deploy, Rf_start, Rf_restart}"
    and "\<forall>i. served_tool w p (gateway_available mc p) (tc_tool (calls i)) = Some (tc_fn (calls i))"
    and "reachable_config (sr_gate rt) calls (initial_config (sr_gate rt) (Some []) audit []) s"
    and "gs_store (cf_state s) = Some m" and "only_single_use (runflare_tool_name call) m"
  shows "commands_run call (gs_world (cf_state s)) \<le> card (spent_tokens (runflare_tool_name call) m)"
proof -
  have "runflare_tool_name call \<in> set (approval_bound_tools True)"
    using assms(2) by (auto simp: approval_bound_tools_def)
  then have "dict_get (g_catalog (sr_gate rt)) (runflare_tool_name call) = Some MUTATION"
    using served_gate(2) [OF assms(1)] approval_bound_are_mutations by simp
  from runflare.cost_covered [OF assms(3) served_gate(1) [OF assms(1)] this assms(4) _ assms(5,6)]
  show ?thesis by simp
qed

text \<open>A run in which one approval is issued and one deployment made.\<close>

definition deploying_calls :: "outside \<Rightarrow> runflare_cli \<Rightarrow> nat \<Rightarrow> effect list tool_call" where
  "deploying_calls w c = (\<lambda>_. \<lparr>tc_env = demo_call_env, tc_tool = ''runflare_deploy'', tc_fn = deploy_call w c, tc_args = [],
     tc_kwargs = deploy_kwargs\<rparr>)"

theorem mutations_accounted_witness:
  "\<forall>w mc lg. \<exists>rt p lg' c s m. cli_main None [] demo_fs demo_served_env mc memory_record lg = Serves rt p lg' \<and>
     reachable_config (sr_gate rt) (deploying_calls w c) (initial_config (sr_gate rt) (Some []) [] []) s \<and>
     gs_store (cf_state s) = Some m \<and> commands_run Rf_deploy (gs_world (cf_state s)) = 1 \<and>
     1 \<le> card (spent_tokens ''runflare_deploy'' m)"
proof (intro allI)
  fix w mc lg
  obtain rt p lg' c where main: "cli_main None [] demo_fs demo_served_env mc memory_record lg = Serves rt p lg'"
    and c: "sp_cli p = Some c" and limit: "concurrency_limit (sr_gate rt) = Suc 31"
    and world: "\<And>k. gs_world (fst (sync_wrapper (sr_gate rt) demo_call_env ''runflare_deploy'' (deploy_call w c) [] deploy_kwargs
           (deploy_state (Suc k)))) = [Command (rc_binary c # call_command Rf_deploy) (Some (rc_project_dir c))]"
    and store: "\<And>k. \<exists>m. gs_store (fst (sync_wrapper (sr_gate rt) demo_call_env ''runflare_deploy'' (deploy_call w c) [] deploy_kwargs
           (deploy_state (Suc k)))) = Some m \<and> only_single_use ''runflare_deploy'' m"
    by (rule demo_deployment [of mc lg w]) blast
  let ?g = "sr_gate rt" and ?calls = "deploying_calls w c"
  let ?ini = "initial_config ?g (Some []) [] []"
  let ?post = "?ini\<lparr>cf_state := (cf_state ?ini)\<lparr>gs_store := Some deploy_store\<rparr>\<rparr>"
  have "gate_step ?g ?calls ?ini ?post"
    unfolding deploy_store_def by (rule gate_step.token_issued) (simp_all add: initial_config_def initial_state_def)
  moreover have start: "cf_state ?post = deploy_state (Suc 31)" "cf_phase ?post 0 = Waiting"
    by (simp_all add: initial_config_def initial_state_def deploy_state_def deploy_store_def limit)
  moreover obtain s where s: "reachable_config ?g ?calls ?post s"
    "cf_state s = fst (sync_wrapper ?g demo_call_env ''runflare_deploy'' (deploy_call w c) [] deploy_kwargs (deploy_state (Suc 31)))"
    using wrapper_steps [OF start(2), of ?g ?calls] start(1) by (auto simp: deploying_calls_def)
  ultimately have reach: "reachable_config ?g ?calls ?ini s" by (blast intro: reach_step)
  obtain m where m: "gs_store (cf_state s) = Some m" "only_single_use ''runflare_deploy'' m"
    using store [of 31] s(2) by auto
  have one: "commands_run Rf_deploy (gs_world (cf_state s)) = 1"
    using world [of 31] by (simp add: s(2) commands_run_def)
  have served: "\<forall>i. served_tool w p (gateway_available mc p) (tc_tool (?calls i)) = Some (tc_fn (?calls i))"
    using deploy_tool [OF c] by (simp add: deploying_calls_def)
  have "commands_run Rf_deploy (gs_world (cf_state s)) \<le> card (spent_tokens ''runflare_deploy'' m)"
    using mutations_accounted [OF main _ served reach m(1), of Rf_deploy] m(2) by simp
  with main reach m(1) one show "\<exists>rt p lg' c s m. cli_main None [] demo_fs demo_served_env mc memory_record lg = Serves rt p lg' \<and>
     reachable_config (sr_gate rt) (deploying_calls w c) (initial_config (sr_gate rt) (Some []) [] []) s \<and>
     gs_store (cf_state s) = Some m \<and> commands_run Rf_deploy (gs_world (cf_state s)) = 1 \<and>
     1 \<le> card (spent_tokens ''runflare_deploy'' m)"
    by auto
qed

end
